(* ===== verification/Prelude.thy ===== *)
theory Prelude
  imports Main "HOL-Library.AList" "HOL-Library.Multiset" "HOL-Library.Product_Lexorder"
begin

text \<open>
  Shared library of the development: the exceptions of the Python program, the state-and-exception
  monad in which the effectful operations are written, JSON values, and the parts of Python's string,
  integer and float semantics that the components use, with their generic lemmas.

  A Python \<open>str\<close> is a \<^typ>\<open>string\<close>, one \<^typ>\<open>char\<close> per code point, so code points are limited to
  0..255. A Python \<open>int\<close> is an \<^typ>\<open>int\<close>. A \<open>datetime\<close> is an \<^typ>\<open>int\<close> counting microseconds.
\<close>

named_theorems prog_simps \<open>inversion equations of the state-and-exception monad\<close>
named_theorems preserves_intros \<open>introduction rules for preserved invariants\<close>
named_theorems payload_simps \<open>unfolding of canonical payloads\<close>

section \<open>Exceptions as values\<close>

datatype exc =
    StorageOperationEngineError string
  | StorageExecutorError string
  | StorageOperationServiceError string
  | PartitionToolError string
  | ActionError string
  | ValueError string
  | PermissionError string
  | FileNotFoundError string
  | OSError string
  | RuntimeError string
  | KeyError string
  | AuditLedgerError string
  | BackupToolError string
  | BackupExecutorError string
  | BackupServiceError string
  | FilesystemToolError string
  | AssertionError
  | OverflowError
  | TimeoutError
  | CancelledError

text \<open>\<open>except OSError\<close> and \<open>except ValueError\<close>.\<close>

definition is_os_error :: "exc \<Rightarrow> bool" where
  "is_os_error e = (case e of
     OSError _ \<Rightarrow> True | FileNotFoundError _ \<Rightarrow> True | PermissionError _ \<Rightarrow> True
   | TimeoutError \<Rightarrow> True | _ \<Rightarrow> False)"

definition is_value_error :: "exc \<Rightarrow> bool" where
  "is_value_error e = (case e of ValueError _ \<Rightarrow> True | _ \<Rightarrow> False)"

section \<open>The state-and-exception monad\<close>

text \<open>
  A raised exception keeps the state changes made before it, as in Python.
\<close>

type_synonym ('s, 'a) prog = "'s \<Rightarrow> (exc + 'a) \<times> 's"

definition ret :: "'a \<Rightarrow> ('s, 'a) prog" where
  "ret x s = (Inr x, s)"

definition raise :: "exc \<Rightarrow> ('s, 'a) prog" where
  "raise e s = (Inl e, s)"

definition bindM :: "('s, 'a) prog \<Rightarrow> ('a \<Rightarrow> ('s, 'b) prog) \<Rightarrow> ('s, 'b) prog" where
  "bindM m f s = (case m s of (Inl e, s') \<Rightarrow> (Inl e, s') | (Inr x, s') \<Rightarrow> f x s')"

definition catchM :: "('s, 'a) prog \<Rightarrow> (exc \<Rightarrow> ('s, 'a) prog) \<Rightarrow> ('s, 'a) prog" where
  "catchM m h s = (case m s of (Inl e, s') \<Rightarrow> h e s' | (Inr x, s') \<Rightarrow> (Inr x, s'))"

definition liftE :: "exc + 'a \<Rightarrow> ('s, 'a) prog" where
  "liftE r s = (r, s)"

definition guardM :: "bool \<Rightarrow> exc \<Rightarrow> ('s, unit) prog" where
  "guardM c e s = (if c then (Inr (), s) else (Inl e, s))"

definition getM :: "('s \<Rightarrow> 'a) \<Rightarrow> ('s, 'a) prog" where
  "getM f s = (Inr (f s), s)"

definition modifyM :: "('s \<Rightarrow> 's) \<Rightarrow> ('s, unit) prog" where
  "modifyM f s = (Inr (), f s)"

definition bindE :: "exc + 'a \<Rightarrow> ('a \<Rightarrow> exc + 'b) \<Rightarrow> exc + 'b" where
  "bindE r f = (case r of Inl e \<Rightarrow> Inl e | Inr x \<Rightarrow> f x)"

lemma bindE_simps [simp]: "bindE (Inl e) f = Inl e" "bindE (Inr x) f = f x"
  by (simp_all add: bindE_def)

lemma bindE_Inr_iff [prog_simps]: "bindE r f = Inr y \<longleftrightarrow> (\<exists>x. r = Inr x \<and> f x = Inr y)"
  by (cases r) auto

lemma ret_iff [prog_simps]: "ret x s = (r, s') \<longleftrightarrow> r = Inr x \<and> s' = s"
  by (auto simp: ret_def)

lemma raise_iff [prog_simps]: "raise e s = (r, s') \<longleftrightarrow> r = Inl e \<and> s' = s"
  by (auto simp: raise_def)

lemma liftE_iff [prog_simps]: "liftE x s = (r, s') \<longleftrightarrow> x = r \<and> s' = s"
  by (auto simp: liftE_def)

lemma getM_iff [prog_simps]: "getM f s = (r, s') \<longleftrightarrow> r = Inr (f s) \<and> s' = s"
  by (auto simp: getM_def)

lemma modifyM_iff [prog_simps]: "modifyM f s = (r, s') \<longleftrightarrow> r = Inr () \<and> s' = f s"
  by (auto simp: modifyM_def)

lemma guardM_Inr_iff [prog_simps]: "guardM c e s = (Inr u, s') \<longleftrightarrow> c \<and> s' = s"
  by (auto simp: guardM_def)

lemma guardM_Inl_iff [prog_simps]: "guardM c e s = (Inl e', s') \<longleftrightarrow> \<not> c \<and> e' = e \<and> s' = s"
  by (auto simp: guardM_def)

lemma bindM_Inr_iff [prog_simps]:
  "bindM m f s = (Inr y, s'') \<longleftrightarrow> (\<exists>x s'. m s = (Inr x, s') \<and> f x s' = (Inr y, s''))"
  by (auto simp: bindM_def split: prod.splits sum.splits)

lemma bindM_Inl_iff [prog_simps]:
  "bindM m f s = (Inl e, s'') \<longleftrightarrow>
     m s = (Inl e, s'') \<or> (\<exists>x s'. m s = (Inr x, s') \<and> f x s' = (Inl e, s''))"
  by (auto simp: bindM_def split: prod.splits sum.splits)

lemma catchM_Inr_iff [prog_simps]:
  "catchM m h s = (Inr y, s'') \<longleftrightarrow>
     m s = (Inr y, s'') \<or> (\<exists>e s'. m s = (Inl e, s') \<and> h e s' = (Inr y, s''))"
  by (auto simp: catchM_def split: prod.splits sum.splits)

lemma catchM_Inl_iff [prog_simps]:
  "catchM m h s = (Inl e', s'') \<longleftrightarrow> (\<exists>e s'. m s = (Inl e, s') \<and> h e s' = (Inl e', s''))"
  by (auto simp: catchM_def split: prod.splits sum.splits)

text \<open>Guards that raise: a result means the guard let the program through.\<close>

lemma if_raise_iff [prog_simps]:
  "(if c then raise e else m) s = (Inr y, s') \<longleftrightarrow> \<not> c \<and> m s = (Inr y, s')"
  by (simp add: raise_def)

lemma case_option_raise_iff [prog_simps]:
  "(case v of None \<Rightarrow> raise e | Some x \<Rightarrow> f x) s = (Inr y, s') \<longleftrightarrow>
     (\<exists>x. v = Some x \<and> f x s = (Inr y, s'))"
  by (cases v) (simp_all add: raise_def)

lemma case_sum_raise_iff [prog_simps]:
  "(case r of Inl e \<Rightarrow> raise (h e) | Inr x \<Rightarrow> f x) s = (Inr y, s') \<longleftrightarrow>
     (\<exists>x. r = Inr x \<and> f x s = (Inr y, s'))"
  by (cases r) (simp_all add: raise_def)

lemmas prog_eval = ret_def raise_def bindM_def catchM_def liftE_def guardM_def getM_def modifyM_def

subsection \<open>Preserved invariants\<close>

definition preserves :: "('s \<Rightarrow> bool) \<Rightarrow> ('s, 'a) prog \<Rightarrow> bool" where
  "preserves I m \<longleftrightarrow> (\<forall>s. I s \<longrightarrow> I (snd (m s)))"

lemma preservesD: "preserves I m \<Longrightarrow> I s \<Longrightarrow> m s = (r, s') \<Longrightarrow> I s'"
  by (force simp: preserves_def)

lemma preservesI: "(\<And>s r s'. I s \<Longrightarrow> m s = (r, s') \<Longrightarrow> I s') \<Longrightarrow> preserves I m"
  by (metis preserves_def prod.collapse)

lemma preserves_ret [preserves_intros]: "preserves I (ret x)"
  by (simp add: preserves_def ret_def)

lemma preserves_raise [preserves_intros]: "preserves I (raise e)"
  by (simp add: preserves_def raise_def)

lemma preserves_liftE [preserves_intros]: "preserves I (liftE r)"
  by (simp add: preserves_def liftE_def)

lemma preserves_guardM [preserves_intros]: "preserves I (guardM c e)"
  by (simp add: preserves_def guardM_def)

lemma preserves_getM [preserves_intros]: "preserves I (getM f)"
  by (simp add: preserves_def getM_def)

lemma preserves_modifyM: "(\<And>s. I s \<Longrightarrow> I (f s)) \<Longrightarrow> preserves I (modifyM f)"
  by (simp add: preserves_def modifyM_def)

lemma preserves_bindM [preserves_intros]:
  "preserves I m \<Longrightarrow> (\<And>x. preserves I (f x)) \<Longrightarrow> preserves I (bindM m f)"
  by (force simp: preserves_def bindM_def split: prod.splits sum.splits)

lemma preserves_catchM [preserves_intros]:
  "preserves I m \<Longrightarrow> (\<And>e. preserves I (h e)) \<Longrightarrow> preserves I (catchM m h)"
  by (force simp: preserves_def catchM_def split: prod.splits sum.splits)

lemma preserves_if [preserves_intros]:
  "(c \<Longrightarrow> preserves I m) \<Longrightarrow> (\<not> c \<Longrightarrow> preserves I n) \<Longrightarrow> preserves I (if c then m else n)"
  by simp

lemma preserves_case_option [preserves_intros]:
  "preserves I m \<Longrightarrow> (\<And>x. preserves I (f x)) \<Longrightarrow>
   preserves I (case v of None \<Rightarrow> m | Some x \<Rightarrow> f x)"
  by (cases v) auto

lemma preserves_case_sum [preserves_intros]:
  "(\<And>e. preserves I (f e)) \<Longrightarrow> (\<And>x. preserves I (g x)) \<Longrightarrow> preserves I (case r of Inl e \<Rightarrow> f e | Inr x \<Rightarrow> g x)"
  by (cases r) auto

section \<open>JSON values\<close>

text \<open>What \<^verbatim>\<open>json.loads\<close> produces; a float is kept as its text, since no component computes with it.\<close>

datatype json =
    JNull
  | JBool bool
  | JInt int
  | JFloat string
  | JStr string
  | JList "json list"
  | JObj "(string \<times> json) list"

fun json_get :: "json \<Rightarrow> string \<Rightarrow> json option" where
  "json_get (JObj kvs) k = map_of kvs k"
| "json_get _ k = None"

text \<open>A dictionary is an association list with \<open>d[k] = v\<close>, \<open>d.get(k)\<close> and \<open>d.pop(k)\<close>.\<close>

abbreviation dict_set :: "'k \<Rightarrow> 'v \<Rightarrow> ('k \<times> 'v) list \<Rightarrow> ('k \<times> 'v) list" where
  "dict_set \<equiv> AList.update"

abbreviation dict_del :: "'k \<Rightarrow> ('k \<times> 'v) list \<Rightarrow> ('k \<times> 'v) list" where
  "dict_del \<equiv> AList.delete"

lemma dict_get_set [simp]: "map_of (dict_set k v d) k' = (if k' = k then Some v else map_of d k')"
  by (simp add: update_conv)

lemma dict_get_del [simp]: "map_of (dict_del k d) k' = (if k' = k then None else map_of d k')"
  by (simp add: delete_conv)

lemma dict_set_fresh: "k \<notin> fst ` set d \<Longrightarrow> dict_set k v d = d @ [(k, v)]"
  by (induction d) auto

lemma dict_del_fresh: "k \<notin> fst ` set d \<Longrightarrow> dict_del k d = d"
  by (induction d) (auto simp: AList.delete_eq)

lemma dict_del_append: "dict_del k (xs @ ys) = dict_del k xs @ dict_del k ys"
  by (simp add: AList.delete_eq)

section \<open>Strings\<close>

definition ascii_up :: "char \<Rightarrow> char" where
  "ascii_up c = (if 97 \<le> (of_char c :: nat) \<and> (of_char c :: nat) \<le> 122
     then char_of ((of_char c :: nat) - 32) else c)"

definition ascii_low :: "char \<Rightarrow> char" where
  "ascii_low c = (if 65 \<le> (of_char c :: nat) \<and> (of_char c :: nat) \<le> 90
     then char_of ((of_char c :: nat) + 32) else c)"

text \<open>\<open>str.upper\<close>, \<open>str.lower\<close> and \<open>str.casefold\<close>, exact on ASCII strings.\<close>

definition py_upper :: "string \<Rightarrow> string" where "py_upper = map ascii_up"
definition py_lower :: "string \<Rightarrow> string" where "py_lower = map ascii_low"
definition py_casefold :: "string \<Rightarrow> string" where "py_casefold = map ascii_low"

definition is_digit :: "char \<Rightarrow> bool" where
  "is_digit c \<longleftrightarrow> 48 \<le> (of_char c :: nat) \<and> (of_char c :: nat) \<le> 57"

definition is_alpha :: "char \<Rightarrow> bool" where
  "is_alpha c \<longleftrightarrow> 65 \<le> (of_char c :: nat) \<and> (of_char c :: nat) \<le> 90 \<or>
     97 \<le> (of_char c :: nat) \<and> (of_char c :: nat) \<le> 122"

text \<open>\<open>str.isalnum\<close> of one character: ASCII letters and digits, and those of Latin-1.\<close>

definition is_alnum :: "char \<Rightarrow> bool" where
  "is_alnum c \<longleftrightarrow> is_alpha c \<or> is_digit c \<or>
     (let n = (of_char c :: nat) in n \<in> {170, 178, 179, 181, 185, 186, 188, 189, 190} \<or>
        192 \<le> n \<and> n \<noteq> 215 \<and> n \<noteq> 247)"

text \<open>\<open>str.isprintable\<close> and the whitespace of \<open>str.strip\<close>, for code points below 256.\<close>

definition is_printable :: "char \<Rightarrow> bool" where
  "is_printable c \<longleftrightarrow> (let n = (of_char c :: nat) in 32 \<le> n \<and> n \<noteq> 173 \<and> (n < 127 \<or> 160 < n))"

definition is_space :: "char \<Rightarrow> bool" where
  "is_space c \<longleftrightarrow> (let n = (of_char c :: nat) in
     9 \<le> n \<and> n \<le> 13 \<or> 28 \<le> n \<and> n \<le> 32 \<or> n = 133 \<or> n = 160)"

definition py_strip :: "string \<Rightarrow> string" where
  "py_strip s = rev (dropWhile is_space (rev (dropWhile is_space s)))"

definition prefix_of :: "string \<Rightarrow> string \<Rightarrow> bool" where
  "prefix_of p s \<longleftrightarrow> take (length p) s = p"

definition removeprefix :: "string \<Rightarrow> string \<Rightarrow> string" where
  "removeprefix p s = (if prefix_of p s then drop (length p) s else s)"

text \<open>\<open>s[:n]\<close> for a non-negative \<open>n\<close>.\<close>

fun py_take :: "int \<Rightarrow> 'a list \<Rightarrow> 'a list" where
  "py_take n [] = []"
| "py_take n (x # xs) = (if n \<le> 0 then [] else x # py_take (n - 1) xs)"

lemma py_take_eq: "py_take n xs = take (nat n) xs"
proof (induction xs arbitrary: n)
  case (Cons x xs)
  then show ?case
    by (cases "nat n") (auto simp: nat_diff_distrib)
qed simp

fun contains :: "string \<Rightarrow> string \<Rightarrow> bool" where
  "contains p [] = (p = [])"
| "contains p (c # s) = (prefix_of p (c # s) \<or> contains p s)"

fun join :: "string \<Rightarrow> string list \<Rightarrow> string" where
  "join sep [] = []"
| "join sep [x] = x"
| "join sep (x # y # xs) = x @ sep @ join sep (y # xs)"

text \<open>The decimal digits of a non-negative integer.\<close>

fun int_digits :: "int \<Rightarrow> string" where
  "int_digits n = (if n < 10 then [char_of (48 + nat n)]
     else int_digits (n div 10) @ [char_of (48 + nat (n mod 10))])"

declare int_digits.simps [simp del]

definition int_str :: "int \<Rightarrow> string" where
  "int_str i = (if i < 0 then ''-'' @ int_digits (- i) else int_digits i)"

definition digits_val :: "string \<Rightarrow> int" where
  "digits_val s = fold (\<lambda>c v. 10 * v + int (of_char c - 48)) s 0"

text \<open>The digit part of \<open>int(s)\<close>: digits with single underscores between them.\<close>

fun digit_groups :: "string \<Rightarrow> string option" where
  "digit_groups [] = None"
| "digit_groups [c] = (if is_digit c then Some [c] else None)"
| "digit_groups (c # d # s) =
     (if \<not> is_digit c then None
      else if d = CHR ''_'' then map_option ((#) c) (digit_groups s)
      else map_option ((#) c) (digit_groups (d # s)))"

text \<open>\<open>int(s)\<close> on a string; \<^const>\<open>None\<close> is its \<open>ValueError\<close>.\<close>

definition py_int :: "string \<Rightarrow> int option" where
  "py_int s = (case py_strip s of
       [] \<Rightarrow> None
     | c # t \<Rightarrow>
         if c = CHR ''-'' then map_option (\<lambda>d. - digits_val d) (digit_groups t)
         else if c = CHR ''+'' then map_option digits_val (digit_groups t)
         else map_option digits_val (digit_groups (c # t)))"

text \<open>\<open>str.splitlines\<close>: every line boundary of Python below code point 256, with CR LF as one.\<close>

definition is_line_break :: "char \<Rightarrow> bool" where
  "is_line_break c \<longleftrightarrow> (of_char c :: nat) \<in> {10, 11, 12, 13, 28, 29, 30, 133}"

fun splitlines_acc :: "string \<Rightarrow> string \<Rightarrow> string list" where
  "splitlines_acc acc [] = (if acc = [] then [] else [rev acc])"
| "splitlines_acc acc [c] = (if is_line_break c then [rev acc] else [rev (c # acc)])"
| "splitlines_acc acc (c # d # s) =
     (if c = CHR 0x0D \<and> d = CHR 0x0A then rev acc # splitlines_acc [] s
      else if is_line_break c then rev acc # splitlines_acc [] (d # s)
      else splitlines_acc (c # acc) (d # s))"

definition splitlines :: "string \<Rightarrow> string list" where
  "splitlines s = splitlines_acc [] s"

text \<open>\<open>len(s.encode("utf-8"))\<close>.\<close>

definition utf8_length :: "string \<Rightarrow> int" where
  "utf8_length s = sum_list (map (\<lambda>c. if (of_char c :: nat) < 128 then 1 else 2) s)"

text \<open>\<open>x or None\<close>, \<open>x or ''''\<close> and the truth value of an optional string.\<close>

definition truthy :: "string option \<Rightarrow> bool" where
  "truthy v \<longleftrightarrow> v \<noteq> None \<and> v \<noteq> Some []"

definition or_empty :: "string option \<Rightarrow> string" where
  "or_empty v = (case v of None \<Rightarrow> [] | Some s \<Rightarrow> s)"

text \<open>\<open>tuple(dict.fromkeys(xs))\<close>: duplicates removed, first occurrences kept in order.\<close>

fun fromkeys_acc :: "'a list \<Rightarrow> 'a list \<Rightarrow> 'a list" where
  "fromkeys_acc seen [] = []"
| "fromkeys_acc seen (x # xs) =
     (if x \<in> set seen then fromkeys_acc seen xs else x # fromkeys_acc (x # seen) xs)"

definition fromkeys :: "'a list \<Rightarrow> 'a list" where
  "fromkeys xs = fromkeys_acc [] xs"

lemma set_fromkeys_acc: "set (fromkeys_acc seen xs) = set xs - set seen"
  by (induction xs arbitrary: seen) auto

lemma set_fromkeys [simp]: "set (fromkeys xs) = set xs"
  by (simp add: fromkeys_def set_fromkeys_acc)

lemma distinct_fromkeys_acc: "distinct (fromkeys_acc seen xs)"
  by (induction xs arbitrary: seen) (auto simp: set_fromkeys_acc)

lemma distinct_fromkeys [simp]: "distinct (fromkeys xs)"
  by (simp add: fromkeys_def distinct_fromkeys_acc)

section \<open>Float division\<close>

text \<open>\<open>int.bit_length\<close>, for the non-negative integers it is used on.\<close>

fun bit_length :: "int \<Rightarrow> nat" where
  "bit_length n = (if n \<le> 0 then 0 else Suc (bit_length (n div 2)))"

declare bit_length.simps [simp del]

definition round_half_even :: "int \<Rightarrow> int \<Rightarrow> int" where
  "round_half_even n d = (let q = n div d; r = n mod d
     in if 2 * r < d \<or> 2 * r = d \<and> even q then q else q + 1)"

definition ceil_div :: "int \<Rightarrow> int \<Rightarrow> int" where
  "ceil_div a b = (a + b - 1) div b"

text \<open>
  \<open>math.ceil(a / b)\<close> for positive integers with \<open>b \<le> a\<close>. Python's \<open>/\<close> on integers is the correctly
  rounded (ties to even) binary64 quotient \<open>m * 2^(e - 52)\<close>, with \<open>e\<close> the exponent of the exact
  quotient; a quotient that does not fit raises \<open>OverflowError\<close>.
\<close>

definition ceil_truediv :: "int \<Rightarrow> int \<Rightarrow> exc + int" where
  "ceil_truediv a b =
     (let e = bit_length (a div b) - 1 in
      if e \<le> 52 then Inr (ceil_div (round_half_even (a * 2 ^ (52 - e)) b) (2 ^ (52 - e)))
      else (let v = round_half_even a (b * 2 ^ (e - 52)) * 2 ^ (e - 52)
            in if v \<ge> 2 ^ 1024 then Inl OverflowError else Inr v))"

end
