(* ===== verification/Storage_Models.thy ===== *)
theory Storage_Models
  imports Prelude
begin

text \<open>
  The data contracts of \<^verbatim>\<open>storage_operations/models.py\<close> and \<^verbatim>\<open>protection/models.py\<close>: one datatype per
  enumeration and one record per Pydantic model, in the order of the source. Field names carry a
  prefix per record, since Isabelle's selectors are global. Where the source lists values of a
  \<open>Literal\<close> type, the model uses a datatype with those values.
\<close>

section \<open>Protection checkpoints\<close>

datatype protection_checkpoint_status = CP_PLANNED | CP_READY | CP_INVALID

datatype protection_kind = BACKUP_KIND | SNAPSHOT_KIND

record protection_checkpoint =
  cp_id :: string
  cp_created_at :: int
  cp_status :: protection_checkpoint_status
  cp_protected_resources :: "string list"
  cp_resource_fingerprints :: "(string \<times> string) list"
  cp_provider_capability_id :: string
  cp_protection_kind :: protection_kind
  cp_backup_id :: "string option"
  cp_verification_id :: "string option"
  cp_session_id :: string
  cp_evidence_sha256 :: string
  cp_limitations :: "string list"

section \<open>Enumerations\<close>

datatype partition_table_type = GPT | MBR | PT_UNKNOWN

datatype storage_operation_type = INSPECT | CREATE | DELETE | RESIZE | MOVE

datatype storage_transaction_status =
    PLANNED | VALIDATED | PROTECTED | AUTHORIZED | EXECUTING | VERIFYING
  | COMMITTED | FAILED | ABORTED | UNKNOWN

datatype storage_verification_status = V_VERIFIED | V_PARTIAL | V_FAILED | V_UNKNOWN

datatype data_impact_level = DI_NONE | DI_LOW | DI_MEDIUM | DI_HIGH | DI_CRITICAL | DI_UNKNOWN

datatype boot_impact_level = BI_NONE | BI_POSSIBLE | BI_LIKELY | BI_CRITICAL | BI_UNKNOWN

datatype encryption_status = ENC_NONE | ENC_LUKS | ENC_BITLOCKER | ENC_UNKNOWN

datatype partition_role =
    ROLE_NORMAL | ROLE_EFI | ROLE_BOOT | ROLE_RECOVERY | ROLE_SWAP | ROLE_WINDOWS
  | ROLE_LINUX | ROLE_LVM | ROLE_RAID | ROLE_UNKNOWN

datatype volume_kind = LVM_PV | LVM_VG | LVM_LV | MDRAID | HARDWARE_RAID | CRYPT

datatype device_kind = Regular_file | Loop | Block

datatype resize_support = Grow | Shrink_and_grow | Unsupported | Resize_unknown

datatype primitive_kind =
    Write_partition_table | Reread_partition_table | Verify_partition_table
  | Resize_partition | Move_partition

datatype target_class = Test_image | Controlled_loop | Physical_disk_class | Unknown_class

datatype risk = Low | Medium | High | Critical

text \<open>The \<open>value\<close> attributes used by the code.\<close>

fun operation_value :: "storage_operation_type \<Rightarrow> string" where
  "operation_value INSPECT = ''inspect''"
| "operation_value CREATE = ''create''"
| "operation_value DELETE = ''delete''"
| "operation_value RESIZE = ''resize''"
| "operation_value MOVE = ''move''"

fun table_type_value :: "partition_table_type \<Rightarrow> string" where
  "table_type_value GPT = ''GPT''"
| "table_type_value MBR = ''MBR''"
| "table_type_value PT_UNKNOWN = ''UNKNOWN''"

fun role_value :: "partition_role \<Rightarrow> string" where
  "role_value ROLE_NORMAL = ''NORMAL''"
| "role_value ROLE_EFI = ''EFI''"
| "role_value ROLE_BOOT = ''BOOT''"
| "role_value ROLE_RECOVERY = ''RECOVERY''"
| "role_value ROLE_SWAP = ''SWAP''"
| "role_value ROLE_WINDOWS = ''WINDOWS''"
| "role_value ROLE_LINUX = ''LINUX''"
| "role_value ROLE_LVM = ''LVM''"
| "role_value ROLE_RAID = ''RAID''"
| "role_value ROLE_UNKNOWN = ''UNKNOWN''"

section \<open>Devices, partitions and layouts\<close>

record storage_device_topology =
  top_parent_path :: "string option"
  top_backing_file :: "string option"
  top_holders :: "string list"
  top_slaves :: "string list"

record storage_device_identity =
  dev_requested_path :: string
  dev_canonical_path :: string
  dev_device_kind :: device_kind
  dev_major_minor :: "string option"
  dev_serial_sha256 :: "string option"
  dev_wwn_sha256 :: "string option"
  dev_model :: "string option"
  dev_size_bytes :: int
  dev_logical_sector_size :: int
  dev_physical_sector_size :: int
  dev_topology :: storage_device_topology
  dev_read_only :: bool
  dev_removable :: bool
  dev_controlled_test_target :: bool
  dev_fingerprint_sha256 :: string

definition resource_id :: "storage_device_identity \<Rightarrow> string" where
  "resource_id d = ''disk:'' @ dev_fingerprint_sha256 d"

record free_region =
  fr_start_sector :: int
  fr_end_sector :: int
  fr_size_sectors :: int
  fr_size_bytes :: int

record filesystem_resource =
  fs_id :: string
  fs_device_path :: string
  fs_filesystem_type :: "string option"
  fs_uuid :: "string option"
  fs_label :: "string option"
  fs_total_bytes :: "int option"
  fs_used_bytes :: "int option"
  fs_available_bytes :: "int option"
  fs_resize_support :: resize_support

record mount_point_resource =
  mp_id :: string
  mp_source :: string
  mp_path :: string
  mp_filesystem_type :: "string option"
  mp_options :: "string list"

record volume_resource =
  vol_id :: string
  vol_kind :: volume_kind
  vol_name :: string
  vol_member_paths :: "string list"
  vol_mutable_by_storage_engine :: bool

record operating_system_resource =
  os_id :: string
  os_name :: string
  os_version :: "string option"
  os_source :: string
  os_mount_point :: string

record boot_dependency =
  bd_id :: string
  bd_kind :: string
  bd_partition_number :: "int option"
  bd_resource_path :: "string option"
  bd_reason :: string
  bd_critical :: bool

record partition_resource =
  part_id :: string
  part_number :: int
  part_path :: string
  part_start_sector :: int
  part_end_sector :: int
  part_size_sectors :: int
  part_size_bytes :: int
  part_type_code :: "string option"
  part_partuuid :: "string option"
  part_name :: "string option"
  part_bootable :: bool
  part_attrs :: "string option"
  part_role :: partition_role
  part_filesystem_id :: "string option"
  part_mount_point_ids :: "string list"
  part_operating_system_ids :: "string list"
  part_volume_ids :: "string list"
  part_encryption_status :: encryption_status

record partition_table =
  pt_type :: partition_table_type
  pt_guid :: "string option"
  pt_sector_size :: int
  pt_first_usable_sector :: int
  pt_last_usable_sector :: int
  pt_total_sectors :: int
  pt_partitions :: "partition_resource list"
  pt_free_regions :: "free_region list"
  pt_fingerprint_sha256 :: string

record physical_disk =
  disk_id :: string
  disk_identity :: storage_device_identity
  disk_partition_table_id :: string

record storage_layout =
  lay_id :: string
  lay_observed_at :: int
  lay_disk :: physical_disk
  lay_partition_table :: partition_table
  lay_filesystems :: "filesystem_resource list"
  lay_mount_points :: "mount_point_resource list"
  lay_volumes :: "volume_resource list"
  lay_operating_systems :: "operating_system_resource list"
  lay_boot_dependencies :: "boot_dependency list"
  lay_swap_partitions :: "int list"
  lay_recovery_partitions :: "int list"
  lay_warnings :: "string list"
  lay_evidence_sha256 :: string

section \<open>Assessments, plans and authorization\<close>

record data_impact_assessment =
  di_level :: data_impact_level
  di_affected_resources :: "string list"
  di_reasons :: "string list"
  di_mounted :: bool
  di_filesystem_change_required :: bool
  di_lvm_detected :: bool
  di_raid_detected :: bool
  di_encryption_detected :: bool
  di_data_loss_possible :: bool
  di_executable :: bool

record boot_impact_assessment =
  bi_level :: boot_impact_level
  bi_affected_dependencies :: "string list"
  bi_reasons :: "string list"
  bi_recovery_strategy_available :: bool
  bi_executable :: bool

record storage_primitive_operation =
  op_id :: string
  op_kind :: primitive_kind
  op_description :: string
  op_partition_number :: "int option"
  op_mutates_target :: bool
  op_enabled :: bool

record storage_verification_step =
  vs_id :: string
  vs_description :: string
  vs_required :: bool

record storage_authorization_requirement =
  auth_required :: bool
  auth_independent :: bool
  auth_one_use :: bool
  auth_exact_plan_binding :: bool

record storage_dry_run_result =
  dry_tool :: string
  dry_original_layout_sha256 :: string
  dry_proposed_layout_sha256 :: string
  dry_script_sha256 :: string
  dry_exit_code :: int
  dry_valid :: bool
  dry_warnings :: "string list"

record storage_write_gate_decision =
  gate_allowed :: bool
  gate_target_class :: target_class
  gate_reason :: string
  gate_physical_disk_writes_enabled :: bool

record storage_operation_plan =
  plan_id :: string
  plan_operation_id :: string
  plan_version :: string
  plan_capability :: string
  plan_operation :: storage_operation_type
  plan_created_at :: int
  plan_expires_at :: int
  plan_session_id :: string
  plan_target_disk :: storage_device_identity
  plan_target_partition :: "partition_resource option"
  plan_original_layout :: storage_layout
  plan_proposed_layout :: storage_layout
  plan_required_operations :: "storage_primitive_operation list"
  plan_affected_resources :: "string list"
  plan_risk :: risk
  plan_estimated_duration_seconds :: "int option"
  plan_data_loss_possible :: bool
  plan_data_impact :: data_impact_assessment
  plan_boot_impact :: boot_impact_assessment
  plan_filesystem_impact :: string
  plan_protection_checkpoint :: "protection_checkpoint option"
  plan_authorization :: storage_authorization_requirement
  plan_verification_plan :: "storage_verification_step list"
  plan_dry_run :: "storage_dry_run_result option"
  plan_write_gate :: storage_write_gate_decision
  plan_executable :: bool
  plan_limitations :: "string list"
  plan_fingerprint_sha256 :: string

definition protected_resource_id :: "storage_operation_plan \<Rightarrow> string" where
  "protected_resource_id p = resource_id (plan_target_disk p)"

record partition_table_checkpoint_artifact =
  art_checkpoint_id :: string
  art_operation_id :: string
  art_target_fingerprint_sha256 :: string
  art_partition_table_fingerprint_sha256 :: string
  art_dump_sha256 :: string
  art_sfdisk_dump :: string
  art_created_at :: int

record storage_checkpoint_bundle =
  bundle_checkpoint :: protection_checkpoint
  bundle_artifact :: partition_table_checkpoint_artifact

record storage_authorization_grant =
  grant_id :: string
  grant_challenge_id :: string
  grant_operation_id :: string
  grant_plan_id :: string
  grant_session_id :: string
  grant_target_fingerprint_sha256 :: string
  grant_plan_fingerprint_sha256 :: string
  grant_operator_uid :: "int option"
  grant_expires_at :: int

section \<open>Transactions, verifications and outcomes\<close>

record storage_transaction =
  tx_id :: string
  tx_operation_id :: string
  tx_plan_id :: string
  tx_session_id :: string
  tx_status :: storage_transaction_status
  tx_created_at :: int
  tx_started_at :: "int option"
  tx_finished_at :: "int option"
  tx_checkpoint_id :: "string option"
  tx_authorization_challenge_id :: "string option"
  tx_last_known_stage :: "string option"
  tx_before_layout_sha256 :: "string option"
  tx_after_layout_sha256 :: "string option"
  tx_verification_id :: "string option"
  tx_reconciliation_required :: bool
  tx_error_code :: "string option"
  tx_metadata :: "(string \<times> string) list"

record storage_verification =
  ver_id :: string
  ver_operation_id :: string
  ver_created_at :: int
  ver_status :: storage_verification_status
  ver_identity_verified :: bool
  ver_partition_table_verified :: bool
  ver_partition_geometry_verified :: bool
  ver_filesystem_verified :: "bool option"
  ver_mountability_verified :: "bool option"
  ver_operating_system_verified :: "bool option"
  ver_boot_dependencies_verified :: "bool option"
  ver_before :: storage_layout
  ver_after :: "storage_layout option"
  ver_evidence :: "string list"
  ver_limitations :: "string list"
  ver_message :: string

record storage_operation_record =
  rec_plan :: storage_operation_plan
  rec_transaction :: storage_transaction
  rec_verification :: "storage_verification option"

record storage_operation_outcome =
  out_operation_id :: string
  out_operation :: storage_operation_type
  out_tool :: string
  out_exit_code :: int
  out_kernel_reread :: "bool option"
  out_before :: storage_layout
  out_after :: storage_layout
  out_evidence :: "string list"

record storage_operation_execution_input =
  ein_operation_id :: string
  ein_plan_id :: string
  ein_session_id :: string
  ein_protected_resource_id :: string
  ein_protected_resource_fingerprint_sha256 :: string

end
