(* ===== verification/Integrity.thy ===== *)
theory Integrity
  imports Storage_Models
begin

text \<open>
  The canonical fingerprints of \<^verbatim>\<open>storage_operations/integrity.py\<close>. The digest of \<^verbatim>\<open>hashlib\<close> and the
  Pydantic \<open>model_dump\<close> followed by \<^verbatim>\<open>json.dumps\<close> are the two functions of a \<open>codec\<close>, arguments of
  every definition that fingerprints something; the theorems hold for all of them. What a function
  hashes is a \<open>payload\<close>: one constructor per dictionary shape that the code builds, in which a key
  that the code pops is set to the empty value.
\<close>

record partition_payload =
  pp_number :: int
  pp_start_sector :: int
  pp_end_sector :: int
  pp_size_sectors :: int
  pp_size_bytes :: int
  pp_type_code :: "string option"
  pp_partuuid :: "string option"
  pp_name :: "string option"
  pp_bootable :: bool
  pp_attrs :: "string option"

record table_payload =
  tp_type :: partition_table_type
  tp_guid :: "string option"
  tp_sector_size :: int
  tp_first_usable_sector :: int
  tp_last_usable_sector :: int
  tp_total_sectors :: int
  tp_partitions :: "partition_payload list"
  tp_free_regions :: "free_region list"

record layout_body =
  lb_disk :: physical_disk
  lb_partition_table :: partition_table
  lb_filesystems :: "filesystem_resource list"
  lb_mount_points :: "mount_point_resource list"
  lb_volumes :: "volume_resource list"
  lb_operating_systems :: "operating_system_resource list"
  lb_boot_dependencies :: "boot_dependency list"
  lb_swap_partitions :: "int list"
  lb_recovery_partitions :: "int list"

datatype payload =
    P_identity storage_device_identity
  | P_table table_payload
  | P_layout storage_layout
  | P_layout_body layout_body
  | P_plan storage_operation_plan
  | P_checkpoint_evidence string string string string string
  | P_transaction storage_transaction
  | P_verification storage_verification
  | P_artifact partition_table_checkpoint_artifact
  | P_checkpoint protection_checkpoint

record codec =
  sha256_hex :: "string \<Rightarrow> string"
  json_dumps :: "payload \<Rightarrow> string"
  json_loads :: "string \<Rightarrow> json option"

definition canonical_sha256 :: "codec \<Rightarrow> payload \<Rightarrow> string" where
  "canonical_sha256 C v = sha256_hex C (json_dumps C v)"

definition token_sha256 :: "codec \<Rightarrow> string \<Rightarrow> string" where
  "token_sha256 C v = sha256_hex C v"

definition device_identity_fingerprint :: "codec \<Rightarrow> storage_device_identity \<Rightarrow> string" where
  "device_identity_fingerprint C d =
     canonical_sha256 C (P_identity (d\<lparr>dev_fingerprint_sha256 := ''''\<rparr>))"

definition partition_payload_of :: "partition_resource \<Rightarrow> partition_payload" where
  "partition_payload_of p = \<lparr>
     pp_number = part_number p,
     pp_start_sector = part_start_sector p,
     pp_end_sector = part_end_sector p,
     pp_size_sectors = part_size_sectors p,
     pp_size_bytes = part_size_bytes p,
     pp_type_code = part_type_code p,
     pp_partuuid = part_partuuid p,
     pp_name = part_name p,
     pp_bootable = part_bootable p,
     pp_attrs = part_attrs p\<rparr>"

definition table_payload_of :: "partition_table \<Rightarrow> table_payload" where
  "table_payload_of t = \<lparr>
     tp_type = pt_type t,
     tp_guid = pt_guid t,
     tp_sector_size = pt_sector_size t,
     tp_first_usable_sector = pt_first_usable_sector t,
     tp_last_usable_sector = pt_last_usable_sector t,
     tp_total_sectors = pt_total_sectors t,
     tp_partitions = map partition_payload_of (pt_partitions t),
     tp_free_regions = pt_free_regions t\<rparr>"

definition partition_table_fingerprint :: "codec \<Rightarrow> partition_table \<Rightarrow> string" where
  "partition_table_fingerprint C t = canonical_sha256 C (P_table (table_payload_of t))"

definition layout_fingerprint :: "codec \<Rightarrow> storage_layout \<Rightarrow> string" where
  "layout_fingerprint C l = canonical_sha256 C
     (P_layout (l\<lparr>lay_id := '''', lay_observed_at := 0, lay_evidence_sha256 := ''''\<rparr>))"

definition storage_plan_fingerprint :: "codec \<Rightarrow> storage_operation_plan \<Rightarrow> string" where
  "storage_plan_fingerprint C p =
     canonical_sha256 C (P_plan (p\<lparr>plan_fingerprint_sha256 := ''''\<rparr>))"

definition storage_plan_integrity_valid :: "codec \<Rightarrow> storage_operation_plan \<Rightarrow> bool" where
  "storage_plan_integrity_valid C p \<longleftrightarrow> storage_plan_fingerprint C p = plan_fingerprint_sha256 p"

type_synonym partition_signature =
  "int \<times> int \<times> int \<times> string \<times> string \<times> string option \<times> bool"

definition partition_signature :: "partition_resource \<Rightarrow> partition_signature" where
  "partition_signature p =
     (part_number p, part_start_sector p, part_size_sectors p,
      py_casefold (or_empty (part_type_code p)), py_casefold (or_empty (part_partuuid p)),
      part_name p, part_bootable p)"

definition partition_geometry_signature ::
  "partition_table \<Rightarrow> string \<times> string option \<times> int \<times> partition_signature list" where
  "partition_geometry_signature t =
     (table_type_value (pt_type t), pt_guid t, pt_sector_size t,
      map partition_signature (sort_key part_number (pt_partitions t)))"

definition zeros64 :: string where
  "zeros64 = replicate 64 (CHR ''0'')"

section \<open>Sealing\<close>

text \<open>
  The idiom \<open>draft.model_copy(update={"fingerprint_sha256": storage_plan_fingerprint(draft)})\<close>, used for
  plans, tables and identities: the fingerprint does not depend on its own field.
\<close>

definition seal_plan :: "codec \<Rightarrow> storage_operation_plan \<Rightarrow> storage_operation_plan" where
  "seal_plan C p = p\<lparr>plan_fingerprint_sha256 := storage_plan_fingerprint C p\<rparr>"

definition seal_table :: "codec \<Rightarrow> partition_table \<Rightarrow> partition_table" where
  "seal_table C t = t\<lparr>pt_fingerprint_sha256 := partition_table_fingerprint C t\<rparr>"

definition seal_identity :: "codec \<Rightarrow> storage_device_identity \<Rightarrow> storage_device_identity" where
  "seal_identity C d = d\<lparr>dev_fingerprint_sha256 := device_identity_fingerprint C d\<rparr>"

lemma storage_plan_fingerprint_irrelevant [simp]:
  "storage_plan_fingerprint C (p\<lparr>plan_fingerprint_sha256 := x\<rparr>) = storage_plan_fingerprint C p"
  by (simp add: storage_plan_fingerprint_def)

lemma partition_table_fingerprint_irrelevant [simp]:
  "partition_table_fingerprint C (t\<lparr>pt_fingerprint_sha256 := x\<rparr>) = partition_table_fingerprint C t"
  by (simp add: partition_table_fingerprint_def table_payload_of_def)

lemma device_identity_fingerprint_irrelevant [simp]:
  "device_identity_fingerprint C (d\<lparr>dev_fingerprint_sha256 := x\<rparr>) = device_identity_fingerprint C d"
  by (simp add: device_identity_fingerprint_def)

lemma seal_plan_valid [simp]: "storage_plan_integrity_valid C (seal_plan C p)"
  by (simp add: storage_plan_integrity_valid_def seal_plan_def)

lemma seal_plan_simps [simp]:
  "plan_id (seal_plan C p) = plan_id p"
  "plan_operation_id (seal_plan C p) = plan_operation_id p"
  "plan_operation (seal_plan C p) = plan_operation p"
  "plan_session_id (seal_plan C p) = plan_session_id p"
  "plan_target_disk (seal_plan C p) = plan_target_disk p"
  "plan_target_partition (seal_plan C p) = plan_target_partition p"
  "plan_original_layout (seal_plan C p) = plan_original_layout p"
  "plan_proposed_layout (seal_plan C p) = plan_proposed_layout p"
  "plan_data_impact (seal_plan C p) = plan_data_impact p"
  "plan_boot_impact (seal_plan C p) = plan_boot_impact p"
  "plan_write_gate (seal_plan C p) = plan_write_gate p"
  "plan_dry_run (seal_plan C p) = plan_dry_run p"
  "plan_protection_checkpoint (seal_plan C p) = plan_protection_checkpoint p"
  "plan_executable (seal_plan C p) = plan_executable p"
  "plan_expires_at (seal_plan C p) = plan_expires_at p"
  "plan_limitations (seal_plan C p) = plan_limitations p"
  by (simp_all add: seal_plan_def)

lemma seal_table_simps [simp]:
  "pt_type (seal_table C t) = pt_type t"
  "pt_guid (seal_table C t) = pt_guid t"
  "pt_sector_size (seal_table C t) = pt_sector_size t"
  "pt_first_usable_sector (seal_table C t) = pt_first_usable_sector t"
  "pt_last_usable_sector (seal_table C t) = pt_last_usable_sector t"
  "pt_total_sectors (seal_table C t) = pt_total_sectors t"
  "pt_partitions (seal_table C t) = pt_partitions t"
  "pt_free_regions (seal_table C t) = pt_free_regions t"
  "pt_fingerprint_sha256 (seal_table C t) = partition_table_fingerprint C t"
  by (simp_all add: seal_table_def)

lemma seal_table_fingerprint [simp]:
  "partition_table_fingerprint C (seal_table C t) = partition_table_fingerprint C t"
  by (simp add: seal_table_def)

section \<open>What an accepted fingerprint says\<close>

lemma exI2_conj: "v \<noteq> w \<Longrightarrow> f v = f w \<Longrightarrow> \<exists>v w. v \<noteq> w \<and> f v = f w"
  by blast

lemma plan_erase_inverse:
  "p\<lparr>plan_fingerprint_sha256 := x\<rparr>\<lparr>plan_fingerprint_sha256 := plan_fingerprint_sha256 p\<rparr> = p"
  by simp

text \<open>
  Two plans that carry the same fingerprint and both pass the integrity check agree in every field,
  unless they exhibit a collision of the digest or two payloads with the same JSON text.
\<close>

lemma plan_fingerprint_binds_all_fields:
  assumes "storage_plan_integrity_valid C p" and "storage_plan_integrity_valid C q"
    and "plan_fingerprint_sha256 p = plan_fingerprint_sha256 q"
    and "p \<noteq> q"
  shows "\<exists>v w. v \<noteq> w \<and> canonical_sha256 C v = canonical_sha256 C w"
proof -
  let ?v = "P_plan (p\<lparr>plan_fingerprint_sha256 := ''''\<rparr>)"
  let ?w = "P_plan (q\<lparr>plan_fingerprint_sha256 := ''''\<rparr>)"
  have collide: "canonical_sha256 C ?v = canonical_sha256 C ?w"
    using assms(1-3) by (simp add: storage_plan_integrity_valid_def storage_plan_fingerprint_def)
  have "?v \<noteq> ?w"
  proof
    assume "?v = ?w"
    then have "p\<lparr>plan_fingerprint_sha256 := ''''\<rparr> = q\<lparr>plan_fingerprint_sha256 := ''''\<rparr>" by simp
    then have "p = q"
      using plan_erase_inverse[of p "''''"] plan_erase_inverse[of q "''''"] assms(3) by metis
    with assms(4) show False by simp
  qed
  then show ?thesis using collide by (rule exI2_conj)
qed

text \<open>The geometry signature does not depend on the order in which a table lists its partitions.\<close>

lemma sort_key_number_unique:
  assumes "mset ps = mset qs" and "distinct (map part_number ps)"
  shows "sort_key part_number ps = sort_key part_number qs"
proof (rule map_sorted_distinct_set_unique)
  have set_eq: "set ps = set qs"
    using assms(1) by (rule mset_eq_setD)
  have dist: "distinct (map part_number qs)"
    using assms by (metis mset_eq_imp_distinct_iff mset_map)
  show "inj_on part_number (set (sort_key part_number ps) \<union> set (sort_key part_number qs))"
    using assms(2) set_eq by (simp add: distinct_map)
  show "distinct (map part_number (sort_key part_number ps))"
    using assms(2) by (metis mset_eq_imp_distinct_iff mset_map mset_sort)
  show "distinct (map part_number (sort_key part_number qs))"
    using dist by (metis mset_eq_imp_distinct_iff mset_map mset_sort)
  show "set (sort_key part_number ps) = set (sort_key part_number qs)"
    using set_eq by simp
qed simp_all

lemma partition_geometry_signature_cong:
  assumes "mset (pt_partitions t) = mset (pt_partitions u)"
    and "distinct (map part_number (pt_partitions t))"
    and "pt_type t = pt_type u" and "pt_guid t = pt_guid u"
    and "pt_sector_size t = pt_sector_size u"
  shows "partition_geometry_signature t = partition_geometry_signature u"
  using sort_key_number_unique[OF assms(1,2)] assms(3-5)
  by (simp add: partition_geometry_signature_def)

end
