(* ===== verification/Partition_Table.thy ===== *)
theory Partition_Table
  imports Integrity
begin

text \<open>
  The pure half of \<^verbatim>\<open>tools/partition.py\<close>: parsing what \<^verbatim>\<open>sfdisk\<close> and \<^verbatim>\<open>blkid\<close> print, rendering the script
  that \<^verbatim>\<open>sfdisk\<close> reads, classifying partitions and computing free regions and proposed tables. Random
  identifiers (\<^verbatim>\<open>uuid4\<close>) and the time are arguments. Model validation by Pydantic is not repeated.
\<close>

section \<open>Constants and small parsers\<close>

definition MAX_INPUT_BYTES :: int where
  "MAX_INPUT_BYTES = 1000000"

definition GPT_EFI :: string where
  "GPT_EFI = ''C12A7328-F81F-11D2-BA4B-00A0C93EC93B''"
definition GPT_LINUX_SWAP :: string where
  "GPT_LINUX_SWAP = ''0657FD6D-A4AB-43C4-84E5-0933C84B4F4F''"
definition GPT_LINUX_LVM :: string where
  "GPT_LINUX_LVM = ''E6D6D379-F507-44C2-A23C-238F2A3DF928''"
definition GPT_LINUX_RAID :: string where
  "GPT_LINUX_RAID = ''A19D880F-05FC-4D3B-A006-743F0F84911E''"
definition GPT_WINDOWS_RECOVERY :: string where
  "GPT_WINDOWS_RECOVERY = ''DE94BBA4-06D1-4D40-A16A-BFD50179D6AC''"
definition GPT_WINDOWS_BASIC :: string where
  "GPT_WINDOWS_BASIC = ''EBD0A0A2-B9E5-4433-87C0-68B6B72699C7''"

definition safe_name :: "string \<Rightarrow> bool" where
  "safe_name s \<longleftrightarrow> 1 \<le> length s \<and> length s \<le> 96 \<and>
     list_all (\<lambda>c. is_alpha c \<or> is_digit c \<or> c \<in> set '' ._+:-'') s"

definition safe_device :: "string \<Rightarrow> bool" where
  "safe_device s \<longleftrightarrow> prefix_of ''/dev/'' s \<and> 1 \<le> length (drop 5 s) \<and> length (drop 5 s) \<le> 128 \<and>
     list_all (\<lambda>c. is_alpha c \<or> is_digit c \<or> c \<in> set ''_.:+/-'') (drop 5 s)"

definition partition_number :: "json option \<Rightarrow> int \<Rightarrow> int" where
  "partition_number raw fallback = (case raw of
       Some (JStr s) \<Rightarrow>
         (let t = (if s \<noteq> [] \<and> last s = CHR 0x0A then butlast s else s);
              ds = rev (takeWhile is_digit (rev t))
          in if ds \<noteq> [] \<and> digits_val ds \<ge> 1 then digits_val ds else fallback)
     | _ \<Rightarrow> fallback)"

definition clean :: "json option \<Rightarrow> int \<Rightarrow> string option" where
  "clean value limit = (case value of
       Some (JStr s) \<Rightarrow>
         (let cleaned = py_take limit (py_strip (filter (\<lambda>c. is_printable c \<and> c \<noteq> CHR 0x00) s))
          in if cleaned = [] then None else Some cleaned)
     | _ \<Rightarrow> None)"

definition int_value :: "json option \<Rightarrow> int option" where
  "int_value value = (case value of
       Some (JInt i) \<Rightarrow> Some i
     | Some (JStr s) \<Rightarrow> py_int s
     | _ \<Rightarrow> None)"

definition positive_int :: "json option \<Rightarrow> int option" where
  "positive_int value = (case int_value value of
       Some i \<Rightarrow> if i > 0 then Some i else None | None \<Rightarrow> None)"

definition nonnegative_int :: "json option \<Rightarrow> int option" where
  "nonnegative_int value = (case int_value value of
       Some i \<Rightarrow> if i \<ge> 0 then Some i else None | None \<Rightarrow> None)"

definition json_truthy :: "json option \<Rightarrow> bool" where
  "json_truthy value = (case value of
       None \<Rightarrow> False
     | Some JNull \<Rightarrow> False
     | Some (JBool b) \<Rightarrow> b
     | Some (JInt i) \<Rightarrow> i \<noteq> 0
     | Some (JFloat s) \<Rightarrow>
         list_ex (\<lambda>c. c \<in> set ''123456789NI'') (takeWhile (\<lambda>c. c \<notin> set ''eE'') s)
     | Some (JStr s) \<Rightarrow> s \<noteq> []
     | Some (JList xs) \<Rightarrow> xs \<noteq> []
     | Some (JObj kvs) \<Rightarrow> kvs \<noteq> [])"

definition looks_unpartitioned :: "string \<Rightarrow> bool" where
  "looks_unpartitioned stderr = (let lowered = py_casefold stderr in
     contains ''partition table'' lowered \<or> contains ''unrecognized'' lowered \<or>
     contains ''does not contain'' lowered)"

definition filesystem_resize_support :: "string \<Rightarrow> resize_support" where
  "filesystem_resize_support fs_type = (let normalized = py_casefold fs_type in
     if normalized \<in> {''ext2'', ''ext3'', ''ext4'', ''btrfs'', ''ntfs''} then Shrink_and_grow
     else if normalized \<in> {''xfs''} then Grow
     else if normalized \<in> {''vfat'', ''fat'', ''fat32'', ''exfat''} then Resize_unknown
     else Resize_unknown)"

section \<open>Identity of one partition\<close>

definition partition_id ::
  "codec \<Rightarrow> storage_device_identity \<Rightarrow> int \<Rightarrow> int \<Rightarrow> int \<Rightarrow> string option \<Rightarrow> string" where
  "partition_id C d number start size_s partuuid =
     (let value = dev_fingerprint_sha256 d @ '':'' @ int_str number @ '':'' @ int_str start @ '':''
        @ int_str size_s @ '':'' @ or_empty partuuid
      in ''partition:'' @ take 24 (token_sha256 C value))"

definition partition_path ::
  "codec \<Rightarrow> storage_device_identity \<Rightarrow> json option \<Rightarrow> int \<Rightarrow> string" where
  "partition_path C d raw_node number =
     (let base = dev_canonical_path d;
          separator = (if base \<noteq> [] \<and> is_digit (last base) then ''p'' else '''');
          fallback = (if dev_device_kind d = Regular_file
            then ''image:'' @ take 16 (token_sha256 C base) @ '':'' @ int_str number
            else base @ separator @ int_str number)
      in case raw_node of
           Some (JStr node) \<Rightarrow>
             if dev_device_kind d \<noteq> Regular_file \<and> safe_device node then node else fallback
         | _ \<Rightarrow> fallback)"

definition role :: "partition_table_type \<Rightarrow> string option \<Rightarrow> bool \<Rightarrow> partition_role" where
  "role table_type type_code bootable =
     (let value = py_upper (or_empty type_code);
          short = removeprefix ''0x'' (py_lower value)
      in if table_type = GPT then
           (if value = GPT_EFI then ROLE_EFI
            else if value = GPT_LINUX_SWAP then ROLE_SWAP
            else if value = GPT_LINUX_LVM then ROLE_LVM
            else if value = GPT_LINUX_RAID then ROLE_RAID
            else if value = GPT_WINDOWS_RECOVERY then ROLE_RECOVERY
            else if value = GPT_WINDOWS_BASIC then ROLE_WINDOWS
            else ROLE_NORMAL)
         else
           (if short = ''ef'' then ROLE_EFI
            else if short = ''82'' then ROLE_SWAP
            else if short = ''8e'' then ROLE_LVM
            else if short = ''fd'' then ROLE_RAID
            else if bootable then ROLE_BOOT
            else ROLE_NORMAL))"

definition default_partition_type :: "partition_table_type \<Rightarrow> string" where
  "default_partition_type table_type =
     (if table_type = GPT then ''0FC63DAF-8483-4772-8E79-3D69D8477DE4'' else ''83'')"

section \<open>Free regions and tables\<close>

definition free :: "int \<Rightarrow> int \<Rightarrow> int \<Rightarrow> free_region" where
  "free start end sector_size = (let sectors = max 0 (end - start + 1) in
     \<lparr>fr_start_sector = start, fr_end_sector = end, fr_size_sectors = sectors,
      fr_size_bytes = sectors * sector_size\<rparr>)"

text \<open>The loop of \<open>_free_regions\<close> over the sorted partitions: the regions found and the final cursor.\<close>

fun free_regions_loop :: "int \<Rightarrow> int \<Rightarrow> partition_resource list \<Rightarrow> free_region list \<times> int" where
  "free_regions_loop sector_size cursor [] = ([], cursor)"
| "free_regions_loop sector_size cursor (p # ps) =
     (let found = (if part_start_sector p > cursor
                   then [free cursor (part_start_sector p - 1) sector_size] else []);
          (rest, final) = free_regions_loop sector_size (max cursor (part_end_sector p + 1)) ps
      in (found @ rest, final))"

definition free_regions :: "partition_resource list \<Rightarrow> int \<Rightarrow> int \<Rightarrow> int \<Rightarrow> free_region list" where
  "free_regions partitions first_s last_s sector_size =
     (if last_s < first_s then []
      else let (output, cursor) =
             free_regions_loop sector_size first_s (sort_key part_start_sector partitions)
           in output @ (if cursor \<le> last_s then [free cursor last_s sector_size] else []))"

definition sort_partitions :: "partition_resource list \<Rightarrow> partition_resource list" where
  "sort_partitions = sort_key (\<lambda>p. (part_start_sector p, part_number p))"

definition empty_table :: "codec \<Rightarrow> storage_device_identity \<Rightarrow> partition_table" where
  "empty_table C d =
     (let sector = dev_logical_sector_size d;
          total = dev_size_bytes d div sector;
          first_s = (if total > 4096 then 2048 else 1);
          last_s = max first_s (total - 1)
      in seal_table C \<lparr>pt_type = PT_UNKNOWN, pt_guid = None, pt_sector_size = sector,
           pt_first_usable_sector = first_s, pt_last_usable_sector = last_s, pt_total_sectors = total,
           pt_partitions = [], pt_free_regions = free_regions [] first_s last_s sector,
           pt_fingerprint_sha256 = zeros64\<rparr>)"

definition build_empty_table ::
  "codec \<Rightarrow> storage_device_identity \<Rightarrow> partition_table_type \<Rightarrow> string \<Rightarrow> exc + partition_table" where
  "build_empty_table C d table_type guid =
     (let sector = dev_logical_sector_size d;
          total = dev_size_bytes d div sector;
          build = (\<lambda>first_s last_s. Inr (seal_table C \<lparr>pt_type = table_type, pt_guid = Some guid,
             pt_sector_size = sector, pt_first_usable_sector = first_s, pt_last_usable_sector = last_s,
             pt_total_sectors = total, pt_partitions = [],
             pt_free_regions = free_regions [] first_s last_s sector,
             pt_fingerprint_sha256 = zeros64\<rparr>))
      in case table_type of
           GPT \<Rightarrow> let first_s = (if total > 4096 then 2048 else 34) in build first_s (max first_s (total - 34))
         | MBR \<Rightarrow> let first_s = (if total > 4096 then 2048 else 1) in build first_s (max first_s (total - 1))
         | PT_UNKNOWN \<Rightarrow> Inl (PartitionToolError ''STORAGE_PARTITION_TABLE_TYPE_REQUIRED''))"

definition with_partitions ::
  "codec \<Rightarrow> partition_table \<Rightarrow> partition_resource list \<Rightarrow> partition_table" where
  "with_partitions C table partitions =
     (let free = free_regions (sort_partitions partitions) (pt_first_usable_sector table)
            (pt_last_usable_sector table) (pt_sector_size table)
      in seal_table C (table\<lparr>pt_partitions := sort_partitions partitions,
           pt_free_regions := free, pt_fingerprint_sha256 := zeros64\<rparr>))"

definition layout_with_table ::
  "codec \<Rightarrow> string \<Rightarrow> int \<Rightarrow> storage_layout \<Rightarrow> partition_table \<Rightarrow> storage_layout" where
  "layout_with_table C uuid now original table =
     (let disk = lay_disk original;
          body = \<lparr>lb_disk = disk, lb_partition_table = table, lb_filesystems = [],
            lb_mount_points = [], lb_volumes = [], lb_operating_systems = [],
            lb_boot_dependencies = [], lb_swap_partitions = [], lb_recovery_partitions = []\<rparr>
      in \<lparr>lay_id = uuid, lay_observed_at = now, lay_disk = disk, lay_partition_table = table,
          lay_filesystems = [], lay_mount_points = [], lay_volumes = [], lay_operating_systems = [],
          lay_boot_dependencies = [], lay_swap_partitions = [], lay_recovery_partitions = [],
          lay_warnings = [''proposed_layout_contains_geometry_only_until_post-write-verification''],
          lay_evidence_sha256 = canonical_sha256 C (P_layout_body body)\<rparr>)"

text \<open>\<open>str(uuid4()).upper()\<close> from the 32 digits of \<open>uuid4().hex\<close>.\<close>

definition uuid_str :: "string \<Rightarrow> string" where
  "uuid_str h = take 8 h @ ''-'' @ take 4 (drop 8 h) @ ''-'' @ take 4 (drop 12 h) @ ''-''
     @ take 4 (drop 16 h) @ ''-'' @ drop 20 h"

definition new_partition_resource ::
  "codec \<Rightarrow> string \<Rightarrow> storage_device_identity \<Rightarrow> partition_table_type \<Rightarrow> int \<Rightarrow> int \<Rightarrow> int \<Rightarrow> int
     \<Rightarrow> string option \<Rightarrow> string option \<Rightarrow> exc + partition_resource" where
  "new_partition_resource C uuid d table_type number start_sector size_sectors sector_size type_code name =
     (if name \<noteq> None \<and> \<not> safe_name (the name)
      then Inl (PartitionToolError ''STORAGE_PARTITION_NAME_UNSAFE'')
      else let partuuid = (if table_type = GPT then Some (py_upper (uuid_str uuid)) else None);
               normalized_type = (if truthy type_code then the type_code
                                  else default_partition_type table_type)
           in Inr \<lparr>part_id = partition_id C d number start_sector size_sectors partuuid,
                part_number = number,
                part_path = partition_path C d None number,
                part_start_sector = start_sector,
                part_end_sector = start_sector + size_sectors - 1,
                part_size_sectors = size_sectors,
                part_size_bytes = size_sectors * sector_size,
                part_type_code = Some normalized_type,
                part_partuuid = partuuid,
                part_name = name,
                part_bootable = False,
                part_attrs = None,
                part_role = role table_type (Some normalized_type) False,
                part_filesystem_id = None,
                part_mount_point_ids = [],
                part_operating_system_ids = [],
                part_volume_ids = [],
                part_encryption_status = ENC_UNKNOWN\<rparr>)"

section \<open>Parsing and rendering\<close>

text \<open>One iteration of the loop over the \<open>partitions\<close> array; \<^const>\<open>None\<close> is its \<open>continue\<close>.\<close>

definition parse_partition ::
  "codec \<Rightarrow> storage_device_identity \<Rightarrow> partition_table_type \<Rightarrow> int \<Rightarrow> int \<Rightarrow> json
     \<Rightarrow> partition_resource option" where
  "parse_partition C d table_type sector_size index raw = (case raw of
       JObj _ \<Rightarrow>
         (case (nonnegative_int (json_get raw ''start''), positive_int (json_get raw ''size'')) of
            (Some start, Some size_s) \<Rightarrow>
              (let number = partition_number (json_get raw ''node'') index;
                   type_code = clean (json_get raw ''type'') 128;
                   partuuid = clean (json_get raw ''uuid'') 256;
                   name = clean (json_get raw ''name'') 256;
                   attrs = clean (json_get raw ''attrs'') 256;
                   bootable = json_truthy (json_get raw ''bootable'')
               in Some \<lparr>part_id = partition_id C d number start size_s partuuid,
                    part_number = number,
                    part_path = partition_path C d (json_get raw ''node'') number,
                    part_start_sector = start,
                    part_end_sector = start + size_s - 1,
                    part_size_sectors = size_s,
                    part_size_bytes = size_s * sector_size,
                    part_type_code = type_code,
                    part_partuuid = partuuid,
                    part_name = name,
                    part_bootable = bootable,
                    part_attrs = attrs,
                    part_role = role table_type type_code bootable,
                    part_filesystem_id = None,
                    part_mount_point_ids = [],
                    part_operating_system_ids = [],
                    part_volume_ids = [],
                    part_encryption_status = ENC_UNKNOWN\<rparr>)
          | _ \<Rightarrow> None)
     | _ \<Rightarrow> None)"

fun parse_partitions ::
  "codec \<Rightarrow> storage_device_identity \<Rightarrow> partition_table_type \<Rightarrow> int \<Rightarrow> int \<Rightarrow> json list
     \<Rightarrow> partition_resource list" where
  "parse_partitions C d table_type sector_size index [] = []"
| "parse_partitions C d table_type sector_size index (raw # raws) =
     (case parse_partition C d table_type sector_size index raw of
        None \<Rightarrow> [] | Some p \<Rightarrow> [p])
     @ parse_partitions C d table_type sector_size (index + 1) raws"

definition parse_sfdisk_json ::
  "codec \<Rightarrow> string \<Rightarrow> storage_device_identity \<Rightarrow> exc + partition_table" where
  "parse_sfdisk_json C text d =
     (let failed = Inl (PartitionToolError ''STORAGE_PARTITION_TABLE_PARSE_FAILED'') in
      case json_loads C text of
        None \<Rightarrow> failed
      | Some loaded \<Rightarrow>
        (case json_get loaded ''partitiontable'' of
           Some (JObj kvs) \<Rightarrow>
             (let raw_table = JObj kvs;
                  raw_label = json_get raw_table ''label'';
                  table_type = (if raw_label = Some (JStr ''gpt'') then GPT
                                else if raw_label = Some (JStr ''dos'') then MBR else PT_UNKNOWN);
                  sector_size = (case positive_int (json_get raw_table ''sectorsize'') of
                                   Some n \<Rightarrow> n | None \<Rightarrow> dev_logical_sector_size d);
                  total_sectors = dev_size_bytes d div sector_size;
                  first_s = (case nonnegative_int (json_get raw_table ''firstlba'') of
                             Some n \<Rightarrow> n
                           | None \<Rightarrow> if table_type = GPT then min 2048 (max 34 (total_sectors - 34))
                                     else if total_sectors > 4096 then 2048 else 1);
                  last_s = (case nonnegative_int (json_get raw_table ''lastlba'') of
                            Some n \<Rightarrow> n
                          | None \<Rightarrow> if table_type = GPT then max first_s (total_sectors - 34)
                                    else max first_s (total_sectors - 1));
                  partitions = sort_partitions (case json_get raw_table ''partitions'' of
                      Some (JList raws) \<Rightarrow> parse_partitions C d table_type sector_size 1 raws
                    | _ \<Rightarrow> [])
              in Inr (seal_table C \<lparr>pt_type = table_type,
                   pt_guid = clean (json_get raw_table ''id'') 256,
                   pt_sector_size = sector_size,
                   pt_first_usable_sector = first_s,
                   pt_last_usable_sector = last_s,
                   pt_total_sectors = total_sectors,
                   pt_partitions = partitions,
                   pt_free_regions = free_regions partitions first_s last_s sector_size,
                   pt_fingerprint_sha256 = zeros64\<rparr>))
         | _ \<Rightarrow> failed))"

fun blkid_lines :: "(string \<times> string) list \<Rightarrow> string list \<Rightarrow> (string \<times> string) list" where
  "blkid_lines output [] = output"
| "blkid_lines output (line # rest) =
     (let key = takeWhile (\<lambda>c. c \<noteq> CHR ''='') line;
          value = drop (Suc (length key)) line
      in if CHR ''='' \<notin> set line then blkid_lines output rest
         else if key \<in> {''TYPE'', ''UUID'', ''LABEL'', ''USAGE'', ''VERSION'', ''PART_ENTRY_TYPE''}
         then blkid_lines (dict_set key (py_take 512 value) output) rest
         else blkid_lines output rest)"

definition parse_blkid_export :: "string \<Rightarrow> (string \<times> string) list" where
  "parse_blkid_export text = blkid_lines [] (py_take 128 (splitlines text))"

definition render_fields :: "partition_table_type \<Rightarrow> partition_resource \<Rightarrow> exc + string list" where
  "render_fields table_type p =
     (let base = [''start='' @ int_str (part_start_sector p), ''size='' @ int_str (part_size_sectors p)];
          type_field = (if truthy (part_type_code p) then [''type='' @ the (part_type_code p)] else []);
          uuid_field = (if truthy (part_partuuid p) \<and> table_type = GPT
                        then [''uuid='' @ the (part_partuuid p)] else []);
          tail_fields = (if truthy (part_attrs p) \<and> table_type = GPT
                         then [''attrs='' @ the (part_attrs p)] else [])
            @ (if part_bootable p \<and> table_type = MBR then [''bootable''] else [])
      in if truthy (part_name p) \<and> table_type = GPT then
           (if \<not> safe_name (the (part_name p))
            then Inl (PartitionToolError ''STORAGE_PARTITION_NAME_UNSAFE'')
            else Inr (base @ type_field @ uuid_field
                   @ [''name='' @ [CHR 0x22] @ the (part_name p) @ [CHR 0x22]] @ tail_fields))
         else Inr (base @ type_field @ uuid_field @ tail_fields))"

fun render_lines :: "partition_table_type \<Rightarrow> partition_resource list \<Rightarrow> exc + string list" where
  "render_lines table_type [] = Inr []"
| "render_lines table_type (p # ps) =
     bindE (render_fields table_type p) (\<lambda>fields.
     bindE (render_lines table_type ps) (\<lambda>rest.
     Inr (join '', '' fields # rest)))"

definition render_header :: "partition_table \<Rightarrow> string list" where
  "render_header t =
     [''label: '' @ (if pt_type t = GPT then ''gpt'' else ''dos''), ''unit: sectors'',
      ''sector-size: '' @ int_str (pt_sector_size t)]
     @ (if truthy (pt_guid t) then [''label-id: '' @ the (pt_guid t)] else [])
     @ (if pt_type t = GPT then [''first-lba: '' @ int_str (pt_first_usable_sector t),
          ''last-lba: '' @ int_str (pt_last_usable_sector t)] else [])
     @ ['''']"

definition render_sfdisk_script :: "partition_table \<Rightarrow> exc + string" where
  "render_sfdisk_script t =
     (if pt_type t = PT_UNKNOWN
      then Inl (PartitionToolError ''STORAGE_PARTITION_TABLE_TYPE_REQUIRED'')
      else bindE (render_lines (pt_type t) (sort_key part_number (pt_partitions t))) (\<lambda>lines.
        let script = join [CHR 0x0A] (render_header t @ lines) @ [CHR 0x0A]
        in if utf8_length script > MAX_INPUT_BYTES
           then Inl (PartitionToolError ''STORAGE_PARTITION_SCRIPT_TOO_LARGE'')
           else Inr script))"

end
