(* ===== verification/Storage_Planning.thy ===== *)
theory Storage_Planning
  imports Partition_Table
begin

text \<open>
  The planning functions of \<^verbatim>\<open>storage_operations/engine.py\<close> (module level, and the declarative request):
  where a new partition goes, what a resize or a move would produce, and the descriptive parts of a
  plan. Time and random identifiers come from a \<open>clock\<close>, which reads and advances the world.
\<close>

record 'w clock =
  clk_now :: "'w \<Rightarrow> int \<times> 'w"
  clk_uuid4 :: "'w \<Rightarrow> string \<times> 'w"

definition utc_now :: "'w clock \<Rightarrow> ('w, int) prog" where
  "utc_now K w = (let (t, w') = clk_now K w in (Inr t, w'))"

definition uuid4_hex :: "'w clock \<Rightarrow> ('w, string) prog" where
  "uuid4_hex K w = (let (u, w') = clk_uuid4 K w in (Inr u, w'))"

section \<open>The declarative request\<close>

datatype declared_operation = Op_create | Op_delete | Op_resize | Op_move

record declarative_request =
  rq_operation :: declared_operation
  rq_target_disk :: string
  rq_partition_number :: "int option"
  rq_size_bytes :: "int option"
  rq_new_size_bytes :: "int option"
  rq_new_start_sector :: "int option"
  rq_table_type :: "partition_table_type option"
  rq_partition_type :: "string option"
  rq_partition_name :: "string option"
  rq_free_region_index :: nat

definition operation_enum :: "declared_operation \<Rightarrow> storage_operation_type" where
  "operation_enum op = (case op of
     Op_create \<Rightarrow> CREATE | Op_delete \<Rightarrow> DELETE | Op_resize \<Rightarrow> RESIZE | Op_move \<Rightarrow> MOVE)"

definition declared_value :: "declared_operation \<Rightarrow> string" where
  "declared_value op = operation_value (operation_enum op)"

text \<open>The field bounds of the model and its \<open>operation_fields\<close> validator, in the validator's order.\<close>

definition operation_fields :: "declarative_request \<Rightarrow> exc + declarative_request" where
  "operation_fields r =
     (if rq_operation r = Op_create \<and> rq_size_bytes r = None
      then Inl (ValueError ''create requires size_bytes'')
      else if rq_operation r \<noteq> Op_create \<and> rq_partition_number r = None
      then Inl (ValueError (declared_value (rq_operation r) @ '' requires partition_number''))
      else if rq_operation r = Op_resize \<and> rq_new_size_bytes r = None
      then Inl (ValueError ''resize requires new_size_bytes'')
      else if rq_operation r = Op_move \<and> rq_new_start_sector r = None
      then Inl (ValueError ''move requires new_start_sector'')
      else Inr r)"

definition request_bounds :: "declarative_request \<Rightarrow> bool" where
  "request_bounds r \<longleftrightarrow>
     1 \<le> length (rq_target_disk r) \<and> length (rq_target_disk r) \<le> 4096 \<and>
     pred_option (\<lambda>n. 1 \<le> n) (rq_partition_number r) \<and>
     pred_option (\<lambda>n. 1048576 \<le> n) (rq_size_bytes r) \<and>
     pred_option (\<lambda>n. 1048576 \<le> n) (rq_new_size_bytes r) \<and>
     pred_option (\<lambda>n. 0 \<le> n) (rq_new_start_sector r) \<and>
     pred_option (\<lambda>s. length s \<le> 128) (rq_partition_type r) \<and>
     pred_option (\<lambda>s. length s \<le> 96) (rq_partition_name r) \<and>
     rq_free_region_index r \<le> 127"

section \<open>Geometry\<close>

definition align_up :: "int \<Rightarrow> int \<Rightarrow> int" where
  "align_up value alignment = ((value + alignment - 1) div alignment) * alignment"

definition overlaps :: "int \<Rightarrow> int \<Rightarrow> int \<Rightarrow> int \<Rightarrow> bool" where
  "overlaps a_start a_end b_start b_end \<longleftrightarrow> a_start \<le> b_end \<and> b_start \<le> a_end"

definition find_partition :: "partition_resource list \<Rightarrow> int option \<Rightarrow> exc + partition_resource" where
  "find_partition partitions number = (case number of
       None \<Rightarrow> Inl (StorageOperationEngineError ''STORAGE_PARTITION_REQUIRED'')
     | Some n \<Rightarrow> (case List.find (\<lambda>p. part_number p = n) partitions of
           Some p \<Rightarrow> Inr p
         | None \<Rightarrow> Inl (StorageOperationEngineError ''STORAGE_PARTITION_NOT_FOUND'')))"

definition partition_limit :: "partition_table_type \<Rightarrow> int" where
  "partition_limit table_type = (if table_type = GPT then 128 else 4)"

definition next_partition_number ::
  "partition_table_type \<Rightarrow> partition_resource list \<Rightarrow> exc + int" where
  "next_partition_number table_type partitions =
     (let used = set (map part_number partitions) in
      case List.find (\<lambda>n. n \<notin> used) [1..partition_limit table_type] of
        Some n \<Rightarrow> Inr n
      | None \<Rightarrow> Inl (StorageOperationEngineError
          (if table_type = GPT then ''STORAGE_GPT_PARTITION_LIMIT'' else ''STORAGE_MBR_PRIMARY_LIMIT'')))"

text \<open>The table that a create request starts from: the present one, or a new empty one.\<close>

definition create_base_table ::
  "codec \<Rightarrow> 'w clock \<Rightarrow> declarative_request \<Rightarrow> storage_layout \<Rightarrow> ('w, partition_table) prog" where
  "create_base_table C K r original =
     (let table = lay_partition_table original in
      if pt_type table = PT_UNKNOWN then
        (case rq_table_type r of
           Some GPT \<Rightarrow> bindM (uuid4_hex K) (\<lambda>u. liftE
             (build_empty_table C (disk_identity (lay_disk original)) GPT (py_upper (uuid_str u))))
         | Some MBR \<Rightarrow> bindM (uuid4_hex K) (\<lambda>u. liftE
             (build_empty_table C (disk_identity (lay_disk original)) MBR (''0x'' @ take 8 u)))
         | _ \<Rightarrow> raise (StorageOperationEngineError ''STORAGE_PARTITION_TABLE_TYPE_REQUIRED''))
      else if rq_table_type r \<noteq> None \<and> rq_table_type r \<noteq> Some (pt_type table)
      then raise (StorageOperationEngineError ''STORAGE_PARTITION_TABLE_TYPE_MISMATCH'')
      else ret table)"

definition engine_code_of_tool :: "exc \<Rightarrow> exc" where
  "engine_code_of_tool e = (case e of
     PartitionToolError code \<Rightarrow> StorageOperationEngineError code | _ \<Rightarrow> e)"

definition plan_create ::
  "codec \<Rightarrow> 'w clock \<Rightarrow> declarative_request \<Rightarrow> storage_layout
     \<Rightarrow> ('w, partition_table \<times> partition_resource) prog" where
  "plan_create C K r original =
     bindM (create_base_table C K r original) (\<lambda>table.
     if rq_free_region_index r \<ge> length (pt_free_regions table)
     then raise (StorageOperationEngineError ''STORAGE_FREE_REGION_NOT_FOUND'')
     else let region = pt_free_regions table ! rq_free_region_index r;
              sector_size = pt_sector_size table
     in case rq_size_bytes r of
          None \<Rightarrow> raise AssertionError
        | Some size_bytes \<Rightarrow>
     bindM (liftE (ceil_truediv size_bytes sector_size)) (\<lambda>size_sectors.
     let alignment = max 1 (1048576 div sector_size);
         start = align_up (fr_start_sector region) alignment;
         end = start + size_sectors - 1
     in if end > fr_end_sector region
        then raise (StorageOperationEngineError ''STORAGE_INSUFFICIENT_FREE_SPACE'')
        else
     bindM (liftE (next_partition_number (pt_type table) (pt_partitions table))) (\<lambda>number.
     bindM (if pt_type table = GPT then uuid4_hex K else ret []) (\<lambda>uuid.
     case new_partition_resource C uuid (disk_identity (lay_disk original)) (pt_type table) number
            start size_sectors sector_size (rq_partition_type r) (rq_partition_name r) of
       Inl e \<Rightarrow> raise (engine_code_of_tool e)
     | Inr created \<Rightarrow>
         ret (with_partitions C table (pt_partitions table @ [created]), created)))))"

definition replace_partition ::
  "partition_resource list \<Rightarrow> int \<Rightarrow> partition_resource \<Rightarrow> partition_resource list" where
  "replace_partition partitions number new =
     map (\<lambda>item. if part_number item = number then new else item) partitions"

definition conflicts :: "partition_resource list \<Rightarrow> partition_resource \<Rightarrow> int \<Rightarrow> int \<Rightarrow> bool" where
  "conflicts partitions target start end =
     list_ex (\<lambda>other. part_number other \<noteq> part_number target \<and>
        overlaps start end (part_start_sector other) (part_end_sector other)) partitions"

definition plan_resize ::
  "codec \<Rightarrow> declarative_request \<Rightarrow> storage_layout \<Rightarrow> partition_resource \<Rightarrow> exc + partition_table" where
  "plan_resize C r original target = (case rq_new_size_bytes r of
       None \<Rightarrow> Inl AssertionError
     | Some new_size_bytes \<Rightarrow>
       (let table = lay_partition_table original; sector_size = pt_sector_size table in
        bindE (ceil_truediv new_size_bytes sector_size) (\<lambda>size_sectors.
        if size_sectors \<le> 0 \<or> size_sectors = part_size_sectors target
        then Inl (StorageOperationEngineError ''STORAGE_RESIZE_SIZE_INVALID'')
        else let end = part_start_sector target + size_sectors - 1
        in if end > pt_last_usable_sector table
           then Inl (StorageOperationEngineError ''STORAGE_INSUFFICIENT_FREE_SPACE'')
           else if conflicts (pt_partitions table) target (part_start_sector target) end
           then Inl (StorageOperationEngineError ''STORAGE_PARTITION_CONFLICT'')
           else let resized = target\<lparr>part_end_sector := end, part_size_sectors := size_sectors,
                      part_size_bytes := size_sectors * sector_size\<rparr>
           in Inr (with_partitions C table
                (replace_partition (pt_partitions table) (part_number target) resized)))))"

definition plan_move ::
  "codec \<Rightarrow> declarative_request \<Rightarrow> storage_layout \<Rightarrow> partition_resource \<Rightarrow> exc + partition_table" where
  "plan_move C r original target = (case rq_new_start_sector r of
       None \<Rightarrow> Inl AssertionError
     | Some start \<Rightarrow>
       (let table = lay_partition_table original;
            end = start + part_size_sectors target - 1
        in if start < pt_first_usable_sector table \<or> end > pt_last_usable_sector table
           then Inl (StorageOperationEngineError ''STORAGE_MOVE_BOUNDARY_INVALID'')
           else if conflicts (pt_partitions table) target start end
           then Inl (StorageOperationEngineError ''STORAGE_PARTITION_CONFLICT'')
           else let moved = target\<lparr>part_start_sector := start, part_end_sector := end\<rparr>
           in Inr (with_partitions C table
                (replace_partition (pt_partitions table) (part_number target) moved))))"

text \<open>The delete branch of \<open>plan\<close>: the table without the target's number.\<close>

definition plan_delete :: "codec \<Rightarrow> partition_table \<Rightarrow> partition_resource \<Rightarrow> partition_table" where
  "plan_delete C table target =
     with_partitions C table
       (filter (\<lambda>item. part_number item \<noteq> part_number target) (pt_partitions table))"

section \<open>Descriptive parts of a plan\<close>

definition required_operations ::
  "declared_operation \<Rightarrow> int option \<Rightarrow> storage_primitive_operation list" where
  "required_operations operation number =
     (if operation \<in> {Op_create, Op_delete} then
        [\<lparr>op_id = ''storage.partition-table.write'', op_kind = Write_partition_table,
          op_description = ''Write the exact approved partition-table geometry with sfdisk.'',
          op_partition_number = number, op_mutates_target = True, op_enabled = True\<rparr>,
         \<lparr>op_id = ''storage.partition-table.reread'', op_kind = Reread_partition_table,
          op_description = ''Ask the kernel to reread the table for block/loop devices.'',
          op_partition_number = number, op_mutates_target = False, op_enabled = True\<rparr>,
         \<lparr>op_id = ''storage.partition-table.verify'', op_kind = Verify_partition_table,
          op_description = ''Reinspect identity and exact geometry after the write.'',
          op_partition_number = number, op_mutates_target = False, op_enabled = True\<rparr>]
      else
        [\<lparr>op_id = ''storage.partition.'' @ declared_value operation,
          op_kind = (if operation = Op_resize then Resize_partition else Move_partition),
          op_description = ''Architecture is modeled, but the executable adapter is disabled until ''
            @ ''filesystem-aware recovery exists.'',
          op_partition_number = number, op_mutates_target = True, op_enabled = False\<rparr>])"

definition verification_step :: "string \<Rightarrow> string \<Rightarrow> storage_verification_step" where
  "verification_step i d = \<lparr>vs_id = i, vs_description = d, vs_required = True\<rparr>"

definition verification_plan :: "storage_verification_step list" where
  "verification_plan =
     [verification_step ''storage.verify-device-identity''
        ''Compare current multi-attribute device fingerprint with the approved target.'',
      verification_step ''storage.verify-partition-table''
        ''Run sfdisk verification and compare table type/GUID.'',
      verification_step ''storage.verify-partition-geometry''
        ''Compare exact partition numbers, starts, sizes, types and PARTUUIDs.'',
      verification_step ''storage.verify-filesystem-impact''
        ''Confirm no filesystem mutation was required by this executable slice.'',
      verification_step ''storage.verify-boot-impact''
        ''Confirm the operation did not modify a detected boot dependency.'']"

definition affected_resources :: "storage_layout \<Rightarrow> partition_resource option \<Rightarrow> string list" where
  "affected_resources original target =
     (let disk = lay_disk original;
          values = [disk_id disk, disk_partition_table_id disk]
      in fromkeys (values @ (case target of
           None \<Rightarrow> []
         | Some t \<Rightarrow> [part_id t] @ part_mount_point_ids t @ part_operating_system_ids t
             @ part_volume_ids t
             @ (case part_filesystem_id t of None \<Rightarrow> [] | Some f \<Rightarrow> [f]))))"

definition filesystem_impact :: "data_impact_assessment \<Rightarrow> string" where
  "filesystem_impact d =
     (if di_filesystem_change_required d then ''filesystem_change_required_and_not_supported''
      else if di_level d \<in> {DI_CRITICAL, DI_UNKNOWN} then ''filesystem_or_data_impact_blocks_execution''
      else ''no_filesystem_content_change_planned'')"

end
