(* ===== verification/Partition_Geometry.thy ===== *)
theory Partition_Geometry
  imports Storage_Planning
begin

text \<open>
  Correctness of the partition arithmetic: the free regions of a table are exactly the usable sectors
  that no partition covers, and every planning function produces a well-formed table whose partitions
  do not overlap.
\<close>

section \<open>Sectors\<close>

definition covers :: "partition_resource \<Rightarrow> int \<Rightarrow> bool" where
  "covers p s \<longleftrightarrow> part_start_sector p \<le> s \<and> s \<le> part_end_sector p"

definition in_region :: "free_region \<Rightarrow> int \<Rightarrow> bool" where
  "in_region r s \<longleftrightarrow> fr_start_sector r \<le> s \<and> s \<le> fr_end_sector r"

lemma in_region_free [simp]: "in_region (free a b k) s \<longleftrightarrow> a \<le> s \<and> s \<le> b"
  by (simp add: in_region_def free_def Let_def)

lemma free_simps [simp]:
  "fr_start_sector (free a b k) = a" "fr_end_sector (free a b k) = b"
  "fr_size_sectors (free a b k) = max 0 (b - a + 1)"
  "fr_size_bytes (free a b k) = max 0 (b - a + 1) * k"
  by (simp_all add: free_def Let_def)

section \<open>Free regions\<close>

lemma loop_cursor:
  "free_regions_loop k cur ps = (out, c) \<Longrightarrow>
     cur \<le> c \<and> (\<forall>p\<in>set ps. part_end_sector p < c)"
proof (induction ps arbitrary: cur out)
  case (Cons p ps)
  obtain rest where "free_regions_loop k (max cur (part_end_sector p + 1)) ps = (rest, c)"
    using Cons.prems by (auto simp: Let_def split: prod.splits)
  from Cons.IH[OF this] show ?case by auto
qed simp

lemma loop_sound:
  assumes "free_regions_loop k cur ps = (out, c)" and "r \<in> set out" and "in_region r s"
    and "sorted (map part_start_sector ps)"
  shows "cur \<le> s \<and> (\<forall>p\<in>set ps. \<not> covers p s)"
  using assms
proof (induction ps arbitrary: cur out)
  case (Cons p ps)
  obtain rest where rest: "free_regions_loop k (max cur (part_end_sector p + 1)) ps = (rest, c)"
    and out: "out = (if part_start_sector p > cur then [free cur (part_start_sector p - 1) k] else []) @ rest"
    using Cons.prems(1) by (auto simp: Let_def split: prod.splits)
  show ?case
  proof (cases "r \<in> set rest")
    case True
    from Cons.IH[OF rest True Cons.prems(3)] Cons.prems(4) show ?thesis
      by (auto simp: covers_def)
  next
    case False
    with out Cons.prems(2) have "r = free cur (part_start_sector p - 1) k"
      by (auto split: if_splits)
    with Cons.prems(3,4) show ?thesis by (fastforce simp: covers_def)
  qed
qed simp

lemma loop_complete:
  assumes "free_regions_loop k cur ps = (out, c)" and "cur \<le> s" and "s < c"
    and "\<forall>p\<in>set ps. \<not> covers p s"
  shows "\<exists>r\<in>set out. in_region r s"
  using assms
proof (induction ps arbitrary: cur out)
  case (Cons p ps)
  obtain rest where rest: "free_regions_loop k (max cur (part_end_sector p + 1)) ps = (rest, c)"
    and out: "out = (if part_start_sector p > cur then [free cur (part_start_sector p - 1) k] else []) @ rest"
    using Cons.prems(1) by (auto simp: Let_def split: prod.splits)
  show ?case
  proof (cases "max cur (part_end_sector p + 1) \<le> s")
    case True
    from Cons.IH[OF rest True Cons.prems(3)] Cons.prems(4) out show ?thesis by auto
  next
    case False
    with Cons.prems(2,4) have "s < part_start_sector p" by (auto simp: covers_def)
    with Cons.prems(2) out show ?thesis by auto
  qed
qed simp

lemma free_regions_sound:
  assumes "r \<in> set (free_regions ps a b k)" and "in_region r s"
  shows "a \<le> s" and "\<And>p. p \<in> set ps \<Longrightarrow> \<not> covers p s"
proof -
  obtain out c where loop: "free_regions_loop k a (sort_key part_start_sector ps) = (out, c)"
    by fastforce
  have "a \<le> s \<and> (\<forall>p\<in>set ps. \<not> covers p s)"
  proof (cases "r \<in> set out")
    case True
    from loop_sound[OF loop True assms(2)] show ?thesis by simp
  next
    case False
    with assms loop have "c \<le> s"
      by (auto simp: free_regions_def split: if_splits)
    with loop_cursor[OF loop] show ?thesis by (auto simp: covers_def)
  qed
  then show "a \<le> s" and "\<And>p. p \<in> set ps \<Longrightarrow> \<not> covers p s" by auto
qed

lemma free_regions_complete:
  assumes "a \<le> s" and "s \<le> b" and "\<forall>p\<in>set ps. \<not> covers p s"
  shows "\<exists>r\<in>set (free_regions ps a b k). in_region r s"
proof -
  obtain out c where loop: "free_regions_loop k a (sort_key part_start_sector ps) = (out, c)"
    by fastforce
  show ?thesis
  proof (cases "s < c")
    case True
    from loop_complete[OF loop assms(1) True] assms(3) obtain r where "r \<in> set out" "in_region r s"
      by auto
    with assms(1,2) loop show ?thesis by (auto simp: free_regions_def)
  next
    case False
    with assms(1,2) loop show ?thesis by (auto simp: free_regions_def)
  qed
qed

lemma loop_regions_ordered:
  assumes "free_regions_loop k cur ps = (out, c)"
    and "\<forall>p\<in>set ps. part_start_sector p \<le> part_end_sector p + 1"
  shows "sorted_wrt (\<lambda>r q. fr_end_sector r < fr_start_sector q) out \<and>
    (\<forall>r\<in>set out. cur \<le> fr_start_sector r \<and> fr_start_sector r \<le> fr_end_sector r \<and> fr_end_sector r < c)"
  using assms
proof (induction ps arbitrary: cur out)
  case (Cons p ps)
  obtain rest where rest: "free_regions_loop k (max cur (part_end_sector p + 1)) ps = (rest, c)"
    and out: "out = (if part_start_sector p > cur then [free cur (part_start_sector p - 1) k] else []) @ rest"
    using Cons.prems(1) by (auto simp: Let_def split: prod.splits)
  have IH: "sorted_wrt (\<lambda>r q. fr_end_sector r < fr_start_sector q) rest"
    "\<forall>r\<in>set rest. max cur (part_end_sector p + 1) \<le> fr_start_sector r
       \<and> fr_start_sector r \<le> fr_end_sector r \<and> fr_end_sector r < c"
    using Cons.IH[OF rest] Cons.prems(2) by auto
  have "max cur (part_end_sector p + 1) \<le> c"
    using loop_cursor[OF rest] by simp
  with IH out Cons.prems(2) show ?case by (fastforce simp: sorted_wrt_append)
qed simp

lemma free_regions_ordered:
  assumes "\<forall>p\<in>set ps. part_start_sector p \<le> part_end_sector p + 1"
  shows "sorted_wrt (\<lambda>r q. fr_end_sector r < fr_start_sector q) (free_regions ps a b k)"
    and "\<forall>r\<in>set (free_regions ps a b k). fr_start_sector r \<le> fr_end_sector r"
proof -
  obtain out c where loop: "free_regions_loop k a (sort_key part_start_sector ps) = (out, c)"
    by fastforce
  have *: "sorted_wrt (\<lambda>r q. fr_end_sector r < fr_start_sector q) out \<and>
    (\<forall>r\<in>set out. a \<le> fr_start_sector r \<and> fr_start_sector r \<le> fr_end_sector r \<and> fr_end_sector r < c)"
    using loop_regions_ordered[OF loop] assms by simp
  then show "sorted_wrt (\<lambda>r q. fr_end_sector r < fr_start_sector q) (free_regions ps a b k)"
    using loop by (auto simp: free_regions_def sorted_wrt_append)
  show "\<forall>r\<in>set (free_regions ps a b k). fr_start_sector r \<le> fr_end_sector r"
    using * loop by (auto simp: free_regions_def)
qed

lemma loop_region_end:
  assumes "free_regions_loop k cur ps = (out, c)" and "\<forall>p\<in>set ps. part_start_sector p \<le> b + 1"
  shows "\<forall>r\<in>set out. fr_end_sector r \<le> b"
  using assms
proof (induction ps arbitrary: cur out)
  case (Cons p ps)
  then show ?case by (fastforce simp: Let_def split: prod.splits if_splits)
qed simp

lemma free_regions_bounded:
  assumes "\<forall>p\<in>set ps. part_start_sector p \<le> b + 1" and "r \<in> set (free_regions ps a b k)"
  shows "fr_end_sector r \<le> b"
proof -
  obtain out c where loop: "free_regions_loop k a (sort_key part_start_sector ps) = (out, c)"
    by fastforce
  with loop_region_end[OF loop, of b] assms show ?thesis
    by (auto simp: free_regions_def split: if_splits)
qed

lemma free_regions_start: "r \<in> set (free_regions ps a b k) \<Longrightarrow>
    \<forall>p\<in>set ps. part_start_sector p \<le> part_end_sector p + 1 \<Longrightarrow> a \<le> fr_start_sector r"
  using free_regions_sound(1)[of r ps a b k "fr_start_sector r"] free_regions_ordered(2)[of ps a b k]
  by (auto simp: in_region_def)

section \<open>Alignment and rounding\<close>

lemma align_up_ge: "0 < a \<Longrightarrow> v \<le> align_up v a"
proof -
  assume a: "0 < a"
  have "(v + a - 1) div a * a = (v + a - 1) - (v + a - 1) mod a"
    by (simp add: minus_mod_eq_div_mult)
  moreover have "(v + a - 1) mod a < a" using a by simp
  ultimately show ?thesis by (simp add: align_up_def)
qed

lemma align_up_lt: "0 < a \<Longrightarrow> align_up v a < v + a"
proof -
  assume a: "0 < a"
  have "(v + a - 1) div a * a = (v + a - 1) - (v + a - 1) mod a"
    by (simp add: minus_mod_eq_div_mult)
  moreover have "0 \<le> (v + a - 1) mod a" using a by simp
  ultimately show ?thesis by (simp add: align_up_def)
qed

lemma align_up_dvd: "a dvd align_up v a"
  by (simp add: align_up_def)

lemma ceil_div_bounds: "0 < b \<Longrightarrow> a \<le> ceil_div a b * b \<and> ceil_div a b * b < a + b"
  using align_up_ge[of b a] align_up_lt[of b a] by (simp add: ceil_div_def align_up_def)

lemma bit_length_bounds: "0 < n \<Longrightarrow> 2 ^ (bit_length n - 1) \<le> n \<and> n < 2 ^ bit_length n"
proof (induction n rule: bit_length.induct)
  case (1 n)
  show ?case
  proof (cases "n = 1")
    case True
    then show ?thesis by (simp add: bit_length.simps)
  next
    case False
    then have pos: "0 < n div 2" using 1(2) by auto
    have len: "bit_length n = Suc (bit_length (n div 2))"
      using 1(2) by (simp add: bit_length.simps[of n])
    have "0 < bit_length (n div 2)" using pos by (simp add: bit_length.simps[of "n div 2"])
    then obtain m where m: "bit_length (n div 2) = Suc m" by (cases "bit_length (n div 2)") auto
    have "2 ^ m \<le> n div 2 \<and> n div 2 < 2 ^ Suc m"
      using 1(1) 1(2) pos m by simp
    then show ?thesis unfolding len m by (auto simp: algebra_simps)
  qed
qed

lemma round_half_even_exact: "0 < d \<Longrightarrow> d dvd n \<Longrightarrow> round_half_even n d = n div d"
  by (auto simp: round_half_even_def Let_def)

text \<open>
  The float quotient is exact, and \<open>math.ceil\<close> the true ceiling, when the sector size is a power of
  two and the size is below \<open>2^53\<close> bytes (8 PiB).
\<close>

lemma ceil_truediv_exact:
  assumes "0 < a" and "a < 2 ^ 53" and "2 ^ j \<le> a"
  shows "ceil_truediv a (2 ^ j) = Inr (ceil_div a (2 ^ j))"
proof -
  let ?q = "a div 2 ^ j"
  define e where "e = bit_length ?q - 1"
  have q: "0 < ?q" using assms(3) by (simp add: pos_imp_zdiv_pos_iff)
  have "2 ^ e \<le> ?q" using bit_length_bounds[OF q] by (simp add: e_def)
  then have "2 ^ e * 2 ^ j \<le> a div 2 ^ j * 2 ^ j" by (simp add: mult_right_mono)
  also have "\<dots> \<le> a" by (simp add: minus_mod_eq_div_mult[symmetric])
  finally have "(2::int) ^ (e + j) < 2 ^ 53" using assms(2) by (simp add: power_add)
  then have ej: "e + j \<le> 52" using power_strict_increasing_iff[of "2::int" "e + j" 53] by simp
  define m where "m = 52 - (e + j)"
  have k: "52 - e = m + j" using ej by (simp add: m_def)
  have scaled: "a * 2 ^ (52 - e) = (a * 2 ^ m) * 2 ^ j" by (simp add: k power_add)
  have "round_half_even (a * 2 ^ (52 - e)) (2 ^ j) = a * 2 ^ m"
    unfolding scaled by (subst round_half_even_exact) simp_all
  moreover have "ceil_div (a * 2 ^ m) (2 ^ (52 - e)) = ceil_div a (2 ^ j)"
  proof -
    have "(a * 2 ^ m + 2 ^ (m + j) - 1) div 2 ^ (m + j) = (a + 2 ^ j - 1) div 2 ^ j"
    proof -
      have "(a * 2 ^ m + 2 ^ (m + j) - 1) div 2 ^ (m + j)
          = ((a + 2 ^ j) * 2 ^ m - 1) div 2 ^ m div 2 ^ j"
        by (subst (2) power_add, subst zdiv_zmult2_eq) (simp_all add: power_add algebra_simps)
      also have "((a + 2 ^ j) * 2 ^ m - 1) div 2 ^ m = (a + 2 ^ j) + (- 1) div 2 ^ m"
        using div_mult_self3[of "2 ^ m" "a + 2 ^ j" "- 1 :: int"] by (simp add: algebra_simps)
      also have "(- 1 :: int) div 2 ^ m = - 1" by (simp add: div_eq_minus1)
      finally show ?thesis by simp
    qed
    then show ?thesis by (simp add: ceil_div_def k)
  qed
  ultimately show ?thesis
    unfolding ceil_truediv_def Let_def e_def[symmetric] using ej by simp
qed

section \<open>Well-formed tables\<close>

definition part_wf :: "int \<Rightarrow> partition_resource \<Rightarrow> bool" where
  "part_wf k p \<longleftrightarrow> 1 \<le> part_number p \<and> 0 < part_size_sectors p \<and>
     part_end_sector p = part_start_sector p + part_size_sectors p - 1 \<and>
     part_size_bytes p = part_size_sectors p * k"

definition disjoint_parts :: "partition_resource list \<Rightarrow> bool" where
  "disjoint_parts ps \<longleftrightarrow> (\<forall>p\<in>set ps. \<forall>q\<in>set ps. part_number p \<noteq> part_number q \<longrightarrow>
     \<not> overlaps (part_start_sector p) (part_end_sector p) (part_start_sector q) (part_end_sector q))"

definition parts_wf :: "partition_table \<Rightarrow> partition_resource list \<Rightarrow> bool" where
  "parts_wf t ps \<longleftrightarrow>
     list_all (part_wf (pt_sector_size t)) ps \<and> distinct (map part_number ps) \<and> disjoint_parts ps \<and>
     list_all (\<lambda>p. pt_first_usable_sector t \<le> part_start_sector p \<and>
                   part_end_sector p \<le> pt_last_usable_sector t) ps"

definition table_wf :: "codec \<Rightarrow> partition_table \<Rightarrow> bool" where
  "table_wf C t \<longleftrightarrow>
     0 < pt_sector_size t \<and> parts_wf t (pt_partitions t) \<and>
     sort_partitions (pt_partitions t) = pt_partitions t \<and>
     pt_free_regions t = free_regions (pt_partitions t) (pt_first_usable_sector t)
       (pt_last_usable_sector t) (pt_sector_size t) \<and>
     pt_fingerprint_sha256 t = partition_table_fingerprint C t"

lemma sort_partitions_simps [simp]:
  "set (sort_partitions ps) = set ps" "mset (sort_partitions ps) = mset ps"
  "sort_partitions (sort_partitions ps) = sort_partitions ps"
  by (simp_all add: sort_partitions_def sort_key_id_if_sorted)

lemma distinct_numbers_sort [simp]:
  "distinct (map part_number (sort_partitions ps)) = distinct (map part_number ps)"
  by (metis mset_eq_imp_distinct_iff mset_map sort_partitions_simps(2))

lemma with_partitions_simps [simp]:
  "pt_type (with_partitions C t ps) = pt_type t"
  "pt_guid (with_partitions C t ps) = pt_guid t"
  "pt_sector_size (with_partitions C t ps) = pt_sector_size t"
  "pt_first_usable_sector (with_partitions C t ps) = pt_first_usable_sector t"
  "pt_last_usable_sector (with_partitions C t ps) = pt_last_usable_sector t"
  "pt_total_sectors (with_partitions C t ps) = pt_total_sectors t"
  "pt_partitions (with_partitions C t ps) = sort_partitions ps"
  "pt_free_regions (with_partitions C t ps) = free_regions (sort_partitions ps)
     (pt_first_usable_sector t) (pt_last_usable_sector t) (pt_sector_size t)"
  by (simp_all add: with_partitions_def Let_def)

lemma with_partitions_sealed:
  "pt_fingerprint_sha256 (with_partitions C t ps)
     = partition_table_fingerprint C (with_partitions C t ps)"
  by (simp add: with_partitions_def Let_def seal_table_def)

lemma parts_wf_sort: "parts_wf t ps \<Longrightarrow> parts_wf (with_partitions C t qs) (sort_partitions ps)"
  by (simp add: parts_wf_def disjoint_parts_def list_all_iff)

lemma with_partitions_wf:
  "0 < pt_sector_size t \<Longrightarrow> parts_wf t ps \<Longrightarrow> table_wf C (with_partitions C t ps)"
  using parts_wf_sort[of t ps C ps] with_partitions_sealed[of C t ps] by (simp add: table_wf_def)

lemma table_wf_parts: "table_wf C t \<Longrightarrow> parts_wf t (pt_partitions t)"
  and table_wf_sector: "table_wf C t \<Longrightarrow> 0 < pt_sector_size t"
  by (simp_all add: table_wf_def)

lemma part_wf_start_le: "part_wf k p \<Longrightarrow> part_start_sector p \<le> part_end_sector p"
  by (simp add: part_wf_def)

lemma disjoint_not_covers:
  "\<not> overlaps (part_start_sector p) (part_end_sector p) (part_start_sector q) (part_end_sector q)
   \<Longrightarrow> covers p s \<Longrightarrow> \<not> covers q s"
  by (auto simp: overlaps_def covers_def)

lemma overlapsI:
  assumes "\<And>s. covers p s \<Longrightarrow> \<not> covers q s"
    and "part_start_sector p \<le> part_end_sector p" and "part_start_sector q \<le> part_end_sector q"
  shows "\<not> overlaps (part_start_sector p) (part_end_sector p) (part_start_sector q) (part_end_sector q)"
proof
  assume *: "overlaps (part_start_sector p) (part_end_sector p) (part_start_sector q) (part_end_sector q)"
  have "\<exists>s. covers p s \<and> covers q s"
  proof (cases "part_start_sector p \<le> part_start_sector q")
    case True
    with * assms(3) show ?thesis
      by (intro exI[of _ "part_start_sector q"]) (simp add: overlaps_def covers_def)
  next
    case False
    with * assms(2) show ?thesis
      by (intro exI[of _ "part_start_sector p"]) (simp add: overlaps_def covers_def)
  qed
  with assms(1) show False by blast
qed

section \<open>Deleting\<close>

lemma parts_wf_filter: "parts_wf t ps \<Longrightarrow> parts_wf t (filter P ps)"
  by (auto simp: parts_wf_def disjoint_parts_def list_all_iff distinct_map inj_on_def)

lemma plan_delete_wf: "table_wf C t \<Longrightarrow> table_wf C (plan_delete C t target)"
  unfolding plan_delete_def
  by (intro with_partitions_wf parts_wf_filter table_wf_parts table_wf_sector)

section \<open>Creating\<close>

lemma next_partition_number_Inr:
  assumes "next_partition_number tt ps = Inr n"
  shows "1 \<le> n" and "n \<le> partition_limit tt" and "n \<notin> part_number ` set ps"
    and "\<And>m. 1 \<le> m \<Longrightarrow> m < n \<Longrightarrow> m \<in> part_number ` set ps"
proof -
  let ?xs = "[1..partition_limit tt]"
  have "List.find (\<lambda>n. n \<notin> set (map part_number ps)) ?xs = Some n"
    using assms by (simp add: next_partition_number_def Let_def split: option.splits)
  then obtain i where i: "i < length ?xs" "?xs ! i \<notin> part_number ` set ps" "n = ?xs ! i"
    and least: "\<forall>j<i. \<not> ?xs ! j \<notin> part_number ` set ps"
    by (auto simp: find_Some_iff)
  have nth: "?xs ! j = 1 + int j" if "j \<le> i" for j
    using i(1) that by (simp add: nth_upto)
  from i nth[of i] show "1 \<le> n" "n \<le> partition_limit tt" "n \<notin> part_number ` set ps" by auto
  fix m assume m: "1 \<le> m" "m < n"
  with i(3) nth[of i] have "nat (m - 1) < i" by simp
  then have "?xs ! nat (m - 1) \<in> part_number ` set ps" using least by blast
  with nth[of "nat (m - 1)"] m \<open>nat (m - 1) < i\<close> show "m \<in> part_number ` set ps" by simp
qed

lemma new_partition_resource_Inr:
  assumes "new_partition_resource C u d tt n s len k ty nm = Inr p"
  shows "part_number p = n" "part_start_sector p = s" "part_end_sector p = s + len - 1"
    "part_size_sectors p = len" "part_size_bytes p = len * k" "part_bootable p = False"
    "part_name p = nm" "part_attrs p = None"
    "part_type_code p = Some (if truthy ty then the ty else default_partition_type tt)"
    "part_partuuid p = (if tt = GPT then Some (py_upper (uuid_str u)) else None)"
    "nm = None \<or> safe_name (the nm)"
  using assms by (auto simp: new_partition_resource_def Let_def split: if_splits)

lemma plan_create_Inr:
  assumes "plan_create C K r l w = (Inr (t', p), w')"
  shows "\<exists>t w1 b n number u.
    create_base_table C K r l w = (Inr t, w1) \<and>
    rq_free_region_index r < length (pt_free_regions t) \<and>
    rq_size_bytes r = Some b \<and>
    ceil_truediv b (pt_sector_size t) = Inr n \<and>
    align_up (fr_start_sector (pt_free_regions t ! rq_free_region_index r))
        (max 1 (1048576 div pt_sector_size t)) + n - 1
      \<le> fr_end_sector (pt_free_regions t ! rq_free_region_index r) \<and>
    next_partition_number (pt_type t) (pt_partitions t) = Inr number \<and>
    new_partition_resource C u (disk_identity (lay_disk l)) (pt_type t) number
       (align_up (fr_start_sector (pt_free_regions t ! rq_free_region_index r))
          (max 1 (1048576 div pt_sector_size t))) n
       (pt_sector_size t) (rq_partition_type r) (rq_partition_name r) = Inr p \<and>
    t' = with_partitions C t (pt_partitions t @ [p])"
proof -
  obtain t w1 where base: "create_base_table C K r l w = (Inr t, w1)"
    using assms by (auto simp: plan_create_def prog_simps)
  have idx: "rq_free_region_index r < length (pt_free_regions t)"
    using assms base by (auto simp: plan_create_def prog_simps split: if_splits)
  obtain b where b: "rq_size_bytes r = Some b"
    using assms base idx by (auto simp: plan_create_def prog_simps Let_def split: option.splits)
  obtain n where n: "ceil_truediv b (pt_sector_size t) = Inr n"
    using assms base idx b by (auto simp: plan_create_def prog_simps Let_def)
  obtain number where number: "next_partition_number (pt_type t) (pt_partitions t) = Inr number"
    using assms base idx b n by (auto simp: plan_create_def prog_simps Let_def split: if_splits)
  show ?thesis
    using assms base idx b n number
    by (auto simp: plan_create_def prog_simps Let_def not_less)
qed

text \<open>A built table is empty and well-formed; its free region is its whole usable range.\<close>

lemma build_empty_table_wf:
  assumes "build_empty_table C d tt guid = Inr t" and "0 < dev_logical_sector_size d"
  shows "table_wf C t" and "pt_partitions t = []"
  using assms
  by (auto simp: build_empty_table_def Let_def table_wf_def parts_wf_def disjoint_parts_def
      sort_partitions_def split: partition_table_type.splits)

lemma create_base_table_wf:
  assumes "create_base_table C K r l w = (Inr t, w')"
    and "table_wf C (lay_partition_table l)"
    and "0 < dev_logical_sector_size (disk_identity (lay_disk l))"
  shows "table_wf C t"
    and "pt_type (lay_partition_table l) \<noteq> PT_UNKNOWN \<Longrightarrow> t = lay_partition_table l"
  using assms build_empty_table_wf(1)
  by (auto simp: create_base_table_def Let_def prog_simps split: if_splits option.split_asm
      partition_table_type.split_asm) (meson partition_table_type.exhaust)

lemma create_lies_in_region:
  assumes "plan_create C K r l w = (Inr (t', p), w')"
    and wf: "table_wf C (lay_partition_table l)"
    and sec: "0 < dev_logical_sector_size (disk_identity (lay_disk l))"
  obtains t region where "create_base_table C K r l w = (Inr t, snd (create_base_table C K r l w))"
    "table_wf C t" "t' = with_partitions C t (pt_partitions t @ [p])"
    "region \<in> set (pt_free_regions t)"
    "fr_start_sector region \<le> part_start_sector p" "part_end_sector p \<le> fr_end_sector region"
    "max 1 (1048576 div pt_sector_size t) dvd part_start_sector p"
proof -
  let ?region = "\<lambda>t. pt_free_regions t ! rq_free_region_index r"
  obtain t w1 b n number u where
    base: "create_base_table C K r l w = (Inr t, w1)" and
    idx: "rq_free_region_index r < length (pt_free_regions t)" and
    fits: "align_up (fr_start_sector (?region t)) (max 1 (1048576 div pt_sector_size t)) + n - 1
       \<le> fr_end_sector (?region t)" and
    new: "new_partition_resource C u (disk_identity (lay_disk l)) (pt_type t) number
       (align_up (fr_start_sector (?region t)) (max 1 (1048576 div pt_sector_size t))) n
       (pt_sector_size t) (rq_partition_type r) (rq_partition_name r) = Inr p" and
    t': "t' = with_partitions C t (pt_partitions t @ [p])"
    using plan_create_Inr[OF assms(1)] by metis
  show thesis
  proof (rule that)
    show "create_base_table C K r l w = (Inr t, snd (create_base_table C K r l w))"
      using base by simp
    show "table_wf C t" by (rule create_base_table_wf(1)[OF base wf sec])
    show "?region t \<in> set (pt_free_regions t)" using idx by simp
    show "fr_start_sector (?region t) \<le> part_start_sector p"
      using new_partition_resource_Inr(2)[OF new] align_up_ge by simp
    show "part_end_sector p \<le> fr_end_sector (?region t)"
      using new_partition_resource_Inr(3)[OF new] fits by simp
    show "max 1 (1048576 div pt_sector_size t) dvd part_start_sector p"
      using new_partition_resource_Inr(2)[OF new] align_up_dvd by simp
  qed (rule t')
qed

lemma create_parts_wf:
  assumes "plan_create C K r l w = (Inr (t', p), w')"
    and "table_wf C (lay_partition_table l)"
    and "0 < dev_logical_sector_size (disk_identity (lay_disk l))"
    and "0 < part_size_sectors p"
  shows "table_wf C t'"
proof -
  obtain t region where wf: "table_wf C t" and t': "t' = with_partitions C t (pt_partitions t @ [p])"
    and reg: "region \<in> set (pt_free_regions t)" "fr_start_sector region \<le> part_start_sector p"
      "part_end_sector p \<le> fr_end_sector region"
    and base: "create_base_table C K r l w = (Inr t, snd (create_base_table C K r l w))"
    using create_lies_in_region[OF assms(1-3)] by metis
  obtain n number u start where
    new: "new_partition_resource C u (disk_identity (lay_disk l)) (pt_type t) number start n
       (pt_sector_size t) (rq_partition_type r) (rq_partition_name r) = Inr p"
    and num: "next_partition_number (pt_type t) (pt_partitions t) = Inr number"
    using plan_create_Inr[OF assms(1)] base by force
  note fields = new_partition_resource_Inr[OF new] and number = next_partition_number_Inr[OF num]
  have old: "parts_wf t (pt_partitions t)" by (rule table_wf_parts[OF wf])
  have regions: "pt_free_regions t = free_regions (pt_partitions t) (pt_first_usable_sector t)
       (pt_last_usable_sector t) (pt_sector_size t)"
    using wf by (simp add: table_wf_def)
  have le: "part_start_sector p \<le> part_end_sector p" using fields assms(4) by simp
  have starts: "\<forall>q\<in>set (pt_partitions t). part_start_sector q \<le> part_end_sector q"
    using old by (auto simp: parts_wf_def list_all_iff part_wf_def)
  have inside: "in_region region s" if "covers p s" for s
    using that reg(2,3) by (simp add: covers_def in_region_def)
  have free: "\<not> overlaps (part_start_sector p) (part_end_sector p) (part_start_sector q) (part_end_sector q)"
    if "q \<in> set (pt_partitions t)" for q
    by (rule overlapsI) (use free_regions_sound(2) reg(1) regions inside that le starts in auto)
  have "pt_first_usable_sector t \<le> part_start_sector p"
    using free_regions_sound(1) reg(1) inside[of "part_start_sector p"] le
    by (auto simp: regions covers_def)
  moreover have "part_end_sector p \<le> pt_last_usable_sector t"
    using free_regions_bounded[of "pt_partitions t" "pt_last_usable_sector t" region] reg old starts
    by (fastforce simp: regions parts_wf_def list_all_iff)
  moreover have "part_wf (pt_sector_size t) p"
    using fields number(1) assms(4) by (simp add: part_wf_def)
  ultimately have "parts_wf t (pt_partitions t @ [p])"
    using old free number(3) fields(1)
    by (auto simp: parts_wf_def disjoint_parts_def overlaps_def)
  with wf t' show ?thesis by (auto intro: with_partitions_wf table_wf_sector)
qed

lemma create_base_table_sector:
  assumes "create_base_table C K r l w = (Inr t, w')"
    and "pt_sector_size (lay_partition_table l) = k"
    and "dev_logical_sector_size (disk_identity (lay_disk l)) = k"
  shows "pt_sector_size t = k"
    and "pt_partitions t = (if pt_type (lay_partition_table l) = PT_UNKNOWN then []
           else pt_partitions (lay_partition_table l))"
  using assms
  by (cases "the (rq_table_type r)"; force simp: create_base_table_def Let_def prog_simps
      build_empty_table_def split: if_splits option.splits)+

lemma create_allocates:
  assumes plan: "plan_create C K r l w = (Inr (t', p), w')"
    and wf: "table_wf C (lay_partition_table l)"
    and sector: "pt_sector_size (lay_partition_table l) = 2 ^ j"
      "dev_logical_sector_size (disk_identity (lay_disk l)) = 2 ^ j"
    and bytes: "rq_size_bytes r = Some b" "2 ^ j \<le> b" "b < 2 ^ 53"
    and old: "old = (if pt_type (lay_partition_table l) = PT_UNKNOWN then []
           else pt_partitions (lay_partition_table l))"
  shows "table_wf C t' \<and>
     mset (pt_partitions t') = add_mset p (mset old) \<and>
     b \<le> part_size_bytes p \<and> part_size_bytes p < b + 2 ^ j \<and>
     max 1 (1048576 div 2 ^ j) dvd part_start_sector p \<and>
     part_number p \<notin> part_number ` set old \<and>
     (\<forall>m. 1 \<le> m \<longrightarrow> m < part_number p \<longrightarrow> m \<in> part_number ` set old)"
proof -
  let ?align = "\<lambda>t. align_up (fr_start_sector (pt_free_regions t ! rq_free_region_index r))
       (max 1 (1048576 div pt_sector_size t))"
  obtain t w1 b' n number u where
    base: "create_base_table C K r l w = (Inr t, w1)" and
    b': "rq_size_bytes r = Some b'" and
    n: "ceil_truediv b' (pt_sector_size t) = Inr n" and
    num: "next_partition_number (pt_type t) (pt_partitions t) = Inr number" and
    new: "new_partition_resource C u (disk_identity (lay_disk l)) (pt_type t) number (?align t) n
       (pt_sector_size t) (rq_partition_type r) (rq_partition_name r) = Inr p" and
    t': "t' = with_partitions C t (pt_partitions t @ [p])"
    using plan_create_Inr[OF plan] by metis
  note k = create_base_table_sector[OF base sector]
  note fields = new_partition_resource_Inr[OF new] and number = next_partition_number_Inr[OF num]
  have "0 < b" using bytes(2) by (smt (verit) zero_less_power)
  then have "n = ceil_div b (2 ^ j)"
    using n b' bytes ceil_truediv_exact[of b j] by (simp add: k)
  then have size: "b \<le> n * 2 ^ j" "n * 2 ^ j < b + 2 ^ j"
    using ceil_div_bounds[of "2 ^ j" b] by simp_all
  with \<open>0 < b\<close> have "0 < n" by (smt (verit) mult_nonneg_nonpos2 zero_le_power)
  then have "table_wf C t'"
    using create_parts_wf[OF plan wf] sector(2) fields(4) by simp
  moreover have "mset (pt_partitions t') = add_mset p (mset old)"
    by (simp add: t' k old)
  moreover have "max 1 (1048576 div 2 ^ j) dvd part_start_sector p"
    using align_up_dvd fields(2) by (simp add: k)
  ultimately show ?thesis
    using size fields(1,5) number(3,4) by (simp add: k old)
qed

lemma create_allocates_wf:
  assumes "plan_create C K r l w = (Inr (t', p), w')" and "table_wf C (lay_partition_table l)"
    and "pt_sector_size (lay_partition_table l) = 2 ^ j"
    and "dev_logical_sector_size (disk_identity (lay_disk l)) = 2 ^ j"
    and "rq_size_bytes r = Some b" and "2 ^ j \<le> b" and "b < 2 ^ 53"
  shows "table_wf C t'"
  using create_allocates[OF assms refl] by blast

section \<open>Resizing and moving\<close>

lemma find_partition_Inr:
  "find_partition ps n = Inr p \<Longrightarrow> p \<in> set ps \<and> n = Some (part_number p)"
  by (auto simp: find_partition_def find_Some_iff split: option.splits)

lemma conflicts_iff:
  "conflicts ps target a b \<longleftrightarrow> (\<exists>q\<in>set ps. part_number q \<noteq> part_number target \<and>
     overlaps a b (part_start_sector q) (part_end_sector q))"
  by (auto simp: conflicts_def list_ex_iff)

lemma overlaps_sym: "overlaps a b c d = overlaps c d a b"
  by (auto simp: overlaps_def)

lemma parts_wf_replace:
  assumes "parts_wf t ps" and "part_number new = part_number target"
    and "part_wf (pt_sector_size t) new"
    and "pt_first_usable_sector t \<le> part_start_sector new"
    and "part_end_sector new \<le> pt_last_usable_sector t"
    and "\<not> conflicts ps target (part_start_sector new) (part_end_sector new)"
  shows "parts_wf t (replace_partition ps (part_number target) new)"
proof -
  have numbers: "map part_number (replace_partition ps (part_number target) new) = map part_number ps"
    using assms(2) by (auto simp: replace_partition_def)
  have elem: "q = new \<or> q \<in> set ps \<and> part_number q \<noteq> part_number target"
    if "q \<in> set (replace_partition ps (part_number target) new)" for q
    using that by (auto simp: replace_partition_def split: if_splits)
  have "disjoint_parts (replace_partition ps (part_number target) new)"
    unfolding disjoint_parts_def
  proof (intro ballI impI)
    fix p q
    assume pq: "p \<in> set (replace_partition ps (part_number target) new)"
      "q \<in> set (replace_partition ps (part_number target) new)" "part_number p \<noteq> part_number q"
    consider "p = new" "q \<in> set ps" "part_number q \<noteq> part_number target"
      | "q = new" "p \<in> set ps" "part_number p \<noteq> part_number target"
      | "p \<in> set ps" "q \<in> set ps"
      using elem[OF pq(1)] elem[OF pq(2)] pq(3) by auto
    then show "\<not> overlaps (part_start_sector p) (part_end_sector p) (part_start_sector q) (part_end_sector q)"
    proof cases
      case 1
      then show ?thesis using assms(6) by (auto simp: conflicts_iff)
    next
      case 2
      then show ?thesis using assms(6) by (auto simp: conflicts_iff overlaps_sym)
    next
      case 3
      then show ?thesis using assms(1) pq(3) by (auto simp: parts_wf_def disjoint_parts_def)
    qed
  qed
  moreover have "\<forall>q\<in>set (replace_partition ps (part_number target) new).
      part_wf (pt_sector_size t) q \<and> pt_first_usable_sector t \<le> part_start_sector q \<and>
      part_end_sector q \<le> pt_last_usable_sector t"
    using elem assms(1,3,4,5) by (auto simp: parts_wf_def list_all_iff)
  ultimately show ?thesis
    using assms(1) numbers by (auto simp: parts_wf_def list_all_iff)
qed

lemma plan_resize_wf:
  assumes "plan_resize C r l target = Inr t'" and "table_wf C (lay_partition_table l)"
    and "target \<in> set (pt_partitions (lay_partition_table l))"
  shows "table_wf C t'"
proof -
  let ?t = "lay_partition_table l"
  obtain n where n: "0 < n" "part_start_sector target + n - 1 \<le> pt_last_usable_sector ?t"
    "\<not> conflicts (pt_partitions ?t) target (part_start_sector target) (part_start_sector target + n - 1)"
    and t': "t' = with_partitions C ?t (replace_partition (pt_partitions ?t) (part_number target)
      (target\<lparr>part_end_sector := part_start_sector target + n - 1, part_size_sectors := n,
              part_size_bytes := n * pt_sector_size ?t\<rparr>))"
    using assms(1)
    by (auto simp: plan_resize_def Let_def prog_simps not_le not_less split: option.splits if_splits)
  have "part_wf (pt_sector_size ?t) target \<and> pt_first_usable_sector ?t \<le> part_start_sector target"
    using table_wf_parts[OF assms(2)] assms(3) by (auto simp: parts_wf_def list_all_iff)
  then have "parts_wf ?t (replace_partition (pt_partitions ?t) (part_number target)
      (target\<lparr>part_end_sector := part_start_sector target + n - 1, part_size_sectors := n,
              part_size_bytes := n * pt_sector_size ?t\<rparr>))"
    using n by (intro parts_wf_replace table_wf_parts[OF assms(2)]) (auto simp: part_wf_def)
  with t' show ?thesis
    using with_partitions_wf[OF table_wf_sector[OF assms(2)]] by simp
qed

lemma plan_move_wf:
  assumes "plan_move C r l target = Inr t'" and "table_wf C (lay_partition_table l)"
    and "target \<in> set (pt_partitions (lay_partition_table l))"
  shows "table_wf C t'"
proof -
  let ?t = "lay_partition_table l"
  obtain s where s: "pt_first_usable_sector ?t \<le> s"
    "s + part_size_sectors target - 1 \<le> pt_last_usable_sector ?t"
    "\<not> conflicts (pt_partitions ?t) target s (s + part_size_sectors target - 1)"
    and t': "t' = with_partitions C ?t (replace_partition (pt_partitions ?t) (part_number target)
      (target\<lparr>part_start_sector := s, part_end_sector := s + part_size_sectors target - 1\<rparr>))"
    using assms(1)
    by (auto simp: plan_move_def Let_def not_le not_less split: option.splits if_splits)
  have "part_wf (pt_sector_size ?t) target"
    using table_wf_parts[OF assms(2)] assms(3) by (auto simp: parts_wf_def list_all_iff)
  then have "parts_wf ?t (replace_partition (pt_partitions ?t) (part_number target)
      (target\<lparr>part_start_sector := s, part_end_sector := s + part_size_sectors target - 1\<rparr>))"
    using s by (intro parts_wf_replace table_wf_parts[OF assms(2)]) (auto simp: part_wf_def)
  with t' show ?thesis
    using with_partitions_wf[OF table_wf_sector[OF assms(2)]] by simp
qed

end
