(* ===== verification/Storage_Policy.thy ===== *)
theory Storage_Policy
  imports Storage_Models
begin

text \<open>
  The safety policy of \<^verbatim>\<open>storage_operations/policy.py\<close>: the write gate that keeps physical disks
  read-only, and the assessments of data and boot impact. \<open>Path.resolve\<close> follows symbolic links of
  the file system, so it is a function the gate carries: it maps a path to the components of the
  resolved path.
\<close>

section \<open>The write gate\<close>

record write_gate =
  wg_test_mode :: bool
  wg_controlled_image_roots :: "string list list"
  wg_resolve :: "string \<Rightarrow> string list"

definition under_controlled_root :: "(string \<Rightarrow> string list) \<Rightarrow> string \<Rightarrow> string list list \<Rightarrow> bool" where
  "under_controlled_root resolve value roots =
     list_ex (\<lambda>root. take (length root) (resolve value) = root) roots"

definition gate_decision :: "bool \<Rightarrow> target_class \<Rightarrow> string \<Rightarrow> storage_write_gate_decision" where
  "gate_decision allowed cls reason = \<lparr>gate_allowed = allowed, gate_target_class = cls,
     gate_reason = reason, gate_physical_disk_writes_enabled = False\<rparr>"

definition evaluate :: "write_gate \<Rightarrow> storage_device_identity \<Rightarrow> storage_write_gate_decision" where
  "evaluate g d = (case dev_device_kind d of
       Regular_file \<Rightarrow>
         (if wg_test_mode g then gate_decision True Test_image
            ''Regular-file image explicitly allowed by the test environment.''
          else if under_controlled_root (wg_resolve g) (dev_canonical_path d) (wg_controlled_image_roots g)
          then gate_decision True Test_image
            ''Disk image is inside the root-owned controlled image workspace.''
          else gate_decision False Unknown_class
            ''Regular-file target is outside the controlled storage-image workspace.'')
     | Loop \<Rightarrow>
         (if wg_test_mode g \<or> (case top_backing_file (dev_topology d) of
               None \<Rightarrow> False
             | Some backing \<Rightarrow>
                 under_controlled_root (wg_resolve g) backing (wg_controlled_image_roots g))
          then gate_decision True Controlled_loop
            ''Loop device is bound to an explicitly controlled test image.''
          else gate_decision False Unknown_class
            ''Loop device backing file is not an approved controlled image.'')
     | Block \<Rightarrow> gate_decision False Physical_disk_class
         (''Physical-disk partition writes are disabled by ProductionStorageWriteGate ''
          @ ''for this increment, regardless of caller or channel.''))"

definition require_write_allowed ::
  "write_gate \<Rightarrow> storage_device_identity \<Rightarrow> exc + storage_write_gate_decision" where
  "require_write_allowed g d = (let decision = evaluate g d in
     if \<not> gate_allowed decision then Inl (PermissionError ''PRODUCTION_STORAGE_WRITE_GATE_BLOCKED'')
     else Inr decision)"

section \<open>Impact\<close>

definition data_impact_default :: data_impact_assessment where
  "data_impact_default = \<lparr>di_level = DI_NONE, di_affected_resources = [], di_reasons = [],
     di_mounted = False, di_filesystem_change_required = False, di_lvm_detected = False,
     di_raid_detected = False, di_encryption_detected = False, di_data_loss_possible = False,
     di_executable = False\<rparr>"

definition protected_roles :: "partition_role set" where
  "protected_roles = {ROLE_EFI, ROLE_BOOT, ROLE_RECOVERY, ROLE_SWAP}"

definition has_filesystem :: "storage_layout \<Rightarrow> partition_resource \<Rightarrow> bool" where
  "has_filesystem l t = (case part_filesystem_id t of
     None \<Rightarrow> False | Some f \<Rightarrow> f \<in> set (map fs_id (lay_filesystems l)))"

definition is_mounted :: "storage_layout \<Rightarrow> partition_resource \<Rightarrow> bool" where
  "is_mounted l t = list_ex (\<lambda>m. m \<in> set (map mp_id (lay_mount_points l))) (part_mount_point_ids t)"

text \<open>The dictionary of volumes by id (the last one wins) read at the target's volume ids.\<close>

definition member_volumes :: "storage_layout \<Rightarrow> partition_resource \<Rightarrow> volume_resource list" where
  "member_volumes l t =
     List.map_filter (map_of (rev (map (\<lambda>v. (vol_id v, v)) (lay_volumes l)))) (part_volume_ids t)"

definition is_lvm :: "storage_layout \<Rightarrow> partition_resource \<Rightarrow> bool" where
  "is_lvm l t = list_ex (\<lambda>v. vol_kind v \<in> {LVM_PV, LVM_VG, LVM_LV}) (member_volumes l t)"

definition is_raid :: "storage_layout \<Rightarrow> partition_resource \<Rightarrow> bool" where
  "is_raid l t = list_ex (\<lambda>v. vol_kind v \<in> {MDRAID, HARDWARE_RAID}) (member_volumes l t)"

definition is_encrypted :: "partition_resource \<Rightarrow> bool" where
  "is_encrypted t \<longleftrightarrow> part_encryption_status t \<notin> {ENC_NONE, ENC_UNKNOWN}"

definition analyze_data_impact ::
  "storage_operation_type \<Rightarrow> storage_layout \<Rightarrow> partition_resource option \<Rightarrow> data_impact_assessment" where
  "analyze_data_impact operation layout target =
     (if operation = CREATE then data_impact_default\<lparr>di_level := DI_LOW,
        di_reasons := [''Partition table metadata will change only inside verified free space.''],
        di_data_loss_possible := False, di_executable := True\<rparr>
      else if operation \<in> {RESIZE, MOVE} then data_impact_default\<lparr>
        di_level := (if operation = MOVE then DI_CRITICAL else DI_UNKNOWN),
        di_affected_resources := (case target of None \<Rightarrow> [] | Some t \<Rightarrow> [part_id t]),
        di_reasons := [''Partition resize/move requires filesystem-aware data movement policy ''
          @ ''that is not enabled.''],
        di_filesystem_change_required := True, di_data_loss_possible := True, di_executable := False\<rparr>
      else case target of
        None \<Rightarrow> data_impact_default\<lparr>di_level := DI_UNKNOWN,
          di_reasons := [''Target partition evidence is missing.''],
          di_data_loss_possible := True, di_executable := False\<rparr>
      | Some t \<Rightarrow>
        (let has_fs = has_filesystem layout t;
             mounted = is_mounted layout t;
             lvm = is_lvm layout t;
             raid = is_raid layout t;
             encrypted = is_encrypted t;
             protected_role = part_role t \<in> protected_roles;
             reasons =
               [''Deleting a partition removes its table entry and can make contained data inaccessible.'']
               @ (if has_fs then [''A filesystem is detected on the target partition.''] else [])
               @ (if mounted then [''The target partition is mounted.''] else [])
               @ (if lvm then [''LVM membership is detected and LVM mutation is unsupported.''] else [])
               @ (if raid then [''RAID membership is detected and RAID mutation is unsupported.''] else [])
               @ (if encrypted
                  then [''Encryption is detected and encrypted-volume mutation is unsupported.''] else [])
               @ (if protected_role
                  then [''Partition has protected role '' @ role_value (part_role t) @ ''.''] else []);
             blocking = (has_fs \<or> mounted \<or> lvm \<or> raid \<or> encrypted \<or> protected_role)
         in \<lparr>di_level = (if blocking then DI_CRITICAL else DI_MEDIUM),
             di_affected_resources = [part_id t],
             di_reasons = reasons,
             di_mounted = mounted,
             di_filesystem_change_required = has_fs,
             di_lvm_detected = lvm,
             di_raid_detected = raid,
             di_encryption_detected = encrypted,
             di_data_loss_possible = True,
             di_executable = (\<not> blocking)\<rparr>))"

definition boot_impact ::
  "boot_impact_level \<Rightarrow> string list \<Rightarrow> string list \<Rightarrow> bool \<Rightarrow> bool \<Rightarrow> boot_impact_assessment" where
  "boot_impact level deps reasons strategy executable =
     \<lparr>bi_level = level, bi_affected_dependencies = deps, bi_reasons = reasons,
      bi_recovery_strategy_available = strategy, bi_executable = executable\<rparr>"

definition analyze_boot_impact ::
  "storage_operation_type \<Rightarrow> storage_layout \<Rightarrow> partition_resource option \<Rightarrow> boot_impact_assessment" where
  "analyze_boot_impact operation layout target =
     (if operation = CREATE
      then boot_impact BI_NONE [] [''New partition is confined to verified free space.''] True True
      else case target of
        None \<Rightarrow> boot_impact BI_UNKNOWN [] [''Target partition evidence is missing.''] False False
      | Some t \<Rightarrow>
        (let related = filter (\<lambda>b. bd_partition_number b = Some (part_number t))
               (lay_boot_dependencies layout)
         in if related \<noteq> [] \<or> part_role t \<in> {ROLE_EFI, ROLE_BOOT}
            then boot_impact BI_CRITICAL (map bd_id related)
              (if related \<noteq> [] then map bd_reason related
               else [''Target partition is classified as a boot-critical partition.'']) False False
            else if part_role t = ROLE_RECOVERY
            then boot_impact BI_LIKELY []
              [''Recovery partition modification can remove a boot/recovery path.''] False False
            else if operation = MOVE
            then boot_impact BI_UNKNOWN []
              [''Move can invalidate boot references; implementation is disabled.''] False False
            else if operation = RESIZE
            then boot_impact BI_POSSIBLE []
              [''Resize requires filesystem and boot-reference verification not enabled yet.''] False False
            else boot_impact BI_NONE []
              [''No boot dependency is associated with the target partition.''] True True))"

section \<open>What the policy guarantees\<close>

lemma require_write_allowed_Inr:
  "require_write_allowed g d = Inr x \<longleftrightarrow> gate_allowed (evaluate g d) \<and> x = evaluate g d"
  by (auto simp: require_write_allowed_def Let_def)

lemma evaluate_allowed_iff:
  "gate_allowed (evaluate g d) \<longleftrightarrow>
     dev_device_kind d = Regular_file \<and>
       (wg_test_mode g \<or>
        under_controlled_root (wg_resolve g) (dev_canonical_path d) (wg_controlled_image_roots g))
     \<or> dev_device_kind d = Loop \<and>
       (wg_test_mode g \<or> (\<exists>b. top_backing_file (dev_topology d) = Some b \<and>
          under_controlled_root (wg_resolve g) b (wg_controlled_image_roots g)))"
  by (auto simp: evaluate_def gate_decision_def split: device_kind.splits option.splits)

lemma data_impact_executable_iff:
  "di_executable (analyze_data_impact op l t) \<longleftrightarrow>
     op = CREATE \<or>
     op \<notin> {RESIZE, MOVE} \<and> (\<exists>p. t = Some p \<and> \<not> has_filesystem l p \<and> \<not> is_mounted l p \<and>
       \<not> is_lvm l p \<and> \<not> is_raid l p \<and> \<not> is_encrypted p \<and> part_role p \<notin> protected_roles)"
  by (cases t) (auto simp: analyze_data_impact_def data_impact_default_def Let_def)

lemma boot_impact_executable_iff:
  "bi_executable (analyze_boot_impact op l t) \<longleftrightarrow>
     op = CREATE \<or>
     op \<notin> {RESIZE, MOVE} \<and> (\<exists>p. t = Some p \<and>
       (\<forall>b\<in>set (lay_boot_dependencies l). bd_partition_number b \<noteq> Some (part_number p)) \<and>
       part_role p \<notin> {ROLE_EFI, ROLE_BOOT, ROLE_RECOVERY})"
  by (cases t) (auto simp: analyze_boot_impact_def boot_impact_def Let_def filter_empty_conv)

end
