(* ===== verification/Sample_Disk.thy ===== *)
theory Sample_Disk
  imports Partition_Geometry Storage_Policy
begin

text \<open>
  Concrete data at which the hypotheses of the properties are shown to hold: a 64 MiB disk image with
  512-byte sectors and two GPT partitions, a codec and a clock. Nothing here models code.
\<close>

definition sample_codec :: codec where
  "sample_codec = \<lparr>sha256_hex = (\<lambda>s. take 4 s), json_dumps = (\<lambda>_. ''{}''),
     json_loads = (\<lambda>_. None)\<rparr>"

definition sample_uuid :: "nat \<Rightarrow> string" where
  "sample_uuid n = (let d = int_digits (int n mod 10000000) in replicate (8 - length d) (CHR ''0'') @ d)"

lemma int_digits_length: "0 \<le> i \<Longrightarrow> i < 10 ^ Suc k \<Longrightarrow> length (int_digits i) \<le> Suc k"
proof (induction k arbitrary: i)
  case 0
  then show ?case by (simp add: int_digits.simps)
next
  case (Suc k)
  have "i div 10 < 10 ^ Suc k" using Suc.prems zdiv_mono1[of i "10 * 10 ^ Suc k - 1" 10] by simp
  with Suc show ?case by (simp add: int_digits.simps[of i] pos_imp_zdiv_nonneg_iff)
qed

lemma int_digits_alnum: "0 \<le> i \<Longrightarrow> list_all is_digit (int_digits i)"
proof (induction i rule: int_digits.induct)
  case (1 i)
  have digit: "is_digit (char_of (48 + nat j))" if "0 \<le> j" "j < 10" for j :: int
    using that by (simp add: is_digit_def)
  show ?case
    using 1 digit[of i] digit[of "i mod 10"] by (subst int_digits.simps) auto
qed

definition sample_clock :: "nat clock" where
  "sample_clock = \<lparr>clk_now = (\<lambda>n. (int n, Suc n)), clk_uuid4 = (\<lambda>n. (sample_uuid n, Suc n))\<rparr>"

definition sample_device :: "device_kind \<Rightarrow> storage_device_identity" where
  "sample_device kind = seal_identity sample_codec
     \<lparr>dev_requested_path = ''/img/a.raw'', dev_canonical_path = ''/img/a.raw'', dev_device_kind = kind,
      dev_major_minor = None, dev_serial_sha256 = None, dev_wwn_sha256 = None, dev_model = None,
      dev_size_bytes = 67108864, dev_logical_sector_size = 512, dev_physical_sector_size = 512,
      dev_topology = \<lparr>top_parent_path = None, top_backing_file = None, top_holders = [],
        top_slaves = []\<rparr>,
      dev_read_only = False, dev_removable = False, dev_controlled_test_target = True,
      dev_fingerprint_sha256 = zeros64\<rparr>"

definition sample_partition :: "int \<Rightarrow> int \<Rightarrow> int \<Rightarrow> partition_resource" where
  "sample_partition number start sectors =
     \<lparr>part_id = ''partition:'' @ int_str number, part_number = number,
      part_path = ''image:'' @ int_str number, part_start_sector = start,
      part_end_sector = start + sectors - 1, part_size_sectors = sectors,
      part_size_bytes = sectors * 512, part_type_code = Some (default_partition_type GPT),
      part_partuuid = None, part_name = Some ''data'', part_bootable = False, part_attrs = None,
      part_role = ROLE_NORMAL, part_filesystem_id = None, part_mount_point_ids = [],
      part_operating_system_ids = [], part_volume_ids = [], part_encryption_status = ENC_NONE\<rparr>"

definition sample_table :: partition_table where
  "sample_table = with_partitions sample_codec
     \<lparr>pt_type = GPT, pt_guid = Some ''A'', pt_sector_size = 512, pt_first_usable_sector = 2048,
      pt_last_usable_sector = 131038, pt_total_sectors = 131072, pt_partitions = [],
      pt_free_regions = [], pt_fingerprint_sha256 = zeros64\<rparr>
     [sample_partition 1 2048 32768, sample_partition 2 67584 32768]"

definition sample_layout_of :: "partition_table \<Rightarrow> storage_layout" where
  "sample_layout_of t = \<lparr>lay_id = ''layout-1'', lay_observed_at = 0,
     lay_disk = \<lparr>disk_id = ''disk-1'', disk_identity = sample_device Regular_file,
       disk_partition_table_id = ''table-1''\<rparr>,
     lay_partition_table = t, lay_filesystems = [], lay_mount_points = [],
     lay_volumes = [], lay_operating_systems = [], lay_boot_dependencies = [],
     lay_swap_partitions = [], lay_recovery_partitions = [], lay_warnings = [],
     lay_evidence_sha256 = zeros64\<rparr>"

definition sample_layout :: storage_layout where
  "sample_layout = sample_layout_of sample_table"

definition sample_request :: "declared_operation \<Rightarrow> declarative_request" where
  "sample_request op = \<lparr>rq_operation = op, rq_target_disk = ''/img/a.raw'',
     rq_partition_number = (if op = Op_create then None else Some 2),
     rq_size_bytes = Some 4194305, rq_new_size_bytes = Some 8388608,
     rq_new_start_sector = Some 36864, rq_table_type = None, rq_partition_type = None,
     rq_partition_name = Some ''scratch'', rq_free_region_index = 0\<rparr>"

definition sample_gate :: write_gate where
  "sample_gate = \<lparr>wg_test_mode = True, wg_controlled_image_roots = [], wg_resolve = (\<lambda>p. [p])\<rparr>"

lemma sample_table_wf: "table_wf sample_codec (lay_partition_table sample_layout)"
  by code_simp

end
