(* ===== verification/Planning_Theorems.thy ===== *)
theory Planning_Theorems
  imports Sample_Disk
begin

text \<open>
  The properties of the planner and of the safety policy: what the free regions are, where a new
  partition is put, what a deletion, a resize and a move change, and what the gate and the impact
  assessments let through. Each rests on the lemmas of \<open>Partition_Geometry\<close> and \<open>Storage_Policy\<close>.
\<close>

section \<open>Free space\<close>

text \<open>C6 (functional). \<open>_free_regions\<close> is exact: a sector of the usable range lies in one of the reported
  regions if and only if no partition covers it, provided no partition starts beyond the range; the
  regions are non-empty, lie inside the range, and are listed in increasing order without overlap.\<close>

theorem free_regions_exact:
  assumes "\<forall>p\<in>set ps. part_start_sector p \<le> part_end_sector p \<and> part_start_sector p \<le> b + 1"
  shows "(\<forall>s. (\<exists>r\<in>set (free_regions ps a b k). in_region r s) \<longleftrightarrow>
            a \<le> s \<and> s \<le> b \<and> (\<forall>p\<in>set ps. \<not> covers p s)) \<and>
         sorted_wrt (\<lambda>r q. fr_end_sector r < fr_start_sector q) (free_regions ps a b k) \<and>
         (\<forall>r\<in>set (free_regions ps a b k). fr_start_sector r \<le> fr_end_sector r)"
proof -
  have ordered: "\<forall>p\<in>set ps. part_start_sector p \<le> part_end_sector p + 1"
    using assms by fastforce
  have "s \<le> b" if "r \<in> set (free_regions ps a b k)" and "in_region r s" for r s
    using free_regions_bounded[OF _ that(1)] assms that(2) by (force simp: in_region_def)
  then show ?thesis
    using free_regions_sound[of _ ps a b k] free_regions_complete[of a _ b ps k]
      free_regions_ordered[OF ordered] by blast
qed

theorem free_regions_exact_witness:
  "(\<exists>r\<in>set (free_regions [sample_partition 1 2048 32768] 2048 131038 512). in_region r 40000) \<and>
   \<not> (\<exists>r\<in>set (free_regions [sample_partition 1 2048 32768] 2048 131038 512). in_region r 3000)"
proof -
  have "\<forall>p\<in>set [sample_partition 1 2048 32768].
      part_start_sector p \<le> part_end_sector p \<and> part_start_sector p \<le> 131038 + 1"
    by (simp add: sample_partition_def)
  from free_regions_exact[OF this, of 2048 512] show ?thesis
    by (simp add: sample_partition_def covers_def)
qed

section \<open>Creating a partition\<close>



text \<open>The number given to a new partition: \<open>_next_partition_number\<close> fails with the limit error of
  the table type exactly when all 128 (GPT) or 4 (MBR) numbers are taken.\<close>

theorem partition_number_exhaustion:
  "next_partition_number tt ps = Inl (StorageOperationEngineError
       (if tt = GPT then ''STORAGE_GPT_PARTITION_LIMIT'' else ''STORAGE_MBR_PRIMARY_LIMIT''))
   \<longleftrightarrow> {1..(if tt = GPT then 128 else 4)} \<subseteq> part_number ` set ps"
proof -
  let ?found = "List.find (\<lambda>n. n \<notin> set (map part_number ps)) [1..partition_limit tt]"
  have "?found = None \<longleftrightarrow> {1..partition_limit tt} \<subseteq> part_number ` set ps"
    by (auto simp: find_None_iff)
  then show ?thesis
    by (cases ?found) (auto simp: next_partition_number_def partition_limit_def)
qed

lemma ceil_truediv_inexact: "ceil_truediv (2 ^ 53 + 1) 512 = Inr (2 ^ 44)"
  by code_simp

text \<open>C16 (bounds). From \<open>2^53\<close> bytes on the float quotient of \<open>_plan_create\<close> drops bytes: a request of
  \<open>2^53 + 1\<close> bytes on 512-byte sectors that succeeds is planned one sector too small.\<close>

theorem create_size_loses_bytes:
  assumes "plan_create C K r l w = (Inr (t', p), w')"
    and "pt_sector_size (lay_partition_table l) = 512"
    and "dev_logical_sector_size (disk_identity (lay_disk l)) = 512"
    and "rq_size_bytes r = Some (2 ^ 53 + 1)"
  shows "part_size_bytes p = 2 ^ 53"
proof -
  obtain t w1 b n number u where
    base: "create_base_table C K r l w = (Inr t, w1)" and
    b: "rq_size_bytes r = Some b" and n: "ceil_truediv b (pt_sector_size t) = Inr n" and
    new: "new_partition_resource C u (disk_identity (lay_disk l)) (pt_type t) number
       (align_up (fr_start_sector (pt_free_regions t ! rq_free_region_index r))
          (max 1 (1048576 div pt_sector_size t))) n
       (pt_sector_size t) (rq_partition_type r) (rq_partition_name r) = Inr p"
    using plan_create_Inr[OF assms(1)] by metis
  have k: "pt_sector_size t = 512" by (rule create_base_table_sector(1)[OF base assms(2,3)])
  have "n = 2 ^ 44" using b n assms(4) ceil_truediv_inexact by (simp add: k)
  then show ?thesis using new_partition_resource_Inr(5)[OF new] by (simp add: k)
qed

definition huge_layout :: storage_layout where
  "huge_layout = sample_layout_of (with_partitions sample_codec
     (sample_table\<lparr>pt_last_usable_sector := 2 ^ 46\<rparr>) [])"

theorem create_size_loses_bytes_witness:
  "\<exists>t' p w'. plan_create sample_codec sample_clock
       ((sample_request Op_create)\<lparr>rq_size_bytes := Some (2 ^ 53 + 1)\<rparr>) huge_layout 0 = (Inr (t', p), w') \<and>
     part_size_bytes p < 2 ^ 53 + 1"
proof -
  let ?res = "plan_create sample_codec sample_clock
     ((sample_request Op_create)\<lparr>rq_size_bytes := Some (2 ^ 53 + 1)\<rparr>) huge_layout 0"
  have "\<not> isl (fst ?res)" by code_simp
  then obtain t' p w' where res: "?res = (Inr (t', p), w')"
    by (metis prod.collapse sum.collapse(2))
  from create_size_loses_bytes[OF res] res show ?thesis
    by (simp add: huge_layout_def sample_layout_of_def sample_table_def sample_device_def seal_identity_def)
qed

section \<open>Deleting, resizing and moving\<close>

lemma mset_filter_number:
  assumes "distinct (map part_number ps)" and "p \<in> set ps"
  shows "add_mset p (mset (filter (\<lambda>q. part_number q \<noteq> part_number p) ps)) = mset ps"
  using assms
proof (induction ps)
  case (Cons q ps)
  show ?case
  proof (cases "p = q")
    case True
    then have "\<forall>r\<in>set ps. part_number r \<noteq> part_number p" using Cons.prems(1) by (fastforce simp: image_iff)
    then show ?thesis using True by (simp add: filter_id_conv[THEN iffD2])
  next
    case False
    moreover have "part_number q \<noteq> part_number p" using Cons.prems False by force
    moreover have "add_mset p (mset (filter (\<lambda>q. part_number q \<noteq> part_number p) ps)) = mset ps"
      using Cons False by simp
    ultimately show ?thesis by (simp add: add_mset_commute[of p])
  qed
qed simp

text \<open>C7 (functional). Planning a deletion removes exactly the target: the other partitions are kept
  unchanged, the table stays well formed, and every sector of the target is free afterwards.\<close>

theorem delete_frees_exactly_target:
  assumes "table_wf C t" and "find_partition (pt_partitions t) n = Inr p"
  shows "table_wf C (plan_delete C t p) \<and>
     add_mset p (mset (pt_partitions (plan_delete C t p))) = mset (pt_partitions t) \<and>
     (\<forall>s. covers p s \<longrightarrow> (\<exists>r\<in>set (pt_free_regions (plan_delete C t p)). in_region r s))"
proof -
  have p: "p \<in> set (pt_partitions t)" using find_partition_Inr[OF assms(2)] by simp
  note parts = table_wf_parts[OF assms(1)] and wf = plan_delete_wf[OF assms(1), of p]
  have "\<exists>r\<in>set (pt_free_regions (plan_delete C t p)). in_region r s" if s: "covers p s" for s
  proof -
    have "\<not> covers q s" if "q \<in> set (pt_partitions t)" "part_number q \<noteq> part_number p" for q
      using parts p s that by (metis disjoint_parts_def disjoint_not_covers parts_wf_def)
    moreover have "pt_first_usable_sector t \<le> s \<and> s \<le> pt_last_usable_sector t"
      using parts p s by (auto simp: parts_wf_def list_all_iff covers_def)
    ultimately show ?thesis
      using wf by (auto simp: table_wf_def plan_delete_def intro!: free_regions_complete)
  qed
  moreover have "add_mset p (mset (pt_partitions (plan_delete C t p))) = mset (pt_partitions t)"
    using mset_filter_number[OF _ p] parts by (simp add: plan_delete_def parts_wf_def)
  ultimately show ?thesis using wf by blast
qed

theorem delete_frees_exactly_target_witness:
  "map part_number (pt_partitions (plan_delete sample_codec sample_table (sample_partition 2 67584 32768))) = [1]
   \<and> (\<exists>r\<in>set (pt_free_regions (plan_delete sample_codec sample_table (sample_partition 2 67584 32768))).
        in_region r 70000)"
proof -
  have "find_partition (pt_partitions sample_table) (Some 2) = Inr (sample_partition 2 67584 32768)"
    by code_simp
  with delete_frees_exactly_target[of sample_codec sample_table "Some 2"] sample_table_wf
  have "\<exists>r\<in>set (pt_free_regions (plan_delete sample_codec sample_table (sample_partition 2 67584 32768))).
        in_region r 70000"
    by (simp add: sample_layout_def sample_layout_of_def covers_def sample_partition_def)
  moreover have "map part_number (pt_partitions (plan_delete sample_codec sample_table
      (sample_partition 2 67584 32768))) = [1]" by code_simp
  ultimately show ?thesis by blast
qed

lemma replace_partition_keeps:
  "q \<in> set ps \<Longrightarrow> part_number q \<noteq> n \<Longrightarrow> q \<in> set (replace_partition ps n new)"
  by (force simp: replace_partition_def)

lemma replace_partition_new:
  "q \<in> set ps \<Longrightarrow> part_number q = n \<Longrightarrow> new \<in> set (replace_partition ps n new)"
  by (force simp: replace_partition_def)

text \<open>C13 (invariant). A planned resize keeps the table well formed; the target keeps its number and start
  and changes its size to a positive other size, and every other partition is unchanged.\<close>

theorem resize_keeps_layout:
  assumes plan: "plan_resize C r l target = Inr t'"
    and wf: "table_wf C (lay_partition_table l)"
    and target: "find_partition (pt_partitions (lay_partition_table l)) n = Inr target"
  shows "table_wf C t' \<and>
     (\<forall>q\<in>set (pt_partitions (lay_partition_table l)).
        part_number q \<noteq> part_number target \<longrightarrow> q \<in> set (pt_partitions t')) \<and>
     (\<exists>q\<in>set (pt_partitions t'). part_number q = part_number target \<and>
        part_start_sector q = part_start_sector target \<and> 0 < part_size_sectors q \<and>
        part_size_sectors q \<noteq> part_size_sectors target)"
proof -
  let ?t = "lay_partition_table l"
  have mem: "target \<in> set (pt_partitions ?t)" using find_partition_Inr[OF target] by simp
  obtain k where k: "0 < k" "k \<noteq> part_size_sectors target"
    and t': "t' = with_partitions C ?t (replace_partition (pt_partitions ?t) (part_number target)
      (target\<lparr>part_end_sector := part_start_sector target + k - 1, part_size_sectors := k,
              part_size_bytes := k * pt_sector_size ?t\<rparr>))"
    using plan by (auto simp: plan_resize_def Let_def prog_simps not_le split: option.splits if_splits)
  have "table_wf C t'" by (rule plan_resize_wf[OF plan wf mem])
  then show ?thesis
    using k mem by (auto simp: t' replace_partition_keeps intro!: bexI[OF _ replace_partition_new])
qed

theorem resize_keeps_layout_witness:
  "\<exists>t'. plan_resize sample_codec (sample_request Op_resize) sample_layout (sample_partition 2 67584 32768)
      = Inr t' \<and> table_wf sample_codec t' \<and> sample_partition 1 2048 32768 \<in> set (pt_partitions t')"
proof -
  let ?res = "plan_resize sample_codec (sample_request Op_resize) sample_layout (sample_partition 2 67584 32768)"
  have "\<not> isl ?res" by code_simp
  then obtain t' where t': "?res = Inr t'" by (cases ?res) auto
  have find2: "find_partition (pt_partitions (lay_partition_table sample_layout)) (Some 2)
      = Inr (sample_partition 2 67584 32768)" by code_simp
  have "sample_partition 1 2048 32768 \<in> set (pt_partitions (lay_partition_table sample_layout))" by code_simp
  then show ?thesis
    using t' resize_keeps_layout[OF t' sample_table_wf find2] by (simp add: sample_partition_def)
qed

text \<open>A planned move keeps the table well formed; the target keeps its number and size and
  starts where the request says, and every other partition is unchanged.\<close>

theorem move_keeps_layout:
  assumes plan: "plan_move C r l target = Inr t'"
    and wf: "table_wf C (lay_partition_table l)"
    and target: "find_partition (pt_partitions (lay_partition_table l)) n = Inr target"
  shows "table_wf C t' \<and>
     (\<forall>q\<in>set (pt_partitions (lay_partition_table l)).
        part_number q \<noteq> part_number target \<longrightarrow> q \<in> set (pt_partitions t')) \<and>
     (\<exists>q\<in>set (pt_partitions t'). part_number q = part_number target \<and>
        part_size_sectors q = part_size_sectors target \<and>
        rq_new_start_sector r = Some (part_start_sector q))"
proof -
  let ?t = "lay_partition_table l"
  have mem: "target \<in> set (pt_partitions ?t)" using find_partition_Inr[OF target] by simp
  obtain s where s: "rq_new_start_sector r = Some s"
    and t': "t' = with_partitions C ?t (replace_partition (pt_partitions ?t) (part_number target)
      (target\<lparr>part_start_sector := s, part_end_sector := s + part_size_sectors target - 1\<rparr>))"
    using plan by (auto simp: plan_move_def Let_def split: option.splits if_splits)
  have "table_wf C t'" by (rule plan_move_wf[OF plan wf mem])
  then show ?thesis
    using s mem by (auto simp: t' replace_partition_keeps intro!: bexI[OF _ replace_partition_new])
qed

theorem move_keeps_layout_witness:
  "\<exists>t'. plan_move sample_codec (sample_request Op_move) sample_layout (sample_partition 2 67584 32768)
      = Inr t' \<and> table_wf sample_codec t' \<and> sample_partition 1 2048 32768 \<in> set (pt_partitions t')"
proof -
  let ?res = "plan_move sample_codec (sample_request Op_move) sample_layout (sample_partition 2 67584 32768)"
  have "\<not> isl ?res" by code_simp
  then obtain t' where t': "?res = Inr t'" by (cases ?res) auto
  have find2: "find_partition (pt_partitions (lay_partition_table sample_layout)) (Some 2)
      = Inr (sample_partition 2 67584 32768)" by code_simp
  have "sample_partition 1 2048 32768 \<in> set (pt_partitions (lay_partition_table sample_layout))" by code_simp
  then show ?thesis
    using t' move_keeps_layout[OF t' sample_table_wf find2] by (simp add: sample_partition_def)
qed

section \<open>Gate and impact\<close>

text \<open>C9 (safety). Whatever the configuration of the gate, a device that is neither a regular file
  nor a loop device is never writable: \<open>evaluate\<close> classifies it as a physical disk and
  \<open>require_write_allowed\<close> raises. Outside test mode a device is writable only if it is an image, or a
  loop device over an image, inside one of the controlled roots.\<close>

theorem write_gate_admits_only_controlled_images:
  assumes "require_write_allowed g d = Inr dec"
  shows "dev_device_kind d \<noteq> Block \<and> dec = evaluate g d \<and>
    \<not> gate_physical_disk_writes_enabled dec \<and>
    (\<not> wg_test_mode g \<longrightarrow>
       (\<exists>path. (dev_device_kind d = Regular_file \<and> path = dev_canonical_path d \<or>
                dev_device_kind d = Loop \<and> top_backing_file (dev_topology d) = Some path) \<and>
          (\<exists>root\<in>set (wg_controlled_image_roots g).
             take (length root) (wg_resolve g path) = root)))"
proof (cases "dev_device_kind d")
  case Block
  then show ?thesis
    using assms by (simp add: require_write_allowed_def evaluate_def gate_decision_def)
qed (use assms in \<open>auto simp: require_write_allowed_def evaluate_def gate_decision_def Let_def
       under_controlled_root_def list_ex_iff split: if_splits option.splits\<close>)

theorem write_gate_admits_only_controlled_images_witness:
  "require_write_allowed (sample_gate\<lparr>wg_test_mode := False, wg_controlled_image_roots := [[''/img/a.raw'']]\<rparr>)
       (sample_device Regular_file) = Inr (gate_decision True Test_image
         ''Disk image is inside the root-owned controlled image workspace.'') \<and>
   \<not> gate_physical_disk_writes_enabled (gate_decision True Test_image
         ''Disk image is inside the root-owned controlled image workspace.'')"
proof -
  let ?g = "sample_gate\<lparr>wg_test_mode := False, wg_controlled_image_roots := [[''/img/a.raw'']]\<rparr>"
  have "require_write_allowed ?g (sample_device Regular_file) = Inr (gate_decision True Test_image
         ''Disk image is inside the root-owned controlled image workspace.'')" by code_simp
  with write_gate_admits_only_controlled_images[OF this] show ?thesis by blast
qed


text \<open>C11 (safety). The boot-impact assessment lets a deletion through exactly when the target is known, no
  detected boot dependency names its number and its role is neither EFI, boot nor recovery.\<close>

theorem boot_impact_protects_boot_dependencies:
  "bi_executable (analyze_boot_impact op l t) \<longleftrightarrow>
     op = CREATE \<or>
     op \<notin> {RESIZE, MOVE} \<and> (\<exists>p. t = Some p \<and>
       Some (part_number p) \<notin> bd_partition_number ` set (lay_boot_dependencies l) \<and>
       part_role p \<notin> {ROLE_EFI, ROLE_BOOT, ROLE_RECOVERY})"
  unfolding boot_impact_executable_iff by (force simp: image_iff)

section \<open>Fingerprints and signatures\<close>



end
