(* ===== verification/Partition_Tools.thy ===== *)
theory Partition_Tools
  imports Partition_Table Storage_Policy Storage_Planning "HOL-Library.List_Lexorder"
    "HOL-Library.Char_ord"
begin

text \<open>
  The effectful half of \<^verbatim>\<open>tools/partition.py\<close>: the process runner, device identification, inspection of a
  disk with what is on its partitions, dry run, checkpoint, write and verification. The operating
  system is the record \<open>host\<close>: what a path resolves to, the text of a file, the entries of a directory,
  and how a process changes the world.
\<close>

section \<open>Text helpers\<close>

text \<open>\<open>str.split()\<close>, \<open>str.split(c)\<close> and \<open>str.replace\<close>.\<close>

fun split_ws_acc :: "string \<Rightarrow> string \<Rightarrow> string list" where
  "split_ws_acc acc [] = (if acc = [] then [] else [rev acc])"
| "split_ws_acc acc (c # s) =
     (if is_space c then (if acc = [] then [] else [rev acc]) @ split_ws_acc [] s
      else split_ws_acc (c # acc) s)"

definition split_ws :: "string \<Rightarrow> string list" where
  "split_ws s = split_ws_acc [] s"

fun split_on :: "char \<Rightarrow> string \<Rightarrow> string \<Rightarrow> string list" where
  "split_on d acc [] = [rev acc]"
| "split_on d acc (c # s) = (if c = d then rev acc # split_on d [] s else split_on d (c # acc) s)"

fun py_replace :: "string \<Rightarrow> string \<Rightarrow> string \<Rightarrow> string" where
  "py_replace old new [] = []"
| "py_replace old new (c # s) =
     (if prefix_of old (c # s) then new @ py_replace old new (drop (length old - 1) s)
      else c # py_replace old new s)"

definition basename :: "string \<Rightarrow> string" where
  "basename s = rev (takeWhile (\<lambda>c. c \<noteq> CHR ''/'') (rev s))"

definition path_join :: "string \<Rightarrow> string \<Rightarrow> string" where
  "path_join a b = (if a = ''/'' then a @ b else a @ ''/'' @ b)"

definition strip_quotes :: "string \<Rightarrow> string" where
  "strip_quotes s = (let q = (\<lambda>c. c = CHR 0x22) in rev (dropWhile q (rev (dropWhile q s))))"

section \<open>The operating system\<close>

datatype file_stat =
    Stat_regular int int int bool \<comment> \<open>device, inode, size, writable\<close>
  | Stat_block int int \<comment> \<open>major, minor\<close>
  | Stat_other

record process_result =
  pr_tool :: string
  pr_exit_code :: int
  pr_stdout :: string
  pr_stderr :: string

text \<open>What a spawned process delivers: exit code, the lengths of both streams in bytes, and their text.\<close>

record spawned =
  sp_returncode :: int
  sp_stdout_bytes :: int
  sp_stderr_bytes :: int
  sp_stdout :: string
  sp_stderr :: string

record 'w host =
  h_is_symlink :: "string \<Rightarrow> 'w \<Rightarrow> exc + bool"
  h_resolve_stat :: "string \<Rightarrow> 'w \<Rightarrow> exc + string \<times> file_stat"
  h_resolve :: "string \<Rightarrow> string list"
  h_exists :: "string \<Rightarrow> 'w \<Rightarrow> bool"
  h_read_text :: "string \<Rightarrow> 'w \<Rightarrow> string option"
  h_list_dir :: "string \<Rightarrow> 'w \<Rightarrow> string list option"
  h_small_file :: "string \<Rightarrow> 'w \<Rightarrow> bool"
  h_which :: "string \<Rightarrow> 'w \<Rightarrow> string option"
  h_executable :: "string \<Rightarrow> 'w \<Rightarrow> (bool \<times> int \<times> bool) option"
  h_spawn :: "string \<Rightarrow> string list \<Rightarrow> string option \<Rightarrow> int \<Rightarrow> ('w, spawned) prog"

definition tool_error :: "string \<Rightarrow> ('s, 'a) prog" where
  "tool_error code = raise (PartitionToolError code)"

section \<open>The process runner\<close>

definition MAX_OUTPUT_BYTES :: int where
  "MAX_OUTPUT_BYTES = 4000000"

text \<open>\<open>inspect\<close>: \<^const>\<open>None\<close> if the tool may run, otherwise the reason.\<close>

definition runner_inspect :: "'w host \<Rightarrow> string \<Rightarrow> 'w \<Rightarrow> string option" where
  "runner_inspect H tool w = (case h_which H tool w of
       None \<Rightarrow> Some ''tool_not_installed''
     | Some path \<Rightarrow> (case h_executable H path w of
         None \<Rightarrow> Some ''tool_unavailable''
       | Some (regular, uid, writable_by_others) \<Rightarrow>
           if \<not> regular \<or> uid \<noteq> 0 \<or> writable_by_others then Some ''untrusted_executable'' else None))"

definition runner_run ::
  "'w host \<Rightarrow> string \<Rightarrow> string list \<Rightarrow> int \<Rightarrow> string option \<Rightarrow> ('w, process_result) prog" where
  "runner_run H tool args timeout stdin_text =
     bindM (getM (runner_inspect H tool)) (\<lambda>reason.
     bindM (getM (h_which H tool)) (\<lambda>executable.
     case (reason, executable) of
       (Some r, _) \<Rightarrow> raise (FileNotFoundError r)
     | (None, None) \<Rightarrow> raise (FileNotFoundError ''tool_not_installed'')
     | (None, Some path) \<Rightarrow>
     if (case stdin_text of None \<Rightarrow> False | Some t \<Rightarrow> utf8_length t > MAX_INPUT_BYTES)
     then raise (ValueError ''tool_input_too_large'')
     else
     bindM (h_spawn H path args stdin_text timeout) (\<lambda>p.
     if sp_stdout_bytes p > MAX_OUTPUT_BYTES \<or> sp_stderr_bytes p > MAX_OUTPUT_BYTES
     then raise (ValueError ''tool_output_too_large'')
     else ret \<lparr>pr_tool = tool, pr_exit_code = sp_returncode p, pr_stdout = sp_stdout p,
               pr_stderr = py_take 32768 (sp_stderr p)\<rparr>)))"

text \<open>\<open>_run\<close> of the table tool.\<close>

definition table_run :: "'w host \<Rightarrow> string \<Rightarrow> string list \<Rightarrow> int \<Rightarrow> ('w, process_result) prog" where
  "table_run H tool args timeout =
     catchM (runner_run H tool args timeout None) (\<lambda>e.
       if e = TimeoutError then tool_error ''STORAGE_TOOL_TIMEOUT''
       else if is_os_error e \<or> is_value_error e then tool_error ''STORAGE_TOOL_FAILED''
       else raise e)"

section \<open>Sysfs and procfs readers\<close>

definition read_sysfs :: "'w host \<Rightarrow> 'w \<Rightarrow> string \<Rightarrow> string option" where
  "read_sysfs H w path =
     (case h_is_symlink H path w of
        Inl _ \<Rightarrow> None
      | Inr symlink \<Rightarrow>
        if symlink \<and> \<not> h_exists H path w then None
        else case h_read_text H path w of
          None \<Rightarrow> None
        | Some text \<Rightarrow>
            (let value = py_take 4096 (py_strip text) in if value = [] then None else Some value))"

definition int_sysfs :: "'w host \<Rightarrow> 'w \<Rightarrow> string \<Rightarrow> int option" where
  "int_sysfs H w path = (case read_sysfs H w path of None \<Rightarrow> None | Some v \<Rightarrow> py_int v)"

text \<open>\<open>_int_sysfs(path) or default\<close>.\<close>

definition int_sysfs_or :: "'w host \<Rightarrow> 'w \<Rightarrow> string \<Rightarrow> int \<Rightarrow> int" where
  "int_sysfs_or H w path other = (case int_sysfs H w path of
     None \<Rightarrow> other | Some v \<Rightarrow> if v = 0 then other else v)"

definition child_names :: "'w host \<Rightarrow> 'w \<Rightarrow> string \<Rightarrow> string list" where
  "child_names H w path = (case h_list_dir H path w of
     None \<Rightarrow> [] | Some names \<Rightarrow> py_take 128 (sort names))"

definition read_identity_value :: "'w host \<Rightarrow> 'w \<Rightarrow> string \<Rightarrow> string \<Rightarrow> string option" where
  "read_identity_value H w base name =
     (case read_sysfs H w (base @ ''/device/'' @ name) of
        Some v \<Rightarrow> Some v
      | None \<Rightarrow> read_sysfs H w (base @ ''/'' @ name))"

definition unescape_mount :: "string \<Rightarrow> string" where
  "unescape_mount value =
     py_replace [CHR 0x5C, CHR ''1'', CHR ''3'', CHR ''4''] [CHR 0x5C]
       (py_replace [CHR 0x5C, CHR ''0'', CHR ''1'', CHR ''2''] [CHR 0x0A]
         (py_replace [CHR 0x5C, CHR ''0'', CHR ''1'', CHR ''1''] [CHR 0x09]
           (py_replace [CHR 0x5C, CHR ''0'', CHR ''4'', CHR ''0''] '' '' value)))"

text \<open>One line of \<^verbatim>\<open>mountinfo\<close>; \<^const>\<open>None\<close> is its \<open>continue\<close>.\<close>

definition mount_record :: "codec \<Rightarrow> string \<Rightarrow> mount_point_resource option" where
  "mount_record C line =
     (let fields = split_ws line; separator = length (takeWhile (\<lambda>f. f \<noteq> ''-'') fields) in
      if ''-'' \<notin> set fields then None
      else if separator + 3 > length fields \<or> separator < 6 then None
      else let target = unescape_mount (fields ! 4);
               options = split_on (CHR '','') [] (fields ! 5);
               fs_type = fields ! (separator + 1);
               source = unescape_mount (fields ! (separator + 2))
           in if \<not> prefix_of ''/dev/'' source \<or> \<not> prefix_of ''/'' target then None
              else Some \<lparr>mp_id = ''raw-mount:'' @ take 24 (token_sha256 C (source @ '':'' @ target)),
                         mp_source = source, mp_path = target, mp_filesystem_type = Some fs_type,
                         mp_options = options\<rparr>)"

definition mount_records :: "codec \<Rightarrow> 'w host \<Rightarrow> 'w \<Rightarrow> mount_point_resource list" where
  "mount_records C H w = (case h_read_text H ''/proc/self/mountinfo'' w of
     None \<Rightarrow> []
   | Some text \<Rightarrow> List.map_filter (mount_record C) (py_take 4096 (splitlines text)))"

definition swap_sources :: "'w host \<Rightarrow> 'w \<Rightarrow> string list" where
  "swap_sources H w = (case h_read_text H ''/proc/swaps'' w of
     None \<Rightarrow> []
   | Some text \<Rightarrow> List.map_filter (\<lambda>line. case split_ws line of [] \<Rightarrow> None | f # _ \<Rightarrow> Some f)
       (drop 1 (splitlines text)))"

fun os_release_values :: "(string \<times> string) list \<Rightarrow> string list \<Rightarrow> (string \<times> string) list" where
  "os_release_values values [] = values"
| "os_release_values values (line # rest) =
     (let key = takeWhile (\<lambda>c. c \<noteq> CHR ''='') line; value = drop (Suc (length key)) line in
      if CHR ''='' \<notin> set line then os_release_values values rest
      else os_release_values (dict_set key (py_take 256 (strip_quotes (py_strip value))) values) rest)"

definition first_truthy :: "string option \<Rightarrow> string option \<Rightarrow> string option" where
  "first_truthy a b = (if truthy a then a else b)"

definition detect_os ::
  "codec \<Rightarrow> 'w host \<Rightarrow> 'w \<Rightarrow> string \<Rightarrow> string \<Rightarrow> operating_system_resource option" where
  "detect_os C H w source mount_point =
     (let os_release = path_join mount_point ''etc/os-release'' in
      if \<not> h_small_file H os_release w then None
      else case h_read_text H os_release w of
        None \<Rightarrow> None
      | Some text \<Rightarrow>
        (let values = os_release_values [] (py_take 128 (splitlines text));
             name = first_truthy (map_of values ''PRETTY_NAME'') (map_of values ''NAME'')
         in if \<not> truthy name then None
            else Some \<lparr>os_id = ''os:'' @ take 24 (token_sha256 C (source @ '':'' @ the name)),
                       os_name = the name,
                       os_version = first_truthy (map_of values ''VERSION_ID'') (map_of values ''VERSION''),
                       os_source = source, os_mount_point = mount_point\<rparr>))"

section \<open>Device identity\<close>

record 'w tool_suite =
  ts_codec :: codec
  ts_clock :: "'w clock"
  ts_host :: "'w host"
  ts_allow_regular_file_targets :: bool
  ts_controlled_image_roots :: "string list list"
  ts_write_gate :: write_gate

definition controlled :: "'w tool_suite \<Rightarrow> string \<Rightarrow> bool" where
  "controlled T path = under_controlled_root (h_resolve (ts_host T)) path (ts_controlled_image_roots T)"

definition no_topology :: storage_device_topology where
  "no_topology = \<lparr>top_parent_path = None, top_backing_file = None, top_holders = [], top_slaves = []\<rparr>"

text \<open>The identity of a regular file and of a block device, before it is sealed.\<close>

definition regular_identity ::
  "'w tool_suite \<Rightarrow> string \<Rightarrow> string \<Rightarrow> int \<Rightarrow> int \<Rightarrow> int \<Rightarrow> bool \<Rightarrow> storage_device_identity" where
  "regular_identity T requested canonical dev ino bytes writable =
     \<lparr>dev_requested_path = requested, dev_canonical_path = canonical, dev_device_kind = Regular_file,
      dev_major_minor = Some (''file:'' @ int_str dev @ '':'' @ int_str ino),
      dev_serial_sha256 = None, dev_wwn_sha256 = None, dev_model = Some ''disk-image'',
      dev_size_bytes = bytes, dev_logical_sector_size = 512, dev_physical_sector_size = 512,
      dev_topology = no_topology, dev_read_only = (\<not> writable), dev_removable = False,
      dev_controlled_test_target = (ts_allow_regular_file_targets T \<or> controlled T canonical),
      dev_fingerprint_sha256 = zeros64\<rparr>"

definition block_identity ::
  "'w tool_suite \<Rightarrow> 'w \<Rightarrow> string \<Rightarrow> string \<Rightarrow> int \<Rightarrow> int \<Rightarrow> storage_device_identity" where
  "block_identity T w requested canonical major minor =
     (let H = ts_host T; C = ts_codec T;
          major_minor = int_str major @ '':'' @ int_str minor;
          sysfs = ''/sys/dev/block/'' @ major_minor;
          backing = read_sysfs H w (sysfs @ ''/loop/backing_file'');
          kind = (if backing \<noteq> None \<or> prefix_of ''loop'' (basename canonical) then Loop else Block);
          logical = int_sysfs_or H w (sysfs @ ''/queue/logical_block_size'') 512;
          topology = \<lparr>top_parent_path = None,
            top_backing_file = map_option (\<lambda>b. ''/'' @ dropWhile (\<lambda>c. c = CHR ''/'') b) backing,
            top_holders = child_names H w (sysfs @ ''/holders''),
            top_slaves = child_names H w (sysfs @ ''/slaves'')\<rparr>;
          hashed = map_option (token_sha256 C)
      in \<lparr>dev_requested_path = requested, dev_canonical_path = canonical, dev_device_kind = kind,
          dev_major_minor = Some major_minor,
          dev_serial_sha256 = hashed (read_identity_value H w sysfs ''serial''),
          dev_wwn_sha256 = hashed (read_identity_value H w sysfs ''wwid''),
          dev_model = read_identity_value H w sysfs ''model'',
          dev_size_bytes = int_sysfs_or H w (sysfs @ ''/size'') 0 * 512,
          dev_logical_sector_size = logical,
          dev_physical_sector_size = int_sysfs_or H w (sysfs @ ''/queue/physical_block_size'') logical,
          dev_topology = topology,
          dev_read_only = (int_sysfs_or H w (sysfs @ ''/ro'') 0 \<noteq> 0),
          dev_removable = (int_sysfs_or H w (sysfs @ ''/removable'') 0 \<noteq> 0),
          dev_controlled_test_target = (kind = Loop \<and> (case top_backing_file topology of
             None \<Rightarrow> False | Some b \<Rightarrow> ts_allow_regular_file_targets T \<or> controlled T b)),
          dev_fingerprint_sha256 = zeros64\<rparr>)"

definition os_failure :: "exc \<Rightarrow> exc" where
  "os_failure e = (case e of
     FileNotFoundError _ \<Rightarrow> PartitionToolError ''STORAGE_TARGET_NOT_FOUND''
   | _ \<Rightarrow> if is_os_error e then PartitionToolError ''STORAGE_TARGET_UNAVAILABLE'' else e)"

definition identify :: "'w tool_suite \<Rightarrow> string \<Rightarrow> 'w \<Rightarrow> exc + storage_device_identity" where
  "identify T requested w =
     (let H = ts_host T in
      if CHR 0x00 \<in> set requested \<or> \<not> prefix_of ''/'' requested
      then Inl (PartitionToolError ''STORAGE_TARGET_INVALID'')
      else case h_is_symlink H requested w of
        Inl e \<Rightarrow> Inl (os_failure e)
      | Inr True \<Rightarrow> Inl (PartitionToolError ''STORAGE_TARGET_SYMLINK_REJECTED'')
      | Inr False \<Rightarrow>
      (case h_resolve_stat H requested w of
         Inl e \<Rightarrow> Inl (os_failure e)
       | Inr (canonical, Stat_regular dev ino bytes writable) \<Rightarrow>
           if \<not> ts_allow_regular_file_targets T \<and> \<not> controlled T canonical
           then Inl (PartitionToolError ''STORAGE_IMAGE_OUTSIDE_CONTROLLED_ROOT'')
           else Inr (seal_identity (ts_codec T)
                  (regular_identity T requested canonical dev ino bytes writable))
       | Inr (canonical, Stat_block major minor) \<Rightarrow>
           Inr (seal_identity (ts_codec T) (block_identity T w requested canonical major minor))
       | Inr (canonical, Stat_other) \<Rightarrow> Inl (PartitionToolError ''STORAGE_TARGET_NOT_DISK_OR_IMAGE'')))"

definition identifyM :: "'w tool_suite \<Rightarrow> string \<Rightarrow> ('w, storage_device_identity) prog" where
  "identifyM T requested = bindM (getM (identify T requested)) liftE"

definition revalidate ::
  "'w tool_suite \<Rightarrow> storage_device_identity \<Rightarrow> ('w, storage_device_identity) prog" where
  "revalidate T expected =
     bindM (identifyM T (dev_requested_path expected)) (\<lambda>current.
     if dev_fingerprint_sha256 current \<noteq> dev_fingerprint_sha256 expected
     then tool_error ''STORAGE_DEVICE_IDENTITY_CHANGED'' else ret current)"

section \<open>Inspection\<close>

definition probe_partition ::
  "'w tool_suite \<Rightarrow> storage_device_identity \<Rightarrow> partition_resource \<Rightarrow> ('w, (string \<times> string) list) prog" where
  "probe_partition T d p =
     (let H = ts_host T;
          run = (\<lambda>args.
            bindM (catchM (bindM (table_run H ''blkid'' args 5) (\<lambda>r. ret (Some r)))
              (\<lambda>e. case e of PartitionToolError _ \<Rightarrow> ret None | _ \<Rightarrow> raise e)) (\<lambda>result.
            case result of
              None \<Rightarrow> ret []
            | Some r \<Rightarrow> ret (if pr_exit_code r \<notin> {0, 2} then [] else parse_blkid_export (pr_stdout r))))
      in bindM (getM (runner_inspect H ''blkid'')) (\<lambda>reason.
         if reason \<noteq> None then ret []
         else if dev_device_kind d = Regular_file then
           run [''--probe'', ''--output'', ''export'',
             ''--offset'', int_str (part_start_sector p * dev_logical_sector_size d),
             ''--size'', int_str (part_size_sectors p * dev_logical_sector_size d),
             dev_canonical_path d]
         else if \<not> safe_device (part_path p) then ret []
         else run [''--probe'', ''--output'', ''export'', part_path p]))"

text \<open>What the probe of one partition contributes: role, encryption, its volume or its filesystem.\<close>

record probed =
  pd_role :: partition_role
  pd_encryption :: encryption_status
  pd_volume :: "volume_resource option"
  pd_filesystem :: "filesystem_resource option"
  pd_swap :: bool

definition probe_volume :: "string \<Rightarrow> volume_kind \<Rightarrow> string \<Rightarrow> partition_resource \<Rightarrow> volume_resource" where
  "probe_volume prefix kind name p = \<lparr>vol_id = prefix @ part_id p, vol_kind = kind, vol_name = name,
     vol_member_paths = [part_path p], vol_mutable_by_storage_engine = False\<rparr>"

definition or_name :: "string option \<Rightarrow> string \<Rightarrow> string" where
  "or_name v other = (if truthy v then the v else other)"

definition classify_probe ::
  "codec \<Rightarrow> partition_resource \<Rightarrow> (string \<times> string) list \<Rightarrow> probed" where
  "classify_probe C p probe =
     (let base = \<lparr>pd_role = part_role p, pd_encryption = part_encryption_status p, pd_volume = None,
            pd_filesystem = None, pd_swap = False\<rparr>;
          usage = py_casefold (or_empty (map_of probe ''USAGE''));
          fs_type = map_of probe ''TYPE'';
          fs_uuid = map_of probe ''UUID'';
          label = map_of probe ''LABEL''
      in if probe = [] then base
         else if fs_type = Some ''crypto_LUKS'' then
           base\<lparr>pd_encryption := ENC_LUKS,
             pd_volume := Some (probe_volume ''volume:crypt:'' CRYPT (or_name label ''LUKS'') p)\<rparr>
         else if truthy fs_type \<and> contains ''bitlocker'' (py_casefold (the fs_type)) then
           base\<lparr>pd_encryption := ENC_BITLOCKER,
             pd_volume := Some (probe_volume ''volume:crypt:'' CRYPT (or_name label ''BitLocker'') p)\<rparr>
         else if fs_type = Some ''LVM2_member'' \<or> usage = ''lvm'' then
           base\<lparr>pd_role := ROLE_LVM,
             pd_volume := Some (probe_volume ''volume:lvm-pv:'' LVM_PV
               (or_name (first_truthy label fs_uuid) ''LVM PV'') p)\<rparr>
         else if usage = ''raid'' \<or> truthy fs_type \<and> contains ''raid'' (py_casefold (the fs_type)) then
           base\<lparr>pd_role := ROLE_RAID,
             pd_volume := Some (probe_volume ''volume:mdraid:'' MDRAID
               (or_name (first_truthy label fs_uuid) ''RAID member'') p)\<rparr>
         else if fs_type = Some ''swap'' then base\<lparr>pd_role := ROLE_SWAP, pd_swap := True\<rparr>
         else if truthy fs_type then
           base\<lparr>pd_filesystem := Some \<lparr>
             fs_id = ''filesystem:'' @ take 24 (token_sha256 C (part_id p @ '':'' @ the fs_type)),
             fs_device_path = part_path p, fs_filesystem_type = fs_type, fs_uuid = fs_uuid,
             fs_label = label, fs_total_bytes = None, fs_used_bytes = None, fs_available_bytes = None,
             fs_resize_support = filesystem_resize_support (the fs_type)\<rparr>\<rparr>
         else base)"

text \<open>The accumulators of \<open>_enrich\<close>.\<close>

record enrichment =
  en_partitions :: "partition_resource list"
  en_filesystems :: "filesystem_resource list"
  en_mounts :: "mount_point_resource list"
  en_volumes :: "volume_resource list"
  en_operating_systems :: "operating_system_resource list"
  en_boot_dependencies :: "boot_dependency list"
  en_swap :: "int list"
  en_recovery :: "int list"

definition empty_enrichment :: enrichment where
  "empty_enrichment = \<lparr>en_partitions = [], en_filesystems = [], en_mounts = [], en_volumes = [],
     en_operating_systems = [], en_boot_dependencies = [], en_swap = [], en_recovery = []\<rparr>"

definition mount_id_of :: "codec \<Rightarrow> mount_point_resource \<Rightarrow> string" where
  "mount_id_of C m = ''mount:'' @ take 24 (token_sha256 C (mp_source m @ '':'' @ mp_path m))"

definition boot_mount_dependency ::
  "codec \<Rightarrow> partition_resource \<Rightarrow> mount_point_resource \<Rightarrow> boot_dependency option" where
  "boot_mount_dependency C p m =
     (let target = mp_path m in
      if target \<notin> {''/'', ''/boot'', ''/boot/efi''} then None
      else Some \<lparr>bd_id = ''boot:'' @ take 24 (token_sha256 C (mp_source m @ '':'' @ target)),
        bd_kind = (if target = ''/'' then ''linux-root'' else ''boot-mount''),
        bd_partition_number = Some (part_number p), bd_resource_path = Some target,
        bd_reason = ''Partition is mounted at boot-sensitive path '' @ target @ ''.'',
        bd_critical = True\<rparr>)"

definition role_dependencies :: "partition_role \<Rightarrow> partition_resource \<Rightarrow> boot_dependency list" where
  "role_dependencies actual p =
     (if actual = ROLE_EFI then [\<lparr>bd_id = ''boot:efi:'' @ part_id p, bd_kind = ''efi-system-partition'',
        bd_partition_number = Some (part_number p), bd_resource_path = Some (part_path p),
        bd_reason = ''Partition type identifies an EFI System Partition.'', bd_critical = True\<rparr>] else [])
     @ (if part_bootable p then [\<lparr>bd_id = ''boot:legacy:'' @ part_id p, bd_kind = ''legacy-bootable'',
        bd_partition_number = Some (part_number p), bd_resource_path = Some (part_path p),
        bd_reason = ''MBR bootable flag is set.'', bd_critical = True\<rparr>] else [])"

text \<open>One iteration of the loop over the partitions, after the probe.\<close>

definition enrich_partition ::
  "codec \<Rightarrow> (string \<Rightarrow> string \<Rightarrow> operating_system_resource option) \<Rightarrow> mount_point_resource list
     \<Rightarrow> string list \<Rightarrow> enrichment \<Rightarrow> partition_resource \<Rightarrow> (string \<times> string) list \<Rightarrow> enrichment" where
  "enrich_partition C os_of records swaps en p probe =
     (let found = classify_probe C p probe;
          matching = filter (\<lambda>m. mp_source m = part_path p) records;
          os_found = List.map_filter (\<lambda>m. os_of (mp_source m) (mp_path m)) matching;
          swap1 = en_swap en @ (if pd_swap found then [part_number p] else []);
          swapped = (part_path p \<in> set swaps \<and> part_number p \<notin> set swap1);
          actual = (if swapped then ROLE_SWAP else pd_role found)
      in \<lparr>en_partitions = en_partitions en @ [p\<lparr>
            part_filesystem_id := map_option fs_id (pd_filesystem found),
            part_mount_point_ids := map (mount_id_of C) matching,
            part_operating_system_ids := map os_id os_found,
            part_volume_ids := (case pd_volume found of None \<Rightarrow> [] | Some v \<Rightarrow> [vol_id v]),
            part_encryption_status := pd_encryption found, part_role := actual\<rparr>],
          en_filesystems = en_filesystems en @ (case pd_filesystem found of None \<Rightarrow> [] | Some f \<Rightarrow> [f]),
          en_mounts = en_mounts en @ map (\<lambda>m. m\<lparr>mp_id := mount_id_of C m\<rparr>) matching,
          en_volumes = en_volumes en @ (case pd_volume found of None \<Rightarrow> [] | Some v \<Rightarrow> [v]),
          en_operating_systems = en_operating_systems en @ os_found,
          en_boot_dependencies = en_boot_dependencies en
            @ List.map_filter (boot_mount_dependency C p) matching @ role_dependencies actual p,
          en_swap = swap1 @ (if swapped then [part_number p] else []),
          en_recovery = en_recovery en @ (if actual = ROLE_RECOVERY then [part_number p] else [])\<rparr>)"

fun enrich_loop ::
  "'w tool_suite \<Rightarrow> storage_device_identity \<Rightarrow> mount_point_resource list \<Rightarrow> string list \<Rightarrow> enrichment
     \<Rightarrow> partition_resource list \<Rightarrow> ('w, enrichment) prog" where
  "enrich_loop T d records swaps en [] = ret en"
| "enrich_loop T d records swaps en (p # ps) =
     bindM (probe_partition T d p) (\<lambda>probe.
     bindM (getM (\<lambda>w. enrich_partition (ts_codec T) (detect_os (ts_codec T) (ts_host T) w) records swaps
        en p probe)) (\<lambda>en'.
     enrich_loop T d records swaps en' ps))"

definition enriched_layout ::
  "codec \<Rightarrow> string \<Rightarrow> int \<Rightarrow> storage_device_identity \<Rightarrow> partition_table \<Rightarrow> enrichment \<Rightarrow> storage_layout" where
  "enriched_layout C lid now d table en =
     (let t = seal_table C (table\<lparr>pt_partitions := en_partitions en, pt_fingerprint_sha256 := zeros64\<rparr>);
          disk = \<lparr>disk_id = resource_id d, disk_identity = d,
            disk_partition_table_id = ''partition-table:'' @ take 24 (dev_fingerprint_sha256 d)\<rparr>;
          swap = sorted_list_of_set (set (en_swap en));
          recovery = sorted_list_of_set (set (en_recovery en));
          body = \<lparr>lb_disk = disk, lb_partition_table = t, lb_filesystems = en_filesystems en,
            lb_mount_points = en_mounts en, lb_volumes = en_volumes en,
            lb_operating_systems = en_operating_systems en,
            lb_boot_dependencies = en_boot_dependencies en, lb_swap_partitions = swap,
            lb_recovery_partitions = recovery\<rparr>
      in \<lparr>lay_id = lid, lay_observed_at = now, lay_disk = disk, lay_partition_table = t,
          lay_filesystems = en_filesystems en, lay_mount_points = en_mounts en,
          lay_volumes = en_volumes en, lay_operating_systems = en_operating_systems en,
          lay_boot_dependencies = en_boot_dependencies en, lay_swap_partitions = swap,
          lay_recovery_partitions = recovery, lay_warnings = [],
          lay_evidence_sha256 = canonical_sha256 C (P_layout_body body)\<rparr>)"

definition enrich ::
  "'w tool_suite \<Rightarrow> storage_device_identity \<Rightarrow> partition_table \<Rightarrow> ('w, storage_layout) prog" where
  "enrich T d table =
     bindM (getM (mount_records (ts_codec T) (ts_host T))) (\<lambda>records.
     bindM (getM (swap_sources (ts_host T))) (\<lambda>swaps.
     bindM (enrich_loop T d records swaps empty_enrichment (pt_partitions table)) (\<lambda>en.
     bindM (uuid4_hex (ts_clock T)) (\<lambda>lid.
     bindM (utc_now (ts_clock T)) (\<lambda>now.
     ret (enriched_layout (ts_codec T) lid now d table en))))))"

definition tool_inspect :: "'w tool_suite \<Rightarrow> string \<Rightarrow> ('w, storage_layout) prog" where
  "tool_inspect T target =
     (let H = ts_host T; C = ts_codec T in
      bindM (identifyM T target) (\<lambda>d.
      bindM (getM (runner_inspect H ''sfdisk'')) (\<lambda>reason.
      if reason \<noteq> None then tool_error ''SFDISK_UNAVAILABLE''
      else
      bindM (table_run H ''sfdisk'' [''--json'', dev_canonical_path d] 10) (\<lambda>result.
      bindM (if pr_exit_code result = 0 then liftE (parse_sfdisk_json C (pr_stdout result) d)
             else if dev_device_kind d = Regular_file \<and> looks_unpartitioned (pr_stderr result)
             then ret (empty_table C d)
             else tool_error ''STORAGE_PARTITION_TABLE_INSPECTION_FAILED'') (\<lambda>table.
      enrich T d table)))))"

definition tool_dump :: "'w tool_suite \<Rightarrow> storage_device_identity \<Rightarrow> ('w, string) prog" where
  "tool_dump T expected =
     bindM (revalidate T expected) (\<lambda>_.
     bindM (table_run (ts_host T) ''sfdisk'' [''--dump'', dev_canonical_path expected] 10) (\<lambda>result.
     if pr_exit_code result \<noteq> 0 then
       (if looks_unpartitioned (pr_stderr result) then ret []
        else tool_error ''STORAGE_PARTITION_TABLE_DUMP_FAILED'')
     else if utf8_length (pr_stdout result) > MAX_INPUT_BYTES
     then tool_error ''STORAGE_PARTITION_TABLE_DUMP_TOO_LARGE''
     else ret (pr_stdout result)))"

section \<open>Dry run, checkpoint, write and verification\<close>

definition tool_verify :: "'w tool_suite \<Rightarrow> storage_operation_plan \<Rightarrow> ('w, storage_layout) prog" where
  "tool_verify T p =
     bindM (tool_inspect T (dev_requested_path (plan_target_disk p))) (\<lambda>current.
     if dev_fingerprint_sha256 (disk_identity (lay_disk current)) \<noteq> dev_fingerprint_sha256 (plan_target_disk p)
     then tool_error ''STORAGE_DEVICE_IDENTITY_CHANGED''
     else if partition_geometry_signature (lay_partition_table (plan_proposed_layout p))
             \<noteq> partition_geometry_signature (lay_partition_table current)
     then tool_error ''STORAGE_PARTITION_GEOMETRY_MISMATCH''
     else
     bindM (runner_run (ts_host T) ''sfdisk'' [''--verify'', dev_canonical_path (plan_target_disk p)] 10 None)
       (\<lambda>result.
     if pr_exit_code result \<noteq> 0 then tool_error ''STORAGE_PARTITION_TABLE_VERIFY_FAILED''
     else ret current))"

definition wipe_args :: "storage_operation_plan \<Rightarrow> string list" where
  "wipe_args p = [''--lock'', ''--wipe'', ''never'', ''--wipe-partitions'', ''never'',
     dev_canonical_path (plan_target_disk p)]"

text \<open>\<open>except TimeoutError ... except (OSError, ValueError, ...)\<close> around a process with a script.\<close>

definition scripted_run ::
  "'w tool_suite \<Rightarrow> string list \<Rightarrow> int \<Rightarrow> string \<Rightarrow> string \<Rightarrow> string \<Rightarrow> ('w, process_result) prog" where
  "scripted_run T args timeout script timed_out failed =
     catchM (runner_run (ts_host T) ''sfdisk'' args timeout (Some script)) (\<lambda>e.
       if e = TimeoutError then tool_error timed_out
       else if is_os_error e \<or> is_value_error e then tool_error failed
       else raise e)"

definition tool_dry_run :: "'w tool_suite \<Rightarrow> storage_operation_plan \<Rightarrow> ('w, storage_dry_run_result) prog" where
  "tool_dry_run T p =
     (let C = ts_codec T in
      bindM (revalidate T (plan_target_disk p)) (\<lambda>_.
      bindM (liftE (render_sfdisk_script (lay_partition_table (plan_proposed_layout p)))) (\<lambda>script.
      bindM (scripted_run T (''--no-act'' # wipe_args p) 10 script
               ''STORAGE_DRY_RUN_TIMEOUT'' ''STORAGE_DRY_RUN_FAILED'') (\<lambda>result.
      ret \<lparr>dry_tool = ''sfdisk'',
           dry_original_layout_sha256 = layout_fingerprint C (plan_original_layout p),
           dry_proposed_layout_sha256 = layout_fingerprint C (plan_proposed_layout p),
           dry_script_sha256 = sha256_hex C script,
           dry_exit_code = pr_exit_code result,
           dry_valid = (pr_exit_code result = 0),
           dry_warnings = take 32 (filter (\<lambda>line. py_strip line \<noteq> []) (splitlines (pr_stderr result)))\<rparr>))))"

definition tool_create_checkpoint ::
  "'w tool_suite \<Rightarrow> storage_operation_plan \<Rightarrow> string
     \<Rightarrow> ('w, partition_table_checkpoint_artifact) prog" where
  "tool_create_checkpoint T p checkpoint_id =
     bindM (revalidate T (plan_target_disk p)) (\<lambda>_.
     bindM (tool_dump T (plan_target_disk p)) (\<lambda>dump.
     bindM (utc_now (ts_clock T)) (\<lambda>now.
     ret \<lparr>art_checkpoint_id = checkpoint_id, art_operation_id = plan_operation_id p,
          art_target_fingerprint_sha256 = dev_fingerprint_sha256 (plan_target_disk p),
          art_partition_table_fingerprint_sha256
            = pt_fingerprint_sha256 (lay_partition_table (plan_original_layout p)),
          art_dump_sha256 = sha256_hex (ts_codec T) dump, art_sfdisk_dump = dump,
          art_created_at = now\<rparr>)))"

definition write_table :: "'w tool_suite \<Rightarrow> storage_operation_plan \<Rightarrow> ('w, int) prog" where
  "write_table T p =
     bindM (liftE (render_sfdisk_script (lay_partition_table (plan_proposed_layout p)))) (\<lambda>script.
     bindM (scripted_run T (wipe_args p) 60 script
              ''STORAGE_PARTITION_TABLE_WRITE_TIMEOUT'' ''STORAGE_PARTITION_TABLE_WRITE_FAILED'') (\<lambda>result.
     ret (pr_exit_code result)))"

text \<open>The four operation tools behind the dispatch of \<open>execute\<close>.\<close>

definition execute_operation :: "'w tool_suite \<Rightarrow> storage_operation_plan \<Rightarrow> ('w, int) prog" where
  "execute_operation T p =
     (if plan_operation p = CREATE then write_table T p
      else if plan_operation p = DELETE then write_table T p
      else if plan_operation p = RESIZE then tool_error ''STORAGE_PARTITION_RESIZE_DISABLED''
      else tool_error ''STORAGE_PARTITION_MOVE_DISABLED'')"

definition reread_kernel :: "'w tool_suite \<Rightarrow> storage_device_identity \<Rightarrow> ('w, bool) prog" where
  "reread_kernel T d =
     bindM (getM (runner_inspect (ts_host T) ''blockdev'')) (\<lambda>reason.
     if reason \<noteq> None then tool_error ''BLOCKDEV_UNAVAILABLE''
     else
     bindM (catchM (runner_run (ts_host T) ''blockdev'' [''--rereadpt'', dev_canonical_path d] 10 None)
       (\<lambda>e. if is_os_error e \<or> is_value_error e then tool_error ''STORAGE_KERNEL_REREAD_FAILED''
            else raise e)) (\<lambda>result.
     if pr_exit_code result \<noteq> 0 then tool_error ''STORAGE_KERNEL_REREAD_FAILED'' else ret True))"

text \<open>Stage notifications: the callback is a program on the world and the state of its owner.\<close>

type_synonym stage = "string \<times> (string \<times> json) list"

definition onW :: "('w, 'a) prog \<Rightarrow> ('w \<times> 'x, 'a) prog" where
  "onW m = (\<lambda>(w, x). let (r, w') = m w in (r, (w', x)))"

definition write_started :: "storage_operation_plan \<Rightarrow> stage" where
  "write_started p = (''storage.partition-table.write.started'',
     [(''operation'', JStr (operation_value (plan_operation p))),
      (''target_fingerprint'', JStr (dev_fingerprint_sha256 (plan_target_disk p)))])"

definition write_completed :: "storage_operation_plan \<Rightarrow> int \<Rightarrow> stage" where
  "write_completed p exit_code = (''storage.partition-table.write.completed'',
     [(''operation'', JStr (operation_value (plan_operation p))), (''exit_code'', JInt exit_code)])"

definition outcome_of ::
  "codec \<Rightarrow> storage_operation_plan \<Rightarrow> int \<Rightarrow> bool option \<Rightarrow> storage_layout \<Rightarrow> storage_layout
     \<Rightarrow> storage_operation_outcome" where
  "outcome_of C p exit_code reread before after =
     \<lparr>out_operation_id = plan_operation_id p, out_operation = plan_operation p, out_tool = ''sfdisk'',
      out_exit_code = exit_code, out_kernel_reread = reread, out_before = before, out_after = after,
      out_evidence = [''before='' @ layout_fingerprint C before, ''after='' @ layout_fingerprint C after,
        ''partition_table='' @ pt_fingerprint_sha256 (lay_partition_table after)]\<rparr>"

text \<open>The part of \<open>execute\<close> behind its guards.\<close>

definition write_and_verify ::
  "'w tool_suite \<Rightarrow> (stage \<Rightarrow> ('w \<times> 'x, unit) prog) \<Rightarrow> storage_operation_plan \<Rightarrow> storage_layout
     \<Rightarrow> ('w \<times> 'x, storage_operation_outcome) prog" where
  "write_and_verify T on_stage p before =
     bindM (on_stage (write_started p)) (\<lambda>_.
     bindM (onW (execute_operation T p)) (\<lambda>exit_code.
     if exit_code \<noteq> 0 then tool_error ''STORAGE_PARTITION_TABLE_WRITE_FAILED''
     else
     bindM (on_stage (write_completed p exit_code)) (\<lambda>_.
     bindM (if dev_device_kind (plan_target_disk p) \<in> {Loop, Block}
            then bindM (onW (reread_kernel T (plan_target_disk p))) (\<lambda>b. ret (Some b)) else ret None) (\<lambda>reread.
     bindM (onW (tool_verify T p)) (\<lambda>after.
     ret (outcome_of (ts_codec T) p exit_code reread before after))))))"

definition tool_execute ::
  "'w tool_suite \<Rightarrow> (stage \<Rightarrow> ('w \<times> 'x, unit) prog) \<Rightarrow> storage_operation_plan
     \<Rightarrow> ('w \<times> 'x, storage_operation_outcome) prog" where
  "tool_execute T on_stage p =
     (let d = plan_target_disk p in
      if \<not> gate_allowed (evaluate (ts_write_gate T) d)
      then tool_error ''PRODUCTION_STORAGE_WRITE_GATE_BLOCKED''
      else
      bindM (onW (revalidate T d)) (\<lambda>_.
      bindM (onW (tool_inspect T (dev_requested_path d))) (\<lambda>before.
      if partition_geometry_signature (lay_partition_table before)
           \<noteq> partition_geometry_signature (lay_partition_table (plan_original_layout p))
      then tool_error ''STORAGE_LAYOUT_CHANGED''
      else write_and_verify T on_stage p before)))"

section \<open>Dependencies\<close>

definition mount_dependencies :: "storage_layout \<Rightarrow> string list" where
  "mount_dependencies l = map mp_path (lay_mount_points l)
     @ map (\<lambda>n. ''swap:'' @ int_str n) (lay_swap_partitions l)"

end
