(* ===== verification/Storage_Executor.thy ===== *)
theory Storage_Executor
  imports Partition_Tools
begin

text \<open>
  The executor port of \<^verbatim>\<open>storage_operations/executor.py\<close>: the protocol as the record \<open>executor\<close>, the
  binding of a grant to a plan, and the local executor that drives the partition tools. An operation
  that reports progress through a callback returns the list of its notifications beside its result;
  the caller applies its callback to them in order before it continues. This is how the socket client
  behaves, where a callback that fails does not stop the broker; the local executor calls the callback
  from inside the tool and is modelled for callbacks that do not raise.
\<close>

record 'w executor =
  ex_inspect :: "string \<Rightarrow> ('w, storage_layout) prog"
  ex_dry_run :: "storage_operation_plan \<Rightarrow> ('w, storage_dry_run_result) prog"
  ex_create_checkpoint :: "storage_operation_plan \<Rightarrow> ('w, storage_checkpoint_bundle) prog"
  ex_request_authorization ::
    "storage_operation_plan \<Rightarrow> 'w \<Rightarrow> string list \<times> (exc + storage_authorization_grant) \<times> 'w"
  ex_execute :: "storage_operation_plan \<Rightarrow> storage_authorization_grant \<Rightarrow> 'w
    \<Rightarrow> stage list \<times> (exc + storage_operation_outcome) \<times> 'w"
  ex_verify :: "storage_operation_plan \<Rightarrow> ('w, storage_layout) prog"

section \<open>Grants\<close>

definition grant_matches ::
  "storage_operation_plan \<Rightarrow> storage_authorization_grant \<Rightarrow> storage_authorization_grant option
     \<Rightarrow> int \<Rightarrow> bool" where
  "grant_matches p grant stored now \<longleftrightarrow>
     stored = Some grant \<and> grant_expires_at grant > now \<and>
     grant_operation_id grant = plan_operation_id p \<and> grant_plan_id grant = plan_id p \<and>
     grant_session_id grant = plan_session_id p \<and>
     grant_target_fingerprint_sha256 grant = dev_fingerprint_sha256 (plan_target_disk p) \<and>
     grant_plan_fingerprint_sha256 grant = plan_fingerprint_sha256 p"

section \<open>The local executor\<close>

record 'w local_world =
  lw_host :: 'w
  lw_grants :: "(string \<times> storage_authorization_grant) list"

definition onHost :: "('w, 'a) prog \<Rightarrow> ('w local_world, 'a) prog" where
  "onHost m s = (let (r, w) = m (lw_host s) in (r, s\<lparr>lw_host := w\<rparr>))"

definition local_clock :: "'w clock \<Rightarrow> 'w local_world clock" where
  "local_clock K = \<lparr>clk_now = (\<lambda>s. let (t, w) = clk_now K (lw_host s) in (t, s\<lparr>lw_host := w\<rparr>)),
     clk_uuid4 = (\<lambda>s. let (u, w) = clk_uuid4 K (lw_host s) in (u, s\<lparr>lw_host := w\<rparr>))\<rparr>"

definition executor_code_of_tool :: "exc \<Rightarrow> exc" where
  "executor_code_of_tool e = (case e of PartitionToolError code \<Rightarrow> StorageExecutorError code | _ \<Rightarrow> e)"

definition from_tool :: "('s, 'a) prog \<Rightarrow> ('s, 'a) prog" where
  "from_tool m = catchM m (\<lambda>e. raise (executor_code_of_tool e))"

definition local_inspect :: "'w tool_suite \<Rightarrow> string \<Rightarrow> ('w local_world, storage_layout) prog" where
  "local_inspect T target = from_tool (onHost (tool_inspect T target))"

definition local_dry_run ::
  "'w tool_suite \<Rightarrow> storage_operation_plan \<Rightarrow> ('w local_world, storage_dry_run_result) prog" where
  "local_dry_run T p = from_tool (onHost (tool_dry_run T p))"

text \<open>The checkpoint the local executor and the broker build over an artifact.\<close>

definition table_checkpoint ::
  "codec \<Rightarrow> storage_operation_plan \<Rightarrow> partition_table_checkpoint_artifact \<Rightarrow> int
     \<Rightarrow> string list \<Rightarrow> protection_checkpoint" where
  "table_checkpoint C p artifact now limitations =
     \<lparr>cp_id = art_checkpoint_id artifact, cp_created_at = now, cp_status = CP_READY,
      cp_protected_resources = [protected_resource_id p],
      cp_resource_fingerprints =
        [(protected_resource_id p, dev_fingerprint_sha256 (plan_target_disk p))],
      cp_provider_capability_id = ''storage.partition.inspect'',
      cp_protection_kind = SNAPSHOT_KIND, cp_backup_id = None,
      cp_verification_id = Some (''partition-table:'' @ take 24 (art_dump_sha256 artifact)),
      cp_session_id = plan_session_id p,
      cp_evidence_sha256 = canonical_sha256 C (P_checkpoint_evidence (art_checkpoint_id artifact)
        (plan_operation_id p) (dev_fingerprint_sha256 (plan_target_disk p))
        (art_partition_table_fingerprint_sha256 artifact) (art_dump_sha256 artifact)),
      cp_limitations = limitations\<rparr>"

definition local_create_checkpoint ::
  "'w tool_suite \<Rightarrow> storage_operation_plan \<Rightarrow> ('w local_world, storage_checkpoint_bundle) prog" where
  "local_create_checkpoint T p =
     bindM (onHost (uuid4_hex (ts_clock T))) (\<lambda>checkpoint_id.
     bindM (from_tool (onHost (tool_create_checkpoint T p checkpoint_id))) (\<lambda>artifact.
     bindM (onHost (utc_now (ts_clock T))) (\<lambda>now.
     ret \<lparr>bundle_checkpoint = table_checkpoint (ts_codec T) p artifact now
            [''Checkpoint protects partition-table metadata; it is not a filesystem/data backup.'',
             ''Create/delete are executable only when DataImpactAssessment allows ''
               @ ''table-only recovery.''],
          bundle_artifact = artifact\<rparr>)))"

definition local_request_authorization ::
  "'w tool_suite \<Rightarrow> bool \<Rightarrow> storage_operation_plan \<Rightarrow> 'w local_world
     \<Rightarrow> string list \<times> (exc + storage_authorization_grant) \<times> 'w local_world" where
  "local_request_authorization T authorize p s =
     (let (u, w1) = clk_uuid4 (ts_clock T) (lw_host s);
          challenge_id = ''test-'' @ u
      in if \<not> authorize
         then ([challenge_id], Inl (StorageExecutorError ''STORAGE_AUTHORIZATION_DENIED''), s\<lparr>lw_host := w1\<rparr>)
         else let (gid, w2) = clk_uuid4 (ts_clock T) w1;
                  (now, w3) = clk_now (ts_clock T) w2;
                  grant = \<lparr>grant_id = gid, grant_challenge_id = challenge_id,
                    grant_operation_id = plan_operation_id p, grant_plan_id = plan_id p,
                    grant_session_id = plan_session_id p,
                    grant_target_fingerprint_sha256 = dev_fingerprint_sha256 (plan_target_disk p),
                    grant_plan_fingerprint_sha256 = plan_fingerprint_sha256 p,
                    grant_operator_uid = Some 1000, grant_expires_at = now + 5 * 60 * 1000000\<rparr>
              in ([challenge_id], Inr grant,
                  s\<lparr>lw_host := w3, lw_grants := dict_set gid grant (lw_grants s)\<rparr>))"

text \<open>The notifications are collected in order.\<close>

definition log_stage :: "stage \<Rightarrow> ('w \<times> stage list, unit) prog" where
  "log_stage st = modifyM (\<lambda>(w, log). (w, log @ [st]))"

definition local_execute ::
  "'w tool_suite \<Rightarrow> storage_operation_plan \<Rightarrow> storage_authorization_grant \<Rightarrow> 'w local_world
     \<Rightarrow> stage list \<times> (exc + storage_operation_outcome) \<times> 'w local_world" where
  "local_execute T p grant s =
     (let stored = map_of (lw_grants s) (grant_id grant);
          s1 = s\<lparr>lw_grants := dict_del (grant_id grant) (lw_grants s)\<rparr>;
          (now, w1) = (if stored = Some grant then clk_now (ts_clock T) (lw_host s) else (0, lw_host s))
      in if \<not> grant_matches p grant stored now
         then ([], Inl (StorageExecutorError ''STORAGE_AUTHORIZATION_INVALID''), s1\<lparr>lw_host := w1\<rparr>)
         else let (r, (w2, log)) = from_tool (tool_execute T log_stage p) (w1, [])
              in (log, r, s1\<lparr>lw_host := w2\<rparr>))"

definition local_verify ::
  "'w tool_suite \<Rightarrow> storage_operation_plan \<Rightarrow> ('w local_world, storage_layout) prog" where
  "local_verify T p = from_tool (onHost (tool_verify T p))"

definition local_executor :: "'w tool_suite \<Rightarrow> bool \<Rightarrow> 'w local_world executor" where
  "local_executor T authorize = \<lparr>
     ex_inspect = local_inspect T,
     ex_dry_run = local_dry_run T,
     ex_create_checkpoint = local_create_checkpoint T,
     ex_request_authorization = local_request_authorization T authorize,
     ex_execute = local_execute T,
     ex_verify = local_verify T\<rparr>"

end
