(* ===== verification/Operation_Store.thy ===== *)
theory Operation_Store
  imports Integrity
begin

text \<open>
  The durable stores of \<^verbatim>\<open>storage_operations/store.py\<close> and \<^verbatim>\<open>protection/store.py\<close>. A directory of JSON files
  is a dictionary from the file's stem to the value it holds: a write replaces the file atomically,
  and what a write encoded, a read decodes. The size limit of a write is checked on the encoded text;
  file-system failures are not modelled.
\<close>

definition MAX_RECORD_BYTES :: int where
  "MAX_RECORD_BYTES = 12000000"

definition MAX_CHECKPOINT_BYTES :: int where
  "MAX_CHECKPOINT_BYTES = 256000"

record operation_store =
  st_plans :: "(string \<times> storage_operation_plan) list"
  st_transactions :: "(string \<times> storage_transaction) list"
  st_verifications :: "(string \<times> storage_verification) list"
  st_checkpoints :: "(string \<times> partition_table_checkpoint_artifact) list"

definition is_safe_id :: "string \<Rightarrow> bool" where
  "is_safe_id v \<longleftrightarrow> 8 \<le> length v \<and> length v \<le> 128 \<and>
     list_all (\<lambda>c. is_alnum c \<or> c \<in> set ''-_'') v"

definition safe_id :: "string \<Rightarrow> string" where
  "safe_id v = (if is_safe_id v then v else ''invalid'')"

text \<open>\<open>_write\<close>: the new directory, or the refusal of an oversized record.\<close>

definition write_file ::
  "codec \<Rightarrow> (string \<times> 'v) list \<Rightarrow> string \<Rightarrow> payload \<Rightarrow> 'v \<Rightarrow> exc + (string \<times> 'v) list" where
  "write_file C dir stem encoded v =
     (if utf8_length (json_dumps C encoded) + 1 > MAX_RECORD_BYTES
      then Inl (ValueError ''storage operation record exceeds safety limit'')
      else Inr (dict_set stem v dir))"

definition put_plan :: "codec \<Rightarrow> storage_operation_plan \<Rightarrow> operation_store \<Rightarrow> exc + operation_store" where
  "put_plan C p s = bindE (write_file C (st_plans s) (plan_id p) (P_plan p) p)
     (\<lambda>d. Inr (s\<lparr>st_plans := d\<rparr>))"

definition get_plan :: "operation_store \<Rightarrow> string \<Rightarrow> storage_operation_plan option" where
  "get_plan s i = map_of (st_plans s) (safe_id i)"

definition put_transaction ::
  "codec \<Rightarrow> storage_transaction \<Rightarrow> operation_store \<Rightarrow> exc + operation_store" where
  "put_transaction C t s =
     bindE (write_file C (st_transactions s) (tx_operation_id t) (P_transaction t) t)
     (\<lambda>d. Inr (s\<lparr>st_transactions := d\<rparr>))"

definition get_transaction :: "operation_store \<Rightarrow> string \<Rightarrow> storage_transaction option" where
  "get_transaction s i = map_of (st_transactions s) (safe_id i)"

definition put_verification ::
  "codec \<Rightarrow> storage_verification \<Rightarrow> operation_store \<Rightarrow> exc + operation_store" where
  "put_verification C v s =
     bindE (write_file C (st_verifications s) (ver_operation_id v) (P_verification v) v)
     (\<lambda>d. Inr (s\<lparr>st_verifications := d\<rparr>))"

definition get_verification :: "operation_store \<Rightarrow> string \<Rightarrow> storage_verification option" where
  "get_verification s i = map_of (st_verifications s) (safe_id i)"

definition put_checkpoint ::
  "codec \<Rightarrow> partition_table_checkpoint_artifact \<Rightarrow> operation_store \<Rightarrow> exc + operation_store" where
  "put_checkpoint C a s =
     bindE (write_file C (st_checkpoints s) (art_checkpoint_id a) (P_artifact a) a)
     (\<lambda>d. Inr (s\<lparr>st_checkpoints := d\<rparr>))"

definition get_checkpoint :: "operation_store \<Rightarrow> string \<Rightarrow> partition_table_checkpoint_artifact option" where
  "get_checkpoint s i = map_of (st_checkpoints s) (safe_id i)"

definition get_record :: "operation_store \<Rightarrow> string \<Rightarrow> storage_operation_record option" where
  "get_record s i = (case get_transaction s i of
       None \<Rightarrow> None
     | Some t \<Rightarrow> (case get_plan s (tx_plan_id t) of
           None \<Rightarrow> None
         | Some p \<Rightarrow> Some \<lparr>rec_plan = p, rec_transaction = t, rec_verification = get_verification s i\<rparr>))"

definition list_records :: "operation_store \<Rightarrow> storage_operation_record list" where
  "list_records s =
     sort_key (\<lambda>r. - tx_created_at (rec_transaction r))
       (List.map_filter (get_record s) (map fst (st_transactions s)))"

section \<open>Restart\<close>

definition reconcile_transaction :: "int \<Rightarrow> storage_transaction \<Rightarrow> storage_transaction" where
  "reconcile_transaction now t =
     (if tx_status t \<in> {EXECUTING, VERIFYING} then
        t\<lparr>tx_status := UNKNOWN, tx_finished_at := None, tx_reconciliation_required := True,
          tx_error_code := Some ''STORAGE_OPERATION_INTERRUPTED'',
          tx_last_known_stage := (if truthy (tx_last_known_stage t) then tx_last_known_stage t
                                  else Some ''process-restart'')\<rparr>
      else if tx_status t = AUTHORIZED then
        t\<lparr>tx_status := ABORTED, tx_finished_at := Some now,
          tx_error_code := Some ''STORAGE_AUTHORIZATION_LOST_ON_RESTART'',
          tx_last_known_stage := Some ''authorization-not-executed''\<rparr>
      else t)"

fun reconcile_files ::
  "codec \<Rightarrow> int \<Rightarrow> (string \<times> storage_transaction) list \<Rightarrow> (string \<times> storage_transaction) list
     \<Rightarrow> exc + (string \<times> storage_transaction) list" where
  "reconcile_files C now dir [] = Inr dir"
| "reconcile_files C now dir ((stem, t) # files) =
     (if tx_status t \<in> {EXECUTING, VERIFYING, AUTHORIZED} then
        bindE (write_file C dir stem (P_transaction (reconcile_transaction now t))
                 (reconcile_transaction now t))
          (\<lambda>dir'. reconcile_files C now dir' files)
      else reconcile_files C now dir files)"

definition reconcile_interrupted :: "codec \<Rightarrow> int \<Rightarrow> operation_store \<Rightarrow> exc + operation_store" where
  "reconcile_interrupted C now s =
     bindE (reconcile_files C now (st_transactions s) (st_transactions s))
       (\<lambda>d. Inr (s\<lparr>st_transactions := d\<rparr>))"

section \<open>The protection checkpoint store\<close>

type_synonym checkpoint_store = "(string \<times> protection_checkpoint) list"

definition checkpoint_put ::
  "codec \<Rightarrow> protection_checkpoint \<Rightarrow> checkpoint_store \<Rightarrow> exc + checkpoint_store" where
  "checkpoint_put C c s =
     (if utf8_length (json_dumps C (P_checkpoint c)) + 1 > MAX_CHECKPOINT_BYTES
      then Inl (ValueError ''protection checkpoint exceeds its safety limit'')
      else Inr (dict_set (cp_id c) c s))"

definition checkpoint_get :: "checkpoint_store \<Rightarrow> string \<Rightarrow> protection_checkpoint option" where
  "checkpoint_get s i = (if \<not> is_safe_id i then None else map_of s i)"

section \<open>Interface\<close>

text \<open>
  A keyed store: what is read back after a write, and that a write leaves the other keys alone. The
  stores of plans, transactions, verifications and checkpoint artifacts are instances.
\<close>

locale keyed_store =
  fixes put :: "'v \<Rightarrow> 's \<Rightarrow> exc + 's"
    and get :: "'s \<Rightarrow> string \<Rightarrow> 'v option"
    and key :: "'v \<Rightarrow> string"
  assumes get_put: "put v s = Inr s' \<Longrightarrow> is_safe_id i \<Longrightarrow>
      get s' i = (if i = key v then Some v else get s i)"
begin

lemma read_your_write: "put v s = Inr s' \<Longrightarrow> is_safe_id (key v) \<Longrightarrow> get s' (key v) = Some v"
  by (simp add: get_put)

lemma write_frame: "put v s = Inr s' \<Longrightarrow> is_safe_id i \<Longrightarrow> i \<noteq> key v \<Longrightarrow> get s' i = get s i"
  by (simp add: get_put)

lemma last_write_wins:
  assumes "put v s = Inr s'" and "put w s' = Inr s''" and "key v = key w" and "is_safe_id (key v)"
  shows "get s'' (key v) = Some w"
  using assms by (simp add: get_put)

end

lemma write_file_Inr:
  "write_file C dir stem e v = Inr dir' \<Longrightarrow> dir' = dict_set stem v dir"
  by (auto simp: write_file_def split: if_splits)

lemma put_Inr:
  "put_plan C p s = Inr s' \<Longrightarrow> s' = s\<lparr>st_plans := dict_set (plan_id p) p (st_plans s)\<rparr>"
  "put_transaction C t s = Inr s' \<Longrightarrow>
     s' = s\<lparr>st_transactions := dict_set (tx_operation_id t) t (st_transactions s)\<rparr>"
  "put_verification C v s = Inr s' \<Longrightarrow>
     s' = s\<lparr>st_verifications := dict_set (ver_operation_id v) v (st_verifications s)\<rparr>"
  "put_checkpoint C a s = Inr s' \<Longrightarrow>
     s' = s\<lparr>st_checkpoints := dict_set (art_checkpoint_id a) a (st_checkpoints s)\<rparr>"
  by (auto simp: put_plan_def put_transaction_def put_verification_def put_checkpoint_def prog_simps
      dest!: write_file_Inr)

interpretation plan_store: keyed_store "put_plan C" get_plan plan_id for C
  by unfold_locales (auto dest!: put_Inr simp: get_plan_def safe_id_def)

interpretation transaction_store: keyed_store "put_transaction C" get_transaction tx_operation_id for C
  by unfold_locales (auto dest!: put_Inr simp: get_transaction_def safe_id_def)

interpretation verification_store: keyed_store "put_verification C" get_verification ver_operation_id for C
  by unfold_locales (auto dest!: put_Inr simp: get_verification_def safe_id_def)

interpretation artifact_store: keyed_store "put_checkpoint C" get_checkpoint art_checkpoint_id for C
  by unfold_locales (auto dest!: put_Inr simp: get_checkpoint_def safe_id_def)

interpretation protection_store: keyed_store "checkpoint_put C" checkpoint_get cp_id for C
  by unfold_locales (auto simp: checkpoint_put_def checkpoint_get_def split: if_splits)

section \<open>Restart reconciliation\<close>

lemma reconcile_files_Inr:
  assumes "reconcile_files C now dir files = Inr dir'" and "distinct (map fst files)"
    and "\<And>k t. (k, t) \<in> set files \<Longrightarrow> map_of dir k = Some t"
  shows "map_of dir' k = (if k \<in> fst ` set files then map_option (reconcile_transaction now) (map_of dir k)
                          else map_of dir k)"
  using assms
proof (induction C now dir files rule: reconcile_files.induct)
  case (1 C now dir)
  then show ?case by simp
next
  case (2 C now dir stem t files)
  let ?t = "reconcile_transaction now t"
  have stem: "map_of dir stem = Some t" using 2(5) by simp
  have fresh: "stem \<notin> fst ` set files" using 2(4) by auto
  show ?case
  proof (cases "tx_status t \<in> {EXECUTING, VERIFYING, AUTHORIZED}")
    case True
    then obtain dir1 where dir1: "write_file C dir stem (P_transaction ?t) ?t = Inr dir1"
      and rest: "reconcile_files C now dir1 files = Inr dir'"
      using 2(3) by (auto simp: prog_simps)
    have lookup: "map_of dir1 j = (if j = stem then Some ?t else map_of dir j)" for j
      using write_file_Inr[OF dir1] by simp
    have "map_of dir1 j = Some u" if "(j, u) \<in> set files" for j u
      using that 2(5)[of j u] fresh lookup by (metis fst_conv image_eqI list.set_intros(2))
    with 2(1)[OF True rest] 2(4) show ?thesis
      using lookup stem fresh by auto
  next
    case False
    then have "reconcile_files C now dir files = Inr dir'" and same: "?t = t"
      using 2(3) by (auto simp: reconcile_transaction_def)
    with 2(2)[OF False] 2(4,5)
    have "map_of dir' k = (if k \<in> fst ` set files
        then map_option (reconcile_transaction now) (map_of dir k) else map_of dir k)"
      by auto
    then show ?thesis using stem same by (cases "k = stem") (auto simp: fresh)
  qed
qed

end
