(* ===== verification/Storage_Engine.thy ===== *)
theory Storage_Engine
  imports Storage_Executor Operation_Store
begin

text \<open>
  The Storage Operation Engine of \<^verbatim>\<open>storage_operations/engine.py\<close>: plan, validate, authorize, execute,
  verify and reconcile a partition-table transaction. The engine's state is the record
  \<open>engine_state\<close>: the operation store, the protection checkpoints, the in-memory grants and the world,
  on which the clock and the executor act. Each operation is one program of the state-and-exception
  monad; operations run one after another (the interleaving of their \<open>await\<close> points is not modelled).
\<close>

record 'w engine =
  eng_codec :: codec
  eng_clock :: "'w clock"
  eng_executor :: "'w executor"
  eng_write_gate :: write_gate

record 'w engine_state =
  es_store :: operation_store
  es_checkpoints :: checkpoint_store
  es_grants :: "(string \<times> storage_authorization_grant) list"
  es_world :: 'w

section \<open>Access to the parts of the state\<close>

definition worldM :: "('w, 'a) prog \<Rightarrow> ('w engine_state, 'a) prog" where
  "worldM m s = (let (r, w) = m (es_world s) in (r, s\<lparr>es_world := w\<rparr>))"

definition storeM :: "(operation_store \<Rightarrow> exc + operation_store) \<Rightarrow> ('w engine_state, unit) prog" where
  "storeM f s = (case f (es_store s) of
       Inl e \<Rightarrow> (Inl e, s) | Inr st \<Rightarrow> (Inr (), s\<lparr>es_store := st\<rparr>))"

definition checkpointsM ::
  "(checkpoint_store \<Rightarrow> exc + checkpoint_store) \<Rightarrow> ('w engine_state, unit) prog" where
  "checkpointsM f s = (case f (es_checkpoints s) of
       Inl e \<Rightarrow> (Inl e, s) | Inr st \<Rightarrow> (Inr (), s\<lparr>es_checkpoints := st\<rparr>))"

definition recordM :: "string \<Rightarrow> ('w engine_state, storage_operation_record option) prog" where
  "recordM i = getM (\<lambda>s. get_record (es_store s) i)"

definition engine_error :: "string \<Rightarrow> ('w engine_state, 'a) prog" where
  "engine_error code = raise (StorageOperationEngineError code)"

text \<open>\<open>datetime.now(UTC) if c else ...\<close>: the clock is read only under the condition.\<close>

definition now_if :: "'w engine \<Rightarrow> bool \<Rightarrow> ('w engine_state, int option) prog" where
  "now_if E c = (if c then bindM (worldM (utc_now (eng_clock E))) (\<lambda>now. ret (Some now)) else ret None)"

text \<open>\<open>except StorageExecutorError as exc: raise StorageOperationEngineError(exc.code) from exc\<close>\<close>

definition from_executor :: "('w engine_state, 'a) prog \<Rightarrow> ('w engine_state, 'a) prog" where
  "from_executor m = catchM m (\<lambda>e. case e of
     StorageExecutorError code \<Rightarrow> engine_error code | _ \<Rightarrow> raise e)"

fun traverseM :: "('a \<Rightarrow> ('s, unit) prog) \<Rightarrow> 'a list \<Rightarrow> ('s, unit) prog" where
  "traverseM f [] = ret ()"
| "traverseM f (x # xs) = bindM (f x) (\<lambda>_. traverseM f xs)"

section \<open>Transaction updates\<close>

definition status_update ::
  "storage_transaction_status \<Rightarrow> string option \<Rightarrow> string option \<Rightarrow> int option
     \<Rightarrow> storage_transaction \<Rightarrow> storage_transaction" where
  "status_update status error_code last_known_stage finished_at t =
     t\<lparr>tx_status := status, tx_error_code := error_code, tx_last_known_stage := last_known_stage,
       tx_finished_at := (case finished_at of None \<Rightarrow> tx_finished_at t | Some now \<Rightarrow> Some now)\<rparr>"

definition set_status ::
  "'w engine \<Rightarrow> string \<Rightarrow> storage_transaction_status \<Rightarrow> string option \<Rightarrow> string option \<Rightarrow> bool
     \<Rightarrow> ('w engine_state, unit) prog" where
  "set_status E i status error_code last_known_stage finished =
     bindM (recordM i) (\<lambda>r. case r of
       None \<Rightarrow> ret ()
     | Some record \<Rightarrow>
       bindM (now_if E finished) (\<lambda>finished_at.
       storeM (put_transaction (eng_codec E)
         (status_update status error_code last_known_stage finished_at (rec_transaction record)))))"

definition mark_unknown :: "'w engine \<Rightarrow> string \<Rightarrow> string \<Rightarrow> ('w engine_state, unit) prog" where
  "mark_unknown E i code =
     bindM (recordM i) (\<lambda>r. case r of
       None \<Rightarrow> ret ()
     | Some record \<Rightarrow>
       let t = rec_transaction record in
       storeM (put_transaction (eng_codec E) (t\<lparr>tx_status := UNKNOWN, tx_finished_at := None,
         tx_reconciliation_required := True, tx_error_code := Some code,
         tx_last_known_stage := (if truthy (tx_last_known_stage t) then tx_last_known_stage t
                                 else Some ''communication-lost'')\<rparr>)))"

definition mark_failed :: "'w engine \<Rightarrow> string \<Rightarrow> string \<Rightarrow> ('w engine_state, unit) prog" where
  "mark_failed E i code = set_status E i FAILED (Some code) (Some ''storage-transaction-failed'') True"

definition mark_aborted :: "'w engine \<Rightarrow> string \<Rightarrow> string \<Rightarrow> ('w engine_state, unit) prog" where
  "mark_aborted E i code = set_status E i ABORTED (Some code) (Some ''storage-transaction-aborted'') True"

section \<open>Inspecting and planning\<close>

definition engine_inspect :: "'w engine \<Rightarrow> string \<Rightarrow> ('w engine_state, storage_layout) prog" where
  "engine_inspect E target = from_executor (worldM (ex_inspect (eng_executor E) target))"

text \<open>The proposed table, the target partition and the limitations of one operation.\<close>

definition plan_geometry ::
  "'w engine \<Rightarrow> declarative_request \<Rightarrow> storage_layout
     \<Rightarrow> ('w engine_state, partition_table \<times> partition_resource \<times> string list) prog" where
  "plan_geometry E r original =
     (let C = eng_codec E; table = lay_partition_table original;
          base = [''validation_and_dry_run_required_before_authorization'']
      in case rq_operation r of
           Op_create \<Rightarrow>
             bindM (worldM (plan_create C (eng_clock E) r original)) (\<lambda>(t, p). ret (t, p, base))
         | Op_delete \<Rightarrow>
             bindM (liftE (find_partition (pt_partitions table) (rq_partition_number r))) (\<lambda>target.
             ret (plan_delete C table target, target, base))
         | Op_resize \<Rightarrow>
             bindM (liftE (find_partition (pt_partitions table) (rq_partition_number r))) (\<lambda>target.
             bindM (liftE (plan_resize C r original target)) (\<lambda>t.
             ret (t, target,
               base @ [''storage.partition.resize is designed but disabled in this increment''])))
         | Op_move \<Rightarrow>
             bindM (liftE (find_partition (pt_partitions table) (rq_partition_number r))) (\<lambda>target.
             bindM (liftE (plan_move C r original target)) (\<lambda>t.
             ret (t, target,
               base @ [''storage.partition.move is designed but disabled in this increment'']))))"

definition plan_risk_of :: "declared_operation \<Rightarrow> risk" where
  "plan_risk_of op = (if op = Op_create then Medium
     else if op \<in> {Op_delete, Op_resize} then High else Critical)"

definition draft_plan ::
  "'w engine \<Rightarrow> declarative_request \<Rightarrow> string \<Rightarrow> storage_layout \<Rightarrow> storage_layout
     \<Rightarrow> partition_resource \<Rightarrow> string list \<Rightarrow> string \<Rightarrow> string \<Rightarrow> int \<Rightarrow> int \<Rightarrow> storage_operation_plan" where
  "draft_plan E r session_id original proposed target limitations pid oid created expires =
     (let operation = operation_enum (rq_operation r);
          data_impact = analyze_data_impact operation original (Some target);
          boot_impact = analyze_boot_impact operation original (Some target);
          gate = evaluate (eng_write_gate E) (disk_identity (lay_disk original));
          enabled = (rq_operation r \<in> {Op_create, Op_delete})
      in \<lparr>plan_id = pid,
          plan_operation_id = oid,
          plan_version = ''1.0'',
          plan_capability = ''storage.partition.'' @ declared_value (rq_operation r),
          plan_operation = operation,
          plan_created_at = created,
          plan_expires_at = expires,
          plan_session_id = session_id,
          plan_target_disk = disk_identity (lay_disk original),
          plan_target_partition = Some target,
          plan_original_layout = original,
          plan_proposed_layout = proposed,
          plan_required_operations = required_operations (rq_operation r) (rq_partition_number r),
          plan_affected_resources = affected_resources original (Some target),
          plan_risk = plan_risk_of (rq_operation r),
          plan_estimated_duration_seconds = None,
          plan_data_loss_possible = di_data_loss_possible data_impact,
          plan_data_impact = data_impact,
          plan_boot_impact = boot_impact,
          plan_filesystem_impact = filesystem_impact data_impact,
          plan_protection_checkpoint = None,
          plan_authorization = \<lparr>auth_required = True, auth_independent = True, auth_one_use = True,
            auth_exact_plan_binding = True\<rparr>,
          plan_verification_plan = verification_plan,
          plan_dry_run = None,
          plan_write_gate = gate,
          plan_executable = False,
          plan_limitations = fromkeys (limitations
            @ (if \<not> di_executable data_impact then di_reasons data_impact else [])
            @ (if \<not> bi_executable boot_impact then bi_reasons boot_impact else [])
            @ (if \<not> gate_allowed gate then [gate_reason gate] else [])
            @ (if \<not> enabled then [''operation_adapter_disabled''] else [])),
          plan_fingerprint_sha256 = zeros64\<rparr>)"

definition planned_transaction ::
  "codec \<Rightarrow> storage_operation_plan \<Rightarrow> storage_layout \<Rightarrow> string \<Rightarrow> string \<Rightarrow> int \<Rightarrow> storage_transaction" where
  "planned_transaction C p original session_id created_by now =
     \<lparr>tx_id = plan_operation_id p, tx_operation_id = plan_operation_id p, tx_plan_id = plan_id p,
      tx_session_id = session_id, tx_status = PLANNED, tx_created_at = now, tx_started_at = None,
      tx_finished_at = None, tx_checkpoint_id = None, tx_authorization_challenge_id = None,
      tx_last_known_stage = None, tx_before_layout_sha256 = Some (layout_fingerprint C original),
      tx_after_layout_sha256 = None, tx_verification_id = None, tx_reconciliation_required = False,
      tx_error_code = None, tx_metadata = [(''created_by'', created_by)]\<rparr>"

definition engine_plan ::
  "'w engine \<Rightarrow> declarative_request \<Rightarrow> string \<Rightarrow> string \<Rightarrow> ('w engine_state, storage_operation_plan) prog" where
  "engine_plan E r session_id created_by =
     (let C = eng_codec E; uuid = worldM (uuid4_hex (eng_clock E)); now = worldM (utc_now (eng_clock E)) in
      bindM (engine_inspect E (rq_target_disk r)) (\<lambda>original.
      bindM (plan_geometry E r original) (\<lambda>(proposed_table, target, limitations).
      bindM uuid (\<lambda>lid. bindM now (\<lambda>lnow.
      let proposed = layout_with_table C lid lnow original proposed_table in
      bindM uuid (\<lambda>pid. bindM uuid (\<lambda>oid. bindM now (\<lambda>created. bindM now (\<lambda>later.
      let p = seal_plan C (draft_plan E r session_id original proposed target limitations
                pid oid created (later + 20 * 60 * 1000000))
      in bindM now (\<lambda>tnow.
      let t = planned_transaction C p original session_id created_by tnow in
      bindM (storeM (put_plan C p)) (\<lambda>_.
      bindM (storeM (put_transaction C t)) (\<lambda>_.
      ret p))))))))))))"

section \<open>Verification\<close>

definition verify_outcome ::
  "string \<Rightarrow> int \<Rightarrow> storage_operation_plan \<Rightarrow> storage_operation_outcome \<Rightarrow> storage_verification" where
  "verify_outcome vid now p outcome =
     (let identity_ok = (dev_fingerprint_sha256 (disk_identity (lay_disk (out_after outcome)))
            = dev_fingerprint_sha256 (plan_target_disk p));
          geometry_ok = (partition_geometry_signature (lay_partition_table (out_after outcome))
            = partition_geometry_signature (lay_partition_table (plan_proposed_layout p)));
          no_filesystem_change = (\<not> di_filesystem_change_required (plan_data_impact p));
          no_mount_change = (\<not> di_mounted (plan_data_impact p));
          no_boot_change = (bi_level (plan_boot_impact p) = BI_NONE);
          no_os_impact = (case plan_target_partition p of
            None \<Rightarrow> True | Some t \<Rightarrow> part_operating_system_ids t = [])
      in \<lparr>ver_id = vid, ver_operation_id = plan_operation_id p, ver_created_at = now,
          ver_status = (if identity_ok \<and> geometry_ok then V_VERIFIED else V_FAILED),
          ver_identity_verified = identity_ok,
          ver_partition_table_verified = geometry_ok,
          ver_partition_geometry_verified = geometry_ok,
          ver_filesystem_verified = (if no_filesystem_change then Some True else None),
          ver_mountability_verified = (if no_mount_change then Some True else None),
          ver_operating_system_verified = (if no_os_impact then Some True else None),
          ver_boot_dependencies_verified = (if no_boot_change then Some True else None),
          ver_before = out_before outcome,
          ver_after = Some (out_after outcome),
          ver_evidence = out_evidence outcome,
          ver_limitations = [if no_filesystem_change
            then ''Filesystem verification is not applicable when no filesystem content was modified.''
            else ''Filesystem-aware resize is not enabled.''],
          ver_message = (if identity_ok \<and> geometry_ok
            then ''Device identity and proposed partition geometry were verified after write.''
            else ''Post-write identity or partition geometry differs from the approved plan.'')\<rparr>)"

text \<open>What reinspection after an uncertain write concludes: the verification, the status and the error.\<close>

definition reconcile_verdict ::
  "string \<Rightarrow> int \<Rightarrow> string \<Rightarrow> storage_operation_plan \<Rightarrow> storage_layout
     \<Rightarrow> storage_verification \<times> storage_transaction_status \<times> string option" where
  "reconcile_verdict vid now i p current =
     (let identity_ok = (dev_fingerprint_sha256 (disk_identity (lay_disk current))
            = dev_fingerprint_sha256 (plan_target_disk p));
          signature = partition_geometry_signature (lay_partition_table current);
          proposed = (signature = partition_geometry_signature (lay_partition_table (plan_proposed_layout p)));
          original = (signature = partition_geometry_signature (lay_partition_table (plan_original_layout p)));
          base = \<lparr>ver_id = vid, ver_operation_id = i, ver_created_at = now, ver_status = V_UNKNOWN,
            ver_identity_verified = identity_ok, ver_partition_table_verified = False,
            ver_partition_geometry_verified = False, ver_filesystem_verified = None,
            ver_mountability_verified = None, ver_operating_system_verified = None,
            ver_boot_dependencies_verified = None, ver_before = plan_original_layout p,
            ver_after = Some current,
            ver_evidence = [''reconciled_after_unknown=unexpected_layout''],
            ver_limitations = [''Manual inspection is required; automatic continuation is forbidden.''],
            ver_message = ''Current layout matches neither approved BEFORE nor approved AFTER state.''\<rparr>
      in if identity_ok \<and> proposed then
           (base\<lparr>ver_status := V_VERIFIED, ver_identity_verified := True,
              ver_partition_table_verified := True, ver_partition_geometry_verified := True,
              ver_filesystem_verified :=
                (if \<not> di_filesystem_change_required (plan_data_impact p) then Some True else None),
              ver_mountability_verified := (if \<not> di_mounted (plan_data_impact p) then Some True else None),
              ver_operating_system_verified := (case plan_target_partition p of
                 None \<Rightarrow> Some True
               | Some t \<Rightarrow> if part_operating_system_ids t = [] then Some True else None),
              ver_boot_dependencies_verified :=
                (if bi_level (plan_boot_impact p) = BI_NONE then Some True else None),
              ver_evidence := [''reconciled_after_unknown=proposed_layout''],
              ver_limitations := [],
              ver_message := ''Reinspection proved the approved proposed layout is present.''\<rparr>,
            COMMITTED, None)
         else if identity_ok \<and> original then
           (base\<lparr>ver_status := V_PARTIAL, ver_identity_verified := True,
              ver_partition_table_verified := True, ver_partition_geometry_verified := True,
              ver_evidence := [''reconciled_after_unknown=original_layout''],
              ver_limitations := [''No committed partition-table change was observed.''],
              ver_message := ''Reinspection found the original layout; transaction is aborted, not retried.''\<rparr>,
            ABORTED, Some ''STORAGE_UNKNOWN_RECONCILED_NO_CHANGE'')
         else (base, UNKNOWN, Some ''STORAGE_TRANSACTION_RECONCILIATION_REQUIRED''))"

definition reconciled_transaction ::
  "codec \<Rightarrow> storage_verification \<Rightarrow> storage_layout \<Rightarrow> storage_transaction_status \<Rightarrow> string option
     \<Rightarrow> int option \<Rightarrow> storage_transaction \<Rightarrow> storage_transaction" where
  "reconciled_transaction C verification current status error_code finished_at t =
     t\<lparr>tx_status := status,
       tx_finished_at := finished_at,
       tx_verification_id := Some (ver_id verification),
       tx_after_layout_sha256 := Some (layout_fingerprint C current),
       tx_reconciliation_required := (status = UNKNOWN),
       tx_error_code := error_code,
       tx_last_known_stage := Some ''unknown-reinspection-completed''\<rparr>"

definition reconcile_unknown ::
  "'w engine \<Rightarrow> string \<Rightarrow> string \<Rightarrow> ('w engine_state, storage_verification) prog" where
  "reconcile_unknown E i session_id =
     (let C = eng_codec E in
      bindM (recordM i) (\<lambda>r. case r of
        None \<Rightarrow> engine_error ''STORAGE_OPERATION_NOT_FOUND''
      | Some record \<Rightarrow>
        let t = rec_transaction record; p = rec_plan record in
        if tx_status t \<noteq> UNKNOWN then
          (case rec_verification record of
             Some v \<Rightarrow> ret v
           | None \<Rightarrow> engine_error ''STORAGE_TRANSACTION_NOT_UNKNOWN'')
        else if tx_session_id t \<noteq> session_id then engine_error ''STORAGE_OPERATION_SESSION_MISMATCH''
        else
          bindM (engine_inspect E (dev_requested_path (plan_target_disk p))) (\<lambda>current.
          bindM (worldM (uuid4_hex (eng_clock E))) (\<lambda>vid.
          bindM (worldM (utc_now (eng_clock E))) (\<lambda>vnow.
          let (verification, status, error_code) = reconcile_verdict vid vnow i p current in
          bindM (storeM (put_verification C verification)) (\<lambda>_.
          bindM (now_if E (status \<noteq> UNKNOWN)) (\<lambda>finished_at.
          bindM (storeM (put_transaction C
            (reconciled_transaction C verification current status error_code finished_at t))) (\<lambda>_.
          ret verification))))))))"

section \<open>Validating\<close>

text \<open>The binding of a checkpoint to a plan, tested by the engine and by the broker.\<close>

definition checkpoint_bound :: "storage_operation_plan \<Rightarrow> protection_checkpoint \<Rightarrow> bool" where
  "checkpoint_bound p c \<longleftrightarrow>
     cp_status c = CP_READY \<and>
     cp_session_id c = plan_session_id p \<and>
     cp_verification_id c \<noteq> None \<and>
     protected_resource_id p \<in> set (cp_protected_resources c) \<and>
     map_of (cp_resource_fingerprints c) (protected_resource_id p)
       = Some (dev_fingerprint_sha256 (plan_target_disk p))"

definition preflight_plan ::
  "'w engine \<Rightarrow> storage_operation_plan \<Rightarrow> storage_layout \<Rightarrow> storage_operation_plan" where
  "preflight_plan E p current =
     seal_plan (eng_codec E) (p\<lparr>plan_target_disk := disk_identity (lay_disk current),
       plan_original_layout := current,
       plan_data_impact := analyze_data_impact (plan_operation p) current (plan_target_partition p),
       plan_boot_impact := analyze_boot_impact (plan_operation p) current (plan_target_partition p),
       plan_write_gate := evaluate (eng_write_gate E) (disk_identity (lay_disk current)),
       plan_protection_checkpoint := None, plan_dry_run := None, plan_executable := False,
       plan_fingerprint_sha256 := zeros64\<rparr>)"

definition plan_candidate :: "storage_operation_plan \<Rightarrow> bool" where
  "plan_candidate p \<longleftrightarrow> gate_allowed (plan_write_gate p) \<and> di_executable (plan_data_impact p) \<and>
     bi_executable (plan_boot_impact p) \<and> plan_operation p \<in> {CREATE, DELETE}"

definition validate_checkpoint ::
  "'w engine \<Rightarrow> storage_operation_plan \<Rightarrow> storage_operation_plan \<Rightarrow> storage_dry_run_result
     \<Rightarrow> ('w engine_state, protection_checkpoint) prog" where
  "validate_checkpoint E p preflight dry_run =
     (let C = eng_codec E;
          checkpoint_plan = seal_plan C (preflight\<lparr>plan_dry_run := Some dry_run,
            plan_fingerprint_sha256 := zeros64\<rparr>)
      in bindM (from_executor (worldM (ex_create_checkpoint (eng_executor E) checkpoint_plan))) (\<lambda>bundle.
      let checkpoint = bundle_checkpoint bundle in
      if \<not> checkpoint_bound p checkpoint \<or>
         art_partition_table_fingerprint_sha256 (bundle_artifact bundle)
           \<noteq> pt_fingerprint_sha256 (lay_partition_table (plan_original_layout p))
      then engine_error ''STORAGE_PROTECTION_CHECKPOINT_INVALID''
      else
        bindM (storeM (put_checkpoint C (bundle_artifact bundle))) (\<lambda>_.
        bindM (checkpointsM (checkpoint_put C checkpoint)) (\<lambda>_.
        ret checkpoint))))"

definition validated_plan ::
  "codec \<Rightarrow> storage_operation_plan \<Rightarrow> storage_operation_plan \<Rightarrow> storage_dry_run_result
     \<Rightarrow> protection_checkpoint option \<Rightarrow> bool \<Rightarrow> storage_operation_plan" where
  "validated_plan C p preflight dry_run checkpoint candidate =
     (let limitations =
            filter (\<lambda>x. x \<noteq> ''validation_and_dry_run_required_before_authorization'') (plan_limitations p)
            @ (if \<not> dry_valid dry_run then [''dry_run_rejected_proposed_layout''] else [])
            @ (if \<not> gate_allowed (plan_write_gate preflight)
               then [gate_reason (plan_write_gate preflight)] else [])
            @ (if \<not> di_executable (plan_data_impact preflight)
               then di_reasons (plan_data_impact preflight) else [])
            @ (if \<not> bi_executable (plan_boot_impact preflight)
               then bi_reasons (plan_boot_impact preflight) else [])
            @ (if plan_operation p \<notin> {CREATE, DELETE} then [''operation_adapter_disabled''] else [])
      in seal_plan C (preflight\<lparr>plan_dry_run := Some dry_run,
           plan_protection_checkpoint := checkpoint,
           plan_executable := (candidate \<and> checkpoint \<noteq> None),
           plan_limitations := fromkeys limitations,
           plan_fingerprint_sha256 := zeros64\<rparr>))"

definition validate_preflight ::
  "'w engine \<Rightarrow> storage_operation_record \<Rightarrow> ('w engine_state, storage_operation_plan) prog" where
  "validate_preflight E record =
     (let C = eng_codec E; p = rec_plan record; t = rec_transaction record in
      bindM (worldM (utc_now (eng_clock E))) (\<lambda>now.
      if plan_expires_at p \<le> now then engine_error ''STORAGE_OPERATION_PLAN_EXPIRED''
      else
      bindM (engine_inspect E (dev_requested_path (plan_target_disk p))) (\<lambda>current.
      if dev_fingerprint_sha256 (disk_identity (lay_disk current))
           \<noteq> dev_fingerprint_sha256 (plan_target_disk p)
      then engine_error ''STORAGE_DEVICE_IDENTITY_CHANGED''
      else if partition_geometry_signature (lay_partition_table current)
           \<noteq> partition_geometry_signature (lay_partition_table (plan_original_layout p))
      then engine_error ''STORAGE_LAYOUT_CHANGED''
      else let preflight = preflight_plan E p current in
      bindM (from_executor (worldM (ex_dry_run (eng_executor E) preflight))) (\<lambda>dry_run.
      let candidate = (plan_candidate preflight \<and> dry_valid dry_run) in
      bindM (if candidate then bindM (validate_checkpoint E p preflight dry_run) (\<lambda>c. ret (Some c))
             else ret None) (\<lambda>checkpoint.
      let validated = validated_plan C p preflight dry_run checkpoint candidate in
      bindM (storeM (put_plan C validated)) (\<lambda>_.
      bindM (storeM (put_transaction C (t\<lparr>
         tx_status := (if checkpoint \<noteq> None then PROTECTED else VALIDATED),
         tx_checkpoint_id := map_option cp_id checkpoint,
         tx_last_known_stage := Some ''preflight-completed''\<rparr>))) (\<lambda>_.
      ret validated)))))))"

definition engine_validate ::
  "'w engine \<Rightarrow> string \<Rightarrow> string \<Rightarrow> ('w engine_state, storage_operation_plan) prog" where
  "engine_validate E i session_id =
     bindM (recordM i) (\<lambda>r. case r of
       None \<Rightarrow> engine_error ''STORAGE_OPERATION_NOT_FOUND''
     | Some record \<Rightarrow>
       let t = rec_transaction record in
       if tx_session_id t \<noteq> session_id then engine_error ''STORAGE_OPERATION_SESSION_MISMATCH''
       else if tx_status t = UNKNOWN then
         bindM (reconcile_unknown E i session_id) (\<lambda>_.
         bindM (recordM i) (\<lambda>refreshed. case refreshed of
           None \<Rightarrow> engine_error ''STORAGE_TRANSACTION_RECONCILIATION_REQUIRED''
         | Some r' \<Rightarrow>
           if tx_status (rec_transaction r') = UNKNOWN
           then engine_error ''STORAGE_TRANSACTION_RECONCILIATION_REQUIRED''
           else ret (rec_plan r')))
       else if tx_status t \<notin> {PLANNED, VALIDATED, PROTECTED}
       then engine_error ''STORAGE_OPERATION_NOT_VALIDATABLE''
       else validate_preflight E record)"

section \<open>Authorizing\<close>

definition engine_request_authorization ::
  "'w engine \<Rightarrow> string \<Rightarrow> string \<Rightarrow> (string \<Rightarrow> ('w engine_state, unit) prog)
     \<Rightarrow> ('w engine_state, storage_authorization_grant) prog" where
  "engine_request_authorization E i session_id on_challenge =
     (let C = eng_codec E in
      bindM (recordM i) (\<lambda>r. case r of
        None \<Rightarrow> engine_error ''STORAGE_OPERATION_NOT_FOUND''
      | Some record \<Rightarrow>
        let p = rec_plan record; t = rec_transaction record in
        case plan_protection_checkpoint p of
          None \<Rightarrow> engine_error ''STORAGE_OPERATION_NOT_AUTHORIZABLE''
        | Some checkpoint \<Rightarrow>
        if tx_status t \<noteq> PROTECTED \<or> \<not> plan_executable p \<or> \<not> storage_plan_integrity_valid C p
        then engine_error ''STORAGE_OPERATION_NOT_AUTHORIZABLE''
        else if plan_session_id p \<noteq> session_id then engine_error ''STORAGE_OPERATION_SESSION_MISMATCH''
        else
        bindM (getM (\<lambda>s. checkpoint_get (es_checkpoints s) (cp_id checkpoint))) (\<lambda>durable.
        bindM (getM (\<lambda>s. get_checkpoint (es_store s) (cp_id checkpoint))) (\<lambda>artifact.
        if durable \<noteq> Some checkpoint \<or> artifact = None
        then engine_error ''STORAGE_PROTECTION_CHECKPOINT_INVALID''
        else
        bindM (worldM (\<lambda>w. let (challenges, result, w') = ex_request_authorization (eng_executor E) p w
                           in (Inr (challenges, result), w'))) (\<lambda>(challenges, result).
        bindM (traverseM on_challenge challenges) (\<lambda>_.
        bindM (from_executor (liftE result)) (\<lambda>grant.
        bindM (storeM (put_transaction C (t\<lparr>tx_status := AUTHORIZED,
           tx_authorization_challenge_id := Some (grant_challenge_id grant),
           tx_last_known_stage := Some ''authorization-granted''\<rparr>))) (\<lambda>_.
        bindM (modifyM (\<lambda>s. s\<lparr>es_grants := dict_set i grant (es_grants s)\<rparr>)) (\<lambda>_.
        ret grant)))))))))"

section \<open>Executing\<close>

definition require_checkpoint :: "'w engine \<Rightarrow> storage_operation_plan \<Rightarrow> ('w engine_state, unit) prog" where
  "require_checkpoint E p = (case plan_protection_checkpoint p of
       None \<Rightarrow> engine_error ''STORAGE_PROTECTION_CHECKPOINT_INVALID''
     | Some checkpoint \<Rightarrow>
       if \<not> checkpoint_bound p checkpoint then engine_error ''STORAGE_PROTECTION_CHECKPOINT_INVALID''
       else
       bindM (getM (\<lambda>s. checkpoint_get (es_checkpoints s) (cp_id checkpoint))) (\<lambda>durable.
       bindM (getM (\<lambda>s. get_checkpoint (es_store s) (cp_id checkpoint))) (\<lambda>artifact.
       if durable \<noteq> Some checkpoint
       then engine_error ''STORAGE_PROTECTION_CHECKPOINT_INVALID''
       else case artifact of
         None \<Rightarrow> engine_error ''STORAGE_PROTECTION_CHECKPOINT_INVALID''
       | Some a \<Rightarrow>
         if art_operation_id a \<noteq> plan_operation_id p \<or>
            art_target_fingerprint_sha256 a \<noteq> dev_fingerprint_sha256 (plan_target_disk p) \<or>
            art_partition_table_fingerprint_sha256 a
              \<noteq> pt_fingerprint_sha256 (lay_partition_table (plan_original_layout p))
         then engine_error ''STORAGE_PROTECTION_CHECKPOINT_INVALID''
         else ret ())))"

definition uncertain_codes :: "string set" where
  "uncertain_codes = {''STORAGE_BROKER_TIMEOUT'', ''STORAGE_BROKER_DISCONNECTED'',
     ''STORAGE_KERNEL_REREAD_FAILED'', ''STORAGE_RECONCILIATION_REQUIRED''}"

definition terminal_status :: "storage_verification_status \<Rightarrow> storage_transaction_status" where
  "terminal_status v = (if v = V_VERIFIED then COMMITTED else if v = V_FAILED then FAILED else UNKNOWN)"

definition engine_stage ::
  "'w engine \<Rightarrow> string \<Rightarrow> (stage \<Rightarrow> ('w engine_state, unit) prog) \<Rightarrow> stage \<Rightarrow> ('w engine_state, unit) prog" where
  "engine_stage E i on_stage st =
     bindM (recordM i) (\<lambda>r.
     bindM (case r of
       None \<Rightarrow> ret ()
     | Some record \<Rightarrow> storeM (put_transaction (eng_codec E)
         ((rec_transaction record)\<lparr>tx_last_known_stage := Some (fst st)\<rparr>))) (\<lambda>_.
     on_stage st))"

definition terminal_transaction ::
  "codec \<Rightarrow> storage_verification \<Rightarrow> storage_layout \<Rightarrow> int option \<Rightarrow> storage_transaction
     \<Rightarrow> storage_transaction" where
  "terminal_transaction C verification after finished_at t =
     (let terminal = terminal_status (ver_status verification) in
      t\<lparr>tx_status := terminal,
        tx_finished_at := finished_at,
        tx_after_layout_sha256 := Some (layout_fingerprint C after),
        tx_verification_id := Some (ver_id verification),
        tx_last_known_stage := Some ''storage-verification-completed'',
        tx_reconciliation_required := (terminal = UNKNOWN),
        tx_error_code := (if terminal = COMMITTED then None
          else if terminal = FAILED then Some ''STORAGE_VERIFICATION_FAILED''
          else Some ''STORAGE_VERIFICATION_UNKNOWN'')\<rparr>)"

definition finish_transaction ::
  "'w engine \<Rightarrow> string \<Rightarrow> storage_layout \<Rightarrow> storage_verification
     \<Rightarrow> ('w engine_state, storage_verification) prog" where
  "finish_transaction E i after verification =
     bindM (recordM i) (\<lambda>r. case r of
       None \<Rightarrow> engine_error ''STORAGE_OPERATION_NOT_FOUND''
     | Some record \<Rightarrow>
     bindM (now_if E (terminal_status (ver_status verification) \<noteq> UNKNOWN)) (\<lambda>finished_at.
     bindM (storeM (put_transaction (eng_codec E)
       (terminal_transaction (eng_codec E) verification after finished_at (rec_transaction record)))) (\<lambda>_.
     ret verification)))"

definition finish_execution ::
  "'w engine \<Rightarrow> string \<Rightarrow> storage_operation_plan \<Rightarrow> storage_operation_outcome
     \<Rightarrow> ('w engine_state, storage_verification) prog" where
  "finish_execution E i p outcome =
     bindM (set_status E i VERIFYING None (Some ''storage-verification-started'') False) (\<lambda>_.
     bindM (worldM (uuid4_hex (eng_clock E))) (\<lambda>vid.
     bindM (worldM (utc_now (eng_clock E))) (\<lambda>vnow.
     let verification = verify_outcome vid vnow p outcome in
     bindM (storeM (put_verification (eng_codec E) verification)) (\<lambda>_.
     finish_transaction E i (out_after outcome) verification))))"

text \<open>The part of \<open>execute\<close> behind its guards: from \<open>EXECUTING\<close> to the result of the executor.\<close>

definition run_transaction ::
  "'w engine \<Rightarrow> string \<Rightarrow> storage_authorization_grant \<Rightarrow> storage_operation_record
     \<Rightarrow> (stage \<Rightarrow> ('w engine_state, unit) prog) \<Rightarrow> ('w engine_state, storage_verification) prog" where
  "run_transaction E i grant record on_stage =
     (let C = eng_codec E; p = rec_plan record; t = rec_transaction record in
      bindM (worldM (utc_now (eng_clock E))) (\<lambda>now.
      bindM (storeM (put_transaction C (t\<lparr>tx_status := EXECUTING, tx_started_at := Some now,
         tx_last_known_stage := Some ''storage-transaction-started'',
         tx_reconciliation_required := False, tx_error_code := None\<rparr>))) (\<lambda>_.
      bindM (worldM (\<lambda>w. let (stages, result, w') = ex_execute (eng_executor E) p grant w
                         in (Inr (stages, result), w'))) (\<lambda>(stages, result).
      bindM (traverseM (engine_stage E i on_stage) stages) (\<lambda>_.
      case result of
        Inl (StorageExecutorError code) \<Rightarrow>
          bindM (if code \<in> uncertain_codes then mark_unknown E i code else mark_failed E i code)
            (\<lambda>_. engine_error code)
      | Inl e \<Rightarrow> raise e
      | Inr outcome \<Rightarrow> finish_execution E i p outcome)))))"

definition engine_execute ::
  "'w engine \<Rightarrow> string \<Rightarrow> storage_authorization_grant \<Rightarrow> string
     \<Rightarrow> (stage \<Rightarrow> ('w engine_state, unit) prog) \<Rightarrow> ('w engine_state, storage_verification) prog" where
  "engine_execute E i grant session_id on_stage =
     bindM (recordM i) (\<lambda>r. case r of
       None \<Rightarrow> engine_error ''STORAGE_OPERATION_NOT_FOUND''
     | Some record \<Rightarrow>
       let p = rec_plan record; t = rec_transaction record in
       if tx_status t \<noteq> AUTHORIZED then engine_error ''STORAGE_OPERATION_NOT_AUTHORIZED''
       else if plan_session_id p \<noteq> session_id \<or> grant_session_id grant \<noteq> session_id
       then engine_error ''STORAGE_OPERATION_SESSION_MISMATCH''
       else if \<not> storage_plan_integrity_valid (eng_codec E) p
       then engine_error ''STORAGE_OPERATION_PLAN_TAMPERED''
       else case require_write_allowed (eng_write_gate E) (plan_target_disk p) of
         Inl e \<Rightarrow> engine_error ''PRODUCTION_STORAGE_WRITE_GATE_BLOCKED''
       | Inr _ \<Rightarrow>
       bindM (require_checkpoint E p) (\<lambda>_. run_transaction E i grant record on_stage))"

definition engine_execute_authorized ::
  "'w engine \<Rightarrow> string \<Rightarrow> string
     \<Rightarrow> (stage \<Rightarrow> ('w engine_state, unit) prog) \<Rightarrow> ('w engine_state, storage_verification) prog" where
  "engine_execute_authorized E i session_id on_stage =
     bindM (getM (\<lambda>s. map_of (es_grants s) i)) (\<lambda>g.
     bindM (modifyM (\<lambda>s. s\<lparr>es_grants := dict_del i (es_grants s)\<rparr>)) (\<lambda>_.
     case g of
       None \<Rightarrow> engine_error ''STORAGE_AUTHORIZATION_GRANT_UNAVAILABLE''
     | Some grant \<Rightarrow> engine_execute E i grant session_id on_stage))"

end
