(* ===== verification/Engine_Invariant.thy ===== *)
theory Engine_Invariant
  imports Storage_Engine
begin

text \<open>
  The invariant of the operation store under the engine, as a step relation. A step is one call of an
  engine operation with any request, session and callback, and any result, errors included; the restart
  pass of the store is a step too. The invariant says what every stored plan and transaction guarantees,
  and every reachable store has it.
\<close>

section \<open>Assertions on the store\<close>

definition est ::
  "(operation_store \<Rightarrow> bool) \<Rightarrow> ('w engine_state, 'a) prog \<Rightarrow> (operation_store \<Rightarrow> bool) \<Rightarrow> bool" where
  "est P m Q \<longleftrightarrow> (\<forall>s. P (es_store s) \<longrightarrow> Q (es_store (snd (m s))))"

named_theorems est_intros \<open>rules of the store assertions\<close>

lemma estD: "est P m Q \<Longrightarrow> P (es_store s) \<Longrightarrow> m s = (r, s') \<Longrightarrow> Q (es_store s')"
  by (force simp: est_def)

lemma est_weaken: "est P' m Q' \<Longrightarrow> (\<And>st. P st \<Longrightarrow> P' st) \<Longrightarrow> (\<And>st. Q' st \<Longrightarrow> Q st) \<Longrightarrow> est P m Q"
  by (auto simp: est_def)

lemma est_keep:
  assumes "\<And>s. es_store (snd (m s)) = es_store s"
  shows "est P m P"
  using assms by (simp add: est_def)

lemma est_bind:
  assumes "est P m R" and "\<And>st. R st \<Longrightarrow> Q st"
    and "\<And>x s s'. m s = (Inr x, s') \<Longrightarrow> est R (f x) Q"
  shows "est P (bindM m f) Q"
  unfolding est_def
proof (intro allI impI)
  fix s :: "'a engine_state"
  assume P: "P (es_store s)"
  obtain r s' where m: "m s = (r, s')" by fastforce
  have "R (es_store s')" by (rule estD[OF assms(1) P m])
  then show "Q (es_store (snd (bindM m f s)))"
    using m assms(2) assms(3)[of s _ s'] by (cases r) (auto simp: bindM_def est_def)
qed

lemma est_bind_storeM:
  assumes "\<And>st st'. P st \<Longrightarrow> f st = Inr st' \<Longrightarrow> R st'" and "\<And>st. P st \<Longrightarrow> Q st"
    and "est R (g ()) Q"
  shows "est P (bindM (storeM f) g) Q"
  using assms by (fastforce simp: est_def storeM_def bindM_def split: sum.splits)

lemma est_record:
  assumes "\<And>r. est (\<lambda>st. P st \<and> get_record st i = r) (f r) Q"
  shows "est P (bindM (recordM i) f) Q"
  using assms by (simp add: est_def recordM_def bindM_def getM_def)

lemma est_storeM:
  assumes "\<And>st st'. P st \<Longrightarrow> f st = Inr st' \<Longrightarrow> Q st'" and "\<And>st. P st \<Longrightarrow> Q st"
  shows "est P (storeM f) Q"
  using assms by (simp add: est_def storeM_def split: sum.splits)

lemma est_case_option:
  "(v = None \<Longrightarrow> est P m Q) \<Longrightarrow> (\<And>x. v = Some x \<Longrightarrow> est P (f x) Q) \<Longrightarrow>
   est P (case v of None \<Rightarrow> m | Some x \<Rightarrow> f x) Q"
  by (cases v) simp_all

lemma est_if:
  "(c \<Longrightarrow> est P m Q) \<Longrightarrow> (\<not> c \<Longrightarrow> est P n Q) \<Longrightarrow> est P (if c then m else n) Q"
  by simp

lemma est_case_sum:
  "(\<And>e. v = Inl e \<Longrightarrow> est P (g e) Q) \<Longrightarrow> (\<And>x. v = Inr x \<Longrightarrow> est P (f x) Q) \<Longrightarrow>
   est P (case v of Inl e \<Rightarrow> g e | Inr x \<Rightarrow> f x) Q"
  by (cases v) simp_all

lemma est_guard:
  assumes "\<And>st. P st \<Longrightarrow> Q st" and "\<not> c \<Longrightarrow> est P m Q"
  shows "est P (if c then engine_error e else m) Q"
  using assms by (simp add: est_def engine_error_def raise_def)

lemma est_pure [est_intros]:
  "est P (ret x) P" "est P (raise e) P" "est P (liftE r) P" "est P (getM g) P" "est P (engine_error c) P"
  by (simp_all add: est_def ret_def raise_def liftE_def getM_def engine_error_def)

lemma est_error: "(\<And>st. P st \<Longrightarrow> Q st) \<Longrightarrow> est P (engine_error c) Q"
  and est_ret: "(\<And>st. P st \<Longrightarrow> Q st) \<Longrightarrow> est P (ret x) Q"
  by (simp_all add: est_def engine_error_def raise_def ret_def)

lemma est_worldM [est_intros]: "est P (worldM m) P"
  by (rule est_keep) (simp add: worldM_def split: prod.splits)

lemma est_checkpointsM [est_intros]: "est P (checkpointsM f) P"
  by (rule est_keep) (simp add: checkpointsM_def split: sum.splits)

lemma est_grants [est_intros]: "est P (modifyM (\<lambda>s. s\<lparr>es_grants := g s\<rparr>)) P"
  by (rule est_keep) (simp add: modifyM_def)

lemma est_catchM:
  "est P m P \<Longrightarrow> (\<And>e. est P (h e) P) \<Longrightarrow> est P (catchM m h) P"
  by (force simp: est_def catchM_def split: prod.splits sum.splits)

lemma est_from_executor [est_intros]: "est P m P \<Longrightarrow> est P (from_executor m) P"
  unfolding from_executor_def by (intro est_catchM) (auto split: exc.split intro: est_intros)

lemma est_engine_inspect [est_intros]: "est P (engine_inspect E d) P"
  unfolding engine_inspect_def by (intro est_intros)

lemma est_now_if [est_intros]: "est P (now_if E c) P"
  unfolding now_if_def by (intro est_if est_bind[OF est_worldM]) (auto intro: est_intros)

lemma est_traverseM [est_intros]: "(\<And>x. est P (f x) P) \<Longrightarrow> est P (traverseM f xs) P"
  by (induction xs) (auto intro: est_intros est_bind)

text \<open>A callback that leaves the store and the grants alone: it reports progress elsewhere.\<close>

definition quiet :: "('a \<Rightarrow> ('w engine_state, unit) prog) \<Rightarrow> bool" where
  "quiet f \<longleftrightarrow> (\<forall>x s. es_store (snd (f x s)) = es_store s \<and> es_grants (snd (f x s)) = es_grants s)"

lemma est_quiet [est_intros]: "quiet f \<Longrightarrow> est P (f x) P"
  by (rule est_keep) (simp add: quiet_def)

section \<open>The invariant\<close>

text \<open>What the engine established before it marked a plan executable.\<close>

definition approved :: "'w engine \<Rightarrow> storage_operation_plan \<Rightarrow> bool" where
  "approved E p \<longleftrightarrow>
     plan_operation p \<in> {CREATE, DELETE} \<and>
     gate_allowed (evaluate (eng_write_gate E) (plan_target_disk p)) \<and>
     plan_target_disk p = disk_identity (lay_disk (plan_original_layout p)) \<and>
     di_executable (analyze_data_impact (plan_operation p) (plan_original_layout p)
       (plan_target_partition p)) \<and>
     bi_executable (analyze_boot_impact (plan_operation p) (plan_original_layout p)
       (plan_target_partition p)) \<and>
     (\<exists>d. plan_dry_run p = Some d \<and> dry_valid d) \<and>
     (\<exists>c. plan_protection_checkpoint p = Some c \<and> checkpoint_bound p c)"

definition in_flight :: "storage_transaction \<Rightarrow> bool" where
  "in_flight t \<longleftrightarrow> tx_status t \<in> {AUTHORIZED, EXECUTING, VERIFYING}"

definition plan_ok :: "'w engine \<Rightarrow> string \<Rightarrow> storage_operation_plan \<Rightarrow> bool" where
  "plan_ok E k p \<longleftrightarrow> is_safe_id k \<and> plan_id p = k \<and> storage_plan_integrity_valid (eng_codec E) p \<and>
     (plan_executable p \<longrightarrow> approved E p)"

definition verified_in :: "operation_store \<Rightarrow> string \<Rightarrow> bool" where
  "verified_in st i \<longleftrightarrow> (\<exists>v. map_of (st_verifications st) i = Some v \<and> ver_status v = V_VERIFIED \<and>
     ver_identity_verified v \<and> ver_partition_geometry_verified v)"

definition transaction_ok :: "operation_store \<Rightarrow> string \<Rightarrow> storage_transaction \<Rightarrow> bool" where
  "transaction_ok st i t \<longleftrightarrow> is_safe_id i \<and> tx_operation_id t = i \<and>
     (\<exists>p. map_of (st_plans st) (tx_plan_id t) = Some p \<and> plan_operation_id p = i \<and>
        plan_session_id p = tx_session_id t \<and> (in_flight t \<longrightarrow> plan_executable p)) \<and>
     (tx_status t = COMMITTED \<longrightarrow> verified_in st i)"

definition engine_inv :: "'w engine \<Rightarrow> operation_store \<Rightarrow> bool" where
  "engine_inv E st \<longleftrightarrow>
     (\<forall>k p. map_of (st_plans st) k = Some p \<longrightarrow> plan_ok E k p) \<and>
     (\<forall>i t. map_of (st_transactions st) i = Some t \<longrightarrow> transaction_ok st i t) \<and>
     distinct (map fst (st_transactions st))"

lemma inv_plan: "engine_inv E st \<Longrightarrow> map_of (st_plans st) k = Some p \<Longrightarrow> plan_ok E k p"
  by (simp add: engine_inv_def)

lemma inv_transaction:
  "engine_inv E st \<Longrightarrow> map_of (st_transactions st) i = Some t \<Longrightarrow> transaction_ok st i t"
  by (simp add: engine_inv_def)

text \<open>What a record read back from an invariant store looks like.\<close>

lemma get_record_SomeD:
  assumes "engine_inv E st" and "get_record st i = Some r"
  shows "map_of (st_transactions st) i = Some (rec_transaction r)"
    and "map_of (st_plans st) (tx_plan_id (rec_transaction r)) = Some (rec_plan r)"
    and "tx_operation_id (rec_transaction r) = i" and "plan_operation_id (rec_plan r) = i"
    and "plan_id (rec_plan r) = tx_plan_id (rec_transaction r)"
    and "plan_session_id (rec_plan r) = tx_session_id (rec_transaction r)"
    and "in_flight (rec_transaction r) \<Longrightarrow> plan_executable (rec_plan r)"
    and "plan_ok E (plan_id (rec_plan r)) (rec_plan r)"
proof -
  obtain t p where t: "map_of (st_transactions st) (safe_id i) = Some t"
    and p: "map_of (st_plans st) (safe_id (tx_plan_id t)) = Some p"
    and r: "rec_transaction r = t" "rec_plan r = p"
    using assms(2)
    by (auto simp: get_record_def get_transaction_def get_plan_def split: option.splits)
  have "transaction_ok st (safe_id i) t" by (rule inv_transaction[OF assms(1) t])
  moreover have "\<not> is_safe_id ''invalid''" by code_simp
  ultimately have i: "safe_id i = i" and tx: "transaction_ok st i t"
    by (auto simp: transaction_ok_def safe_id_def split: if_splits)
  obtain q where q: "map_of (st_plans st) (tx_plan_id t) = Some q" "plan_operation_id q = i"
    "plan_session_id q = tx_session_id t" "in_flight t \<longrightarrow> plan_executable q"
    using tx by (auto simp: transaction_ok_def)
  note ok = inv_plan[OF assms(1) q(1)]
  have "p = q" using p q(1) ok by (simp add: plan_ok_def safe_id_def)
  then show "map_of (st_transactions st) i = Some (rec_transaction r)"
    "map_of (st_plans st) (tx_plan_id (rec_transaction r)) = Some (rec_plan r)"
    "tx_operation_id (rec_transaction r) = i" "plan_operation_id (rec_plan r) = i"
    "plan_id (rec_plan r) = tx_plan_id (rec_transaction r)"
    "plan_session_id (rec_plan r) = tx_session_id (rec_transaction r)"
    "in_flight (rec_transaction r) \<Longrightarrow> plan_executable (rec_plan r)"
    "plan_ok E (plan_id (rec_plan r)) (rec_plan r)"
    using t q tx ok i r by (auto simp: transaction_ok_def plan_ok_def)
qed

lemma est_inv_record:
  assumes "est (engine_inv E) (f None) Q"
    and "\<And>r. plan_operation_id (rec_plan r) = i \<Longrightarrow> tx_operation_id (rec_transaction r) = i \<Longrightarrow>
       plan_session_id (rec_plan r) = tx_session_id (rec_transaction r) \<Longrightarrow>
       plan_ok E (plan_id (rec_plan r)) (rec_plan r) \<Longrightarrow>
       est (\<lambda>st. engine_inv E st \<and> get_record st i = Some r) (f (Some r)) Q"
  shows "est (engine_inv E) (bindM (recordM i) f) Q"
proof (rule est_record)
  fix r
  show "est (\<lambda>st. engine_inv E st \<and> get_record st i = r) (f r) Q"
  proof (cases r)
    case None
    then show ?thesis using assms(1) by (auto intro: est_weaken)
  next
    case (Some rc)
    have "est (\<lambda>st. engine_inv E st \<and> get_record st i = Some rc) (f (Some rc)) Q"
      if "engine_inv E st" "get_record st i = Some rc" for st
      by (rule assms(2)) (rule get_record_SomeD[OF that])+
    then show ?thesis unfolding Some est_def by blast
  qed
qed

subsection \<open>Updates that keep it\<close>

lemma inv_put_transaction:
  assumes inv: "engine_inv E st" and put: "put_transaction C t' st = Inr st'"
    and old: "map_of (st_transactions st) i = Some t"
    and same: "tx_operation_id t' = i" "tx_plan_id t' = tx_plan_id t" "tx_session_id t' = tx_session_id t"
    and flight: "\<And>p. in_flight t' \<Longrightarrow> map_of (st_plans st) (tx_plan_id t) = Some p \<Longrightarrow> plan_executable p"
    and committed: "tx_status t' = COMMITTED \<Longrightarrow> verified_in st i"
  shows "engine_inv E st'"
proof -
  have st': "st' = st\<lparr>st_transactions := dict_set i t' (st_transactions st)\<rparr>"
    using put_Inr(2)[OF put] same(1) by simp
  have keep: "transaction_ok st' k u = transaction_ok st k u" for k u
    by (simp add: st' transaction_ok_def verified_in_def)
  have "transaction_ok st i t" by (rule inv_transaction[OF inv old])
  then have "transaction_ok st i t'"
    using same flight committed by (fastforce simp: transaction_ok_def)
  then show ?thesis
    using inv keep by (simp add: engine_inv_def st' distinct_update)
qed

lemma inv_put_plan:
  assumes inv: "engine_inv E st" and put: "put_plan C p st = Inr st'"
    and old: "map_of (st_plans st) (plan_id p) = Some q"
    and same: "plan_operation_id p = plan_operation_id q" "plan_session_id p = plan_session_id q"
    and ok: "storage_plan_integrity_valid (eng_codec E) p" "plan_executable p \<Longrightarrow> approved E p"
    and idle: "\<And>t. map_of (st_transactions st) (plan_operation_id q) = Some t \<Longrightarrow> in_flight t \<Longrightarrow>
       plan_executable p"
  shows "engine_inv E st'"
proof -
  have st': "st' = st\<lparr>st_plans := dict_set (plan_id p) p (st_plans st)\<rparr>"
    using put_Inr(1)[OF put] by simp
  have "plan_ok E (plan_id p) p"
    using inv_plan[OF inv old] ok by (simp add: plan_ok_def)
  moreover have "transaction_ok st' i t" if t: "map_of (st_transactions st) i = Some t" for i t
    using inv_transaction[OF inv t] old same idle t
    by (fastforce simp: transaction_ok_def st' verified_in_def)
  ultimately show ?thesis
    using inv by (simp add: engine_inv_def st')
qed

lemma inv_put_verification:
  assumes inv: "engine_inv E st" and put: "put_verification C v st = Inr st'"
    and idle: "\<And>t. map_of (st_transactions st) (ver_operation_id v) = Some t \<Longrightarrow> tx_status t \<noteq> COMMITTED"
  shows "engine_inv E st'"
proof -
  have st': "st' = st\<lparr>st_verifications := dict_set (ver_operation_id v) v (st_verifications st)\<rparr>"
    using put_Inr(3)[OF put] by simp
  have "transaction_ok st' i t" if t: "map_of (st_transactions st) i = Some t" for i t
    using inv_transaction[OF inv t] idle t by (auto simp: transaction_ok_def st' verified_in_def)
  then show ?thesis
    using inv by (simp add: engine_inv_def st')
qed

lemma inv_put_checkpoint: "engine_inv E st \<Longrightarrow> put_checkpoint C a st = Inr st' \<Longrightarrow> engine_inv E st'"
  by (frule put_Inr(4)) (simp add: engine_inv_def transaction_ok_def verified_in_def)

section \<open>The operations keep it\<close>

definition flying :: "'w engine \<Rightarrow> string \<Rightarrow> operation_store \<Rightarrow> bool" where
  "flying E i st \<longleftrightarrow> engine_inv E st \<and> (\<exists>t. map_of (st_transactions st) i = Some t \<and> in_flight t)"

lemma flying_inv: "flying E i st \<Longrightarrow> engine_inv E st"
  by (simp add: flying_def)

lemma flying_executable:
  assumes "flying E i st" and "get_record st i = Some r"
  shows "in_flight (rec_transaction r)" and "plan_executable (rec_plan r)"
proof -
  note inv = flying_inv[OF assms(1)]
  show fl: "in_flight (rec_transaction r)"
    using assms(1) get_record_SomeD(1)[OF inv assms(2)] by (auto simp: flying_def)
  show "plan_executable (rec_plan r)" by (rule get_record_SomeD(7)[OF inv assms(2) fl])
qed

text \<open>Writing back the transaction of a record with another status.\<close>

lemma inv_update_record:
  assumes inv: "engine_inv E st" and r: "get_record st i = Some r"
    and put: "put_transaction C t' st = Inr st'"
    and same: "tx_operation_id t' = tx_operation_id (rec_transaction r)"
      "tx_plan_id t' = tx_plan_id (rec_transaction r)"
      "tx_session_id t' = tx_session_id (rec_transaction r)"
    and flight: "in_flight t' \<Longrightarrow> plan_executable (rec_plan r)"
    and committed: "tx_status t' = COMMITTED \<Longrightarrow> verified_in st i"
  shows "engine_inv E st'" and "in_flight t' \<Longrightarrow> flying E i st'"
proof -
  note rd = get_record_SomeD[OF inv r]
  show inv': "engine_inv E st'"
    by (rule inv_put_transaction[OF inv put rd(1)]) (use same rd flight committed in auto)
  show "flying E i st'" if "in_flight t'"
    using that inv' put_Inr(2)[OF put] same rd(3) by (auto simp: flying_def)
qed

lemma status_update_simps [simp]:
  "tx_operation_id (status_update st c l f t) = tx_operation_id t"
  "tx_plan_id (status_update st c l f t) = tx_plan_id t"
  "tx_session_id (status_update st c l f t) = tx_session_id t"
  "tx_status (status_update st c l f t) = st"
  by (simp_all add: status_update_def)

lemma est_set_status:
  assumes "status \<notin> {AUTHORIZED, EXECUTING, VERIFYING, COMMITTED}"
  shows "est (engine_inv E) (set_status E i status c l f) (engine_inv E)"
  unfolding set_status_def
  by (rule est_record, rule est_case_option)
    (use assms in \<open>auto intro: est_weaken[OF est_pure(1)] inv_update_record(1) simp: in_flight_def
       intro!: est_storeM est_bind[OF est_now_if]\<close>)

lemma est_set_verifying: "est (flying E i) (set_status E i VERIFYING c l f) (flying E i)"
  unfolding set_status_def
  by (rule est_record, rule est_case_option)
    (auto intro: est_weaken[OF est_pure(1)] intro!: est_storeM est_bind[OF est_now_if]
      inv_update_record(2) dest: flying_inv flying_executable simp: in_flight_def)

lemma est_mark_unknown: "est (engine_inv E) (mark_unknown E i c) (engine_inv E)"
  unfolding mark_unknown_def Let_def
  by (rule est_record, rule est_case_option)
    (auto intro: est_weaken[OF est_pure(1)] intro!: est_storeM elim!: inv_update_record(1)
      simp: in_flight_def)

lemma est_mark_failed: "est (engine_inv E) (mark_failed E i c) (engine_inv E)"
  and est_mark_aborted: "est (engine_inv E) (mark_aborted E i c) (engine_inv E)"
  by (simp_all add: mark_failed_def mark_aborted_def est_set_status)

lemma est_engine_stage:
  assumes "quiet on_stage"
  shows "est (flying E i) (engine_stage E i on_stage sg) (flying E i)"
  unfolding engine_stage_def
  by (rule est_record, rule est_bind[where R = "flying E i"], rule est_case_option)
    (use assms in \<open>auto intro: est_intros est_weaken[OF est_pure(1)] intro!: est_storeM
       inv_update_record(2) dest: flying_inv flying_executable simp: in_flight_def\<close>)

subsection \<open>Executing\<close>

lemma verify_outcome_verified:
  "ver_status (verify_outcome vid now p out) = V_VERIFIED \<Longrightarrow>
     ver_identity_verified (verify_outcome vid now p out) \<and>
     ver_partition_geometry_verified (verify_outcome vid now p out)"
  by (simp add: verify_outcome_def Let_def split: if_splits)

lemma verify_outcome_id [simp]:
  "ver_operation_id (verify_outcome vid now p out) = plan_operation_id p"
  by (simp add: verify_outcome_def Let_def)

lemma terminal_status_simps [simp]:
  "terminal_status v = COMMITTED \<longleftrightarrow> v = V_VERIFIED"
  "terminal_status v \<noteq> AUTHORIZED" "terminal_status v \<noteq> EXECUTING" "terminal_status v \<noteq> VERIFYING"
  by (simp_all add: terminal_status_def)

text \<open>A flying transaction with its verification stored.\<close>

definition flying_verified ::
  "'w engine \<Rightarrow> string \<Rightarrow> storage_verification \<Rightarrow> operation_store \<Rightarrow> bool" where
  "flying_verified E i v st \<longleftrightarrow> flying E i st \<and> map_of (st_verifications st) i = Some v"

lemma flying_verified_inv: "flying_verified E i v st \<Longrightarrow> engine_inv E st"
  by (simp add: flying_verified_def flying_def)

lemma flying_put_verification:
  assumes "flying E i st" and "put_verification C v st = Inr st'" and "ver_operation_id v = i"
  shows "flying_verified E i v st'"
proof -
  have "engine_inv E st'"
    by (rule inv_put_verification[OF flying_inv[OF assms(1)] assms(2)])
      (use assms in \<open>auto simp: flying_def in_flight_def\<close>)
  then show ?thesis
    using assms put_Inr(3)[OF assms(2)] by (auto simp: flying_def flying_verified_def)
qed

lemma terminal_transaction_simps [simp]:
  "tx_operation_id (terminal_transaction C v l f t) = tx_operation_id t"
  "tx_plan_id (terminal_transaction C v l f t) = tx_plan_id t"
  "tx_session_id (terminal_transaction C v l f t) = tx_session_id t"
  "tx_status (terminal_transaction C v l f t) = terminal_status (ver_status v)"
  by (simp_all add: terminal_transaction_def Let_def)

lemma verified_inI:
  "map_of (st_verifications st) i = Some v \<Longrightarrow> ver_status v = V_VERIFIED \<Longrightarrow>
   ver_identity_verified v \<Longrightarrow> ver_partition_geometry_verified v \<Longrightarrow> verified_in st i"
  unfolding verified_in_def by (rule exI[of _ v]) simp

lemma inv_terminal:
  assumes fl: "flying_verified E i v st" and r: "get_record st i = Some rc"
    and put: "put_transaction C (terminal_transaction C' v l f (rec_transaction rc)) st = Inr st'"
    and v: "ver_status v = V_VERIFIED \<Longrightarrow> ver_identity_verified v \<and> ver_partition_geometry_verified v"
  shows "engine_inv E st'"
proof (rule inv_update_record(1)[OF _ r put])
  show "engine_inv E st" by (rule flying_verified_inv[OF fl])
  show "verified_in st i" if "tx_status (terminal_transaction C' v l f (rec_transaction rc)) = COMMITTED"
    using fl v that by (auto simp: flying_verified_def intro!: verified_inI)
qed (simp_all add: in_flight_def)

lemma est_finish_transaction:
  assumes "ver_status v = V_VERIFIED \<Longrightarrow> ver_identity_verified v \<and> ver_partition_geometry_verified v"
  shows "est (flying_verified E i v) (finish_transaction E i l v) (engine_inv E)"
proof -
  have keep: "flying_verified E i v st \<and> get_record st i = r \<Longrightarrow> engine_inv E st" for st r
    by (blast intro: flying_verified_inv)
  show ?thesis
    unfolding finish_transaction_def
    by (rule est_record, rule est_case_option, rule est_weaken[OF est_pure(5) _ keep], assumption+,
        rule est_bind[OF est_now_if keep], assumption,
        rule est_bind_storeM[OF inv_terminal[OF _ _ _ assms] keep]) (auto intro: est_intros)
qed

lemma est_finish_execution:
  assumes "plan_operation_id p = i"
  shows "est (flying E i) (finish_execution E i p out) (engine_inv E)"
  unfolding finish_execution_def Let_def
  by (intro est_bind[OF est_set_verifying] est_bind[OF est_worldM]
      est_bind_storeM[OF flying_put_verification])
    (use assms in \<open>auto dest: flying_inv verify_outcome_verified intro!: est_finish_transaction\<close>)

lemma est_require_checkpoint: "est P (require_checkpoint E p) P"
  unfolding require_checkpoint_def
  by (intro est_case_option est_if est_bind[OF est_pure(4)]) (auto intro: est_intros)

text \<open>The transaction enters execution: it was authorized, so its plan is executable.\<close>

lemma inv_start:
  assumes "engine_inv E st" and "get_record st i = Some r" and "tx_status (rec_transaction r) = AUTHORIZED"
    and "put_transaction C ((rec_transaction r)\<lparr>tx_status := EXECUTING, tx_started_at := a,
       tx_last_known_stage := b, tx_reconciliation_required := c, tx_error_code := d\<rparr>) st = Inr st'"
  shows "flying E i st'"
  by (rule inv_update_record(2)[OF assms(1,2,4)])
    (use assms(3) get_record_SomeD(7)[OF assms(1,2)] in \<open>auto simp: in_flight_def\<close>)

lemma est_case_exc_result:
  assumes "\<And>c. r = Inl (StorageExecutorError c) \<Longrightarrow> est P (f c) Q"
    and "\<And>e. r = Inl e \<Longrightarrow> est P (g e) Q" and "\<And>x. r = Inr x \<Longrightarrow> est P (h x) Q"
  shows "est P (case r of Inl (StorageExecutorError c) \<Rightarrow> f c | Inl e \<Rightarrow> g e | Inr x \<Rightarrow> h x) Q"
  using assms by (simp split: sum.split exc.split)

lemma est_execute_result:
  assumes "plan_operation_id p = i"
  shows "est (flying E i) (case result of
       Inl (StorageExecutorError code) \<Rightarrow>
         bindM (if code \<in> uncertain_codes then mark_unknown E i code else mark_failed E i code)
           (\<lambda>_. engine_error code)
     | Inl e \<Rightarrow> raise e
     | Inr outcome \<Rightarrow> finish_execution E i p outcome) (engine_inv E)"
  by (rule est_case_exc_result, rule est_bind[where R = "engine_inv E"], rule est_if)
    (auto intro: est_weaken[OF est_mark_unknown flying_inv] est_weaken[OF est_mark_failed flying_inv]
      est_weaken[OF est_pure(2) _ flying_inv] est_finish_execution[OF assms] est_intros)

lemma est_run_transaction:
  assumes "quiet on_stage" and auth: "tx_status (rec_transaction rc) = AUTHORIZED"
    and op: "plan_operation_id (rec_plan rc) = i"
  shows "est (\<lambda>st. engine_inv E st \<and> get_record st i = Some rc) (run_transaction E i g rc on_stage)
    (engine_inv E)"
proof -
  let ?P = "\<lambda>st. engine_inv E st \<and> get_record st i = Some rc"
  have drop: "?P st \<Longrightarrow> engine_inv E st" for st by simp
  have start: "flying E i st'"
    if "?P st"
      "put_transaction (eng_codec E) ((rec_transaction rc)\<lparr>tx_status := EXECUTING, tx_started_at := a,
         tx_last_known_stage := b, tx_reconciliation_required := c, tx_error_code := d\<rparr>) st = Inr st'"
    for st st' a b c d
    using inv_start[of E st i rc] that auth by blast
  show ?thesis
    unfolding run_transaction_def Let_def
    apply (rule est_bind[OF est_worldM drop], assumption)
    apply (rule est_bind_storeM[where R = "flying E i"])
      apply (rule start; simp)
     apply (erule drop)
    apply (rule est_bind[OF est_worldM flying_inv], assumption)
    apply (clarsimp split: prod.split)
    apply (rule est_bind[OF est_traverseM[OF est_engine_stage[OF assms(1)]] flying_inv], assumption)
    apply (rule est_execute_result[OF op])
    done
qed

lemma est_engine_execute:
  assumes "quiet on_stage"
  shows "est (engine_inv E) (engine_execute E i g sid on_stage) (engine_inv E)"
  unfolding engine_execute_def Let_def
proof (rule est_inv_record, goal_cases)
  case 1
  show ?case by (simp add: est_pure)
next
  case (2 rc)
  let ?P = "\<lambda>st. engine_inv E st \<and> get_record st i = Some rc"
  have drop: "?P st \<Longrightarrow> engine_inv E st" for st by simp
  show ?case
    unfolding option.case
    apply (rule est_guard[OF drop], assumption)+
    apply (rule est_case_sum, rule est_weaken[OF est_pure(5) _ drop], assumption, assumption)
    apply (rule est_bind[OF est_require_checkpoint drop], assumption)
    apply (rule est_run_transaction[OF assms _ 2(1)], simp)
    done
qed

lemma est_engine_execute_authorized:
  "quiet on_stage \<Longrightarrow>
   est (engine_inv E) (engine_execute_authorized E i sid on_stage) (engine_inv E)"
  unfolding engine_execute_authorized_def
  by (intro est_bind[OF est_pure(4)] est_bind[OF est_grants] est_case_option)
    (auto intro: est_intros est_engine_execute)

subsection \<open>Authorizing and reconciling\<close>

lemma est_engine_request_authorization:
  assumes "quiet on_challenge"
  shows "est (engine_inv E) (engine_request_authorization E i sid on_challenge) (engine_inv E)"
  unfolding engine_request_authorization_def Let_def
proof (rule est_inv_record, goal_cases)
  case 1
  show ?case by (simp add: est_pure)
next
  case (2 rc)
  let ?P = "\<lambda>st. engine_inv E st \<and> get_record st i = Some rc"
  have drop: "?P st \<Longrightarrow> engine_inv E st" for st by simp
  have grant: "engine_inv E st'"
    if "plan_executable (rec_plan rc)" "?P st"
      "put_transaction (eng_codec E) ((rec_transaction rc)\<lparr>tx_status := AUTHORIZED,
         tx_authorization_challenge_id := a, tx_last_known_stage := b\<rparr>) st = Inr st'"
    for st st' a b
    by (rule inv_update_record(1)[of E st i rc, OF _ _ that(3)]) (use that in auto)
  show ?case
    unfolding option.case
    apply (rule est_case_option, rule est_weaken[OF est_pure(5) _ drop], assumption, assumption)
    apply (rule est_guard[OF drop], assumption)+
    apply (rule est_bind[OF est_pure(4) drop], assumption)
    apply (rule est_bind[OF est_pure(4) drop], assumption)
    apply (rule est_guard[OF drop], assumption)
    apply (rule est_bind[OF est_worldM drop], assumption)
    apply (clarsimp split: prod.split)
    apply (rule est_bind[OF est_traverseM[OF est_quiet[OF assms]] drop], assumption)
    apply (rule est_bind[OF est_from_executor[OF est_pure(3)] drop], assumption)
    apply (rule est_bind_storeM[where R = "engine_inv E"])
      apply (rule grant; simp)
     apply (erule drop)
    apply (rule est_bind[OF est_grants]; simp add: est_pure)
    done
qed

lemma reconcile_verdict_simps:
  assumes "reconcile_verdict vid now i p l = (v, status, c)"
  shows "ver_operation_id v = i" and "status \<in> {COMMITTED, ABORTED, UNKNOWN}"
    and "status = COMMITTED \<Longrightarrow>
      ver_status v = V_VERIFIED \<and> ver_identity_verified v \<and> ver_partition_geometry_verified v"
  using assms by (auto simp: reconcile_verdict_def Let_def split: if_splits)

lemma reconciled_transaction_simps [simp]:
  "tx_operation_id (reconciled_transaction C v l s c f t) = tx_operation_id t"
  "tx_plan_id (reconciled_transaction C v l s c f t) = tx_plan_id t"
  "tx_session_id (reconciled_transaction C v l s c f t) = tx_session_id t"
  "tx_status (reconciled_transaction C v l s c f t) = s"
  by (simp_all add: reconciled_transaction_def)

definition reconciling ::
  "'w engine \<Rightarrow> string \<Rightarrow> storage_operation_record \<Rightarrow> storage_verification \<Rightarrow> operation_store \<Rightarrow> bool" where
  "reconciling E i rc v st \<longleftrightarrow> engine_inv E st \<and> map_of (st_verifications st) i = Some v \<and>
     map_of (st_transactions st) i = Some (rec_transaction rc)"

lemma reconciling_verification:
  assumes "engine_inv E st \<and> get_record st i = Some rc" and "tx_status (rec_transaction rc) = UNKNOWN"
    and "put_verification C v st = Inr st'" and "ver_operation_id v = i"
  shows "reconciling E i rc v st'"
proof -
  note t = get_record_SomeD(1)[of E st i rc]
  have "engine_inv E st'"
    by (rule inv_put_verification[OF conjunct1[OF assms(1)] assms(3)]) (use assms t in auto)
  then show ?thesis
    using put_Inr(3)[OF assms(3)] assms(1,4) t by (simp add: reconciling_def)
qed

lemma reconciling_transaction:
  assumes rec: "reconciling E i rc v st" and id: "tx_operation_id (rec_transaction rc) = i"
    and verdict: "reconcile_verdict vid now i p l = (v, status, c)"
    and put: "put_transaction C (reconciled_transaction C' v l' status c f (rec_transaction rc)) st = Inr st'"
  shows "engine_inv E st'"
proof (rule inv_put_transaction[OF _ put])
  show "verified_in st i" if "tx_status (reconciled_transaction C' v l' status c f (rec_transaction rc)) = COMMITTED"
    using reconcile_verdict_simps(3)[OF verdict] that rec
    by (auto simp: reconciling_def intro!: verified_inI)
qed (use rec id reconcile_verdict_simps(2)[OF verdict] in \<open>auto simp: reconciling_def in_flight_def\<close>)

lemma est_reconcile_unknown: "est (engine_inv E) (reconcile_unknown E i sid) (engine_inv E)"
  unfolding reconcile_unknown_def Let_def
proof (rule est_inv_record, goal_cases)
  case 1
  show ?case by (simp add: est_pure)
next
  case (2 rc)
  let ?P = "\<lambda>st. engine_inv E st \<and> get_record st i = Some rc"
  have drop: "?P st \<Longrightarrow> engine_inv E st" for st by simp
  have keep: "reconciling E i rc v st \<Longrightarrow> engine_inv E st" for v st by (simp add: reconciling_def)
  show ?case
    unfolding option.case
    apply (rule est_if, rule est_case_option, rule est_weaken[OF est_pure(5) _ drop], assumption, assumption)
     apply (rule est_weaken[OF est_pure(1) _ drop], assumption, assumption)
    apply (rule est_guard[OF drop], assumption)
    apply (rule est_bind[OF est_engine_inspect drop], assumption)
    apply (rule est_bind[OF est_worldM drop], assumption)
    apply (rule est_bind[OF est_worldM drop], assumption)
    apply (clarsimp split: prod.split)
    subgoal for _ _ _ _ _ _ _ _ _ v status c
      apply (rule est_bind_storeM[where R = "reconciling E i rc v"])
        apply (rule reconciling_verification; simp add: reconcile_verdict_simps(1))
       apply (erule drop)
      apply (rule est_bind[OF est_now_if keep], assumption)
      apply (rule est_bind_storeM[where R = "engine_inv E"])
        apply (rule reconciling_transaction[OF _ 2(2)], assumption, assumption, assumption)
       apply (erule keep)
      apply (rule est_pure)
      done
    done
qed

subsection \<open>Validating\<close>

lemma preflight_plan_simps [simp]:
  "plan_id (preflight_plan E p l) = plan_id p"
  "plan_operation_id (preflight_plan E p l) = plan_operation_id p"
  "plan_operation (preflight_plan E p l) = plan_operation p"
  "plan_session_id (preflight_plan E p l) = plan_session_id p"
  "plan_target_disk (preflight_plan E p l) = disk_identity (lay_disk l)"
  "plan_target_partition (preflight_plan E p l) = plan_target_partition p"
  "plan_original_layout (preflight_plan E p l) = l"
  "plan_proposed_layout (preflight_plan E p l) = plan_proposed_layout p"
  "plan_write_gate (preflight_plan E p l) = evaluate (eng_write_gate E) (disk_identity (lay_disk l))"
  "plan_data_impact (preflight_plan E p l)
     = analyze_data_impact (plan_operation p) l (plan_target_partition p)"
  "plan_boot_impact (preflight_plan E p l)
     = analyze_boot_impact (plan_operation p) l (plan_target_partition p)"
  by (simp_all add: preflight_plan_def)

lemma validated_plan_simps [simp]:
  "plan_id (validated_plan C p q d c b) = plan_id q"
  "plan_operation_id (validated_plan C p q d c b) = plan_operation_id q"
  "plan_operation (validated_plan C p q d c b) = plan_operation q"
  "plan_session_id (validated_plan C p q d c b) = plan_session_id q"
  "plan_target_disk (validated_plan C p q d c b) = plan_target_disk q"
  "plan_target_partition (validated_plan C p q d c b) = plan_target_partition q"
  "plan_original_layout (validated_plan C p q d c b) = plan_original_layout q"
  "plan_proposed_layout (validated_plan C p q d c b) = plan_proposed_layout q"
  "plan_dry_run (validated_plan C p q d c b) = Some d"
  "plan_protection_checkpoint (validated_plan C p q d c b) = c"
  "plan_executable (validated_plan C p q d c b) = (b \<and> c \<noteq> None)"
  "storage_plan_integrity_valid C (validated_plan C p q d c b)"
  by (simp_all add: validated_plan_def Let_def)

lemma checkpoint_bound_cong:
  assumes "plan_session_id p = plan_session_id q"
    and "dev_fingerprint_sha256 (plan_target_disk p) = dev_fingerprint_sha256 (plan_target_disk q)"
  shows "checkpoint_bound p c = checkpoint_bound q c"
  using assms by (simp add: checkpoint_bound_def protected_resource_id_def resource_id_def)

lemma approved_validated:
  assumes "plan_candidate (preflight_plan E p l)" and "dry_valid d" and "checkpoint_bound p c"
    and "dev_fingerprint_sha256 (disk_identity (lay_disk l)) = dev_fingerprint_sha256 (plan_target_disk p)"
  shows "approved E (validated_plan C p (preflight_plan E p l) d (Some c) b)"
  using assms checkpoint_bound_cong[of p "validated_plan C p (preflight_plan E p l) d (Some c) b" c]
  by (simp add: approved_def plan_candidate_def)

lemma validate_checkpoint_bound:
  "validate_checkpoint E p q d s = (Inr c, s') \<Longrightarrow> checkpoint_bound p c"
  by (auto simp: validate_checkpoint_def Let_def prog_simps engine_error_def split: if_splits)

lemma get_record_put_checkpoint:
  "put_checkpoint C a st = Inr st' \<Longrightarrow> get_record st' i = get_record st i"
  unfolding get_record_def get_transaction_def get_plan_def get_verification_def
  by (drule put_Inr(4)) (simp split: option.split)

lemma est_validate_checkpoint:
  "est (\<lambda>st. engine_inv E st \<and> get_record st i = r) (validate_checkpoint E p q d)
     (\<lambda>st. engine_inv E st \<and> get_record st i = r)"
  unfolding validate_checkpoint_def Let_def
  by (intro est_bind[OF est_from_executor[OF est_worldM]] est_guard
      est_bind_storeM[where R = "\<lambda>st. engine_inv E st \<and> get_record st i = r"]
      est_bind[OF est_checkpointsM])
    (auto simp: get_record_put_checkpoint intro: inv_put_checkpoint est_pure)

lemma inv_validated:
  assumes "engine_inv E st \<and> get_record st i = Some rc" and "\<not> in_flight (rec_transaction rc)"
    and "put_plan C q st = Inr st'"
    and "plan_id q = plan_id (rec_plan rc)" "plan_operation_id q = plan_operation_id (rec_plan rc)"
      "plan_session_id q = plan_session_id (rec_plan rc)"
    and "storage_plan_integrity_valid (eng_codec E) q" and "plan_executable q \<Longrightarrow> approved E q"
  shows "engine_inv E st' \<and> map_of (st_transactions st') i = Some (rec_transaction rc)"
proof -
  note rd = get_record_SomeD[OF conjunct1[OF assms(1)] conjunct2[OF assms(1)]]
  have "engine_inv E st'"
    by (rule inv_put_plan[OF conjunct1[OF assms(1)] assms(3), of "rec_plan rc"])
      (use assms rd in auto)
  then show ?thesis using rd(1) put_Inr(1)[OF assms(3)] by simp
qed

text \<open>The two writes at the end of a validation.\<close>

lemma est_store_validated:
  fixes rc :: storage_operation_record
  assumes idle: "\<not> in_flight (rec_transaction rc)" and op: "tx_operation_id (rec_transaction rc) = i"
    and q: "plan_id q = plan_id (rec_plan rc)" "plan_operation_id q = plan_operation_id (rec_plan rc)"
      "plan_session_id q = plan_session_id (rec_plan rc)"
      "storage_plan_integrity_valid (eng_codec E) q" "plan_executable q \<Longrightarrow> approved E q"
    and status: "status \<in> {PROTECTED, VALIDATED}"
  shows "est (\<lambda>st. engine_inv E st \<and> get_record st i = Some rc)
      (bindM (storeM (put_plan C q)) (\<lambda>_. bindM (storeM (put_transaction C
         ((rec_transaction rc)\<lparr>tx_status := status, tx_checkpoint_id := a, tx_last_known_stage := b\<rparr>)))
         (\<lambda>_. ret q)))
      (engine_inv E)"
proof (rule est_bind_storeM)
  let ?R = "\<lambda>st. engine_inv E st \<and> map_of (st_transactions st) i = Some (rec_transaction rc)"
  show "?R st'" if "engine_inv E st \<and> get_record st i = Some rc" "put_plan C q st = Inr st'" for st st'
    using inv_validated[OF that(1) idle that(2)] q by blast
  have "engine_inv E st'" if "?R st" "put_transaction C ((rec_transaction rc)\<lparr>tx_status := status,
      tx_checkpoint_id := a, tx_last_known_stage := b\<rparr>) st = Inr st'" for st st'
    by (rule inv_put_transaction[OF _ that(2)]) (use that(1) op status in \<open>auto simp: in_flight_def\<close>)
  then show "est ?R (bindM (storeM (put_transaction C
         ((rec_transaction rc)\<lparr>tx_status := status, tx_checkpoint_id := a, tx_last_known_stage := b\<rparr>)))
         (\<lambda>_. ret q)) (engine_inv E)"
    by (rule est_bind_storeM) (auto intro: est_pure)
qed simp

lemma est_validate_preflight:
  assumes idle: "\<not> in_flight (rec_transaction rc)" and op: "tx_operation_id (rec_transaction rc) = i"
  shows "est (\<lambda>st. engine_inv E st \<and> get_record st i = Some rc) (validate_preflight E rc) (engine_inv E)"
proof -
  let ?P = "\<lambda>st. engine_inv E st \<and> get_record st i = Some rc"
  have drop: "?P st \<Longrightarrow> engine_inv E st" for st by simp
  have bound: "c = (if k then Some (the c) else None) \<and> (k \<longrightarrow> checkpoint_bound p (the c))"
    if "(if k then bindM (validate_checkpoint E p q d) (\<lambda>c. ret (Some c)) else ret None) s = (Inr c, s')"
    for k p q d s c s'
    using that by (auto simp: prog_simps split: if_splits dest: validate_checkpoint_bound)
  have optional: "est ?P (if k then bindM (validate_checkpoint E p q d) (\<lambda>c. ret (Some c)) else ret None) ?P"
    for k p q d
    by (intro est_if est_bind[OF est_validate_checkpoint]) (auto intro: est_pure)
  show ?thesis
    unfolding validate_preflight_def Let_def
    apply (rule est_bind[OF est_worldM drop], assumption)
    apply (rule est_guard[OF drop], assumption)
    apply (rule est_bind[OF est_engine_inspect drop], assumption)
    apply (rule est_guard[OF drop], assumption)+
    apply (rule est_bind[OF est_from_executor[OF est_worldM] drop], assumption)
    apply (rule est_bind[OF optional drop], assumption)
    apply (drule bound)
    apply (rule est_store_validated[OF idle op])
    apply (auto intro: approved_validated split: if_splits)
    done
qed

lemma est_engine_validate: "est (engine_inv E) (engine_validate E i sid) (engine_inv E)"
  unfolding engine_validate_def Let_def
proof (rule est_inv_record, goal_cases)
  case 1
  show ?case by (simp add: est_pure)
next
  case (2 rc)
  let ?P = "\<lambda>st. engine_inv E st \<and> get_record st i = Some rc"
  have drop: "?P st \<Longrightarrow> engine_inv E st" for st by simp
  show ?case
    unfolding option.case
    apply (rule est_guard[OF drop], assumption)
    apply (rule est_if)
     apply (rule est_bind[OF est_weaken[OF est_reconcile_unknown drop]], assumption, assumption, assumption)
     apply (rule est_record, rule est_case_option)
      apply (rule est_error, simp)
     apply (rule est_guard, simp)
     apply (rule est_ret, simp)
    apply (rule est_guard[OF drop], assumption)
    apply (rule est_validate_preflight[OF _ 2(2)])
    apply (auto simp: in_flight_def)
    done
qed

subsection \<open>Planning\<close>

definition uuid_safe :: "'w clock \<Rightarrow> bool" where
  "uuid_safe K \<longleftrightarrow> (\<forall>w. is_safe_id (fst (clk_uuid4 K w)))"

text \<open>No stored plan or transaction is overwritten: the new identifiers are fresh.\<close>

definition extends :: "operation_store \<Rightarrow> operation_store \<Rightarrow> bool" where
  "extends st st' \<longleftrightarrow>
     (\<forall>k p. map_of (st_plans st) k = Some p \<longrightarrow> map_of (st_plans st') k = Some p) \<and>
     (\<forall>i t. map_of (st_transactions st) i = Some t \<longrightarrow> map_of (st_transactions st') i = Some t)"

definition new_plan :: "'w engine \<Rightarrow> storage_operation_plan \<Rightarrow> bool" where
  "new_plan E p \<longleftrightarrow> storage_plan_integrity_valid (eng_codec E) p \<and> \<not> plan_executable p \<and>
     is_safe_id (plan_id p) \<and> is_safe_id (plan_operation_id p)"

definition planned :: "'w engine \<Rightarrow> operation_store \<Rightarrow> operation_store \<Rightarrow> bool" where
  "planned E st st' \<longleftrightarrow> st' = st \<or> (\<exists>p. new_plan E p \<and>
     (st' = st\<lparr>st_plans := dict_set (plan_id p) p (st_plans st)\<rparr> \<or>
      (\<exists>t. tx_operation_id t = plan_operation_id p \<and> tx_plan_id t = plan_id p \<and>
         tx_session_id t = plan_session_id p \<and> tx_status t = PLANNED \<and>
         st' = st\<lparr>st_plans := dict_set (plan_id p) p (st_plans st),
                   st_transactions := dict_set (plan_operation_id p) t (st_transactions st)\<rparr>)))"

lemma planned_both:
  assumes "new_plan E p" and "tx_operation_id t = plan_operation_id p" and "tx_plan_id t = plan_id p"
    and "tx_session_id t = plan_session_id p" and "tx_status t = PLANNED"
    and "st' = st\<lparr>st_plans := dict_set (plan_id p) p (st_plans st),
           st_transactions := dict_set (plan_operation_id p) t (st_transactions st)\<rparr>"
  shows "planned E st st'"
  unfolding planned_def
  by (intro disjI2 exI[of _ p] conjI exI[of _ t]) (use assms in simp_all)

lemma planned_transaction_simps [simp]:
  "tx_operation_id (planned_transaction C p l sid who now) = plan_operation_id p"
  "tx_plan_id (planned_transaction C p l sid who now) = plan_id p"
  "tx_session_id (planned_transaction C p l sid who now) = sid"
  "tx_status (planned_transaction C p l sid who now) = PLANNED"
  by (simp_all add: planned_transaction_def)

lemma inv_planned:
  assumes inv: "engine_inv E st" and "planned E st st'" and ext: "extends st st'"
  shows "engine_inv E st'"
proof -
  have old: "transaction_ok st' i t" if "map_of (st_transactions st) i = Some t"
      "st_verifications st' = st_verifications st" for i t
    using inv_transaction[OF inv that(1)] ext that(2)
    by (fastforce simp: transaction_ok_def extends_def verified_in_def)
  from assms(2) consider (same) "st' = st"
    | (plan) p where "new_plan E p" "st' = st\<lparr>st_plans := dict_set (plan_id p) p (st_plans st)\<rparr>"
    | (both) p t where "new_plan E p" "tx_operation_id t = plan_operation_id p" "tx_plan_id t = plan_id p"
        "tx_session_id t = plan_session_id p" "tx_status t = PLANNED"
        "st' = st\<lparr>st_plans := dict_set (plan_id p) p (st_plans st),
                   st_transactions := dict_set (plan_operation_id p) t (st_transactions st)\<rparr>"
    unfolding planned_def by blast
  then show ?thesis
  proof cases
    case same
    with inv show ?thesis by simp
  next
    case plan
    then show ?thesis using inv old by (auto simp: engine_inv_def plan_ok_def new_plan_def)
  next
    case both
    have "transaction_ok st' (plan_operation_id p) t"
      using both by (auto simp: transaction_ok_def new_plan_def in_flight_def)
    then show ?thesis
      using inv old both by (auto simp: engine_inv_def plan_ok_def new_plan_def distinct_update)
  qed
qed

lemma draft_plan_simps [simp]:
  "plan_id (draft_plan E r sid l l' t lim pid oid a b) = pid"
  "plan_operation_id (draft_plan E r sid l l' t lim pid oid a b) = oid"
  "plan_session_id (draft_plan E r sid l l' t lim pid oid a b) = sid"
  "plan_executable (draft_plan E r sid l l' t lim pid oid a b) = False"
  "plan_operation (draft_plan E r sid l l' t lim pid oid a b) = operation_enum (rq_operation r)"
  "plan_original_layout (draft_plan E r sid l l' t lim pid oid a b) = l"
  "plan_proposed_layout (draft_plan E r sid l l' t lim pid oid a b) = l'"
  "plan_target_disk (draft_plan E r sid l l' t lim pid oid a b) = disk_identity (lay_disk l)"
  "plan_target_partition (draft_plan E r sid l l' t lim pid oid a b) = Some t"
  by (simp_all add: draft_plan_def Let_def)

lemma worldM_uuid:
  "uuid_safe (eng_clock E) \<Longrightarrow> worldM (uuid4_hex (eng_clock E)) s = (Inr u, s') \<Longrightarrow> is_safe_id u"
  by (auto simp: worldM_def uuid4_hex_def uuid_safe_def split: prod.splits)
    (metis fst_conv)

lemma est_plan_geometry: "est P (plan_geometry E r l) P"
  unfolding plan_geometry_def Let_def
  by (cases "rq_operation r")
    (auto intro!: est_bind[OF est_worldM] est_bind[OF est_pure(3)] intro: est_pure)

lemma est_store_planned:
  assumes "new_plan E p" and "sid = plan_session_id p"
  shows "est (\<lambda>st. st = st0) (bindM (storeM (put_plan C p)) (\<lambda>_.
     bindM (storeM (put_transaction C (planned_transaction C p l sid who now))) (\<lambda>_. ret p)))
     (planned E st0)"
proof (rule est_bind_storeM)
  let ?R = "\<lambda>st. st = st0\<lparr>st_plans := dict_set (plan_id p) p (st_plans st0)\<rparr>"
  show "?R st'" if "st = st0" "put_plan C p st = Inr st'" for st st'
    using that put_Inr(1) by blast
  have one: "planned E st0 st" if "?R st" for st using assms that by (auto simp: planned_def)
  have both: "planned E st0 st'"
    if "?R st" "put_transaction C (planned_transaction C p l sid who now) st = Inr st'" for st st'
    by (rule planned_both[of E p "planned_transaction C p l sid who now"])
      (use assms that put_Inr(2)[OF that(2)] in simp_all)
  show "est ?R (bindM (storeM (put_transaction C (planned_transaction C p l sid who now)))
      (\<lambda>_. ret p)) (planned E st0)"
    by (rule est_bind_storeM[OF both one est_pure(1)])
qed (simp add: planned_def)

lemma est_engine_plan:
  assumes "uuid_safe (eng_clock E)"
  shows "est (\<lambda>st. st = st0) (engine_plan E r sid who) (planned E st0)"
proof -
  have drop: "st = st0 \<Longrightarrow> planned E st0 st" for st by (simp add: planned_def)
  show ?thesis
    unfolding engine_plan_def Let_def
    apply (rule est_bind[OF est_engine_inspect drop], assumption)
    apply (rule est_bind[OF est_plan_geometry drop], assumption)
    apply (clarsimp split: prod.split)
    apply (rule est_bind[OF est_worldM drop], assumption)+
    apply (rule est_store_planned)
    apply (auto simp: new_plan_def intro: worldM_uuid[OF assms])
    done
qed

subsection \<open>Restart\<close>

lemma reconcile_transaction_simps [simp]:
  "tx_operation_id (reconcile_transaction now t) = tx_operation_id t"
  "tx_plan_id (reconcile_transaction now t) = tx_plan_id t"
  "tx_session_id (reconcile_transaction now t) = tx_session_id t"
  "\<not> in_flight (reconcile_transaction now t)"
  "tx_status (reconcile_transaction now t) = COMMITTED \<longleftrightarrow> tx_status t = COMMITTED"
  by (cases "tx_status t"; simp add: reconcile_transaction_def in_flight_def)+

lemma reconcile_files_distinct:
  "reconcile_files C now dir files = Inr dir' \<Longrightarrow> distinct (map fst dir) \<Longrightarrow> distinct (map fst dir')"
  by (induction C now dir files rule: reconcile_files.induct)
    (auto simp: prog_simps distinct_update dest!: write_file_Inr split: if_splits)

lemma reconcile_interrupted_Inr:
  assumes "reconcile_interrupted C now st = Inr st'" and "distinct (map fst (st_transactions st))"
  shows "map_of (st_transactions st') i
      = map_option (reconcile_transaction now) (map_of (st_transactions st) i)"
    and "st_plans st' = st_plans st \<and> st_verifications st' = st_verifications st"
    and "distinct (map fst (st_transactions st'))"
proof -
  obtain d where d: "reconcile_files C now (st_transactions st) (st_transactions st) = Inr d"
    and st': "st' = st\<lparr>st_transactions := d\<rparr>"
    using assms(1) by (auto simp: reconcile_interrupted_def prog_simps)
  show "map_of (st_transactions st') i
      = map_option (reconcile_transaction now) (map_of (st_transactions st) i)"
  proof -
    have "map_of (st_transactions st) k = Some t" if "(k, t) \<in> set (st_transactions st)" for k t
      using that assms(2) by simp
    note files = reconcile_files_Inr[OF d assms(2) this, of i]
    show ?thesis
    proof (cases "i \<in> fst ` set (st_transactions st)")
      case True
      then show ?thesis using files by (simp add: st')
    next
      case False
      then have "map_of (st_transactions st) i = None" by (simp add: map_of_eq_None_iff)
      then show ?thesis using files False by (simp add: st')
    qed
  qed
  show "st_plans st' = st_plans st \<and> st_verifications st' = st_verifications st" by (simp add: st')
  show "distinct (map fst (st_transactions st'))"
    using reconcile_files_distinct[OF d assms(2)] by (simp add: st')
qed

lemma inv_restart:
  assumes "engine_inv E st" and "reconcile_interrupted C now st = Inr st'"
  shows "engine_inv E st'"
proof -
  have "distinct (map fst (st_transactions st))" using assms(1) by (simp add: engine_inv_def)
  note rd = reconcile_interrupted_Inr[OF assms(2) this]
  have same: "st_plans st' = st_plans st" "st_verifications st' = st_verifications st"
    using rd(2) by simp_all
  have "transaction_ok st' i t'" if "map_of (st_transactions st') i = Some t'" for i t'
  proof -
    have "map_option (reconcile_transaction now) (map_of (st_transactions st) i) = Some t'"
      by (rule trans[OF rd(1)[symmetric] that])
    then obtain t where t: "map_of (st_transactions st) i = Some t" "reconcile_transaction now t = t'"
      unfolding map_option_eq_Some by (elim exE conjE)
    have "verified_in st' i = verified_in st i" by (simp add: verified_in_def same)
    then show ?thesis
      using inv_transaction[OF assms(1) t(1)] unfolding t(2)[symmetric] by (simp add: transaction_ok_def same) blast
  qed
  then show ?thesis using assms(1) rd(3) same by (simp add: engine_inv_def)
qed

section \<open>Reachable states\<close>

inductive engine_step :: "'w engine \<Rightarrow> 'w engine_state \<Rightarrow> 'w engine_state \<Rightarrow> bool" for E where
  plan: "engine_plan E r sid who s = (res, s') \<Longrightarrow> extends (es_store s) (es_store s') \<Longrightarrow>
     engine_step E s s'"
| validate: "engine_validate E i sid s = (res, s') \<Longrightarrow> engine_step E s s'"
| authorize: "engine_request_authorization E i sid on_challenge s = (res, s') \<Longrightarrow> quiet on_challenge \<Longrightarrow>
     engine_step E s s'"
| run: "engine_execute_authorized E i sid on_stage s = (res, s') \<Longrightarrow> quiet on_stage \<Longrightarrow> engine_step E s s'"
| reconcile: "reconcile_unknown E i sid s = (res, s') \<Longrightarrow> engine_step E s s'"
| failed: "mark_failed E i c s = (res, s') \<Longrightarrow> engine_step E s s'"
| aborted: "mark_aborted E i c s = (res, s') \<Longrightarrow> engine_step E s s'"
| unknown: "mark_unknown E i c s = (res, s') \<Longrightarrow> engine_step E s s'"
| restart: "reconcile_interrupted (eng_codec E) now (es_store s) = Inr st' \<Longrightarrow>
     engine_step E s (s\<lparr>es_store := st', es_grants := []\<rparr>)"
| environment: "engine_step E s (s\<lparr>es_world := w\<rparr>)"

inductive reachable :: "'w engine \<Rightarrow> 'w engine_state \<Rightarrow> bool" for E where
  start: "es_store s = \<lparr>st_plans = [], st_transactions = [], st_verifications = [], st_checkpoints = []\<rparr> \<Longrightarrow>
     es_grants s = [] \<Longrightarrow> reachable E s"
| step: "reachable E s \<Longrightarrow> engine_step E s s' \<Longrightarrow> reachable E s'"

lemma engine_step_inv:
  assumes "engine_step E s s'" and "uuid_safe (eng_clock E)" and "engine_inv E (es_store s)"
  shows "engine_inv E (es_store s')"
  using assms
proof (induction rule: engine_step.induct)
  case (plan r sid who s res s')
  have "planned E (es_store s) (es_store s')"
    by (rule estD[OF est_engine_plan[OF plan(3)] refl plan(1)])
  with plan show ?case by (auto intro: inv_planned)
qed (auto intro: inv_restart estD[OF est_engine_validate] estD[OF est_engine_request_authorization]
    estD[OF est_engine_execute_authorized] estD[OF est_reconcile_unknown] estD[OF est_mark_failed]
    estD[OF est_mark_aborted] estD[OF est_mark_unknown])

theorem reachable_inv:
  assumes "reachable E s" and "uuid_safe (eng_clock E)"
  shows "engine_inv E (es_store s)"
  using assms
proof (induction rule: reachable.induct)
  case (start s)
  then show ?case by (simp add: engine_inv_def)
qed (blast intro: engine_step_inv)

end
