(* ===== verification/Sample_Engine.thy ===== *)
theory Sample_Engine
  imports Sample_Disk Engine_Invariant
begin

text \<open>
  A concrete engine at which the hypotheses of the engine's properties hold: a world of a counter and
  one disk image, an executor that writes the proposed layout to the image, and one transaction taken
  from planning to commitment. Nothing here models code.
\<close>

type_synonym sample_world = "nat \<times> storage_layout"

definition image_clock :: "sample_world clock" where
  "image_clock = \<lparr>clk_now = (\<lambda>(n, l). (int n, (Suc n, l))),
     clk_uuid4 = (\<lambda>(n, l). (sample_uuid n, (Suc n, l)))\<rparr>"

definition image_dry_run :: storage_dry_run_result where
  "image_dry_run = \<lparr>dry_tool = ''sfdisk'', dry_original_layout_sha256 = '''', dry_proposed_layout_sha256 = '''',
     dry_script_sha256 = '''', dry_exit_code = 0, dry_valid = True, dry_warnings = []\<rparr>"

definition image_bundle :: "storage_operation_plan \<Rightarrow> storage_checkpoint_bundle" where
  "image_bundle p = \<lparr>bundle_checkpoint = \<lparr>cp_id = ''checkpoint-1'', cp_created_at = 0, cp_status = CP_READY,
       cp_protected_resources = [protected_resource_id p],
       cp_resource_fingerprints = [(protected_resource_id p, dev_fingerprint_sha256 (plan_target_disk p))],
       cp_provider_capability_id = '''', cp_protection_kind = SNAPSHOT_KIND, cp_backup_id = None,
       cp_verification_id = Some ''v'', cp_session_id = plan_session_id p, cp_evidence_sha256 = '''',
       cp_limitations = []\<rparr>,
     bundle_artifact = \<lparr>art_checkpoint_id = ''checkpoint-1'', art_operation_id = plan_operation_id p,
       art_target_fingerprint_sha256 = dev_fingerprint_sha256 (plan_target_disk p),
       art_partition_table_fingerprint_sha256
         = pt_fingerprint_sha256 (lay_partition_table (plan_original_layout p)),
       art_dump_sha256 = '''', art_sfdisk_dump = '''', art_created_at = 0\<rparr>\<rparr>"

definition image_grant :: "storage_operation_plan \<Rightarrow> storage_authorization_grant" where
  "image_grant p = \<lparr>grant_id = ''grant-01'', grant_challenge_id = ''challenge'',
     grant_operation_id = plan_operation_id p, grant_plan_id = plan_id p,
     grant_session_id = plan_session_id p,
     grant_target_fingerprint_sha256 = dev_fingerprint_sha256 (plan_target_disk p),
     grant_plan_fingerprint_sha256 = plan_fingerprint_sha256 p, grant_operator_uid = None,
     grant_expires_at = 1000000\<rparr>"

definition image_executor :: "sample_world executor" where
  "image_executor = \<lparr>
     ex_inspect = (\<lambda>_ (n, l). (Inr l, (n, l))),
     ex_dry_run = (\<lambda>_ w. (Inr image_dry_run, w)),
     ex_create_checkpoint = (\<lambda>p w. (Inr (image_bundle p), w)),
     ex_request_authorization = (\<lambda>p w. ([], Inr (image_grant p), w)),
     ex_execute = (\<lambda>p g (n, l). ([(''written'', [])],
        Inr \<lparr>out_operation_id = plan_operation_id p, out_operation = plan_operation p,
          out_tool = ''sfdisk'', out_exit_code = 0, out_kernel_reread = None, out_before = l,
          out_after = plan_proposed_layout p, out_evidence = []\<rparr>, (n, plan_proposed_layout p))),
     ex_verify = (\<lambda>_ (n, l). (Inr l, (n, l)))\<rparr>"

definition image_engine :: "sample_world engine" where
  "image_engine = \<lparr>eng_codec = sample_codec, eng_clock = image_clock, eng_executor = image_executor,
     eng_write_gate = sample_gate\<rparr>"

definition image_start :: "sample_world engine_state" where
  "image_start = \<lparr>es_store = \<lparr>st_plans = [], st_transactions = [], st_verifications = [],
       st_checkpoints = []\<rparr>,
     es_checkpoints = [], es_grants = [], es_world = (0, sample_layout)\<rparr>"

definition silent :: "'a \<Rightarrow> ('s, unit) prog" where
  "silent _ = ret ()"

definition image_op :: string where
  "image_op = sample_uuid 4"

definition image_planned :: "sample_world engine_state" where
  "image_planned = snd (engine_plan image_engine (sample_request Op_create) ''s'' ''me'' image_start)"

definition image_validated :: "sample_world engine_state" where
  "image_validated = snd (engine_validate image_engine image_op ''s'' image_planned)"

definition image_authorized :: "sample_world engine_state" where
  "image_authorized = snd (engine_request_authorization image_engine image_op ''s'' silent image_validated)"

definition image_committed :: "sample_world engine_state" where
  "image_committed = snd (engine_execute_authorized image_engine image_op ''s'' silent image_authorized)"

lemma sample_uuid_safe: "is_safe_id (sample_uuid n)"
proof -
  let ?d = "int_digits (int n mod 10000000)"
  have "length ?d \<le> 8" using int_digits_length[of "int n mod 10000000" 6] by simp
  moreover have "list_all is_digit ?d" by (rule int_digits_alnum) simp
  ultimately show ?thesis
    by (auto simp: is_safe_id_def sample_uuid_def Let_def list_all_iff is_alnum_def is_digit_def)
qed

lemma image_uuid_safe: "uuid_safe (eng_clock image_engine)"
  by (auto simp: uuid_safe_def image_engine_def image_clock_def sample_uuid_safe)

lemma quiet_silent: "quiet silent"
  by (simp add: quiet_def silent_def ret_def)

lemma image_planned_reachable: "reachable image_engine image_planned"
proof (rule reachable.step[OF reachable.start])
  show "es_store image_start = \<lparr>st_plans = [], st_transactions = [], st_verifications = [], st_checkpoints = []\<rparr>"
    "es_grants image_start = []" by (simp_all add: image_start_def)
  show "engine_step image_engine image_start image_planned"
    by (rule engine_step.plan[of _ "sample_request Op_create" "''s''" "''me''" _
          "fst (engine_plan image_engine (sample_request Op_create) ''s'' ''me'' image_start)"])
      (simp_all add: image_planned_def extends_def image_start_def)
qed

lemma image_authorized_reachable: "reachable image_engine image_authorized"
proof (rule reachable.step[OF reachable.step[OF image_planned_reachable]])
  show "engine_step image_engine image_planned image_validated"
    by (rule engine_step.validate[of _ image_op "''s''" _
          "fst (engine_validate image_engine image_op ''s'' image_planned)"])
      (simp add: image_validated_def)
  show "engine_step image_engine image_validated image_authorized"
    by (rule engine_step.authorize[of _ image_op "''s''" silent _
          "fst (engine_request_authorization image_engine image_op ''s'' silent image_validated)"])
      (simp_all add: image_authorized_def quiet_silent)
qed

lemma image_committed_reachable: "reachable image_engine image_committed"
  by (rule reachable.step[OF image_authorized_reachable], rule engine_step.run[of _ image_op "''s''" silent _
        "fst (engine_execute_authorized image_engine image_op ''s'' silent image_authorized)"])
    (simp_all add: image_committed_def quiet_silent)

definition statuses :: "sample_world engine_state \<Rightarrow> (string \<times> storage_transaction_status) list" where
  "statuses s = map (\<lambda>(k, t). (k, tx_status t)) (st_transactions (es_store s))"

definition run_view ::
  "sample_world engine_state
     \<Rightarrow> (string \<times> storage_transaction_status) list \<times> (string \<times> storage_transaction_status) list" where
  "run_view s = (statuses s, statuses (snd (engine_execute_authorized image_engine image_op ''s'' silent s)))"

lemma image_run_view: "run_view image_authorized = ([(image_op, AUTHORIZED)], [(image_op, COMMITTED)])"
  by code_simp

lemma image_statuses:
  "statuses image_authorized = [(image_op, AUTHORIZED)]" "statuses image_committed = [(image_op, COMMITTED)]"
  using image_run_view by (simp_all add: run_view_def image_committed_def)

lemma statuses_map_of: "statuses s = [(i, st)] \<Longrightarrow>
   \<exists>t. map_of (st_transactions (es_store s)) i = Some t \<and> tx_status t = st"
  by (auto simp: statuses_def)

definition image_unknown :: "sample_world engine_state" where
  "image_unknown = snd (mark_unknown image_engine image_op ''STORAGE_BROKER_TIMEOUT'' image_planned)"

lemma image_unknown_reachable: "reachable image_engine image_unknown"
  by (rule reachable.step[OF image_planned_reachable], rule engine_step.unknown[of _ image_op
        "''STORAGE_BROKER_TIMEOUT''" _
        "fst (mark_unknown image_engine image_op ''STORAGE_BROKER_TIMEOUT'' image_planned)"])
    (simp add: image_unknown_def)

end
