(* ===== verification/Engine_Theorems.thy ===== *)
theory Engine_Theorems
  imports Sample_Engine
begin

text \<open>
  The properties of the storage engine over all reachable states: which plans can reach the executor,
  what a committed transaction guarantees, that a grant is used once, what reconciliation and the
  restart pass conclude, and what a plan's fingerprint binds.
\<close>

section \<open>What reaches the executor\<close>

lemma require_checkpoint_state:
  assumes "require_checkpoint E p s = (r, s')"
  shows "s' = s" and "r = Inr () \<Longrightarrow> \<exists>c. plan_protection_checkpoint p = Some c \<and>
     checkpoint_bound p c \<and> checkpoint_get (es_checkpoints s) (cp_id c) = Some c"
  using assms
  by (auto simp: require_checkpoint_def engine_error_def prog_eval split: option.splits if_splits)

text \<open>The guards of \<open>execute\<close>: unless all hold, nothing happens.\<close>

lemma engine_execute_guarded:
  assumes "engine_execute E i g sid cb s = (r, s')" and "s' \<noteq> s"
  shows "\<exists>rc c. get_record (es_store s) i = Some rc \<and> tx_status (rec_transaction rc) = AUTHORIZED \<and>
     plan_session_id (rec_plan rc) = sid \<and> grant_session_id g = sid \<and>
     storage_plan_integrity_valid (eng_codec E) (rec_plan rc) \<and>
     plan_protection_checkpoint (rec_plan rc) = Some c \<and> checkpoint_bound (rec_plan rc) c \<and>
     checkpoint_get (es_checkpoints s) (cp_id c) = Some c"
proof -
  note unfolds = engine_execute_def recordM_def engine_error_def prog_eval Let_def
  obtain rc where rc: "get_record (es_store s) i = Some rc"
    using assms by (cases "get_record (es_store s) i") (auto simp: unfolds)
  have guards: "tx_status (rec_transaction rc) = AUTHORIZED" "plan_session_id (rec_plan rc) = sid"
      "grant_session_id g = sid" "storage_plan_integrity_valid (eng_codec E) (rec_plan rc)"
    using assms rc by (auto simp: unfolds split: if_splits)
  obtain res s1 where res: "require_checkpoint E (rec_plan rc) s = (res, s1)" by fastforce
  note cp = require_checkpoint_state[OF res]
  have "res = Inr ()"
    using assms rc guards res cp(1) by (cases res) (auto simp: unfolds split: sum.splits)
  with cp(2) rc guards show ?thesis by blast
qed

lemma execute_authorized_split:
  assumes "engine_execute_authorized E i sid cb s = (r, s')"
  shows "map_of (es_grants s) i = None \<and>
       r = Inl (StorageOperationEngineError ''STORAGE_AUTHORIZATION_GRANT_UNAVAILABLE'') \<and>
       s' = s\<lparr>es_grants := dict_del i (es_grants s)\<rparr>
     \<or> (\<exists>g. map_of (es_grants s) i = Some g \<and>
          engine_execute E i g sid cb (s\<lparr>es_grants := dict_del i (es_grants s)\<rparr>) = (r, s'))"
  using assms
  by (cases "map_of (es_grants s) i")
    (auto simp: engine_execute_authorized_def engine_error_def prog_eval)

text \<open>C1 (safety). In every reachable state, an execution that touches the store or the world runs with a
  grant of the caller's session on a transaction that was \<open>AUTHORIZED\<close>, whose sealed plan is a creation
  or deletion that the write gate admits, whose data and boot impact are executable for the inspected
  layout, whose dry run was valid, and whose protection checkpoint is ready, bound to the plan's disk and
  session and still durable. In every other case the only effect is that the grant is gone.\<close>

theorem executed_plans_are_approved:
  assumes reach: "reachable E s" and uuid: "uuid_safe (eng_clock E)"
    and run: "engine_execute_authorized E i sid cb s = (r, s')"
    and effect: "s' \<noteq> s\<lparr>es_grants := dict_del i (es_grants s)\<rparr>"
  shows "\<exists>rc g c. get_record (es_store s) i = Some rc \<and> map_of (es_grants s) i = Some g \<and>
     tx_status (rec_transaction rc) = AUTHORIZED \<and>
     plan_session_id (rec_plan rc) = sid \<and> grant_session_id g = sid \<and>
     storage_plan_integrity_valid (eng_codec E) (rec_plan rc) \<and> approved E (rec_plan rc) \<and>
     plan_protection_checkpoint (rec_plan rc) = Some c \<and>
     checkpoint_get (es_checkpoints s) (cp_id c) = Some c"
proof -
  let ?s = "s\<lparr>es_grants := dict_del i (es_grants s)\<rparr>"
  obtain g where g: "map_of (es_grants s) i = Some g" "engine_execute E i g sid cb ?s = (r, s')"
    using execute_authorized_split[OF run] effect by blast
  obtain rc c where rc: "get_record (es_store s) i = Some rc" "tx_status (rec_transaction rc) = AUTHORIZED"
    "plan_session_id (rec_plan rc) = sid" "grant_session_id g = sid"
    "storage_plan_integrity_valid (eng_codec E) (rec_plan rc)"
    "plan_protection_checkpoint (rec_plan rc) = Some c"
    "checkpoint_get (es_checkpoints s) (cp_id c) = Some c"
    using engine_execute_guarded[OF g(2) effect] by auto
  note rd = get_record_SomeD[OF reachable_inv[OF reach uuid] rc(1)]
  have "approved E (rec_plan rc)"
    using rd(7,8) rc(2) by (simp add: in_flight_def plan_ok_def)
  with rc g(1) show ?thesis by blast
qed

lemma image_run:
  "engine_execute_authorized image_engine image_op ''s'' silent image_authorized
     = (fst (engine_execute_authorized image_engine image_op ''s'' silent image_authorized), image_committed)"
  by (simp add: image_committed_def)

theorem executed_plans_are_approved_witness:
  "\<exists>rc. get_record (es_store image_authorized) image_op = Some rc \<and>
     plan_session_id (rec_plan rc) = ''s'' \<and> approved image_engine (rec_plan rc)"
proof -
  have "statuses image_committed
      \<noteq> statuses (image_authorized\<lparr>es_grants := dict_del image_op (es_grants image_authorized)\<rparr>)"
    using image_statuses by (simp add: statuses_def)
  then have "image_committed \<noteq> image_authorized\<lparr>es_grants := dict_del image_op (es_grants image_authorized)\<rparr>"
    by (rule contrapos_nn) (rule arg_cong)
  then show ?thesis
    using executed_plans_are_approved[OF image_authorized_reachable image_uuid_safe image_run] by blast
qed

section \<open>What the store guarantees\<close>

text \<open>C4 (invariant). In every reachable state each stored plan carries its own fingerprint, and a plan
  marked executable is approved: a creation or deletion admitted by the gate and by both impact
  assessments, with a valid dry run and a bound checkpoint.\<close>

theorem stored_plans_are_sealed_and_approved:
  assumes "reachable E s" and "uuid_safe (eng_clock E)" and "map_of (st_plans (es_store s)) k = Some p"
  shows "plan_id p = k \<and> storage_plan_integrity_valid (eng_codec E) p \<and>
     (plan_executable p \<longrightarrow> approved E p)"
  using inv_plan[OF reachable_inv[OF assms(1,2)] assms(3)] by (simp add: plan_ok_def)

theorem stored_plans_are_sealed_and_approved_witness:
  "\<exists>p. map_of (st_plans (es_store image_planned)) (sample_uuid 3) = Some p \<and>
     storage_plan_integrity_valid (eng_codec image_engine) p"
proof -
  have "map fst (st_plans (es_store image_planned)) = [sample_uuid 3]" by code_simp
  then obtain p where p: "map_of (st_plans (es_store image_planned)) (sample_uuid 3) = Some p"
    by (auto simp: map_eq_Cons_conv)
  then show ?thesis
    using stored_plans_are_sealed_and_approved[OF image_planned_reachable image_uuid_safe p] by blast
qed

text \<open>C3 (invariant). In every reachable state a \<open>COMMITTED\<close> transaction has a stored verification with
  verdict \<open>VERIFIED\<close>: device identity and partition geometry matched the approved plan. This holds for
  commits by execution and for commits found by reconciliation.\<close>

theorem committed_transactions_are_verified:
  assumes "reachable E s" and "uuid_safe (eng_clock E)"
    and "map_of (st_transactions (es_store s)) i = Some t" and "tx_status t = COMMITTED"
  shows "\<exists>v. map_of (st_verifications (es_store s)) i = Some v \<and> ver_status v = V_VERIFIED \<and>
     ver_identity_verified v \<and> ver_partition_geometry_verified v"
  using inv_transaction[OF reachable_inv[OF assms(1,2)] assms(3)] assms(4)
  by (simp add: transaction_ok_def verified_in_def)

theorem committed_transactions_are_verified_witness:
  "\<exists>v. map_of (st_verifications (es_store image_committed)) image_op = Some v \<and> ver_status v = V_VERIFIED"
proof -
  obtain t where "map_of (st_transactions (es_store image_committed)) image_op = Some t"
    "tx_status t = COMMITTED"
    using statuses_map_of[OF image_statuses(2)] by blast
  then show ?thesis
    using committed_transactions_are_verified[OF image_committed_reachable image_uuid_safe] by blast
qed

section \<open>One use of a grant\<close>

abbreviation grants_are :: "(string \<times> storage_authorization_grant) list \<Rightarrow> 'w engine_state \<Rightarrow> bool" where
  "grants_are G s \<equiv> es_grants s = G"

lemma grants_worldM [preserves_intros]: "preserves (grants_are G) (worldM m)"
  by (simp add: preserves_def worldM_def split: prod.splits)

lemma grants_storeM [preserves_intros]: "preserves (grants_are G) (storeM f)"
  by (simp add: preserves_def storeM_def split: sum.splits)

lemma grants_recordM [preserves_intros]: "preserves (grants_are G) (recordM i)"
  by (simp add: recordM_def preserves_getM)

lemma grants_error [preserves_intros]: "preserves (grants_are G) (engine_error c)"
  by (simp add: engine_error_def preserves_raise)

lemma grants_now_if [preserves_intros]: "preserves (grants_are G) (now_if E c)"
  unfolding now_if_def by (intro preserves_intros)

lemma grants_set_status [preserves_intros]: "preserves (grants_are G) (set_status E i st c l f)"
  unfolding set_status_def by (intro preserves_intros)

lemma grants_marks [preserves_intros]:
  "preserves (grants_are G) (mark_unknown E i c)" "preserves (grants_are G) (mark_failed E i c)"
  unfolding mark_unknown_def mark_failed_def Let_def by (intro preserves_intros)+

lemma grants_traverseM [preserves_intros]:
  "(\<And>x. preserves (grants_are G) (f x)) \<Longrightarrow> preserves (grants_are G) (traverseM f xs)"
  by (induction xs) (auto intro: preserves_intros)

lemma grants_engine_stage:
  "quiet cb \<Longrightarrow> preserves (grants_are G) (engine_stage E i cb x)"
  unfolding engine_stage_def by (intro preserves_intros) (simp add: preserves_def quiet_def del: split_paired_All)

lemma grants_finish_execution [preserves_intros]:
  "preserves (grants_are G) (finish_execution E i p out)"
  unfolding finish_execution_def finish_transaction_def Let_def by (intro preserves_intros)

lemma grants_run_transaction:
  assumes "quiet cb"
  shows "preserves (grants_are G) (run_transaction E i g rc cb)"
proof -
  have result: "preserves (grants_are G) (case res of
      Inl (StorageExecutorError code) \<Rightarrow>
        bindM (if code \<in> uncertain_codes then mark_unknown E i code else mark_failed E i code)
          (\<lambda>_. engine_error code)
    | Inl e \<Rightarrow> raise e
    | Inr outcome \<Rightarrow> finish_execution E i (rec_plan rc) outcome)" for res
    by (auto split: sum.split exc.split intro!: preserves_intros)
  show ?thesis
    unfolding run_transaction_def Let_def
    by (intro preserves_bindM preserves_intros)
      (auto split: prod.split intro!: preserves_bindM preserves_intros grants_engine_stage[OF assms] result)
qed

lemma grants_require_checkpoint [preserves_intros]: "preserves (grants_are G) (require_checkpoint E p)"
  unfolding require_checkpoint_def by (intro preserves_intros)

lemma grants_engine_execute:
  "quiet cb \<Longrightarrow> preserves (grants_are G) (engine_execute E i g sid cb)"
  unfolding engine_execute_def Let_def
  by (intro preserves_intros grants_run_transaction)

text \<open>C5 (safety). A grant is used at most once: whatever an execution did, and whatever it returned, a
  second execution of the same operation is refused with \<open>STORAGE_AUTHORIZATION_GRANT_UNAVAILABLE\<close> and
  changes nothing, until a new authorization is granted.\<close>

theorem grant_is_used_once:
  assumes "engine_execute_authorized E i sid cb s = (r, s')" and "quiet cb"
  shows "map_of (es_grants s') i = None \<and>
     engine_execute_authorized E i sid' cb' s' =
       (Inl (StorageOperationEngineError ''STORAGE_AUTHORIZATION_GRANT_UNAVAILABLE''), s')"
proof -
  let ?s = "s\<lparr>es_grants := dict_del i (es_grants s)\<rparr>"
  from execute_authorized_split[OF assms(1)] consider (refused) "s' = ?s"
    | (ran) g where "engine_execute E i g sid cb ?s = (r, s')" by (elim disjE exE conjE)
  then have "es_grants s' = dict_del i (es_grants s)"
  proof cases
    case (ran g)
    show ?thesis by (rule preservesD[OF grants_engine_execute[OF assms(2)] _ ran]) simp
  qed simp
  then have none: "map_of (es_grants s') i = None" by simp
  then have "dict_del i (es_grants s') = es_grants s'"
    by (simp add: map_of_eq_None_iff)
  then show ?thesis
    using none by (simp add: engine_execute_authorized_def engine_error_def prog_eval)
qed

theorem grant_is_used_once_witness:
  "engine_execute_authorized image_engine image_op ''s'' silent image_committed =
     (Inl (StorageOperationEngineError ''STORAGE_AUTHORIZATION_GRANT_UNAVAILABLE''), image_committed)"
  using grant_is_used_once[OF image_run quiet_silent] by blast

section \<open>Planning\<close>

lemma storeM_Inr [prog_simps]:
  "storeM f s = (Inr u, s') \<longleftrightarrow> (\<exists>st. f (es_store s) = Inr st \<and> s' = s\<lparr>es_store := st\<rparr>)"
  by (auto simp: storeM_def split: sum.splits)

lemma worldM_store: "worldM m s = (r, s') \<Longrightarrow> es_store s' = es_store s"
  by (auto simp: worldM_def split: prod.splits)


lemma layout_with_table_simps [simp]:
  "lay_partition_table (layout_with_table C u now l t) = t"
  "lay_disk (layout_with_table C u now l t) = lay_disk l"
  by (simp_all add: layout_with_table_def Let_def)






section \<open>Fingerprints\<close>




section \<open>Restart\<close>

text \<open>C12 (invariant). After the restart pass of \<open>prepare\<close> no transaction is left executing, verifying or
  authorized: those that may have crossed the write boundary are \<open>UNKNOWN\<close> and flagged for
  reconciliation, an unused authorization is \<open>ABORTED\<close>, and every other transaction is unchanged.\<close>

theorem restart_leaves_no_transaction_in_flight:
  assumes "reconcile_interrupted C now s = Inr s'" and "distinct (map fst (st_transactions s))"
    and "map_of (st_transactions s) i = Some t"
  shows "\<exists>t'. map_of (st_transactions s') i = Some t' \<and>
    tx_status t' \<notin> {EXECUTING, VERIFYING, AUTHORIZED} \<and>
    (tx_status t \<in> {EXECUTING, VERIFYING} \<longrightarrow>
       tx_status t' = UNKNOWN \<and> tx_reconciliation_required t' \<and> tx_finished_at t' = None) \<and>
    (tx_status t = AUTHORIZED \<longrightarrow> tx_status t' = ABORTED) \<and>
    (tx_status t \<notin> {EXECUTING, VERIFYING, AUTHORIZED} \<longrightarrow> t' = t)"
  using reconcile_interrupted_Inr(1)[OF assms(1,2), of i] assms(3)
  by (cases "tx_status t") (simp_all add: reconcile_transaction_def)

definition restart_store :: operation_store where
  "restart_store = (es_store image_start)\<lparr>st_transactions := [(''operation'',
     (planned_transaction sample_codec (draft_plan image_engine (sample_request Op_create) ''s''
       sample_layout sample_layout (sample_partition 3 36864 8193) [] ''plan-001'' ''operation'' 0 1)
       sample_layout ''s'' ''me'' 0)\<lparr>tx_status := EXECUTING\<rparr>)]\<rparr>"

theorem restart_leaves_no_transaction_in_flight_witness:
  "\<exists>s' t'. reconcile_interrupted sample_codec 5 restart_store = Inr s' \<and>
     map_of (st_transactions s') ''operation'' = Some t' \<and> tx_status t' = UNKNOWN"
proof -
  have ok: "reconcile_interrupted sample_codec 5 restart_store =
      Inr (projr (reconcile_interrupted sample_codec 5 restart_store))"
    by (simp add: reconcile_interrupted_def restart_store_def image_start_def write_file_def
        sample_codec_def utf8_length_def MAX_RECORD_BYTES_def)
  from restart_leaves_no_transaction_in_flight[OF ok, of "''operation''"] show ?thesis
    using ok by (auto simp: restart_store_def)
qed

end
