(* ===== verification/Audit_Ledger.thy ===== *)
theory Audit_Ledger
  imports Prelude "HOL-Library.List_Lexorder" "HOL-Library.Char_ord"
begin

text \<open>
  The audit writer of \<^verbatim>\<open>audit/ledger.py\<close>: an append-only file of JSON records chained by HMAC. The file
  is the list of its lines; a write that returned is durable. The printer and the parser of \<^verbatim>\<open>json\<close> and
  the hashes are the functions of a \<open>ledger_codec\<close>. Sorting of keys is done here, so the printer prints a
  value in the order it has.
\<close>

record ledger_codec =
  lc_print :: "json \<Rightarrow> string"
  lc_loads :: "string \<Rightarrow> json option"
  lc_hmac :: "string \<Rightarrow> string \<Rightarrow> string"
  lc_sha256 :: "string \<Rightarrow> string"

fun sort_json :: "json \<Rightarrow> json" where
  "sort_json (JList xs) = JList (map sort_json xs)"
| "sort_json (JObj kvs) = JObj (sort_key fst (map (\<lambda>(k, v). (k, sort_json v)) kvs))"
| "sort_json v = v"

text \<open>\<open>json.dumps(v, sort_keys=True, ...)\<close>; with \<open>allow_nan=False\<close> a non-finite float is refused.\<close>

definition dumps_sorted :: "ledger_codec \<Rightarrow> json \<Rightarrow> string" where
  "dumps_sorted C v = lc_print C (sort_json v)"

definition nonfinite :: "string \<Rightarrow> bool" where
  "nonfinite s \<longleftrightarrow> s \<in> {''NaN'', ''Infinity'', ''-Infinity''}"

fun has_nonfinite :: "json \<Rightarrow> bool" where
  "has_nonfinite (JFloat s) = nonfinite s"
| "has_nonfinite (JList xs) = list_ex has_nonfinite xs"
| "has_nonfinite (JObj kvs) = list_ex (\<lambda>(k, v). has_nonfinite v) kvs"
| "has_nonfinite _ = False"

section \<open>Redaction\<close>

definition bounded_string :: "json option \<Rightarrow> nat \<Rightarrow> string option" where
  "bounded_string value maximum = (case value of
     Some (JStr s) \<Rightarrow> if s = [] \<or> length s > maximum \<or> CHR 0x00 \<in> set s then None else Some s
   | _ \<Rightarrow> None)"

definition sensitive :: "string \<Rightarrow> bool" where
  "sensitive k \<longleftrightarrow> py_casefold k \<in> {''password'', ''secret'', ''token'', ''key'', ''authorization''}"

definition REDACTED :: json where
  "REDACTED = JStr ''[REDACTED]''"

fun safe_audit_value :: "json \<Rightarrow> json" where
  "safe_audit_value (JStr s) = JStr (take 1024 s)"
| "safe_audit_value (JList xs) = JList (take 64 (map safe_audit_value xs))"
| "safe_audit_value (JObj kvs) =
     JObj (map (\<lambda>(k, v). (k, if sensitive k then REDACTED else safe_audit_value v)) kvs)"
| "safe_audit_value v = v"

definition redact_payload :: "(string \<times> json) list \<Rightarrow> (string \<times> json) list" where
  "redact_payload kvs = map (\<lambda>(k, v). (k, if sensitive k then REDACTED else safe_audit_value v)) kvs"

section \<open>The writer\<close>

record audit_receipt =
  rc_sequence :: int
  rc_mac :: string

record audit_writer =
  aw_key :: string
  aw_sequence :: int
  aw_previous_mac :: string
  aw_lines :: "string list"

definition zero_mac :: string where
  "zero_mac = replicate 64 (CHR ''0'')"

definition audit_body ::
  "int \<Rightarrow> string \<Rightarrow> int \<Rightarrow> string \<Rightarrow> string \<Rightarrow> string \<Rightarrow> string \<Rightarrow> string \<Rightarrow> (string \<times> json) list \<Rightarrow> json" where
  "audit_body sequence previous_mac peer_uid source timestamp correlation_id session_id event_type redacted =
     JObj [(''sequence'', JInt sequence), (''previous_mac'', JStr previous_mac),
       (''peer_uid'', JInt peer_uid), (''source'', JStr source), (''timestamp'', JStr timestamp),
       (''correlation_id'', JStr correlation_id), (''session_id'', JStr session_id),
       (''event_type'', JStr event_type), (''payload'', JObj redacted)]"

fun with_mac :: "json \<Rightarrow> string \<Rightarrow> json" where
  "with_mac (JObj kvs) mac = JObj (dict_set ''mac'' (JStr mac) kvs)"
| "with_mac v mac = v"

definition append_record ::
  "ledger_codec \<Rightarrow> json \<Rightarrow> int \<Rightarrow> string \<Rightarrow> (audit_writer, audit_receipt) prog" where
  "append_record C request peer_uid timestamp w =
     (let field = (\<lambda>k n. bounded_string (json_get request k) n) in
      case (field ''event_type'' 96, field ''source'' 96, field ''correlation_id'' 128,
            field ''session_id'' 128, json_get request ''payload'') of
        (Some event_type, Some source, Some correlation_id, Some session_id, Some (JObj payload)) \<Rightarrow>
          (let redacted = redact_payload payload;
               sequence = aw_sequence w + 1;
               body = audit_body sequence (aw_previous_mac w) peer_uid source timestamp
                 correlation_id session_id event_type redacted;
               mac = lc_hmac C (aw_key w) (dumps_sorted C body)
           in if has_nonfinite (JObj redacted)
              then (Inl (ValueError ''Out of range float values are not JSON compliant''), w)
              else (Inr \<lparr>rc_sequence = sequence, rc_mac = mac\<rparr>,
                    w\<lparr>aw_lines := aw_lines w @ [dumps_sorted C (with_mac body mac)],
                      aw_sequence := sequence, aw_previous_mac := mac\<rparr>))
      | _ \<Rightarrow> (Inl (ValueError ''invalid audit request''), w))"

section \<open>Loading\<close>

definition MAX_LINE_BYTES :: int where
  "MAX_LINE_BYTES = 512000"

text \<open>\<open>isinstance(v, int)\<close>, which holds of \<open>True\<close> and \<open>False\<close> too.\<close>

definition json_int :: "json option \<Rightarrow> int option" where
  "json_int v = (case v of Some (JInt i) \<Rightarrow> Some i | Some (JBool b) \<Rightarrow> Some (of_bool b) | _ \<Rightarrow> None)"

text \<open>One line: the chain after it, or the error that stops the start of the writer. The newline that
  ends a line counts for the size limit.\<close>

definition load_line ::
  "ledger_codec \<Rightarrow> string \<Rightarrow> string \<times> int \<Rightarrow> string \<Rightarrow> exc + string \<times> int" where
  "load_line C key chain raw =
     (let (previous, sequence) = chain in
      if utf8_length raw + 1 > MAX_LINE_BYTES then Inl (OSError ''audit ledger record too large'')
      else case lc_loads C raw of
        None \<Rightarrow> Inl (ValueError ''Expecting value'')
      | Some (JObj kvs) \<Rightarrow>
          (let body = dict_del ''mac'' kvs in
           case map_of kvs ''mac'' of
             Some (JStr mac) \<Rightarrow>
               if map_of body ''previous_mac'' \<noteq> Some (JStr previous)
               then Inl (OSError ''audit ledger chain invalid'')
               else if has_nonfinite (JObj body)
               then Inl (ValueError ''Out of range float values are not JSON compliant'')
               else if mac \<noteq> lc_hmac C key (dumps_sorted C (JObj body))
               then Inl (OSError ''audit ledger MAC invalid'')
               else if json_int (map_of body ''sequence'') \<noteq> Some (sequence + 1)
               then Inl (OSError ''audit ledger sequence invalid'')
               else Inr (mac, sequence + 1)
           | _ \<Rightarrow> Inl (OSError ''audit ledger chain invalid''))
      | _ \<Rightarrow> Inl (OSError ''audit ledger record invalid''))"

fun load_lines ::
  "ledger_codec \<Rightarrow> string \<Rightarrow> string \<times> int \<Rightarrow> string list \<Rightarrow> exc + string \<times> int" where
  "load_lines C key chain [] = Inr chain"
| "load_lines C key chain (raw # rest) =
     bindE (load_line C key chain raw) (\<lambda>chain'. load_lines C key chain' rest)"

definition load_tail :: "ledger_codec \<Rightarrow> string \<Rightarrow> string list \<Rightarrow> exc + audit_writer" where
  "load_tail C key lines =
     bindE (load_lines C key (zero_mac, 0) lines) (\<lambda>(previous, sequence).
     Inr \<lparr>aw_key = key, aw_sequence = sequence, aw_previous_mac = previous, aw_lines = lines\<rparr>)"

text \<open>\<open>prepare\<close> with an existing key file.\<close>

definition prepare_writer :: "ledger_codec \<Rightarrow> string \<Rightarrow> string list \<Rightarrow> exc + audit_writer" where
  "prepare_writer C key lines =
     (if length key \<noteq> 32 then Inl (OSError ''audit key has invalid length'') else load_tail C key lines)"

section \<open>The protocol, its client and its server\<close>

definition audit_request ::
  "string \<Rightarrow> string \<Rightarrow> string \<Rightarrow> string \<Rightarrow> (string \<times> json) list \<Rightarrow> json" where
  "audit_request event_type source correlation_id session_id payload =
     JObj [(''event_type'', JStr event_type), (''source'', JStr source),
       (''correlation_id'', JStr correlation_id), (''session_id'', JStr session_id),
       (''payload'', JObj payload)]"

text \<open>The in-memory ledger: every record is kept, the receipt counts them.\<close>

definition memory_append ::
  "ledger_codec \<Rightarrow> json \<Rightarrow> (json list, audit_receipt) prog" where
  "memory_append C request records =
     (let records' = records @ [request]
      in (Inr \<lparr>rc_sequence = int (length records'), rc_mac = lc_sha256 C (dumps_sorted C request)\<rparr>,
          records'))"

definition MAX_AUDIT_MESSAGE_BYTES :: int where
  "MAX_AUDIT_MESSAGE_BYTES = 256000"

text \<open>\<open>StreamReader.readline\<close> with the default buffer limit of \<^verbatim>\<open>asyncio\<close>: a line whose text is longer than
  the limit is a \<open>ValueError\<close>. Lines are given without their newline.\<close>

definition READLINE_LIMIT :: int where
  "READLINE_LIMIT = 65536"

definition readline :: "string \<Rightarrow> exc + string" where
  "readline text = (if utf8_length text > READLINE_LIMIT
     then Inl (ValueError ''Separator is found, but chunk is longer than limit'') else Inr text)"

definition receipt_json :: "audit_receipt \<Rightarrow> json" where
  "receipt_json rc = JObj [(''sequence'', JInt (rc_sequence rc)), (''mac'', JStr (rc_mac rc))]"

text \<open>The \<open>handle\<close> of \<open>serve_audit_writer\<close> on one line: the response it writes.\<close>

definition serve_line ::
  "ledger_codec \<Rightarrow> int \<Rightarrow> string \<Rightarrow> string \<Rightarrow> (audit_writer, json) prog" where
  "serve_line C peer_uid timestamp text =
     catchM
      (bindM (liftE (readline text)) (\<lambda>line.
       if utf8_length line + 1 > MAX_AUDIT_MESSAGE_BYTES then raise (ValueError ''invalid audit message'')
       else case lc_loads C line of
         None \<Rightarrow> raise (ValueError ''Expecting value'')
       | Some (JObj kvs) \<Rightarrow>
           bindM (append_record C (JObj kvs) peer_uid timestamp) (\<lambda>receipt.
           ret (JObj [(''ok'', JBool True), (''receipt'', receipt_json receipt)]))
       | Some _ \<Rightarrow> raise (ValueError ''invalid audit message'')))
      (\<lambda>_. ret (JObj [(''ok'', JBool False)]))"

definition is_hex64 :: "string \<Rightarrow> bool" where
  "is_hex64 s \<longleftrightarrow> length s = 64 \<and> list_all (\<lambda>c. is_digit c \<or> c \<in> set ''abcdef'') s"

text \<open>\<open>AuditReceipt.model_validate\<close>: exactly the two fields, with their constraints. Values of another JSON
  type that Pydantic would coerce to an integer do not occur in an answer of the writer.\<close>

definition parse_receipt :: "json option \<Rightarrow> audit_receipt option" where
  "parse_receipt v = (case v of
     Some (JObj kvs) \<Rightarrow>
       (case (map_of kvs ''sequence'', map_of kvs ''mac'') of
          (Some (JInt n), Some (JStr mac)) \<Rightarrow>
            if n \<ge> 1 \<and> is_hex64 mac \<and> set (map fst kvs) = {''sequence'', ''mac''}
            then Some \<lparr>rc_sequence = n, rc_mac = mac\<rparr> else None
        | _ \<Rightarrow> None)
   | _ \<Rightarrow> None)"

text \<open>The client over a transport that sends one line and returns the line of the answer, \<^const>\<open>None\<close> when
  the connection ended without one.\<close>

definition client_append ::
  "ledger_codec \<Rightarrow> (string \<Rightarrow> ('w, string option) prog) \<Rightarrow> json \<Rightarrow> ('w, audit_receipt) prog" where
  "client_append C transport request =
     (let encoded = lc_print C request;
          invalid = AuditLedgerError ''audit writer returned an invalid acknowledgement''
      in if utf8_length encoded > MAX_AUDIT_MESSAGE_BYTES
         then raise (AuditLedgerError ''audit message too large'')
         else
         bindM (catchM (transport encoded) (\<lambda>e.
           if is_os_error e then raise (AuditLedgerError ''audit writer unavailable'') else raise e)) (\<lambda>answer.
         case answer of
           None \<Rightarrow> raise invalid
         | Some text \<Rightarrow>
         bindM (liftE (readline text)) (\<lambda>line.
         if utf8_length line + 1 > 4096 then raise invalid
         else case lc_loads C line of
           None \<Rightarrow> raise invalid
         | Some response \<Rightarrow>
             if json_get response ''ok'' \<noteq> Some (JBool True) then raise invalid
             else case parse_receipt (json_get response ''receipt'') of
               None \<Rightarrow> raise invalid
             | Some receipt \<Rightarrow> ret receipt)))"

text \<open>The transport that is a running writer.\<close>

definition writer_transport ::
  "ledger_codec \<Rightarrow> int \<Rightarrow> string \<Rightarrow> string \<Rightarrow> (audit_writer, string option) prog" where
  "writer_transport C peer_uid timestamp text =
     bindM (serve_line C peer_uid timestamp text) (\<lambda>response. ret (Some (lc_print C response)))"

end
