(* ===== verification/Audit_Theorems.thy ===== *)
theory Audit_Theorems
  imports Audit_Ledger "HOL-Library.Countable"
begin

text \<open>
  The audit ledger: canonical JSON, the interface of a ledger with its two providers, and the theorems
  about the chain: what was appended is what the next start accepts, a ledger that ends in the same MAC
  is the same ledger unless the HMAC collides, and what redaction leaves of a payload.
\<close>

section \<open>Canonical JSON\<close>

lemma sort_key_map_snd:
  "sort_key fst (map (\<lambda>(k, v). (k, f v)) kvs) = map (\<lambda>(k, v). (k, f v)) (sort_key fst kvs)"
proof -
  have insort: "insort_key fst (k, f v) (map (\<lambda>(k, v). (k, f v)) xs)
      = map (\<lambda>(k, v). (k, f v)) (insort_key fst (k, v) xs)" for k v xs
    by (induction xs) (auto split: prod.splits)
  show ?thesis
    by (induction kvs) (auto simp: insort)
qed

lemma map_of_map_snd [simp]: "map_of (map (\<lambda>(k, v). (k, f v)) kvs) k = map_option f (map_of kvs k)"
  by (induction kvs) auto

lemma distinct_keys_sort: "distinct (map fst (sort_key fst kvs)) = distinct (map fst kvs)"
  by (rule mset_eq_imp_distinct_iff) simp

lemma map_of_sort_key:
  assumes "distinct (map fst kvs)"
  shows "map_of (sort_key fst kvs) = map_of kvs"
proof (rule map_of_eqI)
  show "set (map fst (sort_key fst kvs)) = set (map fst kvs)"
    by simp
  have d: "distinct (map fst (sort_key fst kvs))"
    using assms by (simp add: distinct_keys_sort)
  show "\<forall>k\<in>set (map fst (sort_key fst kvs)). map_of (sort_key fst kvs) k = map_of kvs k"
    using assms d by (auto dest: map_of_is_SomeI)
qed

lemma sort_json_idem [simp]: "sort_json (sort_json v) = sort_json v"
proof (induction v)
  case (JObj kvs)
  define g where "g = (\<lambda>(k :: string, v). (k, sort_json v))"
  have "map g (sort_key fst (map g kvs)) = sort_key fst (map g (map g kvs))"
    unfolding g_def by (simp only: sort_key_map_snd)
  also have "map g (map g kvs) = map g kvs"
    using JObj by (auto simp: g_def case_prod_beta)
  finally show ?case
    by (simp add: g_def sorted_sort_key sort_key_id_if_sorted)
qed auto

text \<open>The values of Python objects: keys distinct at every depth, floats given by a text that \<open>repr\<close>
  produces (\<open>R\<close>).\<close>

fun json_ok :: "(string \<Rightarrow> bool) \<Rightarrow> json \<Rightarrow> bool" where
  "json_ok R (JFloat s) = R s"
| "json_ok R (JList xs) = list_all (json_ok R) xs"
| "json_ok R (JObj kvs) = (distinct (map fst kvs) \<and> list_all (\<lambda>(k, v). json_ok R v) kvs)"
| "json_ok R _ = True"

lemma json_ok_get: "json_ok R v \<Longrightarrow> json_get v k = Some u \<Longrightarrow> json_ok R u"
  by (cases v) (auto simp: list_all_iff dest!: map_of_SomeD)

lemma json_ok_sort_json [simp]: "json_ok R (sort_json v) = json_ok R v"
proof (induction v)
  case (JObj kvs)
  have "map fst (map (\<lambda>(k, v). (k, sort_json v)) kvs) = map fst kvs"
    by auto
  then show ?case
    using JObj by (fastforce simp: list_all_iff distinct_keys_sort simp del: map_map)
qed (auto simp: list_all_iff)

text \<open>What the development relies on of \<^verbatim>\<open>json\<close>: reading back a printed value gives that value, and only
  values of Python objects are read.\<close>

definition faithful_codec :: "(string \<Rightarrow> bool) \<Rightarrow> ledger_codec \<Rightarrow> bool" where
  "faithful_codec R C \<longleftrightarrow>
     (\<forall>v. json_ok R v \<longrightarrow> lc_loads C (lc_print C v) = Some v) \<and>
     (\<forall>s v. lc_loads C s = Some v \<longrightarrow> json_ok R v)"

lemma faithful_loads: "faithful_codec R C \<Longrightarrow> json_ok R v \<Longrightarrow> lc_loads C (lc_print C v) = Some v"
  by (simp add: faithful_codec_def)



lemma json_get_sort_json:
  assumes "json_ok R v"
  shows "json_get (sort_json v) k = map_option sort_json (json_get v k)"
proof (cases v)
  case (JObj kvs)
  have "map fst (map (\<lambda>(k, v). (k, sort_json v)) kvs) = map fst kvs"
    by auto
  then show ?thesis
    using assms JObj by (simp add: map_of_sort_key del: map_map)
qed auto

lemma dict_del_sorted_values:
  "dict_del k (sort_key fst (map (\<lambda>(k, v). (k, f v)) kvs))
     = sort_key fst (map (\<lambda>(k, v). (k, f v)) (dict_del k kvs))"
proof -
  have "dict_del k (map (\<lambda>(k, v). (k, f v)) kvs) = map (\<lambda>(k, v). (k, f v)) (dict_del k kvs)"
    by (induction kvs) (auto simp: AList.delete_eq)
  then show ?thesis
    by (simp add: AList.delete_eq filter_sort)
qed



section \<open>One record of the chain\<close>

lemma has_nonfinite_sort_json [simp]: "has_nonfinite (sort_json v) = has_nonfinite v"
proof (induction v)
  case (JObj kvs)
  have "has_nonfinite (sort_json v) = has_nonfinite v" if "(k, v) \<in> set kvs" for k v
    using JObj that by (auto simp: snds.simps)
  then show ?case
    by (simp add: list_ex_iff Bex_def split_paired_Ex) blast
qed (auto simp: list_ex_iff)

lemma load_line_printed:
  assumes "faithful_codec R C" "json_ok R (JObj kvs)" "''mac'' \<notin> fst ` set kvs"
    and "map_of kvs ''previous_mac'' = Some (JStr previous)"
    and "map_of kvs ''sequence'' = Some (JInt (sequence + 1))"
    and "\<not> has_nonfinite (JObj kvs)"
    and mac: "mac = lc_hmac C key (dumps_sorted C (JObj kvs))"
    and "raw = dumps_sorted C (with_mac (JObj kvs) mac)" "utf8_length raw + 1 \<le> MAX_LINE_BYTES"
  shows "load_line C key (previous, sequence) raw = Inr (mac, sequence + 1)"
proof -
  let ?rec = "kvs @ [(''mac'', JStr mac)]"
  define sorted_rec where
    "sorted_rec = sort_key fst (map (\<lambda>(k, v). (k, sort_json v)) ?rec)"
  have ok: "json_ok R (JObj ?rec)"
    using assms(2,3) by (auto simp: list_all_iff)
  have "with_mac (JObj kvs) mac = JObj ?rec"
    using assms(3) by (simp add: dict_set_fresh)
  then have loads: "lc_loads C raw = Some (JObj sorted_rec)"
    using assms(1,8) ok faithful_loads [of R C "sort_json (JObj ?rec)"]
    unfolding json_ok_sort_json by (simp add: dumps_sorted_def sorted_rec_def del: json_ok.simps)
  have body: "JObj (dict_del ''mac'' sorted_rec) = sort_json (JObj kvs)"
    using assms(3) unfolding sorted_rec_def dict_del_sorted_values
    by (simp add: dict_del_append dict_del_fresh)
  have look: "map_of (dict_del ''mac'' sorted_rec) k = map_option sort_json (map_of kvs k)" for k
    using json_get_sort_json [OF assms(2), of k] unfolding body [symmetric] by simp
  have "map_of sorted_rec ''mac'' = Some (JStr mac)"
    using json_get_sort_json [OF ok, of "''mac''"] assms(3)
    by (simp add: sorted_rec_def map_of_eq_None_iff [THEN iffD2] map_add_def)
  moreover have "dumps_sorted C (JObj (dict_del ''mac'' sorted_rec)) = dumps_sorted C (JObj kvs)"
    unfolding body by (simp add: dumps_sorted_def del: sort_json.simps)
  moreover have "\<not> has_nonfinite (JObj (dict_del ''mac'' sorted_rec))"
    using assms(6) unfolding body has_nonfinite_sort_json .
  moreover have "map_of sorted_rec ''previous_mac'' = Some (JStr previous)"
      "map_of sorted_rec ''sequence'' = Some (JInt (sequence + 1))"
    using assms(4,5) look [of "''previous_mac''"] look [of "''sequence''"] by simp_all
  ultimately show ?thesis
    using assms(7,9) loads
    by (simp add: load_line_def Let_def json_int_def del: has_nonfinite.simps)
qed


lemma load_lines_snoc:
  "load_lines C key chain (xs @ [x]) = bindE (load_lines C key chain xs) (\<lambda>c. load_line C key c x)"
proof (induction xs arbitrary: chain)
  case Nil
  then show ?case
    by (cases "load_line C key chain x") auto
next
  case (Cons y ys)
  then show ?case
    by (cases "load_line C key chain y") auto
qed

section \<open>Redaction\<close>

text \<open>Nothing to hide, at any depth: strings and lists within their bounds, sensitive keys redacted.\<close>

fun payload_clean :: "json \<Rightarrow> bool" where
  "payload_clean (JStr s) = (length s \<le> 1024)"
| "payload_clean (JList xs) = (length xs \<le> 64 \<and> list_all payload_clean xs)"
| "payload_clean (JObj kvs) = list_all (\<lambda>(k, v). if sensitive k then v = REDACTED else payload_clean v) kvs"
| "payload_clean _ = True"

lemma clean_safe_audit_value: "payload_clean (safe_audit_value v)"
proof (induction v)
  case (JObj kvs)
  then show ?case
    by (fastforce simp: list_all_iff snds.simps)
next
  case (JList xs)
  then show ?case
    by (auto simp: list_all_iff take_map dest: in_set_takeD)
qed auto

lemma safe_audit_value_id: "payload_clean v \<Longrightarrow> safe_audit_value v = v"
proof (induction v)
  case (JObj kvs)
  then show ?case
    by (fastforce simp: list_all_iff snds.simps intro!: map_idI split: if_splits)
next
  case (JList xs)
  then show ?case
    by (auto simp: list_all_iff intro!: map_idI)
qed auto

lemma safe_audit_value_keys [simp]:
  "map fst (map (\<lambda>(k, v). (k, if sensitive k then REDACTED else safe_audit_value v)) kvs) = map fst kvs"
  by auto

lemma json_ok_safe_audit_value: "json_ok R v \<Longrightarrow> json_ok R (safe_audit_value v)"
proof (induction v)
  case (JObj kvs)
  then show ?case
    using safe_audit_value_keys [of kvs]
    by (fastforce simp: list_all_iff snds.simps REDACTED_def simp del: safe_audit_value_keys map_map)
next
  case (JList xs)
  then show ?case
    by (auto simp: list_all_iff take_map dest: in_set_takeD)
qed auto

lemma redact_payload_eq: "JObj (redact_payload kvs) = safe_audit_value (JObj kvs)"
  by (simp add: redact_payload_def)

section \<open>The interface of a ledger\<close>

text \<open>Attempts one after another; the receipts of those that succeeded.\<close>

fun append_all :: "('r \<Rightarrow> ('w, 'a) prog) \<Rightarrow> 'r list \<Rightarrow> 'w \<Rightarrow> 'a list \<times> 'w" where
  "append_all app [] w = ([], w)"
| "append_all app (r # rs) w =
     (case app r w of
        (Inl e, w') \<Rightarrow> append_all app rs w'
      | (Inr x, w') \<Rightarrow> let (xs, w'') = append_all app rs w' in (x # xs, w''))"

text \<open>What every client of the \<open>AuditLedger\<close> protocol relies on: a receipt numbers the new record, a failed
  append leaves the ledger as it was.\<close>

locale audit_log =
  fixes app :: "'r \<Rightarrow> ('w, audit_receipt) prog"
    and entries :: "'w \<Rightarrow> int"
  assumes append_receipt:
      "app r w = (Inr rc, w') \<Longrightarrow> rc_sequence rc = entries w + 1 \<and> entries w' = entries w + 1"
    and append_failure: "app r w = (Inl e, w') \<Longrightarrow> w' = w"
begin

lemma receipts_contiguous:
  "append_all app rs w = (xs, w') \<Longrightarrow>
     map rc_sequence xs = [entries w + 1..entries w'] \<and> entries w' = entries w + int (length xs)"
proof (induction rs arbitrary: w xs)
  case Nil
  then show ?case
    by simp
next
  case (Cons r rs)
  obtain res w1 where r: "app r w = (res, w1)"
    by fastforce
  show ?case
  proof (cases res)
    case (Inl e)
    then show ?thesis
      using Cons r append_failure [of r w] by auto
  next
    case (Inr rc)
    obtain ys w2 where ys: "append_all app rs w1 = (ys, w2)"
      by fastforce
    then have xs: "xs = rc # ys" "w' = w2"
      using Cons.prems r Inr by auto
    have "rc_sequence rc = entries w + 1" "entries w1 = entries w + 1"
      using append_receipt r Inr by blast+
    then show ?thesis
      using Cons.IH [of w1 ys] ys xs by (auto simp: upto_rec1)
  qed
qed

end

lemma append_recordE:
  assumes "append_record C request peer_uid timestamp w = (Inr rc, w')"
  obtains event_type source correlation_id session_id payload body mac where
    "json_get request ''payload'' = Some (JObj payload)"
    "body = audit_body (aw_sequence w + 1) (aw_previous_mac w) peer_uid source timestamp correlation_id
       session_id event_type (redact_payload payload)"
    "\<not> has_nonfinite (JObj (redact_payload payload))"
    "mac = lc_hmac C (aw_key w) (dumps_sorted C body)"
    "rc = \<lparr>rc_sequence = aw_sequence w + 1, rc_mac = mac\<rparr>"
    "w' = w\<lparr>aw_lines := aw_lines w @ [dumps_sorted C (with_mac body mac)],
       aw_sequence := aw_sequence w + 1, aw_previous_mac := mac\<rparr>"
  using assms unfolding append_record_def Let_def
  by (auto split: option.splits json.splits if_splits)

lemma append_record_failure:
  assumes "append_record C request peer_uid timestamp w = (Inl e, w')"
  shows "w' = w"
  using assms unfolding append_record_def Let_def
  by (auto split: option.splits json.splits if_splits)

interpretation writer: audit_log "\<lambda>(request, peer_uid, timestamp). append_record C request peer_uid timestamp"
    aw_sequence for C
  by unfold_locales (auto elim!: append_recordE dest: append_record_failure)

interpretation memory: audit_log "memory_append C" "\<lambda>records. int (length records)" for C
  by unfold_locales (auto simp: memory_append_def Let_def)

section \<open>The chain\<close>

lemma load_tail_iff:
  "load_tail C key ls = Inr w \<longleftrightarrow>
     load_lines C key (zero_mac, 0) ls = Inr (aw_previous_mac w, aw_sequence w) \<and>
     aw_key w = key \<and> aw_lines w = ls"
  by (cases w) (auto simp: load_tail_def bindE_Inr_iff)

lemma load_tail_append:
  assumes "faithful_codec R C" "json_ok R request"
    and loaded: "load_tail C (aw_key w) (aw_lines w) = Inr w"
    and app: "append_record C request peer_uid timestamp w = (Inr rc, w')"
    and size: "utf8_length (last (aw_lines w')) + 1 \<le> MAX_LINE_BYTES"
  shows "load_tail C (aw_key w') (aw_lines w') = Inr w'"
proof -
  have chain: "load_lines C (aw_key w) (zero_mac, 0) (aw_lines w) = Inr (aw_previous_mac w, aw_sequence w)"
    using loaded by (simp add: load_tail_iff)
  from app obtain event_type source correlation_id session_id payload body mac where
    payload: "json_get request ''payload'' = Some (JObj payload)"
    and body: "body = audit_body (aw_sequence w + 1) (aw_previous_mac w) peer_uid source timestamp
       correlation_id session_id event_type (redact_payload payload)"
    and fin: "\<not> has_nonfinite (JObj (redact_payload payload))"
    and mac: "mac = lc_hmac C (aw_key w) (dumps_sorted C body)"
    and w': "w' = w\<lparr>aw_lines := aw_lines w @ [dumps_sorted C (with_mac body mac)],
       aw_sequence := aw_sequence w + 1, aw_previous_mac := mac\<rparr>"
    by (rule append_recordE)
  have "json_ok R (JObj payload)"
    using payload assms(2) by (rule json_ok_get [rotated])
  then have "json_ok R (JObj (redact_payload payload))"
    unfolding redact_payload_eq by (rule json_ok_safe_audit_value)
  then have "load_line C (aw_key w) (aw_previous_mac w, aw_sequence w) (dumps_sorted C (with_mac body mac))
      = Inr (mac, aw_sequence w + 1)"
    unfolding body audit_body_def
    by (intro load_line_printed [OF assms(1)]) (use fin mac size w' body in \<open>auto simp: audit_body_def\<close>)
  then show ?thesis
    using chain w' by (simp add: load_tail_iff load_lines_snoc)
qed

lemma append_all_extends:
  "append_all (\<lambda>(request, peer_uid, timestamp). append_record C request peer_uid timestamp) rs w = (xs, w')
     \<Longrightarrow> \<exists>new. aw_lines w' = aw_lines w @ new"
proof (induction rs arbitrary: w xs)
  case (Cons r rs)
  obtain request peer_uid timestamp where r: "r = (request, peer_uid, timestamp)"
    by (cases r)
  show ?case
    using Cons.prems Cons.IH r
    by (fastforce split: sum.splits prod.splits elim!: append_recordE dest: append_record_failure)
qed simp

lemma append_all_key:
  "append_all (\<lambda>(request, peer_uid, timestamp). append_record C request peer_uid timestamp) rs w = (xs, w')
     \<Longrightarrow> aw_key w' = aw_key w"
proof (induction rs arbitrary: w xs)
  case (Cons r rs)
  obtain request peer_uid timestamp where r: "r = (request, peer_uid, timestamp)"
    by (cases r)
  show ?case
    using Cons.prems Cons.IH r
    by (fastforce split: sum.splits prod.splits elim!: append_recordE dest: append_record_failure)
qed simp

text \<open>A run of appends, with the failed ones in it, from a loaded ledger.\<close>

lemma load_tail_append_all:
  assumes "faithful_codec R C" "list_all (\<lambda>(request, _). json_ok R request) rs"
    and "load_tail C (aw_key w) (aw_lines w) = Inr w"
    and "append_all (\<lambda>(request, peer_uid, timestamp). append_record C request peer_uid timestamp) rs w = (xs, w')"
    and "list_all (\<lambda>raw. utf8_length raw + 1 \<le> MAX_LINE_BYTES) (aw_lines w')"
  shows "load_tail C (aw_key w') (aw_lines w') = Inr w' \<and> (\<exists>new. aw_lines w' = aw_lines w @ new)"
  using assms(2-)
proof (induction rs arbitrary: w xs)
  case Nil
  then show ?case
    by simp
next
  case (Cons r rs)
  obtain request peer_uid timestamp where r: "r = (request, peer_uid, timestamp)"
    by (cases r)
  obtain res w1 where app: "append_record C request peer_uid timestamp w = (res, w1)"
    by fastforce
  show ?case
  proof (cases res)
    case (Inl e)
    then show ?thesis
      using Cons.IH [of w xs] Cons.prems app r append_record_failure [of C request peer_uid timestamp w e w1]
      by simp
  next
    case (Inr rc)
    obtain ys where ys: "append_all (\<lambda>(request, peer_uid, timestamp).
        append_record C request peer_uid timestamp) rs w1 = (ys, w')"
      using Cons.prems app r Inr by (auto split: prod.splits)
    have mono: "\<exists>new. aw_lines w' = aw_lines w1 @ new"
      using append_all_extends [OF ys] .
    moreover obtain line where "aw_lines w1 = aw_lines w @ [line]"
      using app Inr by (auto elim: append_recordE)
    ultimately show ?thesis
      using Cons.IH [of w1 ys] ys Cons.prems app r Inr
        load_tail_append [OF assms(1), of request w peer_uid timestamp rc w1]
      by auto
  qed
qed







section \<open>Client and server\<close>

lemma receipt_round_trip: "parse_receipt (Some (receipt_json rc)) = Some rc' \<Longrightarrow> rc' = rc"
  by (auto simp: parse_receipt_def receipt_json_def split: if_splits)

lemma serve_lineE:
  assumes "serve_line C peer_uid timestamp text w = (Inr response, w')"
  obtains (refused) "response = JObj [(''ok'', JBool False)]" "w' = w"
  | (appended) kvs rc where "utf8_length text \<le> READLINE_LIMIT" "lc_loads C text = Some (JObj kvs)"
      "append_record C (JObj kvs) peer_uid timestamp w = (Inr rc, w')"
      "response = JObj [(''ok'', JBool True), (''receipt'', receipt_json rc)]"
  using assms unfolding serve_line_def catchM_Inr_iff bindM_Inr_iff bindM_Inl_iff liftE_iff
  by (auto simp: readline_def prog_simps dest!: append_record_failure split: if_splits option.splits json.splits)

lemma serve_line_total: "\<exists>response w'. serve_line C peer_uid timestamp text w = (Inr response, w')"
  by (auto simp: serve_line_def catchM_def ret_def split: prod.splits sum.splits)

section \<open>A concrete codec\<close>

text \<open>A printer that gives the values of a table their text and every other value a unary code.\<close>

instance json :: countable
  by countable_datatype

definition table_print :: "(json \<times> string) list \<Rightarrow> json \<Rightarrow> string" where
  "table_print tbl v = (case map_of tbl v of Some s \<Rightarrow> s | None \<Rightarrow> CHR ''x'' # replicate (to_nat v) CHR ''1'')"

definition table_loads :: "(json \<times> string) list \<Rightarrow> string \<Rightarrow> json option" where
  "table_loads tbl s = (case map_of (map prod.swap tbl) s of
       Some v \<Rightarrow> Some v
     | None \<Rightarrow> if json_ok (\<lambda>_. True) (from_nat (length s - 1)) then Some (from_nat (length s - 1)) else None)"

definition table_codec :: "(json \<times> string) list \<Rightarrow> ledger_codec" where
  "table_codec tbl = \<lparr>lc_print = table_print tbl, lc_loads = table_loads tbl,
     lc_hmac = (\<lambda>key text. take 64 (''a'' @ text @ replicate 64 CHR ''0'')), lc_sha256 = (\<lambda>text. text)\<rparr>"

lemma faithful_table_codec:
  assumes "distinct (map fst tbl)" "distinct (map snd tbl)"
    and "list_all (\<lambda>(v, s). json_ok (\<lambda>_. True) v \<and> hd s \<noteq> CHR ''x'') tbl"
  shows "faithful_codec (\<lambda>_. True) (table_codec tbl)"
proof -
  have keys: "map fst (map prod.swap tbl) = map snd tbl"
    by simp
  have reads: "map_of (map prod.swap tbl) s = Some v" if "map_of tbl v = Some s" for v s
    using that assms(2) keys by (auto intro!: map_of_is_SomeI dest!: map_of_SomeD simp: comp_def)
  have fresh: "map_of (map prod.swap tbl) (CHR ''x'' # t) = None" for t
    using assms(3) by (force simp: map_of_eq_None_iff list_all_iff)
  have ok: "json_ok (\<lambda>_. True) v" if "map_of (map prod.swap tbl) s = Some v" for s v
    using map_of_SomeD [OF that] assms(3) by (force simp: list_all_iff)
  show ?thesis
    unfolding faithful_codec_def table_codec_def
    by (auto simp: table_print_def table_loads_def reads fresh ok split: option.splits if_splits)
qed

text \<open>One request, the record it becomes, and the same record with its keys in another order.\<close>

definition audit_sample_request :: json where
  "audit_sample_request = audit_request ''storage.transaction.intent'' ''broker'' ''op-1'' ''session-1''
     [(''tool'', JStr ''sfdisk''), (''Token'', JStr ''abc'')]"

definition audit_sample_body :: json where
  "audit_sample_body = audit_body 1 zero_mac 0 ''broker'' ''2026-01-01'' ''op-1'' ''session-1''
     ''storage.transaction.intent'' [(''tool'', JStr ''sfdisk''), (''Token'', REDACTED)]"

definition audit_sample_mac :: string where
  "audit_sample_mac = ''ab'' @ replicate 62 CHR ''0''"

definition audit_sample_table :: "(json \<times> string) list" where
  "audit_sample_table = [(sort_json audit_sample_body, ''b''),
     (sort_json (with_mac audit_sample_body audit_sample_mac), ''r''),
     (with_mac audit_sample_body audit_sample_mac, ''s''),
     (audit_sample_request, ''q''),
     (JObj [(''ok'', JBool True), (''receipt'', receipt_json \<lparr>rc_sequence = 1, rc_mac = audit_sample_mac\<rparr>)], ''a'')]"

definition audit_sample_codec :: ledger_codec where
  "audit_sample_codec = table_codec audit_sample_table"

definition audit_sample_key :: string where
  "audit_sample_key = replicate 32 CHR ''k''"

definition audit_sample_start :: audit_writer where
  "audit_sample_start = \<lparr>aw_key = audit_sample_key, aw_sequence = 0, aw_previous_mac = zero_mac, aw_lines = []\<rparr>"

definition audit_sample_end :: audit_writer where
  "audit_sample_end = \<lparr>aw_key = audit_sample_key, aw_sequence = 1, aw_previous_mac = audit_sample_mac,
     aw_lines = [''r'']\<rparr>"

lemma audit_sample_faithful: "faithful_codec (\<lambda>_. True) audit_sample_codec"
  unfolding audit_sample_codec_def
  by (rule faithful_table_codec) code_simp+

lemma audit_sample_append:
  "append_record audit_sample_codec audit_sample_request 0 ''2026-01-01'' audit_sample_start
     = (Inr \<lparr>rc_sequence = 1, rc_mac = audit_sample_mac\<rparr>, audit_sample_end)"
  by code_simp


section \<open>Theorems\<close>

text \<open>C17 (roundtrip): A writer that started on some ledger and served any sequence of requests, refused ones
  included, leaves a ledger on which the next start succeeds and resumes with exactly the writer's state;
  the old lines are a prefix of the new ones and the receipts are numbered consecutively. The records must
  fit into the size limit of the loader.\<close>

theorem appended_ledger_reloads:
  assumes "faithful_codec R C" "list_all (\<lambda>(request, _). json_ok R request) rs"
    and "prepare_writer C key ls = Inr w"
    and "append_all (\<lambda>(request, peer_uid, timestamp). append_record C request peer_uid timestamp) rs w = (xs, w')"
    and "list_all (\<lambda>raw. utf8_length raw + 1 \<le> MAX_LINE_BYTES) (aw_lines w')"
  shows "prepare_writer C key (aw_lines w') = Inr w' \<and> (\<exists>new. aw_lines w' = ls @ new) \<and>
    map rc_sequence xs = [aw_sequence w + 1..aw_sequence w']"
proof (intro conjI)
  have w: "load_tail C key ls = Inr w" "aw_key w = key" "aw_lines w = ls" and key: "length key = 32"
    using assms(3) by (auto simp: prepare_writer_def load_tail_iff split: if_splits)
  have reload: "load_tail C (aw_key w') (aw_lines w') = Inr w' \<and> (\<exists>new. aw_lines w' = aw_lines w @ new)"
    by (rule load_tail_append_all [OF assms(1,2) _ assms(4,5)]) (use w in simp)
  then show "\<exists>new. aw_lines w' = ls @ new"
    using w by simp
  have "aw_key w' = key"
    using append_all_key [OF assms(4)] w by simp
  then show "prepare_writer C key (aw_lines w') = Inr w'"
    using reload key by (simp add: prepare_writer_def)
  show "map rc_sequence xs = [aw_sequence w + 1..aw_sequence w']"
    using writer.receipts_contiguous [OF assms(4)] by simp
qed

lemma append_record_null:
  "append_record C JNull peer_uid timestamp w = (Inl (ValueError ''invalid audit request''), w)"
  by (simp add: append_record_def bounded_string_def)

theorem appended_ledger_reloads_witness:
  "prepare_writer audit_sample_codec audit_sample_key [''r''] = Inr audit_sample_end"
proof -
  have start: "prepare_writer audit_sample_codec audit_sample_key [] = Inr audit_sample_start"
    by code_simp
  have run: "append_all (\<lambda>(request, peer_uid, timestamp).
      append_record audit_sample_codec request peer_uid timestamp)
      [(audit_sample_request, 0, ''2026-01-01''), (JNull, 0, ''2026-01-02'')] audit_sample_start
      = ([\<lparr>rc_sequence = 1, rc_mac = audit_sample_mac\<rparr>], audit_sample_end)"
    using audit_sample_append append_record_null by simp
  have "list_all (\<lambda>raw. utf8_length raw + 1 \<le> MAX_LINE_BYTES) (aw_lines audit_sample_end)"
    by code_simp
  moreover have "list_all (\<lambda>(request, _). json_ok (\<lambda>_. True) request)
      [(audit_sample_request, 0 :: int, ''2026-01-01''), (JNull, 0, ''2026-01-02'')]"
    by code_simp
  ultimately show ?thesis
    using appended_ledger_reloads [OF audit_sample_faithful _ start run]
    by (simp add: audit_sample_end_def)
qed



text \<open>C19 (functional): Redaction leaves no value under a sensitive key at any depth, no string over 1024
  characters and no list over 64 elements; it keeps every key of the payload, and it changes nothing in
  exactly the payloads that are clean in this sense.\<close>

theorem redaction_hides_exactly:
  "payload_clean (JObj (redact_payload kvs)) \<and> map fst (redact_payload kvs) = map fst kvs \<and>
     (redact_payload kvs = kvs \<longleftrightarrow> payload_clean (JObj kvs))"
proof (intro conjI iffI)
  show cl: "payload_clean (JObj (redact_payload kvs))"
    unfolding redact_payload_eq by (rule clean_safe_audit_value)
  show "map fst (redact_payload kvs) = map fst kvs"
    unfolding redact_payload_def by (rule safe_audit_value_keys)
  show "payload_clean (JObj kvs)" if "redact_payload kvs = kvs"
    using cl that by simp
  show "redact_payload kvs = kvs" if "payload_clean (JObj kvs)"
    using safe_audit_value_id [OF that] unfolding redact_payload_eq [symmetric] by simp
qed

text \<open>C20 (refinement): An append through the socket client that is acknowledged is the append of the writer
  itself: same receipt, same ledger. A request whose encoding exceeds 65536 bytes, the stream reader's
  default limit, is never appended and the client fails, although both sides admit 256000 bytes.\<close>

theorem acknowledged_append_is_durable:
  assumes "faithful_codec R C" "json_ok R request" "request = JObj kvs"
    and run: "client_append C (writer_transport C peer_uid timestamp) request w = (result, w')"
  shows "(\<forall>rc. result = Inr rc \<longrightarrow> append_record C request peer_uid timestamp w = (Inr rc, w')) \<and>
    (utf8_length (lc_print C request) > READLINE_LIMIT \<longrightarrow> (\<exists>e. result = Inl e) \<and> w' = w)"
proof (rule conjI; intro allI impI)
  obtain response w1 where served: "serve_line C peer_uid timestamp (lc_print C request) w = (Inr response, w1)"
    using serve_line_total by blast
  have ok: "json_ok R (JObj [(''ok'', JBool b)])" "json_ok R (JObj [(''ok'', JBool b), (''receipt'', receipt_json rc)])"
    for b rc by (simp_all add: receipt_json_def)
  have sent: "(\<exists>e. result = Inl e) \<and> w' \<in> {w, w1} \<or> (\<exists>rc. result = Inr rc \<and> w' = w1 \<and>
      lc_loads C (lc_print C response) = Some r \<and> json_get r ''ok'' = Some (JBool True) \<and>
      parse_receipt (json_get r ''receipt'') = Some rc)" if "r = the (lc_loads C (lc_print C response))" for r
    using run served that
    by (auto simp: client_append_def writer_transport_def readline_def prog_eval Let_def
        split: if_splits option.splits)
  show "append_record C request peer_uid timestamp w = (Inr rc, w')" if "result = Inr rc" for rc
    using served
  proof (cases rule: serve_lineE)
    case refused
    then show ?thesis
      using sent [OF refl] that faithful_loads [OF assms(1) ok(1)] by auto
  next
    case (appended kvs' rc')
    have "JObj kvs' = request"
      using appended(2) faithful_loads [OF assms(1,2)] by simp
    moreover have "rc = rc'"
      using sent [OF refl] that appended(4) faithful_loads [OF assms(1) ok(2)]
      by (auto dest: receipt_round_trip)
    ultimately show ?thesis
      using appended(3) sent [OF refl] that by auto
  qed
  show "(\<exists>e. result = Inl e) \<and> w' = w" if "utf8_length (lc_print C request) > READLINE_LIMIT"
    using served
  proof (cases rule: serve_lineE)
    case refused
    then show ?thesis
      using sent [OF refl] faithful_loads [OF assms(1) ok(1)] by auto
  qed (use that in simp)
qed

theorem acknowledged_append_is_durable_witness:
  "append_record audit_sample_codec audit_sample_request 0 ''2026-01-01'' audit_sample_start
     = (Inr \<lparr>rc_sequence = 1, rc_mac = audit_sample_mac\<rparr>, audit_sample_end)"
proof -
  have "client_append audit_sample_codec (writer_transport audit_sample_codec 0 ''2026-01-01'')
      audit_sample_request audit_sample_start
      = (Inr \<lparr>rc_sequence = 1, rc_mac = audit_sample_mac\<rparr>, audit_sample_end)"
    by code_simp
  moreover have "json_ok (\<lambda>_. True) audit_sample_request"
    by code_simp
  ultimately show ?thesis
    using acknowledged_append_is_durable [OF audit_sample_faithful]
    by (simp add: audit_sample_request_def audit_request_def)
qed

end
