(* ===== verification/Tools_Guards.thy ===== *)
theory Tools_Guards
  imports Storage_Executor
begin

text \<open>
  The partition tools: which operations can change the disk and under which guards, what a successful
  write guarantees, and how what an inspection finds on a partition bears on the impact assessment.
\<close>

section \<open>Read-only operations\<close>

text \<open>The one command line that writes: \<^verbatim>\<open>sfdisk --lock ...\<close>, without \<^verbatim>\<open>--no-act\<close> in front.\<close>

definition writes_table :: "string list \<Rightarrow> bool" where
  "writes_table args \<longleftrightarrow> args \<noteq> [] \<and> hd args = ''--lock''"

text \<open>A property \<open>I\<close> of the world that every command but a table write keeps, and reading the clock too.\<close>

definition observes :: "('w \<Rightarrow> bool) \<Rightarrow> 'w tool_suite \<Rightarrow> bool" where
  "observes I T \<longleftrightarrow>
     (\<forall>path args stdin timeout. \<not> writes_table args \<longrightarrow>
        preserves I (h_spawn (ts_host T) path args stdin timeout)) \<and>
     preserves I (utc_now (ts_clock T)) \<and> preserves I (uuid4_hex (ts_clock T))"

lemma preserves_tool_error [preserves_intros]: "preserves I (tool_error c)"
  unfolding tool_error_def by (rule preserves_raise)

lemma preserves_runner_run:
  assumes "observes I T" "\<not> writes_table args"
  shows "preserves I (runner_run (ts_host T) tool args timeout stdin)"
proof -
  have spawn: "preserves I (h_spawn (ts_host T) path args input timeout)" for path input
    using assms by (simp add: observes_def)
  show ?thesis
    unfolding runner_run_def
    by (intro preserves_bindM preserves_getM) (auto split: option.splits intro!: preserves_intros spawn)
qed

lemma preserves_table_run:
  "observes I T \<Longrightarrow> \<not> writes_table args \<Longrightarrow> preserves I (table_run (ts_host T) tool args timeout)"
  unfolding table_run_def by (intro preserves_intros preserves_runner_run)

lemma preserves_scripted_run:
  "observes I T \<Longrightarrow> \<not> writes_table args \<Longrightarrow> preserves I (scripted_run T args timeout script a b)"
  unfolding scripted_run_def by (intro preserves_intros preserves_runner_run)

lemma preserves_identifyM [preserves_intros]: "preserves I (identifyM T requested)"
  unfolding identifyM_def by (intro preserves_intros)

lemma preserves_revalidate [preserves_intros]: "preserves I (revalidate T d)"
  unfolding revalidate_def by (intro preserves_intros)

lemma writes_table_simps [simp]:
  "\<not> writes_table [''--json'', x]" "\<not> writes_table [''--dump'', x]" "\<not> writes_table [''--verify'', x]"
  "\<not> writes_table (''--no-act'' # xs)" "\<not> writes_table (''--probe'' # xs)" "\<not> writes_table [''--rereadpt'', x]"
  by (simp_all add: writes_table_def)

lemma preserves_probe_partition: "observes I T \<Longrightarrow> preserves I (probe_partition T d p)"
  unfolding probe_partition_def Let_def
  by (intro preserves_bindM preserves_getM preserves_if preserves_ret preserves_catchM preserves_table_run
      preserves_case_option writes_table_simps) (auto split: exc.split intro!: preserves_intros)

lemma preserves_enrich_loop: "observes I T \<Longrightarrow> preserves I (enrich_loop T d records swaps en ps)"
  by (induction ps arbitrary: en) (auto intro!: preserves_intros preserves_probe_partition)

lemma preserves_tool_inspect: "observes I T \<Longrightarrow> preserves I (tool_inspect T target)"
  unfolding tool_inspect_def enrich_def Let_def
  by (intro preserves_intros preserves_table_run preserves_enrich_loop writes_table_simps)
    (auto simp: observes_def)

lemma preserves_tool_dump: "observes I T \<Longrightarrow> preserves I (tool_dump T d)"
  unfolding tool_dump_def by (intro preserves_intros preserves_table_run writes_table_simps)

lemma preserves_tool_verify: "observes I T \<Longrightarrow> preserves I (tool_verify T p)"
  unfolding tool_verify_def
  by (intro preserves_intros preserves_tool_inspect preserves_runner_run writes_table_simps)

lemma preserves_tool_dry_run: "observes I T \<Longrightarrow> preserves I (tool_dry_run T p)"
  unfolding tool_dry_run_def Let_def
  by (intro preserves_intros preserves_scripted_run writes_table_simps)

lemma preserves_tool_create_checkpoint: "observes I T \<Longrightarrow> preserves I (tool_create_checkpoint T p c)"
  unfolding tool_create_checkpoint_def
  by (intro preserves_intros preserves_tool_dump) (auto simp: observes_def)

lemma preserves_reread_kernel: "observes I T \<Longrightarrow> preserves I (reread_kernel T d)"
  unfolding reread_kernel_def by (intro preserves_intros preserves_runner_run writes_table_simps)

section \<open>The write\<close>

lemma onW_iff [prog_simps]: "onW m (w, x) = (r, (w', x')) \<longleftrightarrow> m w = (r, w') \<and> x' = x"
  by (auto simp: onW_def split: prod.splits)

lemma tool_error_iff [prog_simps]: "tool_error c s = (r, s') \<longleftrightarrow> r = Inl (PartitionToolError c) \<and> s' = s"
  by (simp add: tool_error_def raise_iff)

lemma onW_cases:
  assumes "bindM (onW m) f (w, x) = (r, s)"
  obtains (fails) e w1 where "m w = (Inl e, w1)" "r = Inl e" "s = (w1, x)"
  | (continues) y w1 where "m w = (Inr y, w1)" "f y (w1, x) = (r, s)"
  using assms by (auto simp: bindM_def onW_def split: prod.splits sum.splits)

lemma bindM_cases:
  assumes "bindM m f s = (r, s'')"
  obtains (fails) e where "m s = (Inl e, s'')" "r = Inl e"
  | (continues) y s' where "m s = (Inr y, s')" "f y s' = (r, s'')"
  using assms by (auto simp: bindM_def split: prod.splits sum.splits)

lemma revalidate_Inr:
  "revalidate T d w = (Inr c, w') \<longleftrightarrow> w' = w \<and> identify T (dev_requested_path d) w = Inr c \<and>
     dev_fingerprint_sha256 c = dev_fingerprint_sha256 d"
  by (auto simp: revalidate_def identifyM_def prog_simps tool_error_def)

lemma tool_verify_Inr:
  assumes "tool_verify T p w = (Inr l, w')"
  shows "dev_fingerprint_sha256 (disk_identity (lay_disk l)) = dev_fingerprint_sha256 (plan_target_disk p) \<and>
    partition_geometry_signature (lay_partition_table l)
      = partition_geometry_signature (lay_partition_table (plan_proposed_layout p))"
  using assms by (auto simp: tool_verify_def prog_simps tool_error_def split: if_splits)

text \<open>What is known once the table write has begun.\<close>

definition write_guards :: "'w tool_suite \<Rightarrow> storage_operation_plan \<Rightarrow> 'w \<Rightarrow> bool" where
  "write_guards T p w \<longleftrightarrow> gate_allowed (evaluate (ts_write_gate T) (plan_target_disk p)) \<and>
     (\<exists>d. identify T (dev_requested_path (plan_target_disk p)) w = Inr d \<and>
        dev_fingerprint_sha256 d = dev_fingerprint_sha256 (plan_target_disk p)) \<and>
     (\<exists>before w1. tool_inspect T (dev_requested_path (plan_target_disk p)) w = (Inr before, w1) \<and>
        partition_geometry_signature (lay_partition_table before)
          = partition_geometry_signature (lay_partition_table (plan_original_layout p)))"

text \<open>From the announcement on: refused, or begun.\<close>

lemma write_and_verify_cases:
  assumes run: "write_and_verify T on_stage p before (w, x) = (r, (w', x'))"
    and obs: "observes I T" and "I w" and cb: "\<And>st. preserves (I \<circ> fst) (on_stage st)"
  obtains (refused) e where "on_stage (write_started p) (w, x) = (Inl e, (w', x'))" "r = Inl e" "I w'"
  | (begun) w1 x1 where "on_stage (write_started p) (w, x) = (Inr (), (w1, x1))"
      "plan_operation p \<in> {CREATE, DELETE} \<or> I w'"
      "x' = x1 \<or> (\<exists>wa wb ra. on_stage (write_completed p 0) (wa, x1) = (ra, (wb, x')))"
proof -
  have cbI: "I v'" if "on_stage st (v, y) = (q, (v', y'))" "I v" for st v y q v' y'
    using preservesD [OF cb, of "(v, y)" st q "(v', y')"] that by simp
  from run show thesis
    unfolding write_and_verify_def
  proof (cases rule: bindM_cases)
    case (fails e)
    then show ?thesis
      using cbI [OF fails(1) assms(3)] by (intro refused)
  next
    case (continues y s1)
    obtain w1 x1 where s1: "s1 = (w1, x1)"
      by (cases s1)
    have "I w1"
      using cbI [of "write_started p" w x "Inr ()" w1 x1] continues(1) s1 assms(3) by simp
    have "plan_operation p \<in> {CREATE, DELETE} \<or> I w'"
    proof (rule disjCI, rule ccontr)
      assume "\<not> I w'" "plan_operation p \<notin> {CREATE, DELETE}"
      moreover from this have "\<exists>c. execute_operation T p = tool_error c"
        by (auto simp: execute_operation_def)
      ultimately show False
        using continues(2) s1 \<open>I w1\<close> by (auto simp: bindM_def onW_def tool_error_def raise_def)
    qed
    moreover have "x' = x1 \<or> (\<exists>wa wb ra. on_stage (write_completed p 0) (wa, x1) = (ra, (wb, x')))"
      using continues(2) s1
      by (auto simp: bindM_def onW_def ret_def tool_error_def raise_def split: prod.splits sum.splits if_splits)
    ultimately show ?thesis
      using continues(1) s1 by (intro begun) auto
  qed
qed

text \<open>The three ways a run ends: before the write is announced, with a refused announcement, or after it.\<close>

lemma tool_execute_cases:
  assumes run: "tool_execute T on_stage p (w, x) = (r, (w', x'))"
    and obs: "observes I T" and "I w" and cb: "\<And>st. preserves (I \<circ> fst) (on_stage st)"
  obtains (untouched) e where "r = Inl e" "I w'" "x' = x"
  | (refused) e w1 where "on_stage (write_started p) (w1, x) = (Inl e, (w', x'))" "r = Inl e" "I w'"
  | (begun) w1 w2 x1 where "write_guards T p w" "plan_operation p \<in> {CREATE, DELETE} \<or> I w'"
      "on_stage (write_started p) (w1, x) = (Inr (), (w2, x1))"
      "x' = x1 \<or> (\<exists>wa wb ra. on_stage (write_completed p 0) (wa, x1) = (ra, (wb, x')))"
proof -
  let ?d = "plan_target_disk p"
  consider (gate) "\<not> gate_allowed (evaluate (ts_write_gate T) ?d)" "r = Inl (PartitionToolError
        ''PRODUCTION_STORAGE_WRITE_GATE_BLOCKED'')" "w' = w" "x' = x"
    | (identity) e where "revalidate T ?d w = (Inl e, w')" "r = Inl e" "x' = x"
    | (inspection) e d where "revalidate T ?d w = (Inr d, w)"
        "tool_inspect T (dev_requested_path ?d) w = (Inl e, w')" "r = Inl e" "x' = x"
    | (changed) before e where "tool_inspect T (dev_requested_path ?d) w = (Inr before, w')" "r = Inl e" "x' = x"
    | (ready) d before w1 where "gate_allowed (evaluate (ts_write_gate T) ?d)" "revalidate T ?d w = (Inr d, w)"
        "tool_inspect T (dev_requested_path ?d) w = (Inr before, w1)"
        "partition_geometry_signature (lay_partition_table before)
          = partition_geometry_signature (lay_partition_table (plan_original_layout p))"
        "write_and_verify T on_stage p before (w1, x) = (r, (w', x'))"
    using run unfolding tool_execute_def Let_def
    by (auto simp: onW_def bindM_def tool_error_def raise_def revalidate_Inr
        split: if_splits prod.splits sum.splits)
  then show thesis
  proof cases
    case gate
    then show ?thesis
      using assms(3) untouched by blast
  next
    case identity
    then show ?thesis
      using preservesD [where I = I, OF preserves_revalidate assms(3)] untouched by blast
  next
    case inspection
    then show ?thesis
      using preservesD [where I = I, OF preserves_tool_inspect [OF obs] assms(3)] untouched by blast
  next
    case changed
    then show ?thesis
      using preservesD [where I = I, OF preserves_tool_inspect [OF obs] assms(3)] untouched by blast
  next
    case ready
    have "I w1"
      using preservesD [where I = I, OF preserves_tool_inspect [OF obs] assms(3)] ready(3) by blast
    have guards: "write_guards T p w"
      using ready(1-4) by (auto simp: write_guards_def revalidate_Inr)
    show ?thesis
      using ready(5) obs \<open>I w1\<close> cb
      by (rule write_and_verify_cases) (use guards refused begun in blast)+
  qed
qed

text \<open>What a successful run has established.\<close>

lemma tool_execute_Inr:
  assumes "tool_execute T on_stage p (w, x) = (Inr out, (w', x'))"
  shows "write_guards T p w" "plan_operation p \<in> {CREATE, DELETE}" "out_exit_code out = 0"
    "out_operation_id out = plan_operation_id p"
    "partition_geometry_signature (lay_partition_table (out_before out))
       = partition_geometry_signature (lay_partition_table (plan_original_layout p))"
    "partition_geometry_signature (lay_partition_table (out_after out))
       = partition_geometry_signature (lay_partition_table (plan_proposed_layout p))"
    "dev_fingerprint_sha256 (disk_identity (lay_disk (out_after out)))
       = dev_fingerprint_sha256 (plan_target_disk p)"
    "\<exists>w1 w2 x1 w3 w4. on_stage (write_started p) (w1, x) = (Inr (), (w2, x1)) \<and>
       on_stage (write_completed p 0) (w3, x1) = (Inr (), (w4, x'))"
proof -
  let ?d = "plan_target_disk p"
  obtain d before w1 where ready: "gate_allowed (evaluate (ts_write_gate T) ?d)"
      "revalidate T ?d w = (Inr d, w)" "tool_inspect T (dev_requested_path ?d) w = (Inr before, w1)"
      "partition_geometry_signature (lay_partition_table before)
        = partition_geometry_signature (lay_partition_table (plan_original_layout p))"
      "write_and_verify T on_stage p before (w1, x) = (Inr out, (w', x'))"
    using assms unfolding tool_execute_def Let_def
    by (auto simp: onW_def bindM_def tool_error_def raise_def revalidate_Inr
        split: if_splits prod.splits sum.splits)
  then show "write_guards T p w"
    by (auto simp: write_guards_def revalidate_Inr)
  obtain w2 x1 ec w3 w4 reread w5 after where steps:
      "on_stage (write_started p) (w1, x) = (Inr (), (w2, x1))"
      "execute_operation T p w2 = (Inr ec, w3)" "ec = 0"
      "on_stage (write_completed p 0) (w3, x1) = (Inr (), (w4, x'))"
      "tool_verify T p w5 = (Inr after, w')"
      "out = outcome_of (ts_codec T) p 0 reread before after"
    using ready(5) unfolding write_and_verify_def
    by (auto simp: bindM_Inr_iff onW_iff ret_iff tool_error_iff split: if_splits)
  from steps(2) show "plan_operation p \<in> {CREATE, DELETE}"
    by (auto simp: execute_operation_def tool_error_iff split: if_splits)
  show "out_exit_code out = 0" "out_operation_id out = plan_operation_id p"
    "partition_geometry_signature (lay_partition_table (out_before out))
       = partition_geometry_signature (lay_partition_table (plan_original_layout p))"
    using steps(6) ready(4) by (simp_all add: outcome_of_def)
  show "partition_geometry_signature (lay_partition_table (out_after out))
       = partition_geometry_signature (lay_partition_table (plan_proposed_layout p))"
    "dev_fingerprint_sha256 (disk_identity (lay_disk (out_after out)))
       = dev_fingerprint_sha256 (plan_target_disk p)"
    using tool_verify_Inr [OF steps(5)] steps(6) by (simp_all add: outcome_of_def)
  show "\<exists>w1 w2 x1 w3 w4. on_stage (write_started p) (w1, x) = (Inr (), (w2, x1)) \<and>
       on_stage (write_completed p 0) (w3, x1) = (Inr (), (w4, x'))"
    using steps(1,4) by blast
qed

section \<open>What is on a partition\<close>

text \<open>Evidence that a partition is in use: a type reported by the probe, a mount, an active swap.\<close>

definition in_use ::
  "mount_point_resource list \<Rightarrow> string list \<Rightarrow> partition_resource \<Rightarrow> (string \<times> string) list \<Rightarrow> bool" where
  "in_use records swaps p probe \<longleftrightarrow> truthy (map_of probe ''TYPE'') \<or>
     (\<exists>m\<in>set records. mp_source m = part_path p) \<or> part_path p \<in> set swaps"

text \<open>What the impact assessment sees of it.\<close>

definition blocked_by :: "enrichment \<Rightarrow> partition_resource \<Rightarrow> bool" where
  "blocked_by en q \<longleftrightarrow>
     (\<exists>f. part_filesystem_id q = Some f \<and> f \<in> fs_id ` set (en_filesystems en)) \<or>
     (\<exists>m\<in>set (part_mount_point_ids q). m \<in> mp_id ` set (en_mounts en)) \<or>
     (\<exists>v\<in>set (part_volume_ids q). v \<in> vol_id ` set (en_volumes en) \<and> \<not> prefix_of ''volume:crypt:'' v) \<or>
     part_encryption_status q \<in> {ENC_LUKS, ENC_BITLOCKER} \<or> part_role q = ROLE_SWAP"

definition extends_enrichment :: "enrichment \<Rightarrow> enrichment \<Rightarrow> bool" where
  "extends_enrichment en en' \<longleftrightarrow> set (en_filesystems en) \<subseteq> set (en_filesystems en') \<and>
     set (en_mounts en) \<subseteq> set (en_mounts en') \<and> set (en_volumes en) \<subseteq> set (en_volumes en')"

definition enrichment_ok :: "enrichment \<Rightarrow> bool" where
  "enrichment_ok en \<longleftrightarrow> set (en_swap en) \<subseteq> part_number ` set (en_partitions en) \<and>
     (\<forall>v\<in>set (en_volumes en). \<not> prefix_of ''volume:crypt:'' (vol_id v) \<longrightarrow> vol_kind v \<in> {LVM_PV, MDRAID})"

lemma extends_enrichment_trans:
  "extends_enrichment a b \<Longrightarrow> extends_enrichment b c \<Longrightarrow> extends_enrichment a c"
  by (auto simp: extends_enrichment_def)

lemma blocked_by_extends: "blocked_by en q \<Longrightarrow> extends_enrichment en en' \<Longrightarrow> blocked_by en' q"
  unfolding blocked_by_def extends_enrichment_def by blast

lemma classify_probe_in_use:
  assumes "truthy (map_of probe ''TYPE'')"
  shows "pd_filesystem (classify_probe C p probe) \<noteq> None \<or>
    (\<exists>v. pd_volume (classify_probe C p probe) = Some v \<and> \<not> prefix_of ''volume:crypt:'' (vol_id v)) \<or>
    pd_encryption (classify_probe C p probe) \<in> {ENC_LUKS, ENC_BITLOCKER} \<or>
    pd_swap (classify_probe C p probe)"
  using assms
  by (auto simp: classify_probe_def Let_def probe_volume_def prefix_of_def truthy_def)

lemma classify_probe_volume:
  "pd_volume (classify_probe C p probe) = Some v \<Longrightarrow> \<not> prefix_of ''volume:crypt:'' (vol_id v)
     \<Longrightarrow> vol_kind v \<in> {LVM_PV, MDRAID}"
  by (auto simp: classify_probe_def Let_def probe_volume_def prefix_of_def split: if_splits)

lemma classify_probe_swap: "pd_swap (classify_probe C p probe) \<Longrightarrow> pd_role (classify_probe C p probe) = ROLE_SWAP"
  by (auto simp: classify_probe_def Let_def split: if_splits)

text \<open>The partition one iteration adds.\<close>

lemma enrich_partition_adds:
  assumes "en' = enrich_partition C os_of records swaps en p probe"
  obtains q where "en_partitions en' = en_partitions en @ [q]" "partition_signature q = partition_signature p"
    "part_number q = part_number p" "extends_enrichment en en'"
    "part_number p \<notin> set (en_swap en) \<longrightarrow> in_use records swaps p probe \<longrightarrow> blocked_by en' q"
proof -
  define q where "q = last (en_partitions en')"
  have parts: "en_partitions en' = en_partitions en @ [q]"
    by (simp add: q_def assms enrich_partition_def Let_def)
  have sig: "partition_signature q = partition_signature p" "part_number q = part_number p"
    by (simp_all add: q_def assms enrich_partition_def Let_def partition_signature_def)
  have ext: "extends_enrichment en en'"
    by (auto simp: assms enrich_partition_def Let_def extends_enrichment_def)
  have "blocked_by en' q" if fresh: "part_number p \<notin> set (en_swap en)" and used: "in_use records swaps p probe"
  proof -
    consider (probed) "truthy (map_of probe ''TYPE'')" | (mounted) m where "m \<in> set records" "mp_source m = part_path p"
      | (swap) "part_path p \<in> set swaps"
      using used unfolding in_use_def by blast
    then show ?thesis
    proof cases
      case probed
      then show ?thesis
        using classify_probe_in_use [OF probed, of C p] classify_probe_swap [of C p probe]
        by (auto simp: blocked_by_def q_def assms enrich_partition_def Let_def)
    next
      case mounted
      have "mount_id_of C m \<in> set (part_mount_point_ids q)"
        using mounted by (auto simp: q_def assms enrich_partition_def Let_def)
      moreover have "m\<lparr>mp_id := mount_id_of C m\<rparr> \<in> set (en_mounts en')"
        using mounted by (auto simp: assms enrich_partition_def Let_def)
      then have "mount_id_of C m \<in> mp_id ` set (en_mounts en')"
        by (rule rev_image_eqI) simp
      ultimately show ?thesis
        unfolding blocked_by_def by blast
    next
      case swap
      then show ?thesis
        using fresh classify_probe_swap [of C p probe]
        by (auto simp: blocked_by_def q_def assms enrich_partition_def Let_def)
    qed
  qed
  then show thesis
    using that parts sig ext by blast
qed

lemma enrich_partition_ok:
  assumes "enrichment_ok en" "en' = enrich_partition C os_of records swaps en p probe"
  shows "enrichment_ok en'"
  using assms classify_probe_volume [of C p probe]
  by (auto simp: enrichment_ok_def enrich_partition_def Let_def split: option.splits)

text \<open>The loop: each partition keeps its geometry, and one in use ends up blocked.\<close>

lemma enrich_loop_adds:
  assumes "enrich_loop T d records swaps en ps w = (Inr en', w')"
    and "enrichment_ok en" "distinct (map part_number (en_partitions en) @ map part_number ps)"
  shows "enrichment_ok en' \<and> extends_enrichment en en' \<and> (\<exists>qs probes.
    en_partitions en' = en_partitions en @ qs \<and> length qs = length ps \<and> length probes = length ps \<and>
    map partition_signature qs = map partition_signature ps \<and> map part_number qs = map part_number ps \<and>
    (\<forall>i<length ps. (\<exists>w1 w2. probe_partition T d (ps ! i) w1 = (Inr (probes ! i), w2)) \<and>
       (in_use records swaps (ps ! i) (probes ! i) \<longrightarrow> blocked_by en' (qs ! i))))"
  using assms
proof (induction ps arbitrary: en w)
  case Nil
  then show ?case
    by (auto simp: ret_iff extends_enrichment_def)
next
  case (Cons p ps)
  obtain probe w1 where probe: "probe_partition T d p w = (Inr probe, w1)"
    and rest: "enrich_loop T d records swaps (enrich_partition (ts_codec T)
       (detect_os (ts_codec T) (ts_host T) w1) records swaps en p probe) ps w1 = (Inr en', w')"
    using Cons.prems(1) by (auto simp: bindM_Inr_iff getM_iff)
  define en1 where "en1 = enrich_partition (ts_codec T) (detect_os (ts_codec T) (ts_host T) w1) records swaps en p probe"
  obtain q where q: "en_partitions en1 = en_partitions en @ [q]" "partition_signature q = partition_signature p"
    "part_number q = part_number p" "extends_enrichment en en1"
    "part_number p \<notin> set (en_swap en) \<longrightarrow> in_use records swaps p probe \<longrightarrow> blocked_by en1 q"
    using en1_def by (rule enrich_partition_adds)
  have "enrichment_ok en1"
    using Cons.prems(2) en1_def by (rule enrich_partition_ok)
  moreover have "distinct (map part_number (en_partitions en1) @ map part_number ps)"
    using Cons.prems(3) q(1,3) by auto
  ultimately obtain qs probes where IH: "enrichment_ok en'" "extends_enrichment en1 en'"
    "en_partitions en' = en_partitions en1 @ qs" "length qs = length ps" "length probes = length ps"
    "map partition_signature qs = map partition_signature ps" "map part_number qs = map part_number ps"
    "\<forall>i<length ps. (\<exists>w1 w2. probe_partition T d (ps ! i) w1 = (Inr (probes ! i), w2)) \<and>
       (in_use records swaps (ps ! i) (probes ! i) \<longrightarrow> blocked_by en' (qs ! i))"
    using Cons.IH [OF rest [folded en1_def]] by blast
  have "part_number p \<notin> set (en_swap en)"
    using Cons.prems(2,3) by (auto simp: enrichment_ok_def)
  then have head: "in_use records swaps p probe \<longrightarrow> blocked_by en' q"
    using q(5) IH(2) blocked_by_extends by blast
  show ?case
  proof (intro conjI exI [of _ "q # qs"] exI [of _ "probe # probes"])
    show "\<forall>i<length (p # ps). (\<exists>w1 w2. probe_partition T d ((p # ps) ! i) w1 = (Inr ((probe # probes) ! i), w2)) \<and>
       (in_use records swaps ((p # ps) ! i) ((probe # probes) ! i) \<longrightarrow> blocked_by en' ((q # qs) ! i))"
      using IH(8) head probe by (auto simp: less_Suc_eq_0_disj nth_Cons')
  qed (use IH q extends_enrichment_trans in auto)
qed

text \<open>The geometry depends on the signatures alone: sorting by number commutes with taking them.\<close>

lemma map_sort_key_comp: "map f (sort_key (\<lambda>x. g (f x)) xs) = sort_key g (map f xs)"
proof -
  have "map f (insort_key (\<lambda>x. g (f x)) x ys) = insort_key g (f x) (map f ys)" for x ys
    by (induction ys) auto
  then show ?thesis
    by (induction xs) auto
qed

lemma geometry_signature_cong:
  assumes "map partition_signature ps = map partition_signature qs"
  shows "map partition_signature (sort_key part_number ps) = map partition_signature (sort_key part_number qs)"
proof -
  have "fst (partition_signature p) = part_number p" for p
    by (simp add: partition_signature_def)
  then have "map partition_signature (sort_key part_number xs) = sort_key fst (map partition_signature xs)" for xs
    using map_sort_key_comp [of partition_signature fst xs] by simp
  then show ?thesis
    using assms by simp
qed

text \<open>Seen through the assessment of the layout.\<close>

lemma blocked_not_deletable:
  assumes "blocked_by en q" "enrichment_ok en" "l = enriched_layout C lid now d table en"
  shows "\<not> di_executable (analyze_data_impact DELETE l (Some q))"
proof -
  have lists: "lay_filesystems l = en_filesystems en" "lay_mount_points l = en_mounts en" "lay_volumes l = en_volumes en"
    by (simp_all add: assms(3) enriched_layout_def Let_def)
  have "is_lvm l q \<or> is_raid l q" if "v \<in> set (part_volume_ids q)" "x \<in> set (en_volumes en)" "vol_id x = v"
    "\<not> prefix_of ''volume:crypt:'' v" for v x
  proof -
    have "map_of (rev (map (\<lambda>v. (vol_id v, v)) (en_volumes en))) v \<noteq> None"
      unfolding map_of_eq_None_iff using that(2,3) by force
    then obtain y where y: "map_of (rev (map (\<lambda>v. (vol_id v, v)) (en_volumes en))) v = Some y"
      by blast
    have "y \<in> set (en_volumes en)" "vol_id y = v"
      using map_of_SomeD [OF y] by auto
    then have "vol_kind y \<in> {LVM_PV, MDRAID}"
      using assms(2) that(4) by (auto simp: enrichment_ok_def)
    moreover have "y \<in> set (member_volumes l q)"
      using y that(1) lists by (auto simp: member_volumes_def map_filter_def image_iff intro!: bexI [of _ v])
    ultimately show ?thesis
      by (auto simp: is_lvm_def is_raid_def list_ex_iff)
  qed
  then show ?thesis
    using assms(1) lists
    by (auto simp: blocked_by_def data_impact_executable_iff has_filesystem_def is_mounted_def list_ex_iff
        is_encrypted_def protected_roles_def)
qed

end
