(* ===== verification/Sample_Tools.thy ===== *)
theory Sample_Tools
  imports Tools_Guards Sample_Disk
begin

text \<open>
  A concrete operating system for the partition tools: one disk image whose partition table is named by
  a tag, a probe that finds an ext4 filesystem on every partition, and an \<^verbatim>\<open>sfdisk\<close> whose write moves the tag from
  \<open>before\<close> to \<open>after\<close>. Nothing here models code.
\<close>

type_synonym tag_world = "nat \<times> string"

definition tag_table :: "json list \<Rightarrow> json" where
  "tag_table partitions = JObj [(''partitiontable'', JObj [(''label'', JStr ''dos''), (''id'', JStr ''A''),
     (''firstlba'', JInt 8), (''lastlba'', JInt 60), (''sectorsize'', JInt 512),
     (''partitions'', JList partitions)])]"

definition tag_codec :: codec where
  "tag_codec = sample_codec\<lparr>json_loads := (\<lambda>s.
     if s = ''before'' then Some (tag_table [])
     else if s = ''after'' then Some (tag_table
       [JObj [(''node'', JStr ''a1''), (''start'', JInt 8), (''size'', JInt 9), (''type'', JStr ''83'')]])
     else None)\<rparr>"

definition tag_clock :: "tag_world clock" where
  "tag_clock = \<lparr>clk_now = (\<lambda>(n, t). (int n, (Suc n, t))), clk_uuid4 = (\<lambda>(n, t). (sample_uuid n, (Suc n, t)))\<rparr>"

definition tag_spawn :: "string \<Rightarrow> string list \<Rightarrow> string option \<Rightarrow> int \<Rightarrow> (tag_world, spawned) prog" where
  "tag_spawn path args stdin timeout = (\<lambda>(n, t).
     (Inr \<lparr>sp_returncode = 0, sp_stdout_bytes = 6, sp_stderr_bytes = 0,
        sp_stdout = (if args = [] then [] else if hd args = ''--json'' then t
          else if hd args = ''--probe'' then ''TYPE=ext4'' else []), sp_stderr = []\<rparr>,
      (n, if writes_table args then ''after'' else t)))"

definition tag_host :: "tag_world host" where
  "tag_host = \<lparr>h_is_symlink = (\<lambda>_ _. Inr False),
     h_resolve_stat = (\<lambda>path _. Inr (path, Stat_regular 1 2 32768 True)),
     h_resolve = (\<lambda>path. [path]), h_exists = (\<lambda>_ _. True),
     h_read_text = (\<lambda>_ _. None),
     h_list_dir = (\<lambda>_ _. None), h_small_file = (\<lambda>_ _. False),
     h_which = (\<lambda>tool _. Some (''/sbin/'' @ tool)), h_executable = (\<lambda>_ _. Some (True, 0, False)),
     h_spawn = tag_spawn\<rparr>"

definition tag_tools :: "tag_world tool_suite" where
  "tag_tools = \<lparr>ts_codec = tag_codec, ts_clock = tag_clock, ts_host = tag_host,
     ts_allow_regular_file_targets = True, ts_controlled_image_roots = [], ts_write_gate = sample_gate\<rparr>"

definition tag_layout :: "partition_resource list \<Rightarrow> storage_layout" where
  "tag_layout ps = sample_layout_of \<lparr>pt_type = MBR, pt_guid = Some ''A'', pt_sector_size = 512,
     pt_first_usable_sector = 8, pt_last_usable_sector = 60, pt_total_sectors = 64,
     pt_partitions = ps, pt_free_regions = [], pt_fingerprint_sha256 = zeros64\<rparr>"

definition tag_partition :: partition_resource where
  "tag_partition = (sample_partition 1 8 9)\<lparr>part_type_code := Some ''83'', part_name := None\<rparr>"

definition tag_plan :: "storage_operation_type \<Rightarrow> storage_operation_plan" where
  "tag_plan op = (let l = tag_layout [] in
     \<lparr>plan_id = ''plan-0001'', plan_operation_id = ''operation-1'', plan_version = ''1.0'',
      plan_capability = ''storage.partition.create'', plan_operation = op, plan_created_at = 0,
      plan_expires_at = 1000000, plan_session_id = ''session-1'',
      plan_target_disk = sample_device Regular_file, plan_target_partition = None,
      plan_original_layout = l, plan_proposed_layout = tag_layout [tag_partition],
      plan_required_operations = [], plan_affected_resources = [], plan_risk = High,
      plan_estimated_duration_seconds = None, plan_data_loss_possible = False,
      plan_data_impact = analyze_data_impact CREATE l None,
      plan_boot_impact = analyze_boot_impact CREATE l None, plan_filesystem_impact = [],
      plan_protection_checkpoint = None,
      plan_authorization = \<lparr>auth_required = True, auth_independent = True, auth_one_use = True,
        auth_exact_plan_binding = True\<rparr>,
      plan_verification_plan = [], plan_dry_run = None,
      plan_write_gate = evaluate sample_gate (sample_device Regular_file),
      plan_executable = True, plan_limitations = [], plan_fingerprint_sha256 = zeros64\<rparr>)"

lemma tag_observes: "observes (\<lambda>(n, t). t = ''before'') tag_tools"
  by (auto simp: observes_def preserves_def tag_tools_def tag_host_def tag_spawn_def tag_clock_def
      utc_now_def uuid4_hex_def)

end
