(* ===== verification/Tools_Theorems.thy ===== *)
theory Tools_Theorems
  imports Sample_Tools
begin

text \<open>The theorems about the partition tools, each with its application to a concrete image.\<close>

section \<open>The concrete run\<close>

definition tag_run_view ::
  "(exc + storage_operation_outcome) \<times> tag_world \<times> stage list \<Rightarrow> bool \<times> string \<times> string list" where
  "tag_run_view r = (case r of (Inr out, (w, log)) \<Rightarrow> (True, snd w, map fst log)
     | (Inl e, (w, log)) \<Rightarrow> (False, snd w, map fst log))"

lemma tag_run_create:
  "tag_run_view (tool_execute tag_tools log_stage (tag_plan CREATE) ((0, ''before''), [])) = (True, ''after'',
     [''storage.partition-table.write.started'', ''storage.partition-table.write.completed''])"
  by code_simp

lemma tag_run_createE:
  obtains out n log where "tool_execute tag_tools log_stage (tag_plan CREATE) ((0, ''before''), [])
     = (Inr out, ((n, ''after''), log))"
  using tag_run_create unfolding tag_run_view_def by (auto split: prod.splits sum.splits)

lemma preserves_log_stage: "preserves (I \<circ> fst) (log_stage st)"
  by (auto simp: log_stage_def intro!: preserves_modifyM)

section \<open>Theorems\<close>

text \<open>C25 (safety): The write boundary of the tools. Let \<open>I\<close> be any observation of the world that no command
  line but the table write can change. If an execution changes it, then the write gate admits the target,
  the device identified at the start of the run has the planned fingerprint, the table inspected then has
  the planned original geometry, the operation is a creation or a deletion, and the announcement of the
  write was accepted by the callback before.\<close>

theorem write_only_behind_guards:
  assumes "tool_execute T on_stage p (w, x) = (r, (w', x'))"
    and "observes I T" "I w" "\<forall>st. preserves (I \<circ> fst) (on_stage st)" "\<not> I w'"
  shows "write_guards T p w \<and> plan_operation p \<in> {CREATE, DELETE} \<and>
    (\<exists>w1 w2 x1. on_stage (write_started p) (w1, x) = (Inr (), (w2, x1)))"
proof -
  have cb: "\<And>st. preserves (I \<circ> fst) (on_stage st)"
    using assms(4) by blast
  from assms(1-3) cb show ?thesis
    by (rule tool_execute_cases) (use assms(5) in blast)+
qed

theorem write_only_behind_guards_witness:
  "write_guards tag_tools (tag_plan CREATE) (0, ''before'') \<and> plan_operation (tag_plan CREATE) \<in> {CREATE, DELETE} \<and>
    (\<exists>(w1 :: tag_world) w2 x1. log_stage (write_started (tag_plan CREATE)) (w1, []) = (Inr (), (w2, x1)))"
proof -
  obtain out n log where run: "tool_execute tag_tools log_stage (tag_plan CREATE) ((0, ''before''), [])
     = (Inr out, ((n, ''after''), log))"
    by (rule tag_run_createE)
  show ?thesis
    by (rule write_only_behind_guards [OF run tag_observes]) (auto intro: preserves_log_stage)
qed



text \<open>C27 (safety): Inspection, dump, dry run, checkpoint and verification never change what the table write
  alone can change, whatever their result.\<close>

theorem read_only_tools_keep_disk:
  assumes "observes I T"
  shows "preserves I (tool_inspect T target) \<and> preserves I (tool_dump T d) \<and>
    preserves I (tool_dry_run T p) \<and> preserves I (tool_create_checkpoint T p c) \<and> preserves I (tool_verify T p)"
  using assms
  by (simp add: preserves_tool_inspect preserves_tool_dump preserves_tool_dry_run
      preserves_tool_create_checkpoint preserves_tool_verify)

theorem read_only_tools_keep_disk_witness:
  "preserves (\<lambda>(n, t). t = ''before'') (tool_dry_run tag_tools (tag_plan CREATE))"
  using read_only_tools_keep_disk [OF tag_observes] by blast

text \<open>C28 (safety): Enriching a table keeps its geometry and the identity of the disk, and a partition on
  which the probe reported a type, which is mounted, or which is an active swap, gets an assessment that
  forbids its deletion.\<close>

theorem used_partitions_are_not_deletable:
  assumes "enrich T d table w = (Inr l, w')" "distinct (map part_number (pt_partitions table))"
  shows "disk_identity (lay_disk l) = d \<and>
    partition_geometry_signature (lay_partition_table l) = partition_geometry_signature table \<and>
    (\<exists>probes. length probes = length (pt_partitions table) \<and> (\<forall>i<length (pt_partitions table).
       (\<exists>w1 w2. probe_partition T d (pt_partitions table ! i) w1 = (Inr (probes ! i), w2)) \<and>
       (in_use (mount_records (ts_codec T) (ts_host T) w) (swap_sources (ts_host T) w)
          (pt_partitions table ! i) (probes ! i) \<longrightarrow>
        \<not> di_executable (analyze_data_impact DELETE l (Some (pt_partitions (lay_partition_table l) ! i))))))"
proof -
  obtain en w1 lid now where
    loop: "enrich_loop T d (mount_records (ts_codec T) (ts_host T) w) (swap_sources (ts_host T) w)
       empty_enrichment (pt_partitions table) w = (Inr en, w1)"
    and l: "l = enriched_layout (ts_codec T) lid now d table en"
    using assms(1) unfolding enrich_def by (auto simp: bindM_Inr_iff getM_iff ret_iff)
  have "enrichment_ok empty_enrichment"
    by (simp add: enrichment_ok_def empty_enrichment_def)
  then obtain probes where adds: "enrichment_ok en" "length probes = length (pt_partitions table)"
    "map partition_signature (en_partitions en) = map partition_signature (pt_partitions table)"
    "\<forall>i<length (pt_partitions table).
       (\<exists>w1 w2. probe_partition T d (pt_partitions table ! i) w1 = (Inr (probes ! i), w2)) \<and>
       (in_use (mount_records (ts_codec T) (ts_host T) w) (swap_sources (ts_host T) w)
          (pt_partitions table ! i) (probes ! i) \<longrightarrow> blocked_by en (en_partitions en ! i))"
    using enrich_loop_adds [OF loop] assms(2) by (auto simp: empty_enrichment_def)
  have parts: "pt_partitions (lay_partition_table l) = en_partitions en"
    and frame: "disk_identity (lay_disk l) = d" "pt_type (lay_partition_table l) = pt_type table"
      "pt_guid (lay_partition_table l) = pt_guid table" "pt_sector_size (lay_partition_table l) = pt_sector_size table"
    by (simp_all add: l enriched_layout_def Let_def)
  have "partition_geometry_signature (lay_partition_table l) = partition_geometry_signature table"
    using geometry_signature_cong [OF adds(3)] parts frame by (simp add: partition_geometry_signature_def)
  moreover have "\<not> di_executable (analyze_data_impact DELETE l (Some (en_partitions en ! i)))"
    if "blocked_by en (en_partitions en ! i)" for i
    using that adds(1) l by (rule blocked_not_deletable)
  ultimately show ?thesis
    unfolding parts using frame(1) adds(2) adds(4) by (intro conjI exI [of _ probes]) auto
qed

definition tag_probe_view :: "tag_world \<Rightarrow> (bool \<times> bool) option" where
  "tag_probe_view w = (case enrich tag_tools (sample_device Regular_file)
       (lay_partition_table (tag_layout [tag_partition])) w of
     (Inl _, _) \<Rightarrow> None
   | (Inr l, _) \<Rightarrow> Some (pt_partitions (lay_partition_table l) \<noteq> [],
       di_executable (analyze_data_impact DELETE l (Some (hd (pt_partitions (lay_partition_table l)))))))"

theorem used_partitions_are_not_deletable_witness:
  "\<exists>l w'. enrich tag_tools (sample_device Regular_file) (lay_partition_table (tag_layout [tag_partition]))
      (0, ''after'') = (Inr l, w') \<and>
    partition_geometry_signature (lay_partition_table l)
      = partition_geometry_signature (lay_partition_table (tag_layout [tag_partition])) \<and>
    \<not> di_executable (analyze_data_impact DELETE l (Some (hd (pt_partitions (lay_partition_table l)))))"
proof -
  have view: "tag_probe_view (0, ''after'') = Some (True, False)"
    by code_simp
  then obtain l w' where run: "enrich tag_tools (sample_device Regular_file)
      (lay_partition_table (tag_layout [tag_partition])) (0, ''after'') = (Inr l, w')"
    unfolding tag_probe_view_def by (auto split: prod.splits sum.splits)
  moreover have "distinct (map part_number (pt_partitions (lay_partition_table (tag_layout [tag_partition]))))"
    by code_simp
  ultimately show ?thesis
    using used_partitions_are_not_deletable [OF run] view unfolding tag_probe_view_def by auto
qed

end
