(* ===== verification/Storage_Broker.thy ===== *)
theory Storage_Broker
  imports Storage_Engine Audit_Ledger
begin

text \<open>
  The privileged storage broker of \<^verbatim>\<open>runtime/storage_broker.py\<close>. It owns the write boundary: it validates
  a plan again, keeps one-use grants, records every step in the audit ledger and drives the partition
  tools. Its state is the world of the tools beside the record \<open>broker_mem\<close>. The ledger is any provider
  of the \<open>AuditLedger\<close> protocol on a state of its own; the consent client and the connection to the
  caller are programs on the world. Requests arrive validated by Pydantic, \<^const>\<open>None\<close> standing for a
  payload that does not validate.
\<close>

record 'a broker_mem =
  bm_audit :: 'a
  bm_grants :: "(string \<times> storage_authorization_grant) list"
  bm_checkpoints :: checkpoint_store
  bm_store :: operation_store
  bm_emergency :: "json list"
  bm_observer_lost :: bool

type_synonym ('w, 'a) broker_state = "'w \<times> 'a broker_mem"

record ('w, 'a) broker =
  br_tools :: "'w tool_suite"
  br_append :: "json \<Rightarrow> ('a, audit_receipt) prog"
  br_request_storage :: "storage_operation_plan \<Rightarrow> ('w, json) prog"
  br_wait :: "string \<Rightarrow> ('w, json) prog"
  br_send :: "json \<Rightarrow> ('w, unit) prog"
  br_write_gate :: write_gate
  br_allowed_client_uids :: "int list"

section \<open>Values in audit records\<close>

fun data_impact_value :: "data_impact_level \<Rightarrow> string" where
  "data_impact_value DI_NONE = ''NONE''"
| "data_impact_value DI_LOW = ''LOW''"
| "data_impact_value DI_MEDIUM = ''MEDIUM''"
| "data_impact_value DI_HIGH = ''HIGH''"
| "data_impact_value DI_CRITICAL = ''CRITICAL''"
| "data_impact_value DI_UNKNOWN = ''UNKNOWN''"

fun boot_impact_value :: "boot_impact_level \<Rightarrow> string" where
  "boot_impact_value BI_NONE = ''NONE''"
| "boot_impact_value BI_POSSIBLE = ''POSSIBLE''"
| "boot_impact_value BI_LIKELY = ''LIKELY''"
| "boot_impact_value BI_CRITICAL = ''CRITICAL''"
| "boot_impact_value BI_UNKNOWN = ''UNKNOWN''"

fun device_kind_value :: "device_kind \<Rightarrow> string" where
  "device_kind_value Regular_file = ''regular_file''"
| "device_kind_value Loop = ''loop''"
| "device_kind_value Block = ''block''"

fun risk_value :: "risk \<Rightarrow> string" where
  "risk_value Low = ''low''"
| "risk_value Medium = ''medium''"
| "risk_value High = ''high''"
| "risk_value Critical = ''critical''"

definition json_str_option :: "string option \<Rightarrow> json" where
  "json_str_option v = (case v of None \<Rightarrow> JNull | Some s \<Rightarrow> JStr s)"

definition table_fingerprint_of :: "storage_layout \<Rightarrow> json" where
  "table_fingerprint_of l = JStr (pt_fingerprint_sha256 (lay_partition_table l))"

definition target_fingerprint_of :: "storage_operation_plan \<Rightarrow> json" where
  "target_fingerprint_of p = JStr (dev_fingerprint_sha256 (plan_target_disk p))"

definition audit_plan :: "storage_operation_plan \<Rightarrow> (string \<times> json) list" where
  "audit_plan p =
     [(''plan_id'', JStr (plan_id p)),
      (''plan_fingerprint'', JStr (plan_fingerprint_sha256 p)),
      (''operation'', JStr (operation_value (plan_operation p))),
      (''target'', JStr (dev_canonical_path (plan_target_disk p))),
      (''target_fingerprint'', target_fingerprint_of p),
      (''device_kind'', JStr (device_kind_value (dev_device_kind (plan_target_disk p)))),
      (''original_layout'', table_fingerprint_of (plan_original_layout p)),
      (''proposed_layout'', table_fingerprint_of (plan_proposed_layout p)),
      (''dry_run_script_sha256'', json_str_option (map_option dry_script_sha256 (plan_dry_run p))),
      (''checkpoint_id'', json_str_option (map_option cp_id (plan_protection_checkpoint p))),
      (''data_impact'', JStr (data_impact_value (di_level (plan_data_impact p)))),
      (''boot_impact'', JStr (boot_impact_value (bi_level (plan_boot_impact p)))),
      (''risk'', JStr (risk_value (plan_risk p))),
      (''write_gate'', JBool (gate_allowed (plan_write_gate p)))]"

text \<open>A missing key reads as \<open>None\<close>, which is kept as well.\<close>

definition sanitize_stage :: "(string \<times> json) list \<Rightarrow> (string \<times> json) list" where
  "sanitize_stage payload = List.map_filter (\<lambda>key.
     case map_of payload key of
       None \<Rightarrow> Some (key, JNull)
     | Some v \<Rightarrow> (case v of
         JStr _ \<Rightarrow> Some (key, v) | JInt _ \<Rightarrow> Some (key, v) | JBool _ \<Rightarrow> Some (key, v)
       | JNull \<Rightarrow> Some (key, v) | _ \<Rightarrow> None))
     [''operation'', ''target_fingerprint'', ''exit_code'', ''kernel_reread'']"

text \<open>\<open>{**a, **b}\<close>\<close>

definition merge_dicts :: "(string \<times> json) list \<Rightarrow> (string \<times> json) list \<Rightarrow> (string \<times> json) list" where
  "merge_dicts a b = fold (\<lambda>(k, v). dict_set k v) b a"

definition grant_token :: "codec \<Rightarrow> string \<Rightarrow> string" where
  "grant_token C value = take 24 (sha256_hex C value)"

definition safe_code :: "exc \<Rightarrow> string" where
  "safe_code e = (case e of
     PartitionToolError code \<Rightarrow> code
   | AuditLedgerError _ \<Rightarrow> ''AUDIT_LEDGER_UNAVAILABLE''
   | CancelledError \<Rightarrow> ''STORAGE_BROKER_CANCELLED''
   | _ \<Rightarrow> ''STORAGE_BROKER_FAILED'')"

section \<open>Effects\<close>

definition onMem :: "('m, 'b) prog \<Rightarrow> ('w \<times> 'm, 'b) prog" where
  "onMem m = (\<lambda>(w, x). let (r, x') = m x in (r, (w, x')))"

definition plan_event :: "storage_operation_plan \<Rightarrow> string \<Rightarrow> (string \<times> json) list \<Rightarrow> json" where
  "plan_event p event_type payload =
     audit_request event_type ''ares-tool-broker'' (plan_operation_id p) (plan_session_id p) payload"

definition audit :: "('w, 'a) broker \<Rightarrow> json \<Rightarrow> ('w, 'a) broker_state \<Rightarrow> (exc + unit) \<times> ('w, 'a) broker_state" where
  "audit B request = onMem (\<lambda>x. let (r, a) = br_append B request (bm_audit x)
     in (case r of Inl e \<Rightarrow> Inl e | Inr _ \<Rightarrow> Inr (), x\<lparr>bm_audit := a\<rparr>))"

text \<open>The emergency journal; the write to the file is taken to succeed.\<close>

definition emergency ::
  "('w, 'a) broker \<Rightarrow> (string \<times> json) list \<Rightarrow> ('w, 'a) broker_state \<Rightarrow> (exc + unit) \<times> ('w, 'a) broker_state" where
  "emergency B record_fields =
     bindM (onW (utc_now (ts_clock (br_tools B)))) (\<lambda>now.
     onMem (modifyM (\<lambda>x. x\<lparr>bm_emergency := bm_emergency x
       @ [sort_json (JObj (merge_dicts [(''timestamp'', JInt now)] record_fields))]\<rparr>)))"

definition is_audit_error :: "exc \<Rightarrow> bool" where
  "is_audit_error e = (case e of AuditLedgerError _ \<Rightarrow> True | _ \<Rightarrow> False)"

section \<open>Validation of a plan\<close>

definition broker_checkpoint_valid :: "storage_operation_plan \<Rightarrow> 'a broker_mem \<Rightarrow> bool" where
  "broker_checkpoint_valid p x = (case plan_protection_checkpoint p of
     None \<Rightarrow> False
   | Some checkpoint \<Rightarrow> checkpoint_bound p checkpoint \<and>
       checkpoint_get (bm_checkpoints x) (cp_id checkpoint) = Some checkpoint \<and>
       (case get_checkpoint (bm_store x) (cp_id checkpoint) of
          None \<Rightarrow> False
        | Some artifact \<Rightarrow> art_operation_id artifact = plan_operation_id p \<and>
            art_partition_table_fingerprint_sha256 artifact
              = pt_fingerprint_sha256 (lay_partition_table (plan_original_layout p))))"

definition plan_runnable :: "storage_operation_plan \<Rightarrow> bool" where
  "plan_runnable p \<longleftrightarrow> plan_executable p \<and> (case plan_dry_run p of None \<Rightarrow> False | Some r \<Rightarrow> dry_valid r)"

definition plan_current :: "('w, 'a) broker \<Rightarrow> storage_operation_plan \<Rightarrow> ('w \<times> 'm, unit) prog" where
  "plan_current B p =
     (if \<not> storage_plan_integrity_valid (ts_codec (br_tools B)) p
      then tool_error ''STORAGE_OPERATION_PLAN_INVALID''
      else bindM (onW (utc_now (ts_clock (br_tools B)))) (\<lambda>now.
        if plan_expires_at p \<le> now then tool_error ''STORAGE_OPERATION_PLAN_INVALID'' else ret ()))"

definition validate_preflight_plan ::
  "('w, 'a) broker \<Rightarrow> storage_operation_plan \<Rightarrow> bool \<Rightarrow> ('w \<times> 'a broker_mem, unit) prog" where
  "validate_preflight_plan B p checkpoint_required =
     bindM (plan_current B p) (\<lambda>_.
     if \<not> gate_allowed (evaluate (br_write_gate B) (plan_target_disk p))
     then tool_error ''PRODUCTION_STORAGE_WRITE_GATE_BLOCKED''
     else
     bindM (onW (tool_inspect (br_tools B) (dev_requested_path (plan_target_disk p)))) (\<lambda>current.
     if dev_fingerprint_sha256 (disk_identity (lay_disk current)) \<noteq> dev_fingerprint_sha256 (plan_target_disk p)
     then tool_error ''STORAGE_DEVICE_IDENTITY_CHANGED''
     else if partition_geometry_signature (lay_partition_table current)
             \<noteq> partition_geometry_signature (lay_partition_table (plan_original_layout p))
     then tool_error ''STORAGE_LAYOUT_CHANGED''
     else if \<not> checkpoint_required then ret ()
     else if \<not> plan_runnable p then tool_error ''STORAGE_OPERATION_NOT_EXECUTABLE''
     else
     bindM (getM (\<lambda>(w, x). broker_checkpoint_valid p x)) (\<lambda>valid.
     if \<not> valid then tool_error ''STORAGE_PROTECTION_CHECKPOINT_INVALID'' else ret ())))"

definition validate_postwrite_plan ::
  "('w, 'a) broker \<Rightarrow> storage_operation_plan \<Rightarrow> ('w \<times> 'a broker_mem, unit) prog" where
  "validate_postwrite_plan B p =
     bindM (plan_current B p) (\<lambda>_.
     if \<not> plan_runnable p then tool_error ''STORAGE_OPERATION_NOT_EXECUTABLE''
     else if \<not> gate_allowed (evaluate (br_write_gate B) (plan_target_disk p))
     then tool_error ''PRODUCTION_STORAGE_WRITE_GATE_BLOCKED''
     else
     bindM (onW (revalidate (br_tools B) (plan_target_disk p))) (\<lambda>_.
     bindM (getM (\<lambda>(w, x). broker_checkpoint_valid p x)) (\<lambda>valid.
     if \<not> valid then tool_error ''STORAGE_PROTECTION_CHECKPOINT_INVALID'' else ret ())))"

section \<open>Requests\<close>

definition broker_checkpoint ::
  "('w, 'a) broker \<Rightarrow> storage_operation_plan \<Rightarrow> ('w \<times> 'a broker_mem, storage_checkpoint_bundle) prog" where
  "broker_checkpoint B p =
     (let T = br_tools B in
      bindM (validate_preflight_plan B p False) (\<lambda>_.
      bindM (onW (uuid4_hex (ts_clock T))) (\<lambda>checkpoint_id.
      bindM (onW (tool_create_checkpoint T p checkpoint_id)) (\<lambda>artifact.
      bindM (onW (utc_now (ts_clock T))) (\<lambda>now.
      let checkpoint = table_checkpoint (ts_codec T) p artifact now
            [''Checkpoint restores partition-table metadata only; it is not a data backup.'',
             ''Execution is limited to table-only create/delete where impact policy permits it.'']
      in
      bindM (audit B (plan_event p ''storage.checkpoint.created''
        [(''checkpoint_id'', JStr (cp_id checkpoint)),
         (''target_fingerprint'', target_fingerprint_of p),
         (''partition_table_fingerprint'', JStr (art_partition_table_fingerprint_sha256 artifact)),
         (''dump_sha256'', JStr (art_dump_sha256 artifact))])) (\<lambda>_.
      ret \<lparr>bundle_checkpoint = checkpoint, bundle_artifact = artifact\<rparr>))))))"

text \<open>The exchange with the consent process: the challenge identifier and the decision.\<close>

definition ask_consent ::
  "('w, 'a) broker \<Rightarrow> storage_operation_plan \<Rightarrow> ('w \<times> 'a broker_mem, string \<times> json) prog" where
  "ask_consent B p =
     catchM
      (bindM (onW (br_request_storage B p)) (\<lambda>challenge.
       case json_get challenge ''challenge_id'' of
         Some (JStr challenge_id) \<Rightarrow>
           bindM (onW (br_send B (JObj [(''type'', JStr ''authorization_requested''),
             (''challenge_id'', JStr challenge_id)]))) (\<lambda>_.
           bindM (onW (br_wait B challenge_id)) (\<lambda>decision.
           ret (challenge_id, decision)))
       | _ \<Rightarrow> tool_error ''STORAGE_AUTHORIZATION_FAILED''))
      (\<lambda>e. case e of RuntimeError _ \<Rightarrow> tool_error ''STORAGE_AUTHORIZATION_FAILED'' | _ \<Rightarrow> raise e)"

definition new_grant ::
  "storage_operation_plan \<Rightarrow> string \<Rightarrow> string \<Rightarrow> int \<Rightarrow> int \<Rightarrow> storage_authorization_grant" where
  "new_grant p gid challenge_id operator_uid now =
     \<lparr>grant_id = gid, grant_challenge_id = challenge_id, grant_operation_id = plan_operation_id p,
      grant_plan_id = plan_id p, grant_session_id = plan_session_id p,
      grant_target_fingerprint_sha256 = dev_fingerprint_sha256 (plan_target_disk p),
      grant_plan_fingerprint_sha256 = plan_fingerprint_sha256 p, grant_operator_uid = Some operator_uid,
      grant_expires_at = min (plan_expires_at p) (now + 5 * 60 * 1000000)\<rparr>"

definition grant_audited ::
  "('w, 'a) broker \<Rightarrow> storage_operation_plan \<Rightarrow> storage_authorization_grant
     \<Rightarrow> ('w \<times> 'a broker_mem, storage_authorization_grant) prog" where
  "grant_audited B p grant =
     bindM (audit B (plan_event p ''storage.authorization.granted''
       [(''challenge_id'', JStr (grant_challenge_id grant)),
        (''grant_id_hash'', JStr (grant_token (ts_codec (br_tools B)) (grant_id grant))),
        (''operator_uid'', case grant_operator_uid grant of None \<Rightarrow> JNull | Some u \<Rightarrow> JInt u),
        (''plan_id'', JStr (plan_id p)),
        (''plan_fingerprint'', JStr (plan_fingerprint_sha256 p)),
        (''target_fingerprint'', target_fingerprint_of p),
        (''checkpoint_id'', json_str_option (map_option cp_id (plan_protection_checkpoint p))),
        (''one_use'', JBool True)])) (\<lambda>_.
     ret grant)"

definition grant_issue ::
  "('w, 'a) broker \<Rightarrow> storage_operation_plan \<Rightarrow> string \<Rightarrow> int \<Rightarrow> string
     \<Rightarrow> ('w \<times> 'a broker_mem, storage_authorization_grant) prog" where
  "grant_issue B p challenge_id operator_uid gid =
     bindM (onW (utc_now (ts_clock (br_tools B)))) (\<lambda>now.
     let grant = new_grant p gid challenge_id operator_uid now in
     bindM (onMem (modifyM (\<lambda>x. x\<lparr>bm_grants := dict_set gid grant (bm_grants x)\<rparr>))) (\<lambda>_.
     grant_audited B p grant))"

text \<open>The part of \<open>_authorize\<close> behind an approved decision.\<close>

definition grant_access ::
  "('w, 'a) broker \<Rightarrow> storage_operation_plan \<Rightarrow> string \<Rightarrow> int
     \<Rightarrow> ('w \<times> 'a broker_mem, storage_authorization_grant) prog" where
  "grant_access B p challenge_id operator_uid =
     bindM (validate_preflight_plan B p True) (\<lambda>_.
     bindM (onW (uuid4_hex (ts_clock (br_tools B)))) (\<lambda>gid.
     grant_issue B p challenge_id operator_uid gid))"

definition broker_authorize ::
  "('w, 'a) broker \<Rightarrow> storage_operation_plan \<Rightarrow> ('w \<times> 'a broker_mem, storage_authorization_grant) prog" where
  "broker_authorize B p =
     bindM (validate_preflight_plan B p True) (\<lambda>_.
     bindM (audit B (plan_event p ''storage.authorization.intent'' (audit_plan p))) (\<lambda>_.
     bindM (ask_consent B p) (\<lambda>(challenge_id, decision).
     if json_get decision ''decision'' \<noteq> Some (JStr ''approved'')
     then tool_error ''STORAGE_AUTHORIZATION_DENIED''
     else case json_int (json_get decision ''operator_uid'') of
       None \<Rightarrow> tool_error ''STORAGE_AUTHORIZATION_INVALID''
     | Some operator_uid \<Rightarrow>
     if operator_uid < 0 then tool_error ''STORAGE_AUTHORIZATION_INVALID''
     else grant_access B p challenge_id operator_uid)))"

definition execute_intent :: "storage_operation_plan \<Rightarrow> storage_authorization_grant \<Rightarrow> json" where
  "execute_intent p grant = plan_event p ''storage.transaction.intent''
     (merge_dicts (audit_plan p)
       [(''operator_uid'', case grant_operator_uid grant of None \<Rightarrow> JNull | Some u \<Rightarrow> JInt u),
        (''tool'', JStr ''sfdisk'')])"

definition stage_event :: "storage_operation_plan \<Rightarrow> stage \<Rightarrow> json" where
  "stage_event p st = plan_event p (fst st)
     (merge_dicts [(''target_fingerprint'', target_fingerprint_of p)] (sanitize_stage (snd st)))"

text \<open>The callback of \<open>_execute\<close>: the caller is told as long as it listens, the ledger always.\<close>

definition tell_observer :: "('w, 'a) broker \<Rightarrow> stage \<Rightarrow> ('w \<times> 'a broker_mem, unit) prog" where
  "tell_observer B st =
     bindM (getM (\<lambda>(w, x). bm_observer_lost x)) (\<lambda>lost.
     if lost then ret ()
     else catchM (onW (br_send B (JObj [(''type'', JStr ''stage''), (''name'', JStr (fst st)),
             (''payload'', JObj (sanitize_stage (snd st)))])))
       (\<lambda>e. if is_os_error e \<or> (case e of RuntimeError _ \<Rightarrow> True | _ \<Rightarrow> False)
            then onMem (modifyM (\<lambda>x. x\<lparr>bm_observer_lost := True\<rparr>)) else raise e))"

definition broker_stage ::
  "('w, 'a) broker \<Rightarrow> storage_operation_plan \<Rightarrow> stage \<Rightarrow> ('w \<times> 'a broker_mem, unit) prog" where
  "broker_stage B p st = bindM (tell_observer B st) (\<lambda>_. audit B (stage_event p st))"

definition failed_event :: "storage_operation_plan \<Rightarrow> exc \<Rightarrow> json" where
  "failed_event p e = plan_event p ''storage.transaction.failed''
     [(''target_fingerprint'', target_fingerprint_of p),
      (''operation'', JStr (operation_value (plan_operation p))), (''error_code'', JStr (safe_code e))]"

definition audit_failure ::
  "('w, 'a) broker \<Rightarrow> storage_operation_plan \<Rightarrow> exc \<Rightarrow> ('w \<times> 'a broker_mem, unit) prog" where
  "audit_failure B p e =
     catchM (audit B (failed_event p e))
      (\<lambda>e'. if is_audit_error e' then
          emergency B [(''event'', JStr ''storage.transaction.failed''),
            (''operation_id'', JStr (plan_operation_id p)), (''target_fingerprint'', target_fingerprint_of p),
            (''error_code'', JStr (safe_code e))]
        else raise e')"

definition completed_event ::
  "storage_operation_plan \<Rightarrow> storage_operation_outcome \<Rightarrow> bool \<Rightarrow> json" where
  "completed_event p outcome observer_lost = plan_event p ''storage.transaction.completed''
     [(''target_fingerprint'', target_fingerprint_of p),
      (''operation'', JStr (operation_value (plan_operation p))),
      (''exit_code'', JInt (out_exit_code outcome)),
      (''kernel_reread'', case out_kernel_reread outcome of None \<Rightarrow> JNull | Some b \<Rightarrow> JBool b),
      (''before_layout'', table_fingerprint_of (plan_original_layout p)),
      (''after_layout'', table_fingerprint_of (out_after outcome)),
      (''observer_lost'', JBool observer_lost)]"

definition audit_completed ::
  "('w, 'a) broker \<Rightarrow> storage_operation_plan \<Rightarrow> storage_operation_outcome \<Rightarrow> ('w \<times> 'a broker_mem, unit) prog" where
  "audit_completed B p outcome =
     bindM (getM (\<lambda>(w, x). bm_observer_lost x)) (\<lambda>lost.
     catchM (audit B (completed_event p outcome lost))
      (\<lambda>e. if is_audit_error e then
          bindM (emergency B [(''event'', JStr ''storage.transaction.completed''),
            (''operation_id'', JStr (plan_operation_id p)), (''target_fingerprint'', target_fingerprint_of p),
            (''after_layout'', table_fingerprint_of (out_after outcome)),
            (''reconciliation_required'', JBool True)]) (\<lambda>_.
          tool_error ''STORAGE_RECONCILIATION_REQUIRED'')
        else raise e))"

text \<open>The part of \<open>_execute\<close> behind the grant check.\<close>

definition broker_run ::
  "('w, 'a) broker \<Rightarrow> storage_operation_plan \<Rightarrow> storage_authorization_grant
     \<Rightarrow> ('w \<times> 'a broker_mem, storage_operation_outcome) prog" where
  "broker_run B p grant =
     bindM (validate_preflight_plan B p True) (\<lambda>_.
     bindM (audit B (execute_intent p grant)) (\<lambda>_.
     bindM (onMem (modifyM (\<lambda>x. x\<lparr>bm_observer_lost := False\<rparr>))) (\<lambda>_.
     bindM (catchM (tool_execute (br_tools B) (broker_stage B p) p)
              (\<lambda>e. bindM (audit_failure B p e) (\<lambda>_. raise e))) (\<lambda>outcome.
     bindM (audit_completed B p outcome) (\<lambda>_.
     ret outcome)))))"

definition broker_execute ::
  "('w, 'a) broker \<Rightarrow> storage_operation_plan \<Rightarrow> storage_authorization_grant
     \<Rightarrow> ('w \<times> 'a broker_mem, storage_operation_outcome) prog" where
  "broker_execute B p grant = (\<lambda>(w, x).
     let stored = map_of (bm_grants x) (grant_id grant);
         x1 = x\<lparr>bm_grants := dict_del (grant_id grant) (bm_grants x)\<rparr>;
         (now, w1) = (if stored = Some grant then clk_now (ts_clock (br_tools B)) w else (0, w))
     in if \<not> grant_matches p grant stored now
        then (Inl (PartitionToolError ''STORAGE_AUTHORIZATION_INVALID''), (w1, x1))
        else broker_run B p grant (w1, x1))"

definition broker_verify ::
  "('w, 'a) broker \<Rightarrow> storage_operation_plan \<Rightarrow> ('w \<times> 'a broker_mem, storage_layout) prog" where
  "broker_verify B p =
     bindM (validate_postwrite_plan B p) (\<lambda>_.
     bindM (onW (tool_verify (br_tools B) p)) (\<lambda>layout.
     bindM (audit B (plan_event p ''storage.verification.completed''
       [(''target_fingerprint'', target_fingerprint_of p),
        (''expected_layout'', table_fingerprint_of (plan_proposed_layout p)),
        (''actual_layout'', table_fingerprint_of layout), (''verified'', JBool True)])) (\<lambda>_.
     ret layout)))"

datatype broker_request =
    Req_inspect "string option"
  | Req_dry_run "storage_operation_plan option"
  | Req_checkpoint "storage_operation_plan option"
  | Req_authorize "storage_operation_plan option"
  | Req_execute "storage_operation_plan option" "storage_authorization_grant option"
  | Req_verify "storage_operation_plan option"
  | Req_other

datatype broker_reply =
    Rep_layout storage_layout
  | Rep_dry_run storage_dry_run_result
  | Rep_bundle storage_checkpoint_bundle
  | Rep_grant storage_authorization_grant
  | Rep_outcome storage_operation_outcome

definition validated :: "'p option \<Rightarrow> ('p \<Rightarrow> ('s, 'b) prog) \<Rightarrow> ('s, 'b) prog" where
  "validated v f = (case v of None \<Rightarrow> raise (ValueError ''validation error'') | Some p \<Rightarrow> f p)"

definition mapM :: "('b \<Rightarrow> 'c) \<Rightarrow> ('s, 'b) prog \<Rightarrow> ('s, 'c) prog" where
  "mapM f m = bindM m (\<lambda>y. ret (f y))"

definition broker_dispatch ::
  "('w, 'a) broker \<Rightarrow> broker_request \<Rightarrow> int \<Rightarrow> ('w \<times> 'a broker_mem, broker_reply) prog" where
  "broker_dispatch B request peer_uid =
     (if peer_uid \<notin> set (br_allowed_client_uids B) then raise (PermissionError ''broker client not authorized'')
      else case request of
        Req_inspect None \<Rightarrow> tool_error ''STORAGE_TARGET_INVALID''
      | Req_inspect (Some target) \<Rightarrow> mapM Rep_layout (onW (tool_inspect (br_tools B) target))
      | Req_dry_run v \<Rightarrow> validated v (\<lambda>p. bindM (validate_preflight_plan B p False) (\<lambda>_.
          mapM Rep_dry_run (onW (tool_dry_run (br_tools B) p))))
      | Req_checkpoint v \<Rightarrow> validated v (\<lambda>p. mapM Rep_bundle (broker_checkpoint B p))
      | Req_authorize v \<Rightarrow> validated v (\<lambda>p. mapM Rep_grant (broker_authorize B p))
      | Req_execute v g \<Rightarrow> validated v (\<lambda>p. validated g (\<lambda>grant. mapM Rep_outcome (broker_execute B p grant)))
      | Req_verify v \<Rightarrow> validated v (\<lambda>p. mapM Rep_layout (broker_verify B p))
      | Req_other \<Rightarrow> tool_error ''STORAGE_BROKER_ACTION_REJECTED'')"

end
