(* ===== verification/Broker_Guards.thy ===== *)
theory Broker_Guards
  imports Storage_Broker Tools_Guards Audit_Theorems
begin

text \<open>
  The broker: what its requests do to the ledger, the grants and the disk. A program on the broker's
  state is \<open>tracked\<close> when it only appends to the ledger and keeps grants and stores; the interfaces of a
  recording ledger and of an executor with one-use grants are locales.
\<close>

section \<open>The recording ledger\<close>

locale recording_ledger =
  fixes app :: "json \<Rightarrow> ('a, audit_receipt) prog"
    and records :: "'a \<Rightarrow> json list"
  assumes app_success: "app r a = (Inr rc, a') \<Longrightarrow> records a' = records a @ [r]"
    and app_failure: "app r a = (Inl e, a') \<Longrightarrow> records a' = records a"
begin

lemma app_extends: "app r a = (res, a') \<Longrightarrow> \<exists>rest. records a' = records a @ rest"
  using app_success app_failure by (cases res) auto

end

interpretation memory_ledger: recording_ledger "memory_append C" "\<lambda>records. records" for C
  by unfold_locales (auto simp: memory_append_def Let_def)

section \<open>Tracked programs\<close>

definition grows :: "('a \<Rightarrow> json list) \<Rightarrow> 'a broker_mem \<Rightarrow> 'a broker_mem \<Rightarrow> bool" where
  "grows records x x' \<longleftrightarrow> (\<exists>rest. records (bm_audit x') = records (bm_audit x) @ rest) \<and>
     bm_grants x' = bm_grants x \<and> bm_checkpoints x' = bm_checkpoints x \<and> bm_store x' = bm_store x"

definition tracked :: "('a \<Rightarrow> json list) \<Rightarrow> ('w \<times> 'a broker_mem, 'b) prog \<Rightarrow> bool" where
  "tracked records m \<longleftrightarrow> (\<forall>s. grows records (snd s) (snd (snd (m s))))"

named_theorems tracked_intros \<open>introduction rules for tracked programs\<close>

lemma grows_refl [simp]: "grows records x x"
  by (simp add: grows_def)

lemma grows_trans: "grows records x y \<Longrightarrow> grows records y z \<Longrightarrow> grows records x z"
  by (auto simp: grows_def)

lemma trackedD: "tracked records m \<Longrightarrow> m (w, x) = (r, (w', x')) \<Longrightarrow> grows records x x'"
  unfolding tracked_def by (drule spec [of _ "(w, x)"]) simp

lemma tracked_pure [tracked_intros]:
  "tracked records (ret y)" "tracked records (raise e)" "tracked records (liftE v)" "tracked records (getM f)"
  "tracked records (tool_error c)"
  by (simp_all add: tracked_def prog_eval tool_error_def)

lemma tracked_onW [tracked_intros]: "tracked records (onW m)"
  by (simp add: tracked_def onW_def split: prod.splits)

lemma trackedI: "(\<And>w x r w' x'. m (w, x) = (r, (w', x')) \<Longrightarrow> grows records x x') \<Longrightarrow> tracked records m"
  unfolding tracked_def by (metis prod.collapse)

lemma tracked_bindM [tracked_intros]:
  assumes "tracked records m" "\<And>y. tracked records (f y)"
  shows "tracked records (bindM m f)"
proof (rule trackedI)
  fix w x r w' x'
  assume "bindM m f (w, x) = (r, (w', x'))"
  then show "grows records x x'"
    by (cases rule: bindM_cases) (use trackedD [OF assms(1)] trackedD [OF assms(2)] grows_trans in \<open>auto, blast\<close>)
qed

lemma tracked_catchM [tracked_intros]:
  assumes "tracked records m" "\<And>e. tracked records (h e)"
  shows "tracked records (catchM m h)"
proof (rule trackedI)
  fix w x r w' x'
  assume run: "catchM m h (w, x) = (r, (w', x'))"
  obtain r1 w1 x1 where m: "m (w, x) = (r1, (w1, x1))"
    by (metis prod.collapse)
  have "grows records x1 x'"
    using run m trackedD [OF assms(2)] by (cases r1) (auto simp: catchM_def)
  then show "grows records x x'"
    using trackedD [OF assms(1) m] grows_trans by blast
qed

lemma tracked_if [tracked_intros]:
  "(c \<Longrightarrow> tracked records m) \<Longrightarrow> (\<not> c \<Longrightarrow> tracked records n) \<Longrightarrow> tracked records (if c then m else n)"
  by simp

lemma tracked_modify [tracked_intros]:
  "tracked records (onMem (modifyM (\<lambda>x. x\<lparr>bm_observer_lost := b\<rparr>)))"
  "tracked records (onMem (modifyM (\<lambda>x. x\<lparr>bm_emergency := f x\<rparr>)))"
  by (auto simp: tracked_def onMem_def modifyM_def grows_def)

lemma tracked_emergency [tracked_intros]: "tracked records (emergency B fs)"
  unfolding emergency_def by (intro tracked_intros)

lemma tracked_write_and_verify:
  "(\<And>st. tracked records (cb st)) \<Longrightarrow> tracked records (write_and_verify T cb p before)"
  unfolding write_and_verify_def by (intro tracked_intros)

lemma tracked_tool_execute:
  "(\<And>st. tracked records (cb st)) \<Longrightarrow> tracked records (tool_execute T cb p)"
  unfolding tool_execute_def Let_def by (intro tracked_intros tracked_write_and_verify)

text \<open>Relative to the ledger: every part of an execution is tracked if the appends are.\<close>

lemma tracked_validate_preflight: "tracked records (validate_preflight_plan B p c)"
  unfolding validate_preflight_plan_def plan_current_def by (intro tracked_intros)

lemma tracked_stage: "(\<And>r. tracked records (audit B r)) \<Longrightarrow> tracked records (broker_stage B p st)"
  unfolding broker_stage_def tell_observer_def by (intro tracked_intros)

lemma tracked_failure: "(\<And>r. tracked records (audit B r)) \<Longrightarrow> tracked records (audit_failure B p e)"
  unfolding audit_failure_def by (intro tracked_intros)

lemma tracked_completed: "(\<And>r. tracked records (audit B r)) \<Longrightarrow> tracked records (audit_completed B p out)"
  unfolding audit_completed_def by (intro tracked_intros)

lemma tracked_broker_run: "(\<And>r. tracked records (audit B r)) \<Longrightarrow> tracked records (broker_run B p grant)"
  unfolding broker_run_def
  by (intro tracked_intros tracked_validate_preflight tracked_tool_execute tracked_stage tracked_failure
      tracked_completed)

text \<open>Whatever the ledger does, it has no access to the grants and the stores.\<close>

lemma tracked_nothing: "tracked (\<lambda>_. []) (audit B r)"
  by (auto simp: tracked_def audit_def onMem_def Let_def grows_def split: prod.splits)

lemma broker_run_grants:
  "broker_run B p grant (w, x) = (r, (w', x')) \<Longrightarrow> bm_grants x' = bm_grants x"
  using trackedD [OF tracked_broker_run [OF tracked_nothing]] by (fastforce simp: grows_def)

lemma tell_observer_keeps:
  assumes "tell_observer B st (w, x) = (r, (w', x'))"
  shows "bm_audit x' = bm_audit x \<and> bm_grants x' = bm_grants x \<and> bm_checkpoints x' = bm_checkpoints x \<and>
    bm_store x' = bm_store x"
  using assms unfolding tell_observer_def
  by (auto simp: bindM_def catchM_def getM_def ret_def raise_def onW_def onMem_def modifyM_def
      split: if_splits prod.splits sum.splits)

context recording_ledger
begin

lemma audit_Inr:
  assumes "br_append B = app" "audit B request (w, x) = (Inr u, (w', x'))"
  shows "w' = w \<and> records (bm_audit x') = records (bm_audit x) @ [request] \<and> grows records x x' \<and>
    bm_emergency x' = bm_emergency x"
  using assms(2) by (auto simp: assms(1) audit_def onMem_def Let_def grows_def dest: app_success
      split: prod.splits sum.splits)

lemma tracked_audit:
  assumes "br_append B = app"
  shows "tracked records (audit B request)"
  by (auto simp: assms tracked_def audit_def onMem_def Let_def grows_def split: prod.splits dest: app_extends)

lemmas tracked_broker_stage = tracked_stage [OF tracked_audit]
lemmas tracked_audit_failure = tracked_failure [OF tracked_audit]
lemmas tracked_audit_completed = tracked_completed [OF tracked_audit]

lemma broker_stage_Inr:
  assumes "br_append B = app" "broker_stage B p st (w, x) = (Inr u, (w', x'))"
  shows "records (bm_audit x') = records (bm_audit x) @ [stage_event p st] \<and> grows records x x'"
proof -
  obtain w1 x1 where tell: "tell_observer B st (w, x) = (Inr (), (w1, x1))"
    and audit: "audit B (stage_event p st) (w1, x1) = (Inr u, (w', x'))"
    using assms(2) unfolding broker_stage_def bindM_Inr_iff by auto
  have send: "bm_audit x1 = bm_audit x" "grows records x x1"
    using tell_observer_keeps [OF tell] by (simp_all add: grows_def)
  show ?thesis
    using audit_Inr [OF assms(1) audit] send grows_trans by auto
qed

end

section \<open>The disk\<close>

lemma preserves_onW [preserves_intros]: "preserves I m \<Longrightarrow> preserves (I \<circ> fst) (onW m)"
  by (auto simp: preserves_def onW_def split: prod.splits)

lemma preserves_onMem [preserves_intros]: "preserves (I \<circ> fst) (onMem m)"
  by (auto simp: preserves_def onMem_def split: prod.splits)

lemma preserves_audit [preserves_intros]: "preserves (I \<circ> fst) (audit B request)"
  unfolding audit_def by (rule preserves_onMem)

text \<open>A property of the world that neither the tools, apart from the table write, nor the connections of
  the broker change.\<close>

definition broker_observes :: "('w \<Rightarrow> bool) \<Rightarrow> ('w, 'a) broker \<Rightarrow> bool" where
  "broker_observes I B \<longleftrightarrow> observes I (br_tools B) \<and> (\<forall>m. preserves I (br_send B m)) \<and>
     (\<forall>p. preserves I (br_request_storage B p)) \<and> (\<forall>c. preserves I (br_wait B c))"

lemma broker_observesD:
  assumes "broker_observes I B"
  shows "observes I (br_tools B)" "preserves I (utc_now (ts_clock (br_tools B)))"
    "preserves I (uuid4_hex (ts_clock (br_tools B)))" "preserves I (br_send B m)"
    "preserves I (br_request_storage B p)" "preserves I (br_wait B c)"
  using assms by (simp_all add: broker_observes_def observes_def)

lemma preserves_plan_current: "broker_observes I B \<Longrightarrow> preserves (I \<circ> fst) (plan_current B p)"
  unfolding plan_current_def by (intro preserves_intros broker_observesD)

lemma preserves_validate_preflight:
  "broker_observes I B \<Longrightarrow> preserves (I \<circ> fst) (validate_preflight_plan B p c)"
  unfolding validate_preflight_plan_def
  by (intro preserves_intros preserves_plan_current preserves_tool_inspect broker_observesD)

lemma preserves_validate_postwrite:
  "broker_observes I B \<Longrightarrow> preserves (I \<circ> fst) (validate_postwrite_plan B p)"
  unfolding validate_postwrite_plan_def
  by (intro preserves_intros preserves_plan_current broker_observesD)

lemma preserves_emergency: "broker_observes I B \<Longrightarrow> preserves (I \<circ> fst) (emergency B fs)"
  unfolding emergency_def by (intro preserves_intros broker_observesD)

lemma preserves_broker_stage: "broker_observes I B \<Longrightarrow> preserves (I \<circ> fst) (broker_stage B p st)"
  unfolding broker_stage_def tell_observer_def by (intro preserves_intros broker_observesD)

lemma preserves_audit_failure: "broker_observes I B \<Longrightarrow> preserves (I \<circ> fst) (audit_failure B p e)"
  unfolding audit_failure_def by (intro preserves_intros preserves_emergency)

lemma preserves_audit_completed: "broker_observes I B \<Longrightarrow> preserves (I \<circ> fst) (audit_completed B p out)"
  unfolding audit_completed_def by (intro preserves_intros preserves_emergency)

section \<open>A write through the broker\<close>

lemma broker_checkpoint_valid_grants [simp]:
  "broker_checkpoint_valid p (x\<lparr>bm_grants := g\<rparr>) = broker_checkpoint_valid p x"
  by (simp add: broker_checkpoint_valid_def split: option.splits)

lemma bind_step:
  "m s = (Inr y, s') \<Longrightarrow> bindM m f s = f y s'" "m s = (Inl e, s') \<Longrightarrow> bindM m f s = (Inl e, s')"
  by (simp_all add: bindM_def)

lemma catch_step:
  "m s = (Inr y, s') \<Longrightarrow> catchM m h s = (Inr y, s')" "m s = (Inl e, s') \<Longrightarrow> catchM m h s = h e s'"
  by (simp_all add: catchM_def)

lemma validate_preflight_Inr:
  assumes "validate_preflight_plan B p True (w, x) = (Inr u, (w', x'))"
  shows "x' = x \<and> storage_plan_integrity_valid (ts_codec (br_tools B)) p \<and>
    gate_allowed (evaluate (br_write_gate B) (plan_target_disk p)) \<and> plan_runnable p \<and>
    broker_checkpoint_valid p x \<and>
    (\<exists>w0 w1 now. utc_now (ts_clock (br_tools B)) w0 = (Inr now, w1) \<and> now < plan_expires_at p)"
  using assms unfolding validate_preflight_plan_def plan_current_def
  by (auto simp: bindM_Inr_iff onW_iff getM_iff ret_iff tool_error_iff not_le split: if_splits)

text \<open>The state in which the tools run, once validation and the intent record have passed.\<close>

definition run_ready ::
  "('w, 'a) broker \<Rightarrow> ('a \<Rightarrow> json list) \<Rightarrow> storage_operation_plan \<Rightarrow> storage_authorization_grant
     \<Rightarrow> 'a broker_mem \<Rightarrow> 'a broker_mem \<Rightarrow> bool" where
  "run_ready B records p grant x x1 \<longleftrightarrow>
     storage_plan_integrity_valid (ts_codec (br_tools B)) p \<and>
     gate_allowed (evaluate (br_write_gate B) (plan_target_disk p)) \<and> plan_runnable p \<and>
     broker_checkpoint_valid p x \<and> records (bm_audit x1) = records (bm_audit x) @ [execute_intent p grant] \<and>
     grows records x x1 \<and> bm_emergency x1 = bm_emergency x"

lemma preserves_fstD:
  "preserves (I \<circ> fst) m \<Longrightarrow> m (w, x) = (r, (w', x')) \<Longrightarrow> I w \<Longrightarrow> I w'"
  using preservesD [of "I \<circ> fst" m "(w, x)" r "(w', x')"] by simp

context recording_ledger
begin

text \<open>A run either stops before the tools, with the disk as it was, or goes through them.\<close>

lemma broker_run_cases:
  assumes app: "br_append B = app" and run: "broker_run B p grant (w, x) = (r, (w', x'))"
    and obs: "broker_observes I B" and "I w"
  obtains (stopped) e where "r = Inl e" "I w'" "grows records x x'"
  | (failed) e w1 x1 w2 x2 rf where "run_ready B records p grant x x1" "I w1"
      "tool_execute (br_tools B) (broker_stage B p) p (w1, x1) = (Inl e, (w2, x2))"
      "audit_failure B p e (w2, x2) = (rf, (w', x'))" "r = (case rf of Inl e' \<Rightarrow> Inl e' | Inr u \<Rightarrow> Inl e)"
  | (completed) out w1 x1 w2 x2 where "run_ready B records p grant x x1" "I w1"
      "tool_execute (br_tools B) (broker_stage B p) p (w1, x1) = (Inr out, (w2, x2))"
      "bindM (audit_completed B p out) (\<lambda>_. ret out) (w2, x2) = (r, (w', x'))"
proof -
  let ?reset = "\<lambda>x. x\<lparr>bm_observer_lost := False\<rparr> :: 'a broker_mem"
  consider (invalid) e where "validate_preflight_plan B p True (w, x) = (Inl e, (w', x'))" "r = Inl e"
    | (unaudited) e w1 x1 where "validate_preflight_plan B p True (w, x) = (Inr (), (w1, x1))"
        "audit B (execute_intent p grant) (w1, x1) = (Inl e, (w', x'))" "r = Inl e"
    | (ran) w1 x1 w2 x2 rt w3 x3 where "validate_preflight_plan B p True (w, x) = (Inr (), (w1, x1))"
        "audit B (execute_intent p grant) (w1, x1) = (Inr (), (w2, x2))"
        "tool_execute (br_tools B) (broker_stage B p) p (w2, ?reset x2) = (rt, (w3, x3))"
        "\<And>e. rt = Inl e \<Longrightarrow> \<exists>rf. audit_failure B p e (w3, x3) = (rf, (w', x')) \<and>
           r = (case rf of Inl e' \<Rightarrow> Inl e' | Inr u \<Rightarrow> Inl e)"
        "\<And>out. rt = Inr out \<Longrightarrow> bindM (audit_completed B p out) (\<lambda>_. ret out) (w3, x3) = (r, (w', x'))"
  proof -
    obtain r1 w1 x1 where v: "validate_preflight_plan B p True (w, x) = (r1, (w1, x1))"
      by (metis prod.collapse)
    obtain r2 w2 x2 where au: "audit B (execute_intent p grant) (w1, x1) = (r2, (w2, x2))"
      by (metis prod.collapse)
    obtain rt w3 x3 where t: "tool_execute (br_tools B) (broker_stage B p) p (w2, ?reset x2) = (rt, (w3, x3))"
      by (metis prod.collapse)
    have reset: "onMem (modifyM ?reset) (w2, x2) = (Inr (), (w2, ?reset x2))"
      by (simp add: onMem_def modifyM_def)
    note run' = run [unfolded broker_run_def]
    show thesis
    proof (cases r1)
      case (Inl e)
      then show ?thesis
        using run' v that(1) [of e] by (simp add: bind_step)
    next
      case r1: (Inr u)
      show ?thesis
      proof (cases r2)
        case (Inl e)
        then show ?thesis
          using run' v au r1 that(2) [of w1 x1 e] by (simp add: bind_step)
      next
        case r2: (Inr u2)
        have rest: "bindM (catchM (tool_execute (br_tools B) (broker_stage B p) p)
             (\<lambda>e. bindM (audit_failure B p e) (\<lambda>_. raise e))) (\<lambda>out. bindM (audit_completed B p out) (\<lambda>_. ret out))
             (w2, ?reset x2) = (r, (w', x'))"
          using run' v au reset r1 r2 by (simp add: bind_step)
        have Inl_case: "\<exists>rf. audit_failure B p e (w3, x3) = (rf, (w', x')) \<and>
           r = (case rf of Inl e' \<Rightarrow> Inl e' | Inr u \<Rightarrow> Inl e)" if "rt = Inl e" for e
          using rest t that by (auto simp: bindM_def catchM_def raise_def split: prod.splits sum.splits)
        have Inr_case: "bindM (audit_completed B p out) (\<lambda>_. ret out) (w3, x3) = (r, (w', x'))" if "rt = Inr out" for out
          using rest t that by (simp add: bind_step catch_step)
        show ?thesis
          using that(3) [OF _ _ t Inl_case Inr_case] v au r1 r2 by simp
      qed
    qed
  qed
  then show thesis
  proof cases
    case invalid
    show ?thesis
      by (rule stopped [OF invalid(2) preserves_fstD [OF preserves_validate_preflight [OF obs] invalid(1) \<open>I w\<close>]
            trackedD [OF tracked_validate_preflight invalid(1)]])
  next
    case unaudited
    have "I w1"
      by (rule preserves_fstD [OF preserves_validate_preflight [OF obs] unaudited(1) \<open>I w\<close>])
    then have "I w'"
      by (rule preserves_fstD [OF preserves_audit unaudited(2)])
    with unaudited(3) show ?thesis
      by (rule stopped [OF _ _ grows_trans [OF trackedD [OF tracked_validate_preflight unaudited(1)]
              trackedD [OF tracked_audit [OF app] unaudited(2)]]])
  next
    case ran
    note valid = validate_preflight_Inr [OF ran(1)]
    have "I w1"
      by (rule preserves_fstD [OF preserves_validate_preflight [OF obs] ran(1) \<open>I w\<close>])
    then have "I w2"
      by (rule preserves_fstD [OF preserves_audit ran(2)])
    have ready: "run_ready B records p grant x (?reset x2)"
      using valid audit_Inr [OF app ran(2)] by (auto simp: run_ready_def grows_def)
    show ?thesis
    proof (cases rt)
      case (Inl e)
      obtain rf where rf: "audit_failure B p e (w3, x3) = (rf, (w', x'))"
          "r = (case rf of Inl e' \<Rightarrow> Inl e' | Inr u \<Rightarrow> Inl e)"
        using ran(4) [OF Inl] by (elim exE conjE)
      show ?thesis
        by (rule failed [OF ready \<open>I w2\<close> ran(3) [unfolded Inl] rf])
    next
      case (Inr out)
      show ?thesis
        by (rule completed [OF ready \<open>I w2\<close> ran(3) [unfolded Inr] ran(5) [OF Inr]])
    qed
  qed
qed

text \<open>A run of the tools from a ready state that changes the disk.\<close>

lemma tools_write:
  assumes app: "br_append B = app" and obs: "broker_observes I B" and "I w1" "\<not> I w2"
    and run: "tool_execute (br_tools B) (broker_stage B p) p (w1, x1) = (r, (w2, x2))"
  shows "write_guards (br_tools B) p w1 \<and> plan_operation p \<in> {CREATE, DELETE} \<and> grows records x1 x2 \<and>
    (\<exists>rest. records (bm_audit x2) = records (bm_audit x1) @ stage_event p (write_started p) # rest)"
  using run broker_observesD(1) [OF obs] \<open>I w1\<close> preserves_broker_stage [OF obs]
proof (cases rule: tool_execute_cases)
  case (untouched e)
  then show ?thesis
    using assms(4) by simp
next
  case (refused e wa)
  then show ?thesis
    using assms(4) by simp
next
  case (begun wa wb x3)
  have started: "records (bm_audit x3) = records (bm_audit x1) @ [stage_event p (write_started p)]"
    using broker_stage_Inr [OF app begun(3)] by simp
  have "grows records x3 x2"
    using begun(4) trackedD [OF tracked_broker_stage [OF app]] by (elim disjE exE) simp_all
  then obtain rest where "records (bm_audit x2) = records (bm_audit x3) @ rest"
    unfolding grows_def by (elim conjE exE)
  then have "records (bm_audit x2) = records (bm_audit x1) @ stage_event p (write_started p) # rest"
    using started by simp
  moreover have "grows records x1 x2"
    by (rule trackedD [OF tracked_tool_execute run]) (rule tracked_broker_stage [OF app])
  ultimately show ?thesis
    using begun(1,2) assms(4) by simp
qed

lemma broker_run_writes:
  assumes app: "br_append B = app" and run: "broker_run B p grant (w, x) = (r, (w', x'))"
    and obs: "broker_observes I B" and "I w" "\<not> I w'"
  shows "(\<exists>w1. write_guards (br_tools B) p w1) \<and> plan_operation p \<in> {CREATE, DELETE} \<and>
    (\<exists>x1. run_ready B records p grant x x1) \<and> bm_grants x' = bm_grants x \<and>
    (\<exists>rest. records (bm_audit x') = records (bm_audit x) @ execute_intent p grant # stage_event p (write_started p) # rest)"
proof -
  obtain x1 w1 rt w2 x2 where ready: "run_ready B records p grant x x1" and I: "I w1" "\<not> I w2"
    and tools: "tool_execute (br_tools B) (broker_stage B p) p (w1, x1) = (rt, (w2, x2))"
    and grown: "grows records x2 x'"
    using app run obs \<open>I w\<close>
  proof (cases rule: broker_run_cases)
    case (stopped e)
    then show ?thesis
      using assms(5) by simp
  next
    case (failed e w1 x1 w2 x2 rf)
    have "\<not> I w2"
      using preserves_fstD [OF preserves_audit_failure [OF obs] failed(4)] assms(5) by metis
    with failed(1,2) show ?thesis
      using failed(3) trackedD [OF tracked_audit_failure [OF app] failed(4)] by (rule that)
  next
    case (completed out w1 x1 w2 x2)
    have "preserves (I \<circ> fst) (bindM (audit_completed B p out) (\<lambda>_. ret out))"
      by (intro preserves_intros preserves_audit_completed obs)
    then have "\<not> I w2"
      using completed(4) assms(5) preserves_fstD by metis
    moreover have "tracked records (bindM (audit_completed B p out) (\<lambda>_. ret out))"
      by (intro tracked_intros tracked_audit_completed app)
    from trackedD [OF this completed(4)] have "grows records x2 x'" .
    ultimately show ?thesis
      using completed(1-3) that by simp
  qed
  note written = tools_write [OF app obs I tools]
  obtain rest1 rest2 where "records (bm_audit x2) = records (bm_audit x1) @ stage_event p (write_started p) # rest1"
      "records (bm_audit x') = records (bm_audit x2) @ rest2"
    using written grown unfolding grows_def by (elim conjE exE)
  moreover have "records (bm_audit x1) = records (bm_audit x) @ [execute_intent p grant]"
    using ready by (simp add: run_ready_def)
  ultimately have "records (bm_audit x')
      = records (bm_audit x) @ execute_intent p grant # stage_event p (write_started p) # rest1 @ rest2"
    by simp
  moreover have "bm_grants x' = bm_grants x"
    using ready written grown by (simp add: run_ready_def grows_def)
  ultimately show ?thesis
    using ready written by blast
qed

lemma broker_execute_writes:
  assumes app: "br_append B = app" and run: "broker_execute B p grant (w, x) = (r, (w', x'))"
    and obs: "broker_observes I B" and "I w" "\<not> I w'"
  shows "map_of (bm_grants x) (grant_id grant) = Some grant \<and> (\<exists>now. grant_matches p grant (Some grant) now) \<and>
    map_of (bm_grants x') (grant_id grant) = None \<and>
    (\<exists>w1. write_guards (br_tools B) p w1) \<and> plan_operation p \<in> {CREATE, DELETE} \<and>
    storage_plan_integrity_valid (ts_codec (br_tools B)) p \<and>
    gate_allowed (evaluate (br_write_gate B) (plan_target_disk p)) \<and> plan_runnable p \<and>
    broker_checkpoint_valid p x \<and>
    (\<exists>rest. records (bm_audit x') = records (bm_audit x) @ execute_intent p grant # stage_event p (write_started p) # rest)"
proof -
  let ?x1 = "x\<lparr>bm_grants := dict_del (grant_id grant) (bm_grants x)\<rparr>"
  define w1 where "w1 = (if map_of (bm_grants x) (grant_id grant) = Some grant
     then snd (clk_now (ts_clock (br_tools B)) w) else w)"
  define now where "now = (if map_of (bm_grants x) (grant_id grant) = Some grant
     then fst (clk_now (ts_clock (br_tools B)) w) else 0)"
  have clock: "I w1"
    using preservesD [OF broker_observesD(2) [OF obs] \<open>I w\<close>, of "Inr now" w1] \<open>I w\<close>
    by (auto simp: w1_def now_def utc_now_def split: prod.splits)
  have unfolded: "(if \<not> grant_matches p grant (map_of (bm_grants x) (grant_id grant)) now
     then (Inl (PartitionToolError ''STORAGE_AUTHORIZATION_INVALID''), (w1, ?x1))
     else broker_run B p grant (w1, ?x1)) = (r, (w', x'))"
    using run unfolding broker_execute_def by (auto simp: Let_def w1_def now_def split: prod.splits if_splits)
  then have matches: "grant_matches p grant (map_of (bm_grants x) (grant_id grant)) now"
    and run': "broker_run B p grant (w1, ?x1) = (r, (w', x'))"
    using clock assms(5) by (auto split: if_splits)
  have stored: "map_of (bm_grants x) (grant_id grant) = Some grant"
    using matches by (simp add: grant_matches_def)
  note written = broker_run_writes [OF app run' obs clock assms(5)]
  obtain x2 where "run_ready B records p grant ?x1 x2"
    using written by (elim conjE exE)
  then have ready: "storage_plan_integrity_valid (ts_codec (br_tools B)) p"
    "gate_allowed (evaluate (br_write_gate B) (plan_target_disk p))" "plan_runnable p" "broker_checkpoint_valid p x"
    by (simp_all add: run_ready_def)
  show ?thesis
    using written stored matches ready by auto
qed

end

section \<open>One-use grants\<close>

text \<open>What the engine relies on of an executor: a grant it does not hold is refused, every attempt consumes
  the grant it presents, and no attempt creates one.\<close>

locale one_use_grants =
  fixes execute :: "'p \<Rightarrow> 'g \<Rightarrow> ('s, 'o) prog"
    and grants :: "'s \<Rightarrow> (string \<times> 'g) list"
    and key :: "'g \<Rightarrow> string"
    and refusal :: exc
  assumes unknown_refused: "map_of (grants s) (key g) \<noteq> Some g \<Longrightarrow> fst (execute p g s) = Inl refusal"
    and consumed: "map_of (grants (snd (execute p g s))) (key g) = None"
    and none_created: "map_of (grants s) k = None \<Longrightarrow> map_of (grants (snd (execute p g s))) k = None"
begin

lemma unused_after:
  "map_of (grants s) k = None \<Longrightarrow> map_of (grants (fold (\<lambda>(p, g) s. snd (execute p g s)) attempts s)) k = None"
proof (induction attempts arbitrary: s)
  case (Cons a attempts)
  then show ?case
    using none_created [OF Cons.prems] by (simp add: case_prod_beta)
qed simp

text \<open>Once presented, a grant is refused for good, whatever else is attempted in between.\<close>

lemma replay_refused:
  "fst (execute q g (fold (\<lambda>(p, g) s. snd (execute p g s)) attempts (snd (execute p g s)))) = Inl refusal"
  using unused_after [OF consumed, of attempts p g s] by (intro unknown_refused) simp

end

lemma broker_execute_grants:
  "bm_grants (snd (snd (broker_execute B p g (w, x)))) = dict_del (grant_id g) (bm_grants x)"
proof -
  obtain r w' x' where run: "broker_execute B p g (w, x) = (r, (w', x'))"
    by (metis prod.collapse)
  then show ?thesis
    unfolding broker_execute_def
    by (auto simp: Let_def split: prod.splits if_splits dest!: broker_run_grants)
qed

interpretation broker_grants: one_use_grants "broker_execute B" "\<lambda>s. bm_grants (snd s)" grant_id
    "PartitionToolError ''STORAGE_AUTHORIZATION_INVALID''" for B
proof unfold_locales
  fix s :: "'a \<times> 'b broker_mem" and g p k
  obtain w x where s: "s = (w, x)"
    by (cases s)
  show "fst (broker_execute B p g s) = Inl (PartitionToolError ''STORAGE_AUTHORIZATION_INVALID'')"
    if "map_of (bm_grants (snd s)) (grant_id g) \<noteq> Some g"
    using that s by (simp add: broker_execute_def grant_matches_def)
  show "map_of (bm_grants (snd (snd (broker_execute B p g s)))) (grant_id g) = None"
    by (simp add: s broker_execute_grants)
  show "map_of (bm_grants (snd (snd (broker_execute B p g s)))) k = None" if "map_of (bm_grants (snd s)) k = None"
    using that by (simp add: s broker_execute_grants)
qed

lemma local_execute_grants:
  "lw_grants (snd (snd (local_execute T p g s))) = dict_del (grant_id g) (lw_grants s)"
  by (auto simp: local_execute_def Let_def split: prod.splits)

interpretation local_grants: one_use_grants "\<lambda>p g s. snd (local_execute T p g s)" lw_grants grant_id
    "StorageExecutorError ''STORAGE_AUTHORIZATION_INVALID''" for T
  by unfold_locales (simp add: local_execute_def grant_matches_def, simp_all add: local_execute_grants)

section \<open>Final records\<close>

text \<open>A ledger whose failures are \<open>AuditLedgerError\<close>s, as those of the socket client are.\<close>

definition audit_errors_only :: "(json \<Rightarrow> ('a, audit_receipt) prog) \<Rightarrow> bool" where
  "audit_errors_only app \<longleftrightarrow> (\<forall>r a e a'. app r a = (Inl e, a') \<longrightarrow> is_audit_error e)"

lemma audit_errors_onlyD: "audit_errors_only app \<Longrightarrow> app r a = (Inl e, a') \<Longrightarrow> is_audit_error e"
  unfolding audit_errors_only_def by blast

text \<open>A new entry of the emergency journal for the operation of a plan.\<close>

definition journaled :: "storage_operation_plan \<Rightarrow> json list \<Rightarrow> json list \<Rightarrow> bool" where
  "journaled p old new \<longleftrightarrow>
     (\<exists>j. new = old @ [j] \<and> json_get j ''operation_id'' = Some (JStr (plan_operation_id p)))"

lemma emergency_journals:
  assumes "fs = (''event'', JStr v) # (''operation_id'', JStr (plan_operation_id p)) # (''target_fingerprint'', t) # extra"
    and "set (map fst extra) \<subseteq> {''error_code'', ''after_layout'', ''reconciliation_required''}" "distinct (map fst extra)"
    and "list_all (\<lambda>(k, v). json_ok (\<lambda>_. True) v) extra" "json_ok (\<lambda>_. True) t"
  shows "\<exists>w' x'. emergency B fs (w, x) = (Inr (), (w', x')) \<and> bm_audit x' = bm_audit x \<and>
    journaled p (bm_emergency x) (bm_emergency x')"
proof -
  let ?j = "\<lambda>now. JObj (merge_dicts [(''timestamp'', JInt now)] fs)"
  obtain now w' where clock: "utc_now (ts_clock (br_tools B)) w = (Inr now, w')"
    by (cases "clk_now (ts_clock (br_tools B)) w") (auto simp: utc_now_def)
  have fresh: "fold (\<lambda>(k, v). dict_set k v) extra d = d @ extra"
    if "set (map fst d) \<inter> set (map fst extra) = {}" "distinct (map fst extra)" for d :: "(string \<times> json) list" and extra
    using that
  proof (induction extra arbitrary: d)
    case (Cons e extra)
    then show ?case
      by (cases e) (auto simp: dict_set_fresh)
  qed simp
  have merged: "merge_dicts [(''timestamp'', JInt now)] fs = (''timestamp'', JInt now) # fs"
    unfolding merge_dicts_def using fresh [of "[(''timestamp'', JInt now)]" fs] assms(1-3) by auto
  have ok: "json_ok (\<lambda>_. True) (?j now)"
    unfolding merged using assms by (auto simp: list_all_iff)
  have "json_get (?j now) ''operation_id'' = Some (JStr (plan_operation_id p))"
    unfolding merged by (simp add: assms(1))
  then have "json_get (sort_json (?j now)) ''operation_id'' = Some (JStr (plan_operation_id p))"
    using json_get_sort_json [OF ok, of "''operation_id''"] 
    by (simp del: sort_json.simps(2) json_get.simps)
  then show ?thesis
    using clock by (auto simp: emergency_def bindM_def onW_def onMem_def modifyM_def journaled_def)
qed

context recording_ledger
begin

lemma audit_cases:
  assumes app: "br_append B = app" and "audit B request (w, x) = (r, (w', x'))"
  obtains (recorded) "r = Inr ()" "w' = w" "records (bm_audit x') = records (bm_audit x) @ [request]"
      "bm_emergency x' = bm_emergency x"
  | (refused) e a' where "r = Inl e" "app request (bm_audit x) = (Inl e, a')" "bm_emergency x' = bm_emergency x"
  using assms(2)
  by (auto simp: audit_def onMem_def Let_def app dest: app_success split: prod.splits sum.splits)

lemma audit_failure_final:
  assumes app: "br_append B = app" and errors: "audit_errors_only app"
    and run: "audit_failure B p e (w, x) = (r, (w', x'))"
  shows "r = Inr () \<and> (last (records (bm_audit x')) = failed_event p e \<and> bm_emergency x' = bm_emergency x \<or>
    journaled p (bm_emergency x) (bm_emergency x'))"
proof -
  obtain r1 w1 x1 where a: "audit B (failed_event p e) (w, x) = (r1, (w1, x1))"
    by (metis prod.collapse)
  from app a show ?thesis
  proof (cases rule: audit_cases)
    case recorded
    then show ?thesis
      using run a by (simp add: audit_failure_def catch_step)
  next
    case (refused e' a')
    obtain w2 x2 where j: "emergency B [(''event'', JStr ''storage.transaction.failed''),
            (''operation_id'', JStr (plan_operation_id p)), (''target_fingerprint'', target_fingerprint_of p),
            (''error_code'', JStr (safe_code e))] (w1, x1) = (Inr (), (w2, x2))"
        "journaled p (bm_emergency x1) (bm_emergency x2)"
      using emergency_journals [OF refl, where extra = "[(''error_code'', JStr (safe_code e))]"
          and t = "target_fingerprint_of p" and B = B and p = p and w = w1 and x = x1
          and v = "''storage.transaction.failed''"] by (auto simp: target_fingerprint_of_def)
    then show ?thesis
      using run a refused audit_errors_onlyD [OF errors refused(2)] by (simp add: audit_failure_def catch_step)
  qed
qed

lemma audit_completed_final:
  assumes app: "br_append B = app" and errors: "audit_errors_only app"
    and run: "audit_completed B p out (w, x) = (r, (w', x'))"
  shows "r = Inr () \<and> (\<exists>lost. last (records (bm_audit x')) = completed_event p out lost) \<and>
      bm_emergency x' = bm_emergency x \<or>
    r = Inl (PartitionToolError ''STORAGE_RECONCILIATION_REQUIRED'') \<and>
      journaled p (bm_emergency x) (bm_emergency x')"
proof -
  obtain r1 w1 x1 where a: "audit B (completed_event p out (bm_observer_lost x)) (w, x) = (r1, (w1, x1))"
    by (metis prod.collapse)
  from app a show ?thesis
  proof (cases rule: audit_cases)
    case recorded
    then show ?thesis
      using run a by (auto simp: audit_completed_def bindM_def getM_def catch_step)
  next
    case (refused e' a')
    obtain w2 x2 where j: "emergency B [(''event'', JStr ''storage.transaction.completed''),
            (''operation_id'', JStr (plan_operation_id p)), (''target_fingerprint'', target_fingerprint_of p),
            (''after_layout'', table_fingerprint_of (out_after out)),
            (''reconciliation_required'', JBool True)] (w1, x1) = (Inr (), (w2, x2))"
        "journaled p (bm_emergency x1) (bm_emergency x2)"
      using emergency_journals [OF refl, where extra = "[(''after_layout'', table_fingerprint_of (out_after out)),
            (''reconciliation_required'', JBool True)]" and t = "target_fingerprint_of p" and B = B and p = p
          and w = w1 and x = x1 and v = "''storage.transaction.completed''"]
      by (auto simp: target_fingerprint_of_def table_fingerprint_of_def)
    then show ?thesis
      using run a refused audit_errors_onlyD [OF errors refused(2)]
      by (simp add: audit_completed_def bindM_def getM_def catch_step tool_error_def raise_def)
  qed
qed

lemma broker_stage_emergency:
  "br_append B = app \<Longrightarrow> preserves (\<lambda>s. bm_emergency (snd s) = j) (broker_stage B p st)"
proof -
  have "preserves (\<lambda>s. bm_emergency (snd s) = j) (tell_observer B st)"
    unfolding preserves_def tell_observer_def
    by (auto simp: bindM_def catchM_def getM_def ret_def raise_def onW_def onMem_def modifyM_def
        split: if_splits prod.splits sum.splits)
  moreover have "preserves (\<lambda>s. bm_emergency (snd s) = j) (audit B r)" for r
    by (auto simp: preserves_def audit_def onMem_def Let_def split: prod.splits)
  ultimately show ?thesis
    unfolding broker_stage_def by (intro preserves_intros)
qed

lemma tool_execute_emergency:
  assumes "br_append B = app" "tool_execute (br_tools B) (broker_stage B p) p (w, x) = (r, (w', x'))"
  shows "bm_emergency x' = bm_emergency x"
proof -
  have onW: "preserves (\<lambda>s. bm_emergency (snd s) = j) (onW m)" for j m
    by (auto simp: preserves_def onW_def split: prod.splits)
  have "preserves (\<lambda>s. bm_emergency (snd s) = bm_emergency x) (tool_execute (br_tools B) (broker_stage B p) p)"
    unfolding tool_execute_def write_and_verify_def Let_def
    by (intro preserves_intros onW broker_stage_emergency assms(1))
  from preservesD [OF this _ assms(2)] show ?thesis
    by simp
qed

text \<open>How a run that changed the disk is on record.\<close>

lemma broker_run_final:
  assumes app: "br_append B = app" and errors: "audit_errors_only app"
    and run: "broker_run B p grant (w, x) = (r, (w', x'))"
    and obs: "broker_observes I B" and "I w" "\<not> I w'"
  shows "(\<exists>out lost. r = Inr out \<and> last (records (bm_audit x')) = completed_event p out lost) \<or>
    (\<exists>e. r = Inl e \<and> last (records (bm_audit x')) = failed_event p e) \<or>
    (\<exists>e. r = Inl e \<and> journaled p (bm_emergency x) (bm_emergency x'))"
proof -
  have keep: "bm_emergency x1 = bm_emergency x" if "run_ready B records p grant x x1" for x1
    using that by (simp add: run_ready_def)
  show ?thesis
    using app run obs \<open>I w\<close>
  proof (cases rule: broker_run_cases)
    case (stopped e)
    then show ?thesis
      using assms(6) by simp
  next
    case (failed e w1 x1 w2 x2 rf)
    then show ?thesis
      using audit_failure_final [OF app errors failed(4)] tool_execute_emergency [OF app failed(3)] keep by auto
  next
    case (completed out w1 x1 w2 x2)
    obtain rc w3 x3 where c: "audit_completed B p out (w2, x2) = (rc, (w3, x3))"
      by (metis prod.collapse)
    show ?thesis
      using audit_completed_final [OF app errors c] tool_execute_emergency [OF app completed(3)] keep [OF completed(1)]
        completed(4) c by (cases rc) (auto simp: bindM_def ret_def)
  qed
qed

end

section \<open>Where grants come from\<close>

definition keeps_mem :: "('w \<times> 'a broker_mem, 'b) prog \<Rightarrow> bool" where
  "keeps_mem m \<longleftrightarrow> (\<forall>w x r w' x'. m (w, x) = (r, (w', x')) \<longrightarrow>
     bm_grants x' = bm_grants x \<and> bm_checkpoints x' = bm_checkpoints x \<and> bm_store x' = bm_store x)"

lemma keeps_mem_tracked: "tracked records m \<Longrightarrow> keeps_mem m"
  using trackedD by (fastforce simp: keeps_mem_def grows_def)

lemma keeps_mem_validate: "keeps_mem (validate_preflight_plan B p c)"
  by (rule keeps_mem_tracked [OF tracked_validate_preflight])

lemma keeps_mem_audit: "keeps_mem (audit B r)"
  by (rule keeps_mem_tracked [OF tracked_nothing])

lemma keeps_mem_onW: "keeps_mem (onW m)"
  by (rule keeps_mem_tracked [OF tracked_onW])

lemma keeps_mem_ask_consent: "keeps_mem (ask_consent B p)"
  unfolding ask_consent_def
  by (rule keeps_mem_tracked, intro tracked_bindM tracked_catchM tracked_onW)
    (auto split: option.split json.split exc.split intro!: tracked_intros)

text \<open>A step that keeps the grants is not the one that changed them.\<close>

lemma changed_later:
  assumes "bindM m f (w, x) = (r, (w', x'))" "keeps_mem m" "bm_grants x' \<noteq> bm_grants x"
  obtains y w1 x1 where "m (w, x) = (Inr y, (w1, x1))" "f y (w1, x1) = (r, (w', x'))"
    "bm_grants x1 = bm_grants x" "bm_checkpoints x1 = bm_checkpoints x" "bm_store x1 = bm_store x"
proof -
  obtain r1 w1 x1 where m: "m (w, x) = (r1, (w1, x1))"
    by (metis prod.collapse)
  have keep: "bm_grants x1 = bm_grants x" "bm_checkpoints x1 = bm_checkpoints x" "bm_store x1 = bm_store x"
    using assms(2) m unfolding keeps_mem_def by auto
  show thesis
    using assms(1,3) m keep that by (cases r1) (auto simp: bindM_def)
qed

lemma preserves_grant_access: "broker_observes I B \<Longrightarrow> preserves (I \<circ> fst) (grant_access B p c u)"
  unfolding grant_access_def grant_issue_def grant_audited_def Let_def
  by (intro preserves_intros preserves_validate_preflight broker_observesD)

lemma ask_consent_Inr:
  assumes "ask_consent B p (w, x) = (Inr (cid, d), (w', x'))"
  shows "\<exists>challenge w1 w2. br_request_storage B p w = (Inr challenge, w1) \<and>
    json_get challenge ''challenge_id'' = Some (JStr cid) \<and>
    br_send B (JObj [(''type'', JStr ''authorization_requested''), (''challenge_id'', JStr cid)]) w1 = (Inr (), w2) \<and>
    br_wait B cid w2 = (Inr d, w')"
proof -
  have handler: "(case e of RuntimeError _ \<Rightarrow> tool_error ''STORAGE_AUTHORIZATION_FAILED'' | _ \<Rightarrow> raise e) s
      \<noteq> (Inr y, s')" for e :: exc and s s' :: "'a \<times> 'b broker_mem" and y :: "string \<times> json"
    by (simp add: tool_error_def raise_def split: exc.splits)
  obtain challenge w1 where "br_request_storage B p w = (Inr challenge, w1)"
    "(case json_get challenge ''challenge_id'' of
         Some (JStr challenge_id) \<Rightarrow>
           bindM (onW (br_send B (JObj [(''type'', JStr ''authorization_requested''),
             (''challenge_id'', JStr challenge_id)]))) (\<lambda>_.
           bindM (onW (br_wait B challenge_id)) (\<lambda>decision.
           ret (challenge_id, decision)))
       | _ \<Rightarrow> tool_error ''STORAGE_AUTHORIZATION_FAILED'') (w1, x) = (Inr (cid, d), (w', x'))"
    using assms handler unfolding ask_consent_def catchM_Inr_iff bindM_Inr_iff by (auto simp: onW_iff)
  then show ?thesis
    by (auto simp: bindM_Inr_iff onW_iff ret_iff tool_error_iff split: option.splits json.splits)
qed

lemma always_observed: "broker_observes (\<lambda>_. True) B"
  by (simp add: broker_observes_def observes_def preserves_def)

lemma grant_access_grants:
  assumes "grant_access B p cid uid (w, x) = (r, (w', x'))"
  shows "(\<exists>gid now. bm_grants x' = dict_set gid (new_grant p gid cid uid now) (bm_grants x)) \<or>
    bm_grants x' = bm_grants x"
proof (rule disjCI)
  assume changed: "bm_grants x' \<noteq> bm_grants x"
  note run = assms [unfolded grant_access_def Let_def]
  obtain y w1 x1 where 1: "bindM (onW (uuid4_hex (ts_clock (br_tools B)))) (\<lambda>gid. grant_issue B p cid uid gid)
      (w1, x1) = (r, (w', x'))" and k1: "bm_grants x1 = bm_grants x"
    using run keeps_mem_validate changed by (rule changed_later)
  obtain gid w2 x2 where 2: "grant_issue B p cid uid gid (w2, x2) = (r, (w', x'))"
    and k2: "bm_grants x2 = bm_grants x"
    by (rule changed_later [OF 1 keeps_mem_onW]) (use changed k1 that in simp_all)
  obtain now w3 x3 where 3: "bindM (onMem (modifyM (\<lambda>x. x\<lparr>bm_grants := dict_set gid (new_grant p gid cid uid now) (bm_grants x)\<rparr>)))
      (\<lambda>_. grant_audited B p (new_grant p gid cid uid now)) (w3, x3) = (r, (w', x'))"
    and k3: "bm_grants x3 = bm_grants x"
    by (rule changed_later [OF 2 [unfolded grant_issue_def Let_def] keeps_mem_onW]) (use changed k2 that in simp_all)
  then have "grant_audited B p (new_grant p gid cid uid now)
      (w3, x3\<lparr>bm_grants := dict_set gid (new_grant p gid cid uid now) (bm_grants x3)\<rparr>) = (r, (w', x'))"
    by (simp add: bindM_def onMem_def modifyM_def)
  moreover have "keeps_mem (grant_audited B p g)" for g
    unfolding grant_audited_def by (rule keeps_mem_tracked, rule tracked_bindM, rule tracked_nothing, rule tracked_pure)
  ultimately have "bm_grants x' = dict_set gid (new_grant p gid cid uid now) (bm_grants x3)"
    unfolding keeps_mem_def by fastforce
  then show "\<exists>gid now. bm_grants x' = dict_set gid (new_grant p gid cid uid now) (bm_grants x)"
    using k3 by auto
qed

text \<open>How a new grant was obtained: the exchange with the consent process it rests on, in which an observation
  that the broker keeps still held, and from which it is kept to the end of the request.\<close>

lemma broker_authorize_grants:
  assumes "broker_authorize B p (w, x) = (r, (w', x'))" and changed: "bm_grants x' \<noteq> bm_grants x"
    and obs: "broker_observes I B" and "I w"
  shows "\<exists>cid d wa wb gid uid now challenge wr wc. I wr \<and> br_request_storage B p wr = (Inr challenge, wc) \<and>
    json_get challenge ''challenge_id'' = Some (JStr cid) \<and>
    br_send B (JObj [(''type'', JStr ''authorization_requested''), (''challenge_id'', JStr cid)]) wc = (Inr (), wa) \<and>
    br_wait B cid wa = (Inr d, wb) \<and> (\<forall>J. broker_observes J B \<longrightarrow> J wb \<longrightarrow> J w') \<and>
    json_get d ''decision'' = Some (JStr ''approved'') \<and> json_int (json_get d ''operator_uid'') = Some uid \<and> 0 \<le> uid \<and>
    bm_grants x' = dict_set gid (new_grant p gid cid uid now) (bm_grants x) \<and>
    storage_plan_integrity_valid (ts_codec (br_tools B)) p \<and>
    gate_allowed (evaluate (br_write_gate B) (plan_target_disk p)) \<and> plan_runnable p \<and>
    broker_checkpoint_valid p x"
proof -
  let ?T = "br_tools B"
  note run = assms(1) [unfolded broker_authorize_def Let_def]
  obtain u w1 x1 where 1: "validate_preflight_plan B p True (w, x) = (Inr u, (w1, x1))"
    and r1: "bindM (audit B (plan_event p ''storage.authorization.intent'' (audit_plan p))) (\<lambda>_.
      bindM (ask_consent B p) (\<lambda>(challenge_id, decision).
      if json_get decision ''decision'' \<noteq> Some (JStr ''approved'')
      then tool_error ''STORAGE_AUTHORIZATION_DENIED''
      else case json_int (json_get decision ''operator_uid'') of
        None \<Rightarrow> tool_error ''STORAGE_AUTHORIZATION_INVALID''
      | Some operator_uid \<Rightarrow>
      if operator_uid < 0 then tool_error ''STORAGE_AUTHORIZATION_INVALID''
      else grant_access B p challenge_id operator_uid)) (w1, x1) = (r, (w', x'))"
    and k1: "bm_grants x1 = bm_grants x"
    using run keeps_mem_validate changed by (rule changed_later)
  obtain v w2 x2 where a2: "audit B (plan_event p ''storage.authorization.intent'' (audit_plan p)) (w1, x1) = (Inr v, (w2, x2))"
    and 2: "bindM (ask_consent B p) (\<lambda>(challenge_id, decision).
      if json_get decision ''decision'' \<noteq> Some (JStr ''approved'')
      then tool_error ''STORAGE_AUTHORIZATION_DENIED''
      else case json_int (json_get decision ''operator_uid'') of
        None \<Rightarrow> tool_error ''STORAGE_AUTHORIZATION_INVALID''
      | Some operator_uid \<Rightarrow>
      if operator_uid < 0 then tool_error ''STORAGE_AUTHORIZATION_INVALID''
      else grant_access B p challenge_id operator_uid) (w2, x2) = (r, (w', x'))"
    and k2: "bm_grants x2 = bm_grants x"
    by (rule changed_later [OF r1 keeps_mem_audit]) (use changed k1 that in simp_all)
  obtain c d w3 x3 where 3: "ask_consent B p (w2, x2) = (Inr (c, d), (w3, x3))"
    and r3: "(if json_get d ''decision'' \<noteq> Some (JStr ''approved'')
      then tool_error ''STORAGE_AUTHORIZATION_DENIED''
      else case json_int (json_get d ''operator_uid'') of
        None \<Rightarrow> tool_error ''STORAGE_AUTHORIZATION_INVALID''
      | Some operator_uid \<Rightarrow>
      if operator_uid < 0 then tool_error ''STORAGE_AUTHORIZATION_INVALID''
      else grant_access B p c operator_uid) (w3, x3) = (r, (w', x'))"
    and k3: "bm_grants x3 = bm_grants x"
    by (rule changed_later [OF 2 keeps_mem_ask_consent]) (use changed k2 that in \<open>auto split: prod.splits\<close>)
  obtain uid where uid: "json_get d ''decision'' = Some (JStr ''approved'')"
      "json_int (json_get d ''operator_uid'') = Some uid" "0 \<le> uid" "grant_access B p c uid (w3, x3) = (r, (w', x'))"
    using r3 changed k3 by (auto simp: tool_error_iff split: if_splits option.splits)
  obtain gid now where "bm_grants x' = dict_set gid (new_grant p gid c uid now) (bm_grants x)"
    using grant_access_grants [OF uid(4)] changed k3 by auto
  moreover have "storage_plan_integrity_valid (ts_codec (br_tools B)) p"
    "gate_allowed (evaluate (br_write_gate B) (plan_target_disk p))" "plan_runnable p" "broker_checkpoint_valid p x"
    using validate_preflight_Inr [OF 1] by simp_all
  moreover have "I w1"
    by (rule preserves_fstD [OF preserves_validate_preflight [OF obs] 1 \<open>I w\<close>])
  then have "I w2"
    by (rule preserves_fstD [OF preserves_audit a2])
  moreover have "J w'" if "broker_observes J B" "J w3" for J
    by (rule preserves_fstD [OF preserves_grant_access [OF that(1)] uid(4) that(2)])
  ultimately show ?thesis
    using ask_consent_Inr [OF 3] uid(1-3)
    by (elim exE conjE, intro exI conjI allI impI) assumption+
qed

end
