(* ===== verification/Broker_Theorems.thy ===== *)
theory Broker_Theorems
  imports Broker_Guards Sample_Tools
begin

text \<open>The theorems about the storage broker, for any ledger that records what it acknowledges, each with its
  application to a broker over one disk image and the in-memory ledger.\<close>

section \<open>Requests and the disk\<close>

lemma preserves_mapM [preserves_intros]: "preserves I m \<Longrightarrow> preserves I (mapM f m)"
  unfolding mapM_def by (intro preserves_intros)







lemma mapM_iff: "mapM f m s = (r, s') \<longleftrightarrow> (\<exists>r1. m s = (r1, s') \<and> r = (case r1 of Inl e \<Rightarrow> Inl e | Inr y \<Rightarrow> Inr (f y)))"
  by (auto simp: mapM_def bindM_def ret_def split: prod.splits sum.splits)

lemma dispatch_execute_iff:
  "broker_dispatch B (Req_execute (Some p) (Some g)) uid s = (r, s') \<longleftrightarrow>
     (if uid \<in> set (br_allowed_client_uids B)
      then \<exists>r1. broker_execute B p g s = (r1, s') \<and> r = (case r1 of Inl e \<Rightarrow> Inl e | Inr y \<Rightarrow> Inr (Rep_outcome y))
      else r = Inl (PermissionError ''broker client not authorized'') \<and> s' = s)"
  by (auto simp: broker_dispatch_def validated_def mapM_iff raise_def)



section \<open>Requests and the grants\<close>

text \<open>What a request, whatever it is, leaves under the name of a grant that was not there before.\<close>

lemma keeps_mem_mapM: "keeps_mem m \<Longrightarrow> keeps_mem (mapM f m)"
  unfolding keeps_mem_def by (auto simp: mapM_iff)

lemma keeps_mem_raise: "keeps_mem (raise e)" "keeps_mem (tool_error c)" "keeps_mem (ret y)"
  by (auto simp: keeps_mem_def prog_eval tool_error_def)

lemma keeps_mem_bindM: "keeps_mem m \<Longrightarrow> (\<And>y. keeps_mem (f y)) \<Longrightarrow> keeps_mem (bindM m f)"
  unfolding keeps_mem_def by (auto simp: bindM_def split: prod.splits sum.splits)

lemma keeps_mem_checkpoint: "keeps_mem (broker_checkpoint B p)"
  unfolding broker_checkpoint_def Let_def
  by (intro keeps_mem_bindM keeps_mem_validate keeps_mem_onW keeps_mem_audit keeps_mem_raise)

lemma keeps_mem_verify: "keeps_mem (broker_verify B p)"
proof -
  have "keeps_mem (validate_postwrite_plan B p)"
    unfolding validate_postwrite_plan_def plan_current_def by (rule keeps_mem_tracked, intro tracked_intros)
  then show ?thesis
    unfolding broker_verify_def by (intro keeps_mem_bindM keeps_mem_onW keeps_mem_audit keeps_mem_raise)
qed

lemma keeps_mem_validated: "(\<And>p. keeps_mem (f p)) \<Longrightarrow> keeps_mem (validated v f)"
  by (cases v) (simp_all add: validated_def keeps_mem_raise)

lemma keeps_mem_dispatch:
  assumes "\<And>p. req \<noteq> Req_authorize (Some p)" "\<And>p g. req \<noteq> Req_execute (Some p) (Some g)"
  shows "keeps_mem (broker_dispatch B req uid)"
proof (cases req)
  case (Req_execute v g)
  then have "v = None \<or> g = None"
    using assms(2) by (cases v; cases g) auto
  then show ?thesis
    using Req_execute by (auto simp: broker_dispatch_def validated_def keeps_mem_raise split: option.split)
next
  case (Req_authorize v)
  then have "v = None"
    using assms(1) by (cases v) auto
  then show ?thesis
    using Req_authorize by (simp add: broker_dispatch_def validated_def keeps_mem_raise)
qed (auto simp: broker_dispatch_def keeps_mem_raise split: option.split intro!: keeps_mem_mapM keeps_mem_onW
    keeps_mem_validated keeps_mem_bindM keeps_mem_validate keeps_mem_checkpoint keeps_mem_verify)

lemma broker_execute_no_new_grant:
  assumes "broker_execute B p g (w, x) = (r, (w', x'))" "map_of (bm_grants x') k = Some h"
  shows "map_of (bm_grants x) k = Some h"
proof -
  let ?x = "x\<lparr>bm_grants := dict_del (grant_id g) (bm_grants x)\<rparr>"
  have "bm_grants x' = bm_grants ?x"
    using assms(1) broker_run_grants unfolding broker_execute_def
    by (fastforce simp: Let_def split: if_splits prod.splits)
  then show ?thesis
    using assms(2) by (simp add: split: if_splits)
qed

lemma new_grant_authorized:
  assumes "broker_dispatch B req uid (w, x) = (r, (w', x'))"
    and "map_of (bm_grants x') k = Some g" "map_of (bm_grants x) k \<noteq> Some g"
  obtains p r1 where "req = Req_authorize (Some p)" "uid \<in> set (br_allowed_client_uids B)"
    "broker_authorize B p (w, x) = (r1, (w', x'))"
proof -
  have changed: "bm_grants x' \<noteq> bm_grants x"
    using assms(2,3) by auto
  obtain p where req: "req = Req_authorize (Some p)"
  proof (cases "(\<exists>p. req = Req_authorize (Some p)) \<or> (\<exists>p g. req = Req_execute (Some p) (Some g))")
    case True
    moreover have "req \<noteq> Req_execute (Some p) (Some h)" for p h
      using assms broker_execute_no_new_grant by (fastforce simp: dispatch_execute_iff split: if_splits)
    ultimately show ?thesis
      using that by blast
  next
    case False
    then have "keeps_mem (broker_dispatch B req uid)"
      using keeps_mem_dispatch by blast
    then show ?thesis
      using assms(1) changed unfolding keeps_mem_def by blast
  qed
  have uid: "uid \<in> set (br_allowed_client_uids B)"
    using assms(1) changed by (auto simp: req broker_dispatch_def raise_def split: if_splits)
  obtain r1 where run: "broker_authorize B p (w, x) = (r1, (w', x'))"
    using assms(1) uid by (auto simp: req broker_dispatch_def validated_def mapM_iff)
  show thesis
    using req uid run by (rule that)
qed

section \<open>A concrete broker\<close>

definition memory_codec :: ledger_codec where
  "memory_codec = \<lparr>lc_print = (\<lambda>_. ''{}''), lc_loads = (\<lambda>_. None), lc_hmac = (\<lambda>_ m. m), lc_sha256 = (\<lambda>s. s)\<rparr>"

definition tag_artifact :: partition_table_checkpoint_artifact where
  "tag_artifact = \<lparr>art_checkpoint_id = ''checkpoint-1'', art_operation_id = ''operation-1'',
     art_target_fingerprint_sha256 = ''{}'', art_partition_table_fingerprint_sha256 = zeros64,
     art_dump_sha256 = '''', art_sfdisk_dump = '''', art_created_at = 0\<rparr>"

definition tag_checkpoint :: protection_checkpoint where
  "tag_checkpoint = (table_checkpoint tag_codec (tag_plan CREATE) tag_artifact 0 [])"

definition tag_ready_plan :: storage_operation_plan where
  "tag_ready_plan = seal_plan tag_codec ((tag_plan CREATE)\<lparr>plan_protection_checkpoint := Some tag_checkpoint,
     plan_dry_run := Some \<lparr>dry_tool = ''sfdisk'', dry_original_layout_sha256 = '''',
       dry_proposed_layout_sha256 = '''', dry_script_sha256 = '''', dry_exit_code = 0, dry_valid = True,
       dry_warnings = []\<rparr>\<rparr>)"

definition tag_broker :: "(tag_world, json list) broker" where
  "tag_broker = \<lparr>br_tools = tag_tools, br_append = memory_append memory_codec,
     br_request_storage = (\<lambda>_ w. (Inr (JObj [(''challenge_id'', JStr ''challenge-1'')]), w)),
     br_wait = (\<lambda>_ w. (Inr (JObj [(''decision'', JStr ''approved''), (''operator_uid'', JInt 1000)]), w)),
     br_send = (\<lambda>_ w. (Inr (), w)), br_write_gate = sample_gate, br_allowed_client_uids = [990]\<rparr>"

definition tag_mem :: "json list broker_mem" where
  "tag_mem = \<lparr>bm_audit = [], bm_grants = [], bm_checkpoints = [(''checkpoint-1'', tag_checkpoint)],
     bm_store = \<lparr>st_plans = [], st_transactions = [], st_verifications = [],
       st_checkpoints = [(''checkpoint-1'', tag_artifact)]\<rparr>, bm_emergency = [], bm_observer_lost = False\<rparr>"



definition broker_view ::
  "(exc + broker_reply) \<times> tag_world \<times> json list broker_mem \<Rightarrow> bool \<times> string \<times> nat \<times> string list" where
  "broker_view r = (case r of (res, (w, x)) \<Rightarrow> (isl res, snd w, length (bm_audit x), map fst (bm_grants x)))"




lemma tag_authorize_view:
  "broker_view (broker_dispatch tag_broker (Req_authorize (Some tag_ready_plan)) 990 ((0, ''before''), tag_mem))
     = (False, ''before'', 2, [''00000006''])"
  by code_simp




section \<open>Theorems\<close>



text \<open>C22 (safety): Grants are used once. Once an execution has presented a grant to the broker, whatever its
  outcome, and whatever executions are attempted after it, presenting the same grant again, with any plan,
  is refused as an invalid authorization.\<close>

theorem broker_grants_are_one_use:
  "fst (broker_execute B q g (fold (\<lambda>(p, g) s. snd (broker_execute B p g s)) attempts (snd (broker_execute B p g s))))
     = Inl (PartitionToolError ''STORAGE_AUTHORIZATION_INVALID'')"
  by (rule broker_grants.replay_refused)



text \<open>C24 (safety): Where grants come from. A grant that the broker holds after a request and did not hold
  before was made by an authorization request of an allowed caller: the consent process answered the
  challenge named in the grant with an approval by an operator, the grant is bound to the plan, the target
  and the session, expires with the plan or within five minutes, and the plan was sealed, runnable,
  admitted by the write gate and had its durable checkpoint.\<close>

theorem broker_grants_require_consent:
  assumes "broker_dispatch B req uid (w, x) = (r, (w', x'))"
    and "map_of (bm_grants x') k = Some g" "map_of (bm_grants x) k \<noteq> Some g"
  shows "\<exists>p cid operator now d wa wb. req = Req_authorize (Some p) \<and> uid \<in> set (br_allowed_client_uids B) \<and>
    g = new_grant p k cid operator now \<and> 0 \<le> operator \<and> br_wait B cid wa = (Inr d, wb) \<and>
    json_get d ''decision'' = Some (JStr ''approved'') \<and> json_int (json_get d ''operator_uid'') = Some operator \<and>
    storage_plan_integrity_valid (ts_codec (br_tools B)) p \<and>
    gate_allowed (evaluate (br_write_gate B) (plan_target_disk p)) \<and> plan_runnable p \<and> broker_checkpoint_valid p x"
proof -
  have changed: "bm_grants x' \<noteq> bm_grants x"
    using assms(2,3) by auto
  obtain p r1 where req: "req = Req_authorize (Some p)" and uid: "uid \<in> set (br_allowed_client_uids B)"
    and run: "broker_authorize B p (w, x) = (r1, (w', x'))"
    using assms by (rule new_grant_authorized)
  from broker_authorize_grants [OF run changed always_observed TrueI] obtain cid d wa wb gid operator now challenge wr wc where
    auth: "br_wait B cid wa = (Inr d, wb)" "json_get d ''decision'' = Some (JStr ''approved'')"
      "json_int (json_get d ''operator_uid'') = Some operator" "0 \<le> operator"
      "bm_grants x' = dict_set gid (new_grant p gid cid operator now) (bm_grants x)"
      "storage_plan_integrity_valid (ts_codec (br_tools B)) p"
      "gate_allowed (evaluate (br_write_gate B) (plan_target_disk p))" "plan_runnable p" "broker_checkpoint_valid p x"
    by (elim exE conjE)
  have "k = gid \<and> g = new_grant p gid cid operator now"
    using assms(2,3) auth(5) by (auto split: if_splits)
  then show ?thesis
    using req uid auth by (intro exI [of _ p] exI [of _ cid] exI [of _ operator] exI [of _ now] exI [of _ d]
        exI [of _ wa] exI [of _ wb]) simp
qed

theorem broker_grants_require_consent_witness:
  "\<exists>g w' x' r. broker_dispatch tag_broker (Req_authorize (Some tag_ready_plan)) 990 ((0, ''before''), tag_mem)
      = (r, (w', x')) \<and> map_of (bm_grants x') ''00000006'' = Some g \<and>
    (\<exists>cid operator now. g = new_grant tag_ready_plan ''00000006'' cid operator now)"
proof -
  obtain r w' x' where run: "broker_dispatch tag_broker (Req_authorize (Some tag_ready_plan)) 990
      ((0, ''before''), tag_mem) = (r, (w', x'))"
    by (metis prod.collapse)
  then have "map fst (bm_grants x') = [''00000006'']"
    using tag_authorize_view by (simp add: broker_view_def)
  then obtain g where g: "map_of (bm_grants x') ''00000006'' = Some g"
    by auto
  moreover have "map_of (bm_grants tag_mem) ''00000006'' \<noteq> Some g"
    by (simp add: tag_mem_def)
  ultimately show ?thesis
    using broker_grants_require_consent [OF run g] run by auto
qed

text \<open>The record of the completed table write names no target: the stage has no fingerprint of its own, and the
  missing value replaces the one of the plan.\<close>

lemma write_completed_record_has_no_target:
  "stage_event p (write_completed p code) = plan_event p ''storage.partition-table.write.completed''
     [(''target_fingerprint'', JNull), (''operation'', JStr (operation_value (plan_operation p))),
      (''exit_code'', JInt code), (''kernel_reread'', JNull)]"
  by (simp add: stage_event_def write_completed_def sanitize_stage_def merge_dicts_def)

end
