(* ===== verification/Backup_Models.thy ===== *)
theory Backup_Models
  imports Prelude
begin

text \<open>
  The data contracts of \<^verbatim>\<open>backup/models.py\<close> that plans, manifests and verifications of backups use: one
  datatype per enumeration, one record per Pydantic model. Times are microseconds; a duration that the
  code only passes on is an integer.
\<close>

datatype backup_status =
    BK_PLANNED | BK_VALIDATING | BK_RUNNING | BK_VERIFYING | BK_COMPLETED | BK_FAILED | BK_CANCELLED | BK_CORRUPTED

datatype backup_verification_status = BV_NOT_RUN | BV_RUNNING | BV_VERIFIED | BV_FAILED | BV_CORRUPTED

datatype backup_destination_kind = Local_filesystem | Mounted_external_disk | Usb_storage

datatype backup_entry_type = Entry_file | Entry_directory

record backup_source =
  bs_path :: string
  bs_device_id :: string
  bs_physical_device_id :: "string option"
  bs_mount_point :: string
  bs_filesystem_type :: string
  bs_estimated_size_bytes :: int
  bs_estimated_file_count :: int
  bs_estimated_directory_count :: int

record backup_destination =
  bd_root_path :: string
  bd_backup_path :: string
  bd_device_id :: string
  bd_physical_device_id :: "string option"
  bd_mount_point :: string
  bd_filesystem_type :: string
  bd_kind :: backup_destination_kind
  bd_available_bytes :: int

record backup_exclusion =
  bx_relative_path :: string
  bx_reason :: string

record backup_policy =
  bpol_overwrite :: bool
  bpol_follow_symlinks :: bool
  bpol_allow_same_filesystem :: bool
  bpol_cross_filesystems :: bool
  bpol_checksum_algorithm :: string
  bpol_excluded_names :: "string list"

record backup_plan =
  bp_id :: string
  bp_backup_id :: string
  bp_version :: string
  bp_created_at :: int
  bp_expires_at :: int
  bp_source :: backup_source
  bp_destination :: backup_destination
  bp_policy :: backup_policy
  bp_required_bytes :: int
  bp_included_file_count :: int
  bp_included_directory_count :: int
  bp_exclusions :: "backup_exclusion list"
  bp_risk :: string
  bp_estimated_duration_seconds :: "int option"
  bp_authorization_required :: bool
  bp_fingerprint_sha256 :: string

record backup_entry =
  be_relative_path :: string
  be_size_bytes :: int
  be_mtime_ns :: int
  be_mode :: int
  be_entry_type :: backup_entry_type
  be_checksum_sha256 :: "string option"

record backup_manifest =
  bman_backup_id :: string
  bman_format_version :: string
  bman_created_at :: int
  bman_source :: backup_source
  bman_entries :: "backup_entry list"
  bman_file_count :: int
  bman_directory_count :: int
  bman_total_size_bytes :: int
  bman_manifest_checksum_sha256 :: string

record backup_verification =
  bv_id :: string
  bv_backup_id :: string
  bv_created_at :: int
  bv_status :: backup_verification_status
  bv_expected_file_count :: int
  bv_verified_file_count :: int
  bv_expected_size_bytes :: int
  bv_verified_size_bytes :: int
  bv_manifest_valid :: bool
  bv_checksum_mismatches :: "string list"
  bv_missing_entries :: "string list"
  bv_unexpected_entries :: "string list"
  bv_source_changed_entries :: "string list"
  bv_message :: string

text \<open>\<open>BackupPolicy()\<close>, the only policy the literal types leave open but for the excluded names.\<close>

definition default_backup_policy :: backup_policy where
  "default_backup_policy = \<lparr>bpol_overwrite = False, bpol_follow_symlinks = False,
     bpol_allow_same_filesystem = False, bpol_cross_filesystems = False, bpol_checksum_algorithm = ''sha256'',
     bpol_excluded_names = [''$RECYCLE.BIN'', ''System Volume Information'', ''lost+found'']\<rparr>"

end
