(* ===== verification/Filesystem_Models.thy ===== *)
theory Filesystem_Models
  imports Storage_Models
begin

text \<open>
  The data contracts of \<^verbatim>\<open>filesystems/models.py\<close> on which plans of filesystem repairs rest: one datatype per
  enumeration, one record per Pydantic model.
\<close>

datatype filesystem_type = FS_EXT2 | FS_EXT3 | FS_EXT4 | FS_XFS | FS_BTRFS | FS_NTFS

fun filesystem_type_value :: "filesystem_type \<Rightarrow> string" where
  "filesystem_type_value FS_EXT2 = ''ext2''"
| "filesystem_type_value FS_EXT3 = ''ext3''"
| "filesystem_type_value FS_EXT4 = ''ext4''"
| "filesystem_type_value FS_XFS = ''xfs''"
| "filesystem_type_value FS_BTRFS = ''btrfs''"
| "filesystem_type_value FS_NTFS = ''ntfs''"

record tool_requirement =
  req_tool :: string
  req_available :: bool
  req_reason :: "string option"

record device_identity =
  did_requested_path :: string
  did_canonical_path :: string
  did_major_minor :: string
  did_uuid :: "string option"
  did_filesystem_uuid :: "string option"
  did_partuuid :: "string option"
  did_serial :: "string option"
  did_model :: "string option"
  did_size_bytes :: int
  did_block_device :: bool
  did_fingerprint_sha256 :: string

record fs_mount_record =
  mr_mount_point :: string
  mr_root :: string
  mr_source :: string
  mr_filesystem_type :: string
  mr_options :: "string list"
  mr_bind_mount :: bool

record mount_safety_report =
  ms_mounted :: bool
  ms_busy :: bool
  ms_swap :: bool
  ms_mounts :: "fs_mount_record list"
  ms_nested_mounts :: "string list"
  ms_active_processes :: "int list"
  ms_unsupported_mount_options :: "string list"
  ms_safe_to_unmount :: bool
  ms_safe_to_remount :: bool
  ms_reasons :: "string list"

record repair_action =
  ra_id :: string
  ra_description :: string
  ra_mutates_target :: bool

record filesystem_repair_plan =
  fp_id :: string
  fp_repair_id :: string
  fp_version :: string
  fp_capability_id :: string
  fp_created_at :: int
  fp_expires_at :: int
  fp_session_id :: string
  fp_target :: device_identity
  fp_filesystem :: filesystem_type
  fp_mount :: mount_safety_report
  fp_detected_problems :: "string list"
  fp_evidence :: "string list"
  fp_required_tools :: "tool_requirement list"
  fp_required_permissions :: "string list"
  fp_estimated_duration_seconds :: "int option"
  fp_risk :: string
  fp_protection_checkpoint :: "protection_checkpoint option"
  fp_repair_actions :: "repair_action list"
  fp_verification_steps :: "string list"
  fp_rollback_strategy :: string
  fp_limitations :: "string list"
  fp_requires_authorization :: bool
  fp_executable :: bool
  fp_fingerprint_sha256 :: string

end
