(* ===== verification/Consent.thy ===== *)
theory Consent
  imports Storage_Broker Backup_Models Filesystem_Models
begin

text \<open>
  The independent consent authority of \<^verbatim>\<open>runtime/consent.py\<close>. The process serves its callers as asynchronous
  tasks, so a handler is modelled as the segments between its suspension points: \<open>consent_start\<close> runs a
  request up to its first suspension, \<open>consent_resume\<close> runs a suspended handler up to its next one, and a
  schedule is a list of arrivals and resumptions. The lock of the authority is never held across a
  suspension, so it orders nothing that the segments do not. Identifiers come from a sequence of which the
  properties assume that it does not repeat; a handler therefore finds the challenge object it holds under
  its identifier. Times are microseconds, also where the code prints them.
\<close>

record challenge =
  ch_id :: string
  ch_kind :: string
  ch_plan_id :: string
  ch_fingerprint :: string
  ch_session_id :: string
  ch_correlation_id :: string
  ch_capability_id :: string
  ch_risk :: string
  ch_confirmation_phrase :: string
  ch_public_payload :: "(string \<times> json) list"
  ch_expires_at :: int
  ch_decision :: string
  ch_operator_uid :: "int option"
  ch_event :: bool

definition json_int_option :: "int option \<Rightarrow> json" where
  "json_int_option v = (case v of None \<Rightarrow> JNull | Some i \<Rightarrow> JInt i)"

definition challenge_public :: "challenge \<Rightarrow> json" where
  "challenge_public c = JObj (merge_dicts
     [(''challenge_id'', JStr (ch_id c)), (''kind'', JStr (ch_kind c)), (''capability_id'', JStr (ch_capability_id c)),
      (''plan_id'', JStr (ch_plan_id c)), (''plan_fingerprint_sha256'', JStr (ch_fingerprint c)),
      (''risk'', JStr (ch_risk c)), (''expires_at'', JInt (ch_expires_at c)), (''decision'', JStr (ch_decision c)),
      (''operator_uid'', json_int_option (ch_operator_uid c)),
      (''confirmation_phrase'', JStr (ch_confirmation_phrase c))]
     (ch_public_payload c))"

definition event_prefix :: "challenge \<Rightarrow> string" where
  "event_prefix c = (if ch_kind c = ''backup'' then ''backup''
     else if ch_kind c = ''storage_operation'' then ''storage'' else ''repair'')"

definition consent_event :: "challenge \<Rightarrow> string \<Rightarrow> (string \<times> json) list \<Rightarrow> json" where
  "consent_event c suffix payload =
     audit_request (event_prefix c @ suffix) ''ares-consent-agent'' (ch_correlation_id c) (ch_session_id c) payload"

definition requested_event :: "challenge \<Rightarrow> (string \<times> json) list \<Rightarrow> json" where
  "requested_event c details = consent_event c ''.authorization.requested''
     (merge_dicts
       [(''challenge_id'', JStr (ch_id c)), (''capability_id'', JStr (ch_capability_id c)),
        (''plan_id'', JStr (ch_plan_id c)), (''plan_fingerprint'', JStr (ch_fingerprint c)),
        (''risk'', JStr (ch_risk c))] details)"

definition decision_event :: "challenge \<Rightarrow> string \<Rightarrow> int \<Rightarrow> json" where
  "decision_event c decision peer_uid =
     consent_event c (if decision = ''approved'' then ''.authorization.approved'' else ''.authorization.denied'')
       [(''challenge_id'', JStr (ch_id c)), (''capability_id'', JStr (ch_capability_id c)),
        (''plan_id'', JStr (ch_plan_id c)), (''plan_fingerprint'', JStr (ch_fingerprint c)),
        (''operator_uid'', JInt peer_uid), (''decision'', JStr decision)]"

section \<open>Challenges\<close>

definition CHALLENGE_LIFE :: int where
  "CHALLENGE_LIFE = 10 * 60 * 1000000"

definition backup_challenge :: "backup_plan \<Rightarrow> string \<Rightarrow> string \<Rightarrow> int \<Rightarrow> challenge" where
  "backup_challenge p session_id i now =
     \<lparr>ch_id = i, ch_kind = ''backup'', ch_plan_id = bp_id p, ch_fingerprint = bp_fingerprint_sha256 p,
      ch_session_id = session_id, ch_correlation_id = bp_backup_id p, ch_capability_id = ''backup.create'',
      ch_risk = ''medium'', ch_confirmation_phrase = ''APPROVE '' @ take 12 (bp_fingerprint_sha256 p),
      ch_public_payload =
        [(''source'', JStr (bs_path (bp_source p))), (''destination'', JStr (bd_backup_path (bp_destination p))),
         (''estimated_bytes'', JInt (bs_estimated_size_bytes (bp_source p))),
         (''required_bytes'', JInt (bp_required_bytes p)),
         (''available_bytes'', JInt (bd_available_bytes (bp_destination p))),
         (''file_count'', JInt (bp_included_file_count p)),
         (''exclusions'', JList (map (\<lambda>x. JObj [(''relative_path'', JStr (bx_relative_path x)),
            (''reason'', JStr (bx_reason x))]) (bp_exclusions p))),
         (''excluded_count'', JInt (int (length (bp_exclusions p)))), (''overwrite'', JBool False),
         (''verification'', JStr ''sha256'')],
      ch_expires_at = min (bp_expires_at p) (now + CHALLENGE_LIFE),
      ch_decision = ''pending'', ch_operator_uid = None, ch_event = False\<rparr>"

definition backup_details :: "backup_plan \<Rightarrow> (string \<times> json) list" where
  "backup_details p =
     [(''estimated_bytes'', JInt (bs_estimated_size_bytes (bp_source p))),
      (''required_bytes'', JInt (bp_required_bytes p)),
      (''available_bytes'', JInt (bd_available_bytes (bp_destination p))),
      (''file_count'', JInt (bp_included_file_count p)),
      (''excluded_count'', JInt (int (length (bp_exclusions p))))]"

definition filesystem_challenge :: "filesystem_repair_plan \<Rightarrow> string \<Rightarrow> int \<Rightarrow> challenge" where
  "filesystem_challenge p i now =
     \<lparr>ch_id = i, ch_kind = ''filesystem_repair'', ch_plan_id = fp_id p, ch_fingerprint = fp_fingerprint_sha256 p,
      ch_session_id = fp_session_id p, ch_correlation_id = fp_repair_id p, ch_capability_id = fp_capability_id p,
      ch_risk = ''high'',
      ch_confirmation_phrase = ''I understand that this operation modifies the filesystem.'' @ '' APPROVE ''
        @ take 12 (fp_fingerprint_sha256 p),
      ch_public_payload =
        [(''repair_id'', JStr (fp_repair_id p)), (''target'', JStr (did_canonical_path (fp_target p))),
         (''target_fingerprint'', JStr (did_fingerprint_sha256 (fp_target p))),
         (''major_minor'', JStr (did_major_minor (fp_target p))),
         (''filesystem_uuid'', json_str_option (did_filesystem_uuid (fp_target p))),
         (''partuuid'', json_str_option (did_partuuid (fp_target p))),
         (''filesystem'', JStr (filesystem_type_value (fp_filesystem p))),
         (''mounted'', JBool (ms_mounted (fp_mount p))),
         (''checkpoint_id'', json_str_option (map_option cp_id (fp_protection_checkpoint p))),
         (''repair_actions'', JList (map (JStr \<circ> ra_id) (fp_repair_actions p))),
         (''limitations'', JList (map JStr (fp_limitations p)))],
      ch_expires_at = min (fp_expires_at p) (now + CHALLENGE_LIFE),
      ch_decision = ''pending'', ch_operator_uid = None, ch_event = False\<rparr>"

definition filesystem_details :: "filesystem_repair_plan \<Rightarrow> (string \<times> json) list" where
  "filesystem_details p =
     [(''repair_id'', JStr (fp_repair_id p)),
      (''target_fingerprint'', JStr (did_fingerprint_sha256 (fp_target p))),
      (''major_minor'', JStr (did_major_minor (fp_target p))),
      (''filesystem'', JStr (filesystem_type_value (fp_filesystem p))),
      (''checkpoint_id'', json_str_option (map_option cp_id (fp_protection_checkpoint p)))]"

definition storage_challenge :: "storage_operation_plan \<Rightarrow> string \<Rightarrow> int \<Rightarrow> challenge" where
  "storage_challenge p i now =
     \<lparr>ch_id = i, ch_kind = ''storage_operation'', ch_plan_id = plan_id p, ch_fingerprint = plan_fingerprint_sha256 p,
      ch_session_id = plan_session_id p, ch_correlation_id = plan_operation_id p,
      ch_capability_id = plan_capability p, ch_risk = risk_value (plan_risk p),
      ch_confirmation_phrase = ''I understand that this operation modifies the partition table. ''
        @ ''APPROVE '' @ take 12 (plan_fingerprint_sha256 p),
      ch_public_payload =
        [(''operation_id'', JStr (plan_operation_id p)), (''operation'', JStr (operation_value (plan_operation p))),
         (''target'', JStr (dev_canonical_path (plan_target_disk p))),
         (''target_fingerprint'', target_fingerprint_of p),
         (''device_kind'', JStr (device_kind_value (dev_device_kind (plan_target_disk p)))),
         (''original_layout'', table_fingerprint_of (plan_original_layout p)),
         (''proposed_layout'', table_fingerprint_of (plan_proposed_layout p)),
         (''data_impact'', JStr (data_impact_value (di_level (plan_data_impact p)))),
         (''boot_impact'', JStr (boot_impact_value (bi_level (plan_boot_impact p)))),
         (''data_loss_possible'', JBool (plan_data_loss_possible p)),
         (''affected_resources'', JList (map JStr (plan_affected_resources p))),
         (''checkpoint_id'', json_str_option (map_option cp_id (plan_protection_checkpoint p))),
         (''dry_run_script_sha256'', json_str_option (map_option dry_script_sha256 (plan_dry_run p))),
         (''physical_disk_writes_enabled'', JBool False)],
      ch_expires_at = min (plan_expires_at p) (now + CHALLENGE_LIFE),
      ch_decision = ''pending'', ch_operator_uid = None, ch_event = False\<rparr>"

definition storage_details :: "storage_operation_plan \<Rightarrow> (string \<times> json) list" where
  "storage_details p =
     [(''operation_id'', JStr (plan_operation_id p)), (''operation'', JStr (operation_value (plan_operation p))),
      (''target_fingerprint'', target_fingerprint_of p),
      (''original_layout'', table_fingerprint_of (plan_original_layout p)),
      (''proposed_layout'', table_fingerprint_of (plan_proposed_layout p)),
      (''data_impact'', JStr (data_impact_value (di_level (plan_data_impact p)))),
      (''boot_impact'', JStr (boot_impact_value (bi_level (plan_boot_impact p)))),
      (''checkpoint_id'', json_str_option (map_option cp_id (plan_protection_checkpoint p)))]"

section \<open>The authority\<close>

text \<open>The parameters of the process: the ledger client, the identifiers and the two accounts; and its state.\<close>

record 'a consent_authority =
  ca_append :: "json \<Rightarrow> ('a, audit_receipt) prog"
  ca_uuid :: "nat \<Rightarrow> string"
  ca_broker_uid :: int
  ca_operator_uid :: int

record 'a consent_state =
  cs_audit :: 'a
  cs_challenges :: "(string \<times> challenge) list"
  cs_created :: nat

text \<open>Requests arrive validated by Pydantic, \<^const>\<open>None\<close> standing for a payload that does not validate, and a
  field that is no string.\<close>

datatype consent_request =
    Cq_create "backup_plan option" "string option"
  | Cq_filesystem_create "filesystem_repair_plan option"
  | Cq_storage_create "storage_operation_plan option"
  | Cq_wait "string option"
  | Cq_get "string option"
  | Cq_approve "string option" "string option"
  | Cq_deny "string option"
  | Cq_other

text \<open>The suspension points of the handlers: the append of a created challenge, the return after it, the append
  of a decision, the return after it, and the wait for the event.\<close>

datatype consent_pending =
    Requesting challenge "(string \<times> json) list"
  | Requested string
  | Deciding string string int
  | Decided string string int
  | Waiting string

datatype consent_outcome = Finished "exc + json" | Suspended consent_pending

type_synonym 'a consent_segment = "'a consent_state \<Rightarrow> consent_outcome \<times> 'a consent_state"

definition fails :: "exc \<Rightarrow> 'a consent_segment" where
  "fails e s = (Finished (Inl e), s)"

definition consent_lookup :: "string option \<Rightarrow> 'a consent_state \<Rightarrow> exc + challenge" where
  "consent_lookup v s = (case v of
     None \<Rightarrow> Inl (ValueError ''invalid challenge'')
   | Some i \<Rightarrow> (case map_of (cs_challenges s) i of
       None \<Rightarrow> Inl (ValueError ''challenge not found'')
     | Some c \<Rightarrow> Inr c))"

definition put_challenge :: "challenge \<Rightarrow> 'a consent_state \<Rightarrow> 'a consent_state" where
  "put_challenge c s = s\<lparr>cs_challenges := dict_set (ch_id c) c (cs_challenges s)\<rparr>"

definition store_requested ::
  "'a consent_authority \<Rightarrow> (string \<Rightarrow> challenge) \<Rightarrow> (string \<times> json) list \<Rightarrow> 'a consent_segment" where
  "store_requested A build details s =
     (let c = build (ca_uuid A (cs_created s)) in
      (Suspended (Requesting c details), put_challenge c (s\<lparr>cs_created := Suc (cs_created s)\<rparr>)))"

definition expire :: "challenge \<Rightarrow> 'a consent_segment" where
  "expire c s = (Finished (Inl (ValueError ''authorization expired'')), put_challenge (c\<lparr>ch_decision := ''expired''\<rparr>) s)"

definition wait_start :: "string option \<Rightarrow> int \<Rightarrow> 'a consent_segment" where
  "wait_start v now s = (case consent_lookup v s of
     Inl e \<Rightarrow> fails e s
   | Inr c \<Rightarrow> if ch_expires_at c - now \<le> 0 then expire c s else (Suspended (Waiting (ch_id c)), s))"

definition decide_start :: "string option \<Rightarrow> string option \<Rightarrow> string \<Rightarrow> int \<Rightarrow> int \<Rightarrow> 'a consent_segment" where
  "decide_start v confirmation decision peer_uid now s = (case consent_lookup v s of
     Inl e \<Rightarrow> fails e s
   | Inr c \<Rightarrow>
       if ch_decision c \<noteq> ''pending'' \<or> ch_expires_at c \<le> now then fails (ValueError ''challenge is not pending'') s
       else if decision = ''approved'' \<and> confirmation \<noteq> Some (ch_confirmation_phrase c)
       then fails (ValueError ''exact confirmation phrase required'') s
       else (Suspended (Deciding (ch_id c) decision peer_uid), s))"

definition require_peer :: "int \<Rightarrow> int \<Rightarrow> 'a consent_segment \<Rightarrow> 'a consent_segment" where
  "require_peer actual expected f = (if actual \<noteq> expected
     then fails (PermissionError ''consent peer is not authorized'') else f)"

text \<open>\<open>dispatch\<close> up to the first suspension.\<close>

definition consent_start :: "'a consent_authority \<Rightarrow> consent_request \<Rightarrow> int \<Rightarrow> int \<Rightarrow> 'a consent_segment" where
  "consent_start A request peer_uid now = (case request of
     Cq_create v session_id \<Rightarrow> require_peer peer_uid (ca_broker_uid A) (case v of
         None \<Rightarrow> fails (ValueError ''validation error'')
       | Some p \<Rightarrow> (case session_id of
           None \<Rightarrow> fails (ValueError ''invalid session'')
         | Some session \<Rightarrow> if length session < 8 then fails (ValueError ''invalid session'')
             else store_requested A (\<lambda>i. backup_challenge p session i now) (backup_details p)))
   | Cq_filesystem_create v \<Rightarrow> require_peer peer_uid (ca_broker_uid A) (case v of
         None \<Rightarrow> fails (ValueError ''validation error'')
       | Some p \<Rightarrow> store_requested A (\<lambda>i. filesystem_challenge p i now) (filesystem_details p))
   | Cq_storage_create v \<Rightarrow> require_peer peer_uid (ca_broker_uid A) (case v of
         None \<Rightarrow> fails (ValueError ''validation error'')
       | Some p \<Rightarrow> store_requested A (\<lambda>i. storage_challenge p i now) (storage_details p))
   | Cq_wait v \<Rightarrow> require_peer peer_uid (ca_broker_uid A) (wait_start v now)
   | Cq_get v \<Rightarrow> require_peer peer_uid (ca_operator_uid A) (\<lambda>s. (Finished (case consent_lookup v s of
         Inl e \<Rightarrow> Inl e | Inr c \<Rightarrow> Inr (challenge_public c)), s))
   | Cq_approve v confirmation \<Rightarrow> require_peer peer_uid (ca_operator_uid A)
       (decide_start v confirmation ''approved'' peer_uid now)
   | Cq_deny v \<Rightarrow> require_peer peer_uid (ca_operator_uid A) (decide_start v None ''denied'' peer_uid now)
   | Cq_other \<Rightarrow> fails (ValueError ''unsupported consent action''))"

text \<open>The held challenge of a suspended handler; challenges are never removed.\<close>

definition with_challenge :: "string \<Rightarrow> (challenge \<Rightarrow> 'a consent_segment) \<Rightarrow> 'a consent_segment" where
  "with_challenge i f s = (case map_of (cs_challenges s) i of
     None \<Rightarrow> fails (ValueError ''challenge not found'') s | Some c \<Rightarrow> f c s)"

definition consent_append ::
  "'a consent_authority \<Rightarrow> json \<Rightarrow> (exc \<Rightarrow> exc) \<Rightarrow> consent_pending \<Rightarrow> 'a consent_segment" where
  "consent_append A request on_error continue s = (case ca_append A request (cs_audit s) of
     (Inl e, a) \<Rightarrow> (Finished (Inl (on_error e)), s\<lparr>cs_audit := a\<rparr>)
   | (Inr _, a) \<Rightarrow> (Suspended continue, s\<lparr>cs_audit := a\<rparr>))"

definition audit_unavailable :: "exc \<Rightarrow> exc" where
  "audit_unavailable e = (if is_audit_error e then ValueError ''audit unavailable'' else e)"

definition commit_decision :: "challenge \<Rightarrow> string \<Rightarrow> int \<Rightarrow> 'a consent_segment" where
  "commit_decision c decision peer_uid s =
     (let c' = c\<lparr>ch_operator_uid := Some peer_uid, ch_decision := decision, ch_event := True\<rparr>
      in (Finished (Inr (challenge_public c')), put_challenge c' s))"

text \<open>A suspended handler from its suspension point to the next; \<open>timer\<close> says that the timeout of the wait is
  delivered, which is possible from the expiry on.\<close>

definition consent_resume :: "'a consent_authority \<Rightarrow> consent_pending \<Rightarrow> bool \<Rightarrow> int \<Rightarrow> 'a consent_segment" where
  "consent_resume A pending timer now = (case pending of
     Requesting c details \<Rightarrow> consent_append A (requested_event c details) (\<lambda>e. e) (Requested (ch_id c))
   | Requested i \<Rightarrow> with_challenge i (\<lambda>c s. (Finished (Inr (challenge_public c)), s))
   | Deciding i decision peer_uid \<Rightarrow> with_challenge i (\<lambda>c.
       consent_append A (decision_event c decision peer_uid) audit_unavailable (Decided i decision peer_uid))
   | Decided i decision peer_uid \<Rightarrow> with_challenge i (\<lambda>c. commit_decision c decision peer_uid)
   | Waiting i \<Rightarrow> with_challenge i (\<lambda>c s.
       if timer \<and> ch_expires_at c \<le> now then expire c s
       else if ch_event c then (Finished (Inr (challenge_public c)), s)
       else (Suspended (Waiting i), s)))"

section \<open>Schedules\<close>

text \<open>The process with its suspended handlers and the results of the finished ones, in order. A handler is
  listed with its connection, numbered as accepted, and the request it serves.\<close>

type_synonym consent_call = "nat \<times> consent_request"

record 'a consent_process =
  py_state :: "'a consent_state"
  py_accepted :: nat
  py_pending :: "(consent_call \<times> consent_pending) list"
  py_results :: "(consent_call \<times> (exc + json)) list"

datatype consent_input = Arrival consent_request int int | Resumption nat bool int

definition settle ::
  "consent_call \<Rightarrow> consent_outcome \<times> 'a consent_state \<Rightarrow> 'a consent_process \<Rightarrow> 'a consent_process" where
  "settle call r y = (case r of
     (Finished v, s) \<Rightarrow> y\<lparr>py_state := s, py_results := py_results y @ [(call, v)]\<rparr>
   | (Suspended p, s) \<Rightarrow> y\<lparr>py_state := s, py_pending := py_pending y @ [(call, p)]\<rparr>)"

fun consent_step :: "'a consent_authority \<Rightarrow> consent_input \<Rightarrow> 'a consent_process \<Rightarrow> 'a consent_process" where
  "consent_step A (Arrival request peer_uid now) y =
     settle (py_accepted y, request) (consent_start A request peer_uid now (py_state y))
       (y\<lparr>py_accepted := Suc (py_accepted y)\<rparr>)"
| "consent_step A (Resumption n timer now) y =
     (if n < length (py_pending y) then
        (let (call, p) = py_pending y ! n;
             y' = y\<lparr>py_pending := take n (py_pending y) @ drop (Suc n) (py_pending y)\<rparr>
         in settle call (consent_resume A p timer now (py_state y)) y')
      else y)"

definition consent_run :: "'a consent_authority \<Rightarrow> consent_input list \<Rightarrow> 'a consent_process \<Rightarrow> 'a consent_process" where
  "consent_run A schedule y = fold (consent_step A) schedule y"

definition consent_initial :: "'a \<Rightarrow> 'a consent_process" where
  "consent_initial a = \<lparr>py_state = \<lparr>cs_audit = a, cs_challenges = [], cs_created = 0\<rparr>, py_accepted = 0,
     py_pending = [], py_results = []\<rparr>"

section \<open>The socket protocol\<close>

fun exc_text :: "exc \<Rightarrow> string" where
  "exc_text (StorageOperationEngineError t) = t"
| "exc_text (StorageExecutorError t) = t"
| "exc_text (StorageOperationServiceError t) = t"
| "exc_text (PartitionToolError t) = t"
| "exc_text (ActionError t) = t"
| "exc_text (ValueError t) = t"
| "exc_text (PermissionError t) = t"
| "exc_text (FileNotFoundError t) = t"
| "exc_text (OSError t) = t"
| "exc_text (RuntimeError t) = t"
| "exc_text (KeyError t) = t"
| "exc_text (AuditLedgerError t) = t"
| "exc_text _ = ''''"

definition safe_error :: "exc \<Rightarrow> string" where
  "safe_error e = (case map_of
     [(''authorization expired'', ''AUTHORIZATION_EXPIRED''), (''challenge not found'', ''AUTHORIZATION_NOT_FOUND''),
      (''challenge is not pending'', ''AUTHORIZATION_NOT_PENDING''),
      (''exact confirmation phrase required'', ''AUTHORIZATION_CONFIRMATION_INVALID''),
      (''audit unavailable'', ''AUDIT_LEDGER_UNAVAILABLE'')] (exc_text e) of
     Some code \<Rightarrow> code | None \<Rightarrow> ''AUTHORIZATION_FAILED'')"

text \<open>The answer of \<open>handle\<close>, and what \<open>_request\<close> makes of it.\<close>

definition consent_response :: "exc + json \<Rightarrow> json" where
  "consent_response r = (case r of
     Inr payload \<Rightarrow> JObj [(''ok'', JBool True), (''payload'', payload)]
   | Inl (PermissionError _) \<Rightarrow> JObj [(''ok'', JBool False), (''code'', JStr ''CONSENT_FORBIDDEN'')]
   | Inl e \<Rightarrow> JObj [(''ok'', JBool False), (''code'', JStr (safe_error e))])"

definition read_response :: "json \<Rightarrow> exc + json" where
  "read_response response =
     (if json_get response ''ok'' \<noteq> Some (JBool True)
      then Inl (RuntimeError (case json_get response ''code'' of Some (JStr code) \<Rightarrow> code | _ \<Rightarrow> ''consent failed''))
      else case json_get response ''payload'' of
        Some (JObj kvs) \<Rightarrow> Inr (JObj kvs)
      | _ \<Rightarrow> Inl (RuntimeError ''invalid consent response''))"

text \<open>The broker's client, a caller of the process. What else happens in the process during a call is the next
  schedule of the environment; the call ends with its own result, or without one at its timeout.\<close>

type_synonym 'a consent_world = "'a consent_process \<times> (int \<times> consent_input list) list"

definition consent_call_client ::
  "'a consent_authority \<Rightarrow> consent_request \<Rightarrow> ('a consent_world, json) prog" where
  "consent_call_client A request = (\<lambda>(y, env). (case env of
     [] \<Rightarrow> (Inl (RuntimeError ''consent agent unavailable''), (y, []))
   | (now, schedule) # env' \<Rightarrow>
       (let y' = consent_run A (Arrival request (ca_broker_uid A) now # schedule) y in
        (case map_of (py_results y') (py_accepted y, request) of
           None \<Rightarrow> Inl (RuntimeError ''consent agent unavailable'')
         | Some r \<Rightarrow> read_response (consent_response r), (y', env')))))"

definition client_request_storage ::
  "'a consent_authority \<Rightarrow> storage_operation_plan \<Rightarrow> ('a consent_world, json) prog" where
  "client_request_storage A p = consent_call_client A (Cq_storage_create (Some p))"

definition client_wait :: "'a consent_authority \<Rightarrow> string \<Rightarrow> ('a consent_world, json) prog" where
  "client_wait A challenge_id = consent_call_client A (Cq_wait (Some challenge_id))"

end
