(* ===== verification/Consent_Guards.thy ===== *)
theory Consent_Guards
  imports Consent Broker_Guards
begin

text \<open>
  The invariant of the consent process over all schedules: a challenge keeps everything but its decision, and
  a decision is backed by the operator's request and its record in the ledger.
\<close>

section \<open>The fixed part of a challenge\<close>

definition core :: "challenge \<Rightarrow> challenge" where
  "core c = c\<lparr>ch_decision := ''pending'', ch_operator_uid := None, ch_event := False\<rparr>"

lemma core_simps [simp]:
  "ch_id (core c) = ch_id c" "ch_confirmation_phrase (core c) = ch_confirmation_phrase c"
  "ch_expires_at (core c) = ch_expires_at c" "ch_fingerprint (core c) = ch_fingerprint c"
  "ch_public_payload (core c) = ch_public_payload c" "core (core c) = core c"
  "core (c\<lparr>ch_decision := d\<rparr>) = core c" "core (c\<lparr>ch_operator_uid := u\<rparr>) = core c" "core (c\<lparr>ch_event := b\<rparr>) = core c"
  by (simp_all add: core_def)

lemma core_decision: "ch_decision (core c) = ''pending''"
  by (simp add: core_def)

lemma core_new [simp]:
  "core (storage_challenge p i now) = storage_challenge p i now"
  "core (backup_challenge q s i now) = backup_challenge q s i now"
  "core (filesystem_challenge f i now) = filesystem_challenge f i now"
  by (simp_all add: core_def storage_challenge_def backup_challenge_def filesystem_challenge_def)

lemma new_ids [simp]:
  "ch_id (storage_challenge p i now) = i" "ch_id (backup_challenge q s i now) = i"
  "ch_id (filesystem_challenge f i now) = i"
  by (simp_all add: storage_challenge_def backup_challenge_def filesystem_challenge_def)

lemma decision_event_core [simp]: "decision_event (core c) d u = decision_event c d u"
  by (simp add: decision_event_def consent_event_def event_prefix_def core_def)

definition RESERVED :: "string set" where
  "RESERVED = {''challenge_id'', ''decision'', ''operator_uid'', ''plan_fingerprint_sha256''}"

definition unreserved :: "challenge \<Rightarrow> bool" where
  "unreserved c \<longleftrightarrow> fst ` set (ch_public_payload c) \<inter> RESERVED = {}"

lemma unreserved_core [simp]: "unreserved (core c) = unreserved c"
  by (simp add: unreserved_def)

lemma unreserved_new [simp]:
  "unreserved (storage_challenge p i now)" "unreserved (backup_challenge q s i now)"
  "unreserved (filesystem_challenge f i now)"
  by (simp_all add: unreserved_def RESERVED_def storage_challenge_def backup_challenge_def filesystem_challenge_def)

lemma merge_dicts_other: "k \<notin> fst ` set b \<Longrightarrow> map_of (merge_dicts a b) k = map_of a k"
  unfolding merge_dicts_def by (induction b arbitrary: a) (auto split: prod.splits)

lemma challenge_public_fields:
  assumes "unreserved c"
  shows "json_get (challenge_public c) ''decision'' = Some (JStr (ch_decision c))"
    "json_get (challenge_public c) ''challenge_id'' = Some (JStr (ch_id c))"
    "json_get (challenge_public c) ''operator_uid'' = Some (json_int_option (ch_operator_uid c))"
    "json_get (challenge_public c) ''plan_fingerprint_sha256'' = Some (JStr (ch_fingerprint c))"
proof -
  have other: "k \<in> RESERVED \<Longrightarrow> map_of (merge_dicts a (ch_public_payload c)) k = map_of a k" for a k
    using assms by (intro merge_dicts_other) (auto simp: unreserved_def)
  show "json_get (challenge_public c) ''decision'' = Some (JStr (ch_decision c))"
    "json_get (challenge_public c) ''challenge_id'' = Some (JStr (ch_id c))"
    "json_get (challenge_public c) ''operator_uid'' = Some (json_int_option (ch_operator_uid c))"
    "json_get (challenge_public c) ''plan_fingerprint_sha256'' = Some (JStr (ch_fingerprint c))"
    by (simp_all add: challenge_public_def other RESERVED_def)
qed

section \<open>What holds of a state, a suspended handler and a result\<close>

definition holds :: "'a consent_state \<Rightarrow> string \<Rightarrow> challenge \<Rightarrow> bool" where
  "holds s k x \<longleftrightarrow> (\<exists>c. map_of (cs_challenges s) k = Some c \<and> core c = x)"

text \<open>The operator asked for a decision; an approval needs the exact phrase before the expiry.\<close>

definition asked :: "'a consent_authority \<Rightarrow> consent_input list \<Rightarrow> challenge \<Rightarrow> string \<Rightarrow> bool" where
  "asked A schedule x d \<longleftrightarrow> (d = ''approved'' \<longrightarrow> (\<exists>now < ch_expires_at x.
     Arrival (Cq_approve (Some (ch_id x)) (Some (ch_confirmation_phrase x))) (ca_operator_uid A) now \<in> set schedule))"

definition backed :: "'a consent_authority \<Rightarrow> consent_input list \<Rightarrow> json list \<Rightarrow> challenge \<Rightarrow> string \<Rightarrow> bool" where
  "backed A schedule recs x d \<longleftrightarrow> asked A schedule x d \<and> decision_event x d (ca_operator_uid A) \<in> set recs"

definition challenge_ok ::
  "'a consent_authority \<Rightarrow> consent_input list \<Rightarrow> json list \<Rightarrow> challenge \<Rightarrow> bool" where
  "challenge_ok A schedule recs c \<longleftrightarrow> unreserved c \<and>
     (ch_decision c \<in> {''approved'', ''denied''} \<longrightarrow>
        ch_operator_uid c = Some (ca_operator_uid A) \<and> backed A schedule recs (core c) (ch_decision c))"

definition created_for :: "consent_request \<Rightarrow> challenge \<Rightarrow> bool" where
  "created_for q x \<longleftrightarrow> (\<forall>v. q \<noteq> Cq_wait v) \<and>
     (\<forall>v. q = Cq_storage_create v \<longrightarrow> (\<exists>p now. v = Some p \<and> x = storage_challenge p (ch_id x) now))"

definition pending_ok ::
  "'a consent_authority \<Rightarrow> consent_input list \<Rightarrow> json list \<Rightarrow> 'a consent_state
     \<Rightarrow> consent_request \<Rightarrow> consent_pending \<Rightarrow> bool" where
  "pending_ok A schedule recs s q p = (case p of
     Requesting c details \<Rightarrow> holds s (ch_id c) (core c) \<and> created_for q (core c)
   | Requested i \<Rightarrow> (\<exists>x. holds s i x \<and> ch_id x = i \<and> created_for q x)
   | Deciding i d u \<Rightarrow> (\<forall>v w. q \<noteq> Cq_wait v \<and> q \<noteq> Cq_storage_create w) \<and> u = ca_operator_uid A \<and>
       (\<exists>x. holds s i x \<and> ch_id x = i \<and> asked A schedule x d)
   | Decided i d u \<Rightarrow> (\<forall>v w. q \<noteq> Cq_wait v \<and> q \<noteq> Cq_storage_create w) \<and> u = ca_operator_uid A \<and>
       (\<exists>x. holds s i x \<and> ch_id x = i \<and> backed A schedule recs x d)
   | Waiting i \<Rightarrow> q = Cq_wait (Some i) \<and> (\<exists>x. holds s i x \<and> ch_id x = i))"

definition result_ok ::
  "'a consent_authority \<Rightarrow> consent_input list \<Rightarrow> json list \<Rightarrow> 'a consent_state
     \<Rightarrow> consent_request \<Rightarrow> exc + json \<Rightarrow> bool" where
  "result_ok A schedule recs s q r \<longleftrightarrow> (\<forall>j. r = Inr j \<longrightarrow>
     (\<forall>v. q = Cq_wait v \<longrightarrow> (\<exists>c. v = Some (ch_id c) \<and> holds s (ch_id c) (core c) \<and>
        j = challenge_public c \<and> challenge_ok A schedule recs c)) \<and>
     (\<forall>v. q = Cq_storage_create v \<longrightarrow> (\<exists>p c now. v = Some p \<and> j = challenge_public c \<and> unreserved c \<and>
        core c = storage_challenge p (ch_id c) now \<and> holds s (ch_id c) (core c))))"

definition state_ok :: "'a consent_authority \<Rightarrow> consent_input list \<Rightarrow> json list \<Rightarrow> 'a consent_state \<Rightarrow> bool" where
  "state_ok A schedule recs s \<longleftrightarrow>
     (\<forall>n \<ge> cs_created s. map_of (cs_challenges s) (ca_uuid A n) = None) \<and>
     (\<forall>k c. map_of (cs_challenges s) k = Some c \<longrightarrow> ch_id c = k \<and> challenge_ok A schedule recs c)"

text \<open>How a state may evolve: challenges keep their fixed part, records are only added.\<close>

definition evolves :: "'a consent_state \<Rightarrow> 'a consent_state \<Rightarrow> bool" where
  "evolves s s' \<longleftrightarrow> (\<forall>k x. holds s k x \<longrightarrow> holds s' k x)"

lemma evolvesD: "evolves s s' \<Longrightarrow> holds s k x \<Longrightarrow> holds s' k x"
  by (simp add: evolves_def)

lemma evolves_refl [simp]: "evolves s s" "evolves s (s\<lparr>cs_audit := a\<rparr>)"
  by (simp_all add: evolves_def holds_def)

lemma asked_mono: "asked A sch x d \<Longrightarrow> set sch \<subseteq> set sch' \<Longrightarrow> asked A sch' x d"
  unfolding asked_def by blast

lemma backed_mono: "backed A sch recs x d \<Longrightarrow> set sch \<subseteq> set sch' \<Longrightarrow> set recs \<subseteq> set recs' \<Longrightarrow> backed A sch' recs' x d"
  unfolding backed_def using asked_mono by blast

lemma challenge_ok_mono:
  "challenge_ok A sch recs c \<Longrightarrow> set sch \<subseteq> set sch' \<Longrightarrow> set recs \<subseteq> set recs' \<Longrightarrow> challenge_ok A sch' recs' c"
  unfolding challenge_ok_def using backed_mono by blast

lemma state_ok_mono:
  "state_ok A sch recs s \<Longrightarrow> set sch \<subseteq> set sch' \<Longrightarrow> set recs \<subseteq> set recs' \<Longrightarrow> state_ok A sch' recs' s"
  unfolding state_ok_def using challenge_ok_mono by blast

lemma pending_ok_mono:
  assumes "pending_ok A sch recs s q p" "set sch \<subseteq> set sch'" "set recs \<subseteq> set recs'" "evolves s s'"
  shows "pending_ok A sch' recs' s' q p"
  using assms(1) evolvesD [OF assms(4)] asked_mono [OF _ assms(2)] backed_mono [OF _ assms(2,3)]
  unfolding pending_ok_def by (cases p) fastforce+

lemma result_ok_mono:
  assumes "result_ok A sch recs s q r" "set sch \<subseteq> set sch'" "set recs \<subseteq> set recs'" "evolves s s'"
  shows "result_ok A sch' recs' s' q r"
  using assms(1) evolvesD [OF assms(4)] challenge_ok_mono [OF _ assms(2,3)]
  unfolding result_ok_def by metis

section \<open>Segments keep the invariant\<close>

definition good ::
  "'a consent_authority \<Rightarrow> ('a \<Rightarrow> json list) \<Rightarrow> consent_input list \<Rightarrow> 'a consent_state \<Rightarrow> bool" where
  "good A records sch s \<longleftrightarrow> state_ok A sch (records (cs_audit s)) s"

definition segment_ok ::
  "'a consent_authority \<Rightarrow> ('a \<Rightarrow> json list) \<Rightarrow> consent_input list \<Rightarrow> 'a consent_state \<Rightarrow> consent_request
     \<Rightarrow> consent_outcome \<times> 'a consent_state \<Rightarrow> bool" where
  "segment_ok A records sch s q r = (case r of (out, s') \<Rightarrow>
     good A records sch s' \<and> evolves s s' \<and>
     set (records (cs_audit s)) \<subseteq> set (records (cs_audit s')) \<and>
     (case out of Finished v \<Rightarrow> result_ok A sch (records (cs_audit s')) s' q v
      | Suspended p \<Rightarrow> pending_ok A sch (records (cs_audit s')) s' q p))"

lemma result_ok_failure [simp]: "result_ok A sch recs s q (Inl e)"
  by (simp add: result_ok_def)

lemma segment_ok_fails: "good A records sch s \<Longrightarrow> segment_ok A records sch s q (fails e s)"
  by (simp add: segment_ok_def fails_def)

lemma state_okD:
  assumes "state_ok A sch recs s" "map_of (cs_challenges s) k = Some c"
  shows "ch_id c = k" "challenge_ok A sch recs c" "holds s k (core c)"
  using assms by (auto simp: state_ok_def holds_def)

lemma put_audit [simp]: "cs_audit (put_challenge c s) = cs_audit s"
  by (simp add: put_challenge_def)

text \<open>Replacing a challenge by one with the same fixed part.\<close>

lemma put_same:
  assumes "state_ok A sch recs s" "map_of (cs_challenges s) k = Some c" "core c' = core c" "challenge_ok A sch recs c'"
  shows "state_ok A sch recs (put_challenge c' s)" "evolves s (put_challenge c' s)"
    "holds (put_challenge c' s) k (core c)"
proof -
  have id: "ch_id c' = k"
    using state_okD(1) [OF assms(1,2)] assms(3) core_simps(1) by metis
  show "state_ok A sch recs (put_challenge c' s)"
    using assms id unfolding state_ok_def by (auto simp: put_challenge_def)
  show "evolves s (put_challenge c' s)"
    using assms(2,3) id unfolding evolves_def holds_def by (auto simp: put_challenge_def)
  show "holds (put_challenge c' s) k (core c)"
    using assms(3) id by (simp add: holds_def put_challenge_def)
qed

lemma segment_ok_expire:
  assumes "good A records sch s" "map_of (cs_challenges s) k = Some c"
  shows "segment_ok A records sch s q (expire c s)"
proof -
  have "challenge_ok A sch (records (cs_audit s)) (c\<lparr>ch_decision := ''expired''\<rparr>)"
    using state_okD(2) [OF assms [unfolded good_def]] by (simp add: challenge_ok_def unreserved_def)
  from put_same [OF assms(1) [unfolded good_def] assms(2) _ this] show ?thesis
    by (simp add: segment_ok_def expire_def good_def)
qed

lemma consent_lookup_Inr: "consent_lookup v s = Inr c \<longleftrightarrow> (\<exists>i. v = Some i \<and> map_of (cs_challenges s) i = Some c)"
  by (auto simp: consent_lookup_def split: option.splits)

lemma segment_ok_wait_start:
  assumes "good A records sch s"
  shows "segment_ok A records sch s (Cq_wait v) (wait_start v now s)"
proof (cases "consent_lookup v s")
  case (Inl e)
  then show ?thesis
    using segment_ok_fails [OF assms] by (simp add: wait_start_def)
next
  case (Inr c)
  then obtain i where i: "v = Some i" "map_of (cs_challenges s) i = Some c"
    by (auto simp: consent_lookup_Inr)
  then show ?thesis
    using Inr assms segment_ok_expire [OF assms i(2)] state_okD(1,3) [OF assms [unfolded good_def] i(2)]
    by (auto simp: wait_start_def segment_ok_def pending_ok_def)
qed

lemma segment_ok_decide_start:
  assumes "good A records sch s" "\<And>v w. q \<noteq> Cq_wait v \<and> q \<noteq> Cq_storage_create w"
    and "u = ca_operator_uid A" and "d = ''approved'' \<Longrightarrow> Arrival (Cq_approve v w) u now \<in> set sch"
  shows "segment_ok A records sch s q (decide_start v w d u now s)"
proof (cases "consent_lookup v s")
  case (Inl e)
  then show ?thesis
    using segment_ok_fails [OF assms(1)] by (simp add: decide_start_def)
next
  case (Inr c)
  then obtain i where i: "v = Some i" "map_of (cs_challenges s) i = Some c"
    by (auto simp: consent_lookup_Inr)
  have "segment_ok A records sch s q (Suspended (Deciding (ch_id c) d u), s)"
    if "\<not> ch_expires_at c \<le> now" "\<not> (d = ''approved'' \<and> w \<noteq> Some (ch_confirmation_phrase c))"
  proof -
    have "asked A sch (core c) d"
      using that assms(3,4) i(1) state_okD(1) [OF assms(1) [unfolded good_def] i(2)] by (auto simp: asked_def not_le)
    then show ?thesis
      using assms state_okD(1,3) [OF assms(1) [unfolded good_def] i(2)] by (auto simp: segment_ok_def pending_ok_def)
  qed
  then show ?thesis
    using Inr segment_ok_fails [OF assms(1)] by (simp add: decide_start_def)
qed

lemma segment_ok_store:
  assumes "good A records sch s" "inj (ca_uuid A)"
    and c: "\<And>i. core (build i) = build i \<and> ch_id (build i) = i \<and> unreserved (build i) \<and> created_for q (build i)"
  shows "segment_ok A records sch s q (store_requested A build details s)"
proof -
  let ?c = "build (ca_uuid A (cs_created s))"
  let ?s = "put_challenge ?c (s\<lparr>cs_created := Suc (cs_created s)\<rparr>)"
  have pending: "ch_decision ?c = ''pending''"
    using c [of "ca_uuid A (cs_created s)"] core_decision [of ?c] by simp
  have fresh: "map_of (cs_challenges s) (ca_uuid A (cs_created s)) = None"
    using assms(1) by (simp add: good_def state_ok_def)
  have "good A records sch ?s"
    using assms(1) c pending inj_eq [OF assms(2)] unfolding good_def state_ok_def
    by (auto simp: put_challenge_def challenge_ok_def)
  moreover have "evolves s ?s"
    using fresh c by (auto simp: evolves_def holds_def put_challenge_def)
  ultimately show ?thesis
    using c by (simp add: segment_ok_def store_requested_def Let_def pending_ok_def holds_def)
      (simp add: put_challenge_def c)
qed

lemma segment_ok_start:
  assumes "good A records sch s" "inj (ca_uuid A)" "Arrival q u now \<in> set sch"
  shows "segment_ok A records sch s q (consent_start A q u now s)"
proof (cases q)
  case (Cq_create v session)
  then show ?thesis
    using assms by (auto simp: consent_start_def require_peer_def created_for_def split: option.split
        intro!: segment_ok_fails segment_ok_store)
next
  case (Cq_filesystem_create v)
  then show ?thesis
    using assms by (auto simp: consent_start_def require_peer_def created_for_def split: option.split
        intro!: segment_ok_fails segment_ok_store)
next
  case (Cq_storage_create v)
  then show ?thesis
    using assms by (auto simp: consent_start_def require_peer_def created_for_def split: option.split
        intro!: segment_ok_fails segment_ok_store)
next
  case (Cq_wait v)
  then show ?thesis
    using assms by (auto simp: consent_start_def require_peer_def intro!: segment_ok_fails segment_ok_wait_start)
next
  case (Cq_get v)
  then show ?thesis
    using assms by (auto simp: consent_start_def require_peer_def segment_ok_def fails_def result_ok_def
        split: sum.split)
next
  case (Cq_approve v w)
  then show ?thesis
    using assms by (auto simp: consent_start_def require_peer_def intro!: segment_ok_fails segment_ok_decide_start)
next
  case (Cq_deny v)
  then show ?thesis
    using assms by (auto simp: consent_start_def require_peer_def intro!: segment_ok_fails segment_ok_decide_start)
next
  case Cq_other
  then show ?thesis
    using assms by (auto simp: consent_start_def intro!: segment_ok_fails)
qed

lemma segment_ok_with:
  assumes "good A records sch s" "holds s i x"
    and "\<And>c. map_of (cs_challenges s) i = Some c \<Longrightarrow> core c = x \<Longrightarrow> segment_ok A records sch s q (f c s)"
  shows "segment_ok A records sch s q (with_challenge i f s)"
  using assms by (auto simp: holds_def with_challenge_def)

lemma segment_ok_commit:
  assumes "good A records sch s" "map_of (cs_challenges s) i = Some c" "\<And>v w. q \<noteq> Cq_wait v \<and> q \<noteq> Cq_storage_create w"
    and "backed A sch (records (cs_audit s)) (core c) d"
  shows "segment_ok A records sch s q (commit_decision c d (ca_operator_uid A) s)"
proof -
  let ?c = "c\<lparr>ch_operator_uid := Some (ca_operator_uid A), ch_decision := d, ch_event := True\<rparr>"
  have "challenge_ok A sch (records (cs_audit s)) ?c"
    using state_okD(2) [OF assms(1) [unfolded good_def] assms(2)] assms(4)
    by (simp add: challenge_ok_def unreserved_def)
  from put_same [OF assms(1) [unfolded good_def] assms(2) _ this] show ?thesis
    using assms(3) by (simp add: segment_ok_def commit_decision_def Let_def good_def result_ok_def)
qed

lemma segment_ok_told:
  assumes "good A records sch s" "map_of (cs_challenges s) i = Some c"
    and "(\<exists>p now. q = Cq_storage_create (Some p) \<and> core c = storage_challenge p (ch_id c) now) \<or> q = Cq_wait (Some i) \<or>
      (\<forall>v w. q \<noteq> Cq_wait v \<and> q \<noteq> Cq_storage_create w)"
  shows "segment_ok A records sch s q (Finished (Inr (challenge_public c)), s)"
proof -
  note c = state_okD [OF assms(1) [unfolded good_def] assms(2)]
  have "result_ok A sch (records (cs_audit s)) s q (Inr (challenge_public c))"
    using assms(3)
  proof (elim disjE exE conjE)
    fix p now
    assume q: "q = Cq_storage_create (Some p)" "core c = storage_challenge p (ch_id c) now"
    have "unreserved c"
      using c(2) by (simp add: challenge_ok_def)
    then show ?thesis
      using q c(1,3) unfolding result_ok_def by auto
  next
    assume q: "q = Cq_wait (Some i)"
    show ?thesis
      using c unfolding result_ok_def q by auto
  next
    assume "\<forall>v w. q \<noteq> Cq_wait v \<and> q \<noteq> Cq_storage_create w"
    then show ?thesis
      by (simp add: result_ok_def)
  qed
  then show ?thesis
    using assms(1) by (simp add: segment_ok_def)
qed

context recording_ledger
begin

lemma segment_ok_append:
  assumes app: "ca_append A = app" and "good A records sch s"
    and "\<And>a. records a = records (cs_audit s) @ [request] \<Longrightarrow> pending_ok A sch (records a) (s\<lparr>cs_audit := a\<rparr>) q continue"
  shows "segment_ok A records sch s q (consent_append A request on_error continue s)"
proof -
  have ok: "state_ok A sch (records a) (s\<lparr>cs_audit := a\<rparr>)" if "set (records (cs_audit s)) \<subseteq> set (records a)" for a
    using state_ok_mono [OF assms(2) [unfolded good_def] subset_refl that] by (simp add: state_ok_def)
  obtain r a where ap: "app request (cs_audit s) = (r, a)"
    by (metis prod.collapse)
  show ?thesis
  proof (cases r)
    case (Inl e)
    then have "records a = records (cs_audit s)"
      using ap app_failure by simp
    then show ?thesis
      using ap Inl ok [of a] by (simp add: consent_append_def app segment_ok_def good_def)
  next
    case (Inr rc)
    then have "records a = records (cs_audit s) @ [request]"
      using ap app_success by simp
    moreover have "set (records (cs_audit s)) \<subseteq> set (records a)"
      using calculation by auto
    ultimately show ?thesis
      using ap Inr ok [of a] assms(3) [of a] by (simp add: consent_append_def app segment_ok_def good_def)
  qed
qed

lemma holds_audit [simp]: "holds (s\<lparr>cs_audit := a\<rparr>) = holds s"
  by (simp add: holds_def fun_eq_iff)

lemma segment_ok_resume:
  assumes app: "ca_append A = app" and good: "good A records sch s" and p: "pending_ok A sch (records (cs_audit s)) s q p"
  shows "segment_ok A records sch s q (consent_resume A p timer now s)"
proof (cases p)
  case (Requesting c details)
  show ?thesis
    using p unfolding consent_resume_def Requesting consent_pending.case
    by (intro segment_ok_append [OF app good]) (auto simp: pending_ok_def)
next
  case (Requested i)
  then obtain x where x: "holds s i x" "ch_id x = i" "created_for q x"
    using p by (auto simp: pending_ok_def)
  have "segment_ok A records sch s q (Finished (Inr (challenge_public c)), s)"
    if c: "map_of (cs_challenges s) i = Some c" "core c = x" for c
  proof (rule segment_ok_told [OF good c(1)])
    show "(\<exists>p now. q = Cq_storage_create (Some p) \<and> core c = storage_challenge p (ch_id c) now) \<or> q = Cq_wait (Some i) \<or>
      (\<forall>v w. q \<noteq> Cq_wait v \<and> q \<noteq> Cq_storage_create w)"
      using x(3) c(2) unfolding created_for_def by (cases q) auto
  qed
  then show ?thesis
    unfolding consent_resume_def Requested consent_pending.case by (intro segment_ok_with [OF good x(1)])
next
  case (Deciding i d u)
  then obtain x where x: "holds s i x" "ch_id x = i" "asked A sch x d" "u = ca_operator_uid A"
    "\<forall>v w. q \<noteq> Cq_wait v \<and> q \<noteq> Cq_storage_create w"
    using p by (auto simp: pending_ok_def)
  have "segment_ok A records sch s q (consent_append A (decision_event c d u) audit_unavailable (Decided i d u) s)"
    if c: "core c = x" for c
    using x c by (intro segment_ok_append [OF app good]) (auto simp: pending_ok_def backed_def intro!: exI [of _ x])
  then show ?thesis
    unfolding consent_resume_def Deciding consent_pending.case by (intro segment_ok_with [OF good x(1)])
next
  case (Decided i d u)
  then obtain x where x: "holds s i x" "backed A sch (records (cs_audit s)) x d" "u = ca_operator_uid A"
    "\<forall>v w. q \<noteq> Cq_wait v \<and> q \<noteq> Cq_storage_create w"
    using p by (auto simp: pending_ok_def)
  then show ?thesis
    unfolding consent_resume_def Decided consent_pending.case
    by (intro segment_ok_with [OF good x(1)]) (auto intro: segment_ok_commit [OF good])
next
  case (Waiting i)
  then obtain x where x: "holds s i x" "ch_id x = i" "q = Cq_wait (Some i)"
    using p by (auto simp: pending_ok_def)
  have "segment_ok A records sch s q
     (if timer \<and> ch_expires_at c \<le> now then expire c s
      else if ch_event c then (Finished (Inr (challenge_public c)), s) else (Suspended (Waiting i), s))"
    if c: "map_of (cs_challenges s) i = Some c" for c
    using segment_ok_expire [OF good c] segment_ok_told [OF good c] good x(3) p Waiting
    by (auto simp: segment_ok_def)
  then show ?thesis
    unfolding consent_resume_def Waiting consent_pending.case by (intro segment_ok_with [OF good x(1)])
qed

end

section \<open>Schedules keep the invariant\<close>

definition process_ok ::
  "'a consent_authority \<Rightarrow> ('a \<Rightarrow> json list) \<Rightarrow> consent_input list \<Rightarrow> 'a consent_process \<Rightarrow> bool" where
  "process_ok A records sch y \<longleftrightarrow> good A records sch (py_state y) \<and>
     (\<forall>((n, q), p) \<in> set (py_pending y). pending_ok A sch (records (cs_audit (py_state y))) (py_state y) q p) \<and>
     (\<forall>((n, q), r) \<in> set (py_results y). result_ok A sch (records (cs_audit (py_state y))) (py_state y) q r)"

lemma process_ok_initial: "process_ok A records [] (consent_initial a)"
  by (simp add: process_ok_def consent_initial_def good_def state_ok_def)

lemma process_ok_settle:
  assumes "process_ok A records sch y" "segment_ok A records sch' (py_state y) q r" "set sch \<subseteq> set sch'"
  shows "process_ok A records sch' (settle (n, q) r y)"
proof -
  obtain out s' where r: "r = (out, s')"
    by (metis prod.collapse)
  have mono: "evolves (py_state y) s'" "set (records (cs_audit (py_state y))) \<subseteq> set (records (cs_audit s'))"
    "good A records sch' s'"
    using assms(2) by (auto simp: r segment_ok_def)
  have "\<forall>((n, q), p) \<in> set (py_pending y). pending_ok A sch' (records (cs_audit s')) s' q p"
    "\<forall>((n, q), v) \<in> set (py_results y). result_ok A sch' (records (cs_audit s')) s' q v"
    using assms(1) pending_ok_mono [OF _ assms(3) mono(2,1)] result_ok_mono [OF _ assms(3) mono(2,1)]
    unfolding process_ok_def by blast+
  then show ?thesis
    using mono(3) assms(2) by (cases out) (auto simp: process_ok_def settle_def r segment_ok_def)
qed

context recording_ledger
begin

lemma process_ok_step:
  assumes app: "ca_append A = app" and "inj (ca_uuid A)" "process_ok A records sch y"
  shows "process_ok A records (sch @ [i]) (consent_step A i y)"
proof -
  have sub: "set sch \<subseteq> set (sch @ [i])"
    by auto
  have good: "good A records (sch @ [i]) (py_state y)"
    using assms(3) state_ok_mono [OF _ sub subset_refl] unfolding process_ok_def good_def by blast
  show ?thesis
  proof (cases i)
    case (Arrival q u now)
    let ?y = "y\<lparr>py_accepted := Suc (py_accepted y)\<rparr>"
    have "segment_ok A records (sch @ [i]) (py_state y) q (consent_start A q u now (py_state y))"
      by (rule segment_ok_start [OF good assms(2)]) (simp add: Arrival)
    then have seg: "segment_ok A records (sch @ [i]) (py_state ?y) q (consent_start A q u now (py_state y))"
      by simp
    have "process_ok A records sch ?y"
      using assms(3) by (simp add: process_ok_def)
    from process_ok_settle [OF this seg sub] show ?thesis
      by (simp add: Arrival)
  next
    case (Resumption n timer now)
    show ?thesis
    proof (cases "n < length (py_pending y)")
      case True
      obtain l q p where qp: "py_pending y ! n = ((l, q), p)"
        by (metis prod.collapse)
      let ?y = "y\<lparr>py_pending := take n (py_pending y) @ drop (Suc n) (py_pending y)\<rparr>"
      have "((l, q), p) \<in> set (py_pending y)"
        using True qp nth_mem by metis
      then have "pending_ok A sch (records (cs_audit (py_state y))) (py_state y) q p"
        using assms(3) by (auto simp: process_ok_def)
      then have "pending_ok A (sch @ [i]) (records (cs_audit (py_state y))) (py_state y) q p"
        using pending_ok_mono [OF _ sub subset_refl evolves_refl(1)] by blast
      from segment_ok_resume [OF app good this]
      have seg: "segment_ok A records (sch @ [i]) (py_state ?y) q (consent_resume A p timer now (py_state y))"
        by simp
      have "process_ok A records sch ?y"
        using assms(3) by (auto simp: process_ok_def dest: in_set_takeD in_set_dropD)
      from process_ok_settle [OF this seg sub] show ?thesis
        using True qp by (simp add: Resumption Let_def)
    next
      case False
      have "process_ok A records (sch @ [i]) y"
        using assms(3) good pending_ok_mono [OF _ sub subset_refl evolves_refl(1)]
          result_ok_mono [OF _ sub subset_refl evolves_refl(1)] unfolding process_ok_def by blast
      then show ?thesis
        using False by (simp add: Resumption)
    qed
  qed
qed

lemma process_ok_run:
  assumes "ca_append A = app" "inj (ca_uuid A)" "process_ok A records sch y"
  shows "process_ok A records (sch @ schedule) (consent_run A schedule y)"
  using assms(3)
proof (induction schedule arbitrary: sch y)
  case (Cons i schedule)
  then show ?case
    using process_ok_step [OF assms(1,2)] Cons.IH [of "sch @ [i]"] by (simp add: consent_run_def)
qed (simp add: consent_run_def)

end

end
