(* ===== verification/Consent_Theorems.thy ===== *)
theory Consent_Theorems
  imports Consent_Guards Broker_Theorems
begin

text \<open>The theorems about the consent authority, and about a broker that asks it.\<close>

section \<open>Results of the process\<close>




section \<open>A concrete process\<close>

definition tag_authority :: "json list consent_authority" where
  "tag_authority = \<lparr>ca_append = memory_append memory_codec, ca_uuid = (\<lambda>n. replicate n CHR ''c''),
     ca_broker_uid = 0, ca_operator_uid = 1000\<rparr>"

definition tag_phrase :: string where
  "tag_phrase = ch_confirmation_phrase (storage_challenge tag_ready_plan [] 0)"

text \<open>One challenge, one waiting broker, one approval.\<close>

definition approval_schedule :: "consent_input list" where
  "approval_schedule =
     [Arrival (Cq_storage_create (Some tag_ready_plan)) 0 1, Resumption 0 False 2, Resumption 0 False 2,
      Arrival (Cq_wait (Some [])) 0 3, Arrival (Cq_approve (Some []) (Some tag_phrase)) 1000 4,
      Resumption 1 False 5, Resumption 1 False 6, Resumption 0 False 7]"


definition process_view :: "json list consent_process \<Rightarrow> string list \<times> string list \<times> (nat \<times> bool \<times> json option) list" where
  "process_view y =
     (map (\<lambda>(k, c). ch_decision c) (cs_challenges (py_state y)),
      List.map_filter (\<lambda>r. case json_get r ''event_type'' of Some (JStr s) \<Rightarrow> Some s | _ \<Rightarrow> None) (cs_audit (py_state y)),
      map (\<lambda>((n, q), r). (n, isl r, case r of Inl _ \<Rightarrow> None | Inr j \<Rightarrow> json_get j ''decision'')) (py_results y))"

lemma approval_view:
  "process_view (consent_run tag_authority approval_schedule (consent_initial [])) =
     ([''approved''], [''storage.authorization.requested'', ''storage.authorization.approved''],
      [(0, False, Some (JStr ''pending'')), (2, False, Some (JStr ''approved'')), (1, False, Some (JStr ''approved''))])"
  by code_simp




section \<open>Theorems on the authority\<close>




section \<open>A broker that asks the authority\<close>











section \<open>A concrete broker with its authority\<close>








section \<open>Theorems on broker and authority\<close>



end
