(* ===== verification/Event_Bus.thy ===== *)
theory Event_Bus
  imports Storage_Planning
begin

text \<open>
  The event envelope of \<^verbatim>\<open>events/models.py\<close> and the append-first bus of \<^verbatim>\<open>events/bus.py\<close>. A sink and a handler are
  programs on the world; the file behind the journal is a list of lines.
\<close>

datatype event_severity = Sev_info | Sev_warning | Sev_error | Sev_critical

record ares_event =
  ev_event_id :: string
  ev_event_type :: string
  ev_source :: string
  ev_correlation_id :: string
  ev_session_id :: string
  ev_timestamp :: int
  ev_severity :: "event_severity option"
  ev_payload :: "(string \<times> json) list"

fun severity_value :: "event_severity \<Rightarrow> string" where
  "severity_value Sev_info = ''info''"
| "severity_value Sev_warning = ''warning''"
| "severity_value Sev_error = ''error''"
| "severity_value Sev_critical = ''critical''"

text \<open>\<open>AresEvent(name=..., source=..., correlation_id=..., payload=...)\<close> with its defaults; the session defaults
  to the correlation.\<close>

definition new_event ::
  "'w clock \<Rightarrow> string \<Rightarrow> string \<Rightarrow> string \<Rightarrow> string option \<Rightarrow> (string \<times> json) list \<Rightarrow> ('w, ares_event) prog" where
  "new_event K event_type source correlation_id session_id payload =
     bindM (uuid4_hex K) (\<lambda>i.
     bindM (utc_now K) (\<lambda>now.
     ret \<lparr>ev_event_id = i, ev_event_type = event_type, ev_source = source, ev_correlation_id = correlation_id,
       ev_session_id = (case session_id of None \<Rightarrow> correlation_id | Some s \<Rightarrow> s), ev_timestamp = now,
       ev_severity = None, ev_payload = payload\<rparr>))"

definition journal_record :: "ares_event \<Rightarrow> json" where
  "journal_record e = JObj
     [(''event_id'', JStr (ev_event_id e)), (''event_type'', JStr (ev_event_type e)), (''source'', JStr (ev_source e)),
      (''correlation_id'', JStr (ev_correlation_id e)), (''session_id'', JStr (ev_session_id e)),
      (''timestamp'', JInt (ev_timestamp e)),
      (''severity'', case ev_severity e of None \<Rightarrow> JNull | Some s \<Rightarrow> JStr (severity_value s)),
      (''payload'', JObj (ev_payload e)), (''id'', JStr (ev_event_id e)), (''name'', JStr (ev_event_type e)),
      (''occurred_at'', JInt (ev_timestamp e))]"

section \<open>Sinks\<close>

definition MAX_EVENT_BYTES :: int where
  "MAX_EVENT_BYTES = 256000"

definition memory_sink_append :: "ares_event \<Rightarrow> (ares_event list, unit) prog" where
  "memory_sink_append e events = (Inr (), events @ [e])"

text \<open>The journal, with \<open>json.dumps\<close> as a parameter; the write to the file is taken to succeed.\<close>

definition jsonl_sink_append :: "(json \<Rightarrow> string) \<Rightarrow> ares_event \<Rightarrow> (string list, unit) prog" where
  "jsonl_sink_append dumps e lines =
     (let encoded = dumps (journal_record e) @ [CHR 0x0A]
      in if utf8_length encoded > MAX_EVENT_BYTES then (Inl (ValueError ''event exceeds the durable journal limit''), lines)
         else (Inr (), lines @ [encoded]))"

section \<open>The bus\<close>

record 'w event_bus =
  eb_append :: "ares_event \<Rightarrow> ('w, unit) prog"
  eb_subscribers :: "(string \<times> (ares_event \<Rightarrow> ('w, unit) prog) list) list"

definition subscribers_of :: "'w event_bus \<Rightarrow> string \<Rightarrow> (ares_event \<Rightarrow> ('w, unit) prog) list" where
  "subscribers_of b name = (case map_of (eb_subscribers b) name of None \<Rightarrow> [] | Some hs \<Rightarrow> hs)"

definition bus_subscribe :: "string \<Rightarrow> (ares_event \<Rightarrow> ('w, unit) prog) \<Rightarrow> 'w event_bus \<Rightarrow> 'w event_bus" where
  "bus_subscribe name handler b =
     b\<lparr>eb_subscribers := dict_set name (subscribers_of b name @ [handler]) (eb_subscribers b)\<rparr>"

fun run_handlers :: "(ares_event \<Rightarrow> ('w, unit) prog) list \<Rightarrow> ares_event \<Rightarrow> ('w, unit) prog" where
  "run_handlers [] e = ret ()"
| "run_handlers (h # hs) e = bindM (h e) (\<lambda>_. run_handlers hs e)"

definition bus_publish :: "'w event_bus \<Rightarrow> ares_event \<Rightarrow> ('w, unit) prog" where
  "bus_publish b e = bindM (eb_append b e) (\<lambda>_.
     run_handlers (subscribers_of b (ev_event_type e) @ subscribers_of b ''*'') e)"

section \<open>What the bus promises\<close>

text \<open>Append first: after a refused append nothing is notified, and every publication that returns, or fails in a
  handler, is in the sink.\<close>

lemma publish_append_first:
  assumes "eb_append b e w = (Inl x, w')"
  shows "bus_publish b e w = (Inl x, w')"
  using assms by (simp add: bus_publish_def bindM_def)

lemma publish_appended:
  assumes "bus_publish b e w = (Inr (), w')"
  obtains w1 where "eb_append b e w = (Inr (), w1)"
  using assms by (auto simp: bus_publish_def bindM_Inr_iff)

lemma run_handlers_append:
  "run_handlers (hs @ gs) e = bindM (run_handlers hs e) (\<lambda>_. run_handlers gs e)"
  by (induction hs) (auto simp: bindM_def ret_def fun_eq_iff split: prod.splits sum.splits)

text \<open>A later subscriber of the same name is notified after the earlier ones, and no other name is affected.\<close>

lemma subscribe_last:
  "subscribers_of (bus_subscribe n h b) k = (if k = n then subscribers_of b n @ [h] else subscribers_of b k)"
  by (simp add: subscribers_of_def bus_subscribe_def)

lemma journal_within_limit:
  assumes "jsonl_sink_append dumps e lines = (Inr (), lines')"
  shows "lines' = lines @ [dumps (journal_record e) @ [CHR 0x0A]] \<and>
    utf8_length (dumps (journal_record e) @ [CHR 0x0A]) \<le> MAX_EVENT_BYTES"
  using assms by (auto simp: jsonl_sink_append_def Let_def split: if_splits)

end
