(* ===== verification/Workflow_Engine.thy ===== *)
theory Workflow_Engine
  imports Event_Bus "HOL-Library.List_Lexorder" "HOL-Library.Char_ord"
begin

text \<open>
  The workflow engine of \<^verbatim>\<open>workflows/engine.py\<close> with the definitions of \<^verbatim>\<open>workflows/models.py\<close>. A step is a task
  that advances from one suspension point that matters to others to the next: the checkpoint before an
  attempt, the action, each post-check. A schedule says, for each advance, what the rest of the program does
  before it (other executions, pause, resume, cancel) and which task of a parallel stage is next. Actions,
  conditions, input factories and post-checks are parameters; an action is taken together with its race
  against the timeout and the cancellation. Durations are left out of records and events.
\<close>

section \<open>Definitions of workflows\<close>

datatype stage_mode = Sequential | Parallel

datatype step_status = Step_succeeded | Step_failed | Step_skipped | Step_cancelled

datatype execution_status = Exec_succeeded | Exec_failed | Exec_cancelled

type_synonym step_outputs = "(string \<times> json) list"

text \<open>How the wait for an action ends: the action task is done, nothing is done at the timeout, or only the
  cancellation is.\<close>

datatype action_end = Ended "exc + json" | Timed_out | Interrupted

record 'w action =
  act_id :: string
  act_idempotent :: bool
  act_run :: "string \<Rightarrow> json \<Rightarrow> 'w \<Rightarrow> action_end \<times> 'w"
  act_compensate :: "string \<Rightarrow> json \<Rightarrow> ('w, unit) prog"

record retry_policy =
  rp_max_attempts :: nat
  rp_delay_seconds :: nat

definition retry_policy_valid :: "retry_policy \<Rightarrow> bool" where
  "retry_policy_valid r \<longleftrightarrow> 1 \<le> rp_max_attempts r \<and> rp_max_attempts r \<le> 5 \<and> rp_delay_seconds r \<le> 30"

record 'w workflow_step =
  ws_id :: string
  ws_action :: "'w action"
  ws_inputs :: "step_outputs \<Rightarrow> exc + json"
  ws_timeout_seconds :: nat
  ws_retry :: retry_policy
  ws_condition :: "(step_outputs \<Rightarrow> exc + bool) option"
  ws_postchecks :: "(json \<Rightarrow> step_outputs \<Rightarrow> ('w, bool) prog) list"
  ws_compensate_on_failure :: bool

definition workflow_step_valid :: "'w workflow_step \<Rightarrow> bool" where
  "workflow_step_valid s \<longleftrightarrow> retry_policy_valid (ws_retry s) \<and> ws_id s \<noteq> [] \<and> length (ws_id s) \<le> 96 \<and>
     0 < ws_timeout_seconds s \<and> ws_timeout_seconds s \<le> 86400 \<and>
     (1 < rp_max_attempts (ws_retry s) \<longrightarrow> act_idempotent (ws_action s))"

record 'w workflow_stage =
  wg_id :: string
  wg_mode :: stage_mode
  wg_steps :: "'w workflow_step list"

definition workflow_stage_valid :: "'w workflow_stage \<Rightarrow> bool" where
  "workflow_stage_valid g \<longleftrightarrow> wg_id g \<noteq> [] \<and> wg_steps g \<noteq> [] \<and> (\<forall>s \<in> set (wg_steps g). workflow_step_valid s)"

record 'w workflow_definition =
  wd_id :: string
  wd_version :: string
  wd_capability_id :: string
  wd_stages :: "'w workflow_stage list"
  wd_result :: "step_outputs \<Rightarrow> exc + json"

definition definition_steps :: "'w workflow_definition \<Rightarrow> 'w workflow_step list" where
  "definition_steps d = concat (map wg_steps (wd_stages d))"

definition workflow_definition_valid :: "'w workflow_definition \<Rightarrow> bool" where
  "workflow_definition_valid d \<longleftrightarrow> wd_id d \<noteq> [] \<and> wd_stages d \<noteq> [] \<and> distinct (map ws_id (definition_steps d)) \<and>
     (\<forall>g \<in> set (wd_stages d). workflow_stage_valid g)"

record step_execution =
  sx_step_id :: string
  sx_action_id :: string
  sx_status :: step_status
  sx_attempts :: nat
  sx_started_at :: int
  sx_finished_at :: int
  sx_error_code :: "string option"

record workflow_execution =
  wx_id :: string
  wx_workflow_id :: string
  wx_workflow_version :: string
  wx_capability_id :: string
  wx_status :: execution_status
  wx_started_at :: int
  wx_finished_at :: int
  wx_steps :: "step_execution list"
  wx_result :: "json option"
  wx_error_code :: "string option"
  wx_rollback_performed :: bool

section \<open>State of the engine\<close>

record wf_control =
  ct_open :: bool
  ct_cancelled :: bool
  ct_workflow_id :: string
  ct_capability_id :: string

record 'w wf_state =
  wf_world :: 'w
  wf_controls :: "(string \<times> wf_control) list"
  wf_executions :: "(string \<times> workflow_execution) list"

record 'w workflow_engine =
  we_bus :: "'w event_bus"
  we_clock :: "'w clock"
  we_dumps :: "json \<Rightarrow> exc + string"
  we_sha256 :: "string \<Rightarrow> string"

definition MAX_RETAINED_EXECUTIONS :: nat where
  "MAX_RETAINED_EXECUTIONS = 256"

definition onWorld :: "('w, 'a) prog \<Rightarrow> ('w wf_state, 'a) prog" where
  "onWorld m s = (let (r, w) = m (wf_world s) in (r, s\<lparr>wf_world := w\<rparr>))"

definition publish_event ::
  "'w workflow_engine \<Rightarrow> string \<Rightarrow> string \<Rightarrow> string \<Rightarrow> string \<Rightarrow> (string \<times> json) list \<Rightarrow> ('w wf_state, unit) prog" where
  "publish_event E workflow_id capability_id name execution_id payload =
     onWorld (bindM (new_event (we_clock E) name capability_id execution_id None
         ((''workflow_id'', JStr workflow_id) # payload)) (bus_publish (we_bus E)))"

definition wf_event ::
  "'w workflow_engine \<Rightarrow> 'w workflow_definition \<Rightarrow> string \<Rightarrow> string \<Rightarrow> (string \<times> json) list \<Rightarrow> ('w wf_state, unit) prog" where
  "wf_event E d execution_id name payload = publish_event E (wd_id d) (wd_capability_id d) name execution_id payload"

definition wf_get :: "string \<Rightarrow> 'w wf_state \<Rightarrow> workflow_execution option" where
  "wf_get i s = map_of (wf_executions s) i"

definition wf_list :: "'w wf_state \<Rightarrow> workflow_execution list" where
  "wf_list s = rev (map snd (wf_executions s))"

definition control_op ::
  "'w workflow_engine \<Rightarrow> string \<Rightarrow> (wf_control \<Rightarrow> wf_control) \<Rightarrow> string \<Rightarrow> ('w wf_state, bool) prog" where
  "control_op E i f name s = (case map_of (wf_controls s) i of
     None \<Rightarrow> (Inr False, s)
   | Some c \<Rightarrow> bindM (publish_event E (ct_workflow_id c) (ct_capability_id c) name i []) (\<lambda>_. ret True)
       (s\<lparr>wf_controls := dict_set i (f c) (wf_controls s)\<rparr>))"

definition wf_pause :: "'w workflow_engine \<Rightarrow> string \<Rightarrow> ('w wf_state, bool) prog" where
  "wf_pause E i = control_op E i (\<lambda>c. c\<lparr>ct_open := False\<rparr>) ''workflow.paused''"

definition wf_resume :: "'w workflow_engine \<Rightarrow> string \<Rightarrow> ('w wf_state, bool) prog" where
  "wf_resume E i = control_op E i (\<lambda>c. c\<lparr>ct_open := True\<rparr>) ''workflow.resumed''"

definition wf_cancel :: "'w workflow_engine \<Rightarrow> string \<Rightarrow> ('w wf_state, bool) prog" where
  "wf_cancel E i = control_op E i (\<lambda>c. c\<lparr>ct_cancelled := True, ct_open := True\<rparr>) ''workflow.cancellation-requested''"

text \<open>The two parts of \<open>checkpoint\<close>: the gate and the cancellation.\<close>

definition gate_open :: "string \<Rightarrow> 'w wf_state \<Rightarrow> bool" where
  "gate_open i s = (case map_of (wf_controls s) i of None \<Rightarrow> True | Some c \<Rightarrow> ct_open c)"

definition cancel_set :: "string \<Rightarrow> 'w wf_state \<Rightarrow> bool" where
  "cancel_set i s = (case map_of (wf_controls s) i of None \<Rightarrow> False | Some c \<Rightarrow> ct_cancelled c)"

section \<open>One step\<close>

text \<open>How the run of a step, a stage or all stages stops early.\<close>

datatype wf_stop =
    Stop_step_failed step_execution
  | Stop_parallel "string option"
  | Stop_cancelled
  | Stop_exception exc

text \<open>The suspension points of a step: before its first segment, before the checkpoint of an attempt after so
  many, before the action of an attempt, and before a post-check; the last is its result.\<close>

datatype step_phase =
    Ph_begin
  | Ph_attempt int json nat
  | Ph_action int json nat
  | Ph_check int json nat json nat
  | Ph_over "wf_stop + (step_execution \<times> json option)"

definition step_record ::
  "'w workflow_step \<Rightarrow> step_status \<Rightarrow> nat \<Rightarrow> int \<Rightarrow> int \<Rightarrow> string option \<Rightarrow> step_execution" where
  "step_record step status attempts started_at finished_at error_code =
     \<lparr>sx_step_id = ws_id step, sx_action_id = act_id (ws_action step), sx_status = status, sx_attempts = attempts,
      sx_started_at = started_at, sx_finished_at = finished_at, sx_error_code = error_code\<rparr>"

definition step_payload :: "'w workflow_step \<Rightarrow> (string \<times> json) list" where
  "step_payload step = [(''step_id'', JStr (ws_id step)), (''action_id'', JStr (act_id (ws_action step)))]"

definition failed_step ::
  "'w workflow_engine \<Rightarrow> 'w workflow_step \<Rightarrow> int \<Rightarrow> nat \<Rightarrow> string \<Rightarrow> ('w wf_state, step_phase) prog" where
  "failed_step E step started_at attempts code =
     bindM (onWorld (utc_now (we_clock E))) (\<lambda>now.
     ret (Ph_over (Inl (Stop_step_failed (step_record step Step_failed attempts started_at now (Some code))))))"

text \<open>The handlers around an attempt; \<open>asyncio.CancelledError\<close> is not an \<open>Exception\<close>.\<close>

definition action_error :: "exc \<Rightarrow> string option" where
  "action_error e = (case e of
     TimeoutError \<Rightarrow> Some ''ACTION_TIMEOUT''
   | ActionError code \<Rightarrow> Some code
   | CancelledError \<Rightarrow> None
   | _ \<Rightarrow> Some ''ACTION_FAILED'')"

definition attempt_failed ::
  "'w workflow_engine \<Rightarrow> 'w workflow_definition \<Rightarrow> string \<Rightarrow> 'w workflow_step \<Rightarrow> int \<Rightarrow> json \<Rightarrow> nat \<Rightarrow> string
     \<Rightarrow> ('w wf_state, step_phase) prog" where
  "attempt_failed E d i step started_at inputs attempts code =
     bindM (wf_event E d i ''action.failed'' (step_payload step @
       [(''attempt'', JInt (int attempts)), (''error_code'', JStr code),
        (''retrying'', JBool (attempts < rp_max_attempts (ws_retry step)))])) (\<lambda>_.
     if attempts < rp_max_attempts (ws_retry step) then ret (Ph_attempt started_at inputs attempts)
     else failed_step E step started_at attempts code)"

definition attempt_raised ::
  "'w workflow_engine \<Rightarrow> 'w workflow_definition \<Rightarrow> string \<Rightarrow> 'w workflow_step \<Rightarrow> int \<Rightarrow> json \<Rightarrow> nat \<Rightarrow> exc
     \<Rightarrow> ('w wf_state, step_phase) prog" where
  "attempt_raised E d i step started_at inputs attempts e = (case action_error e of
     None \<Rightarrow> raise e
   | Some code \<Rightarrow> attempt_failed E d i step started_at inputs attempts code)"

definition begin_step ::
  "'w workflow_engine \<Rightarrow> 'w workflow_definition \<Rightarrow> string \<Rightarrow> step_outputs \<Rightarrow> 'w workflow_step
     \<Rightarrow> ('w wf_state, step_phase) prog" where
  "begin_step E d i outputs step =
     bindM (onWorld (utc_now (we_clock E))) (\<lambda>started_at.
     case (case ws_condition step of None \<Rightarrow> Inr True | Some condition \<Rightarrow> condition outputs) of
       Inl e \<Rightarrow> failed_step E step started_at 0 ''WORKFLOW_CONDITION_INVALID''
     | Inr False \<Rightarrow>
         bindM (onWorld (utc_now (we_clock E))) (\<lambda>now.
         bindM (wf_event E d i ''workflow.step.skipped'' (step_payload step)) (\<lambda>_.
         ret (Ph_over (Inr (step_record step Step_skipped 0 started_at now None, None)))))
     | Inr True \<Rightarrow> (case ws_inputs step outputs of
         Inl e \<Rightarrow> failed_step E step started_at 0 ''WORKFLOW_INPUT_INVALID''
       | Inr inputs \<Rightarrow>
           if 0 < rp_max_attempts (ws_retry step) then ret (Ph_attempt started_at inputs 0)
           else failed_step E step started_at 0 ''ACTION_FAILED''))"

definition complete_step ::
  "'w workflow_engine \<Rightarrow> 'w workflow_definition \<Rightarrow> string \<Rightarrow> 'w workflow_step \<Rightarrow> int \<Rightarrow> nat \<Rightarrow> json
     \<Rightarrow> ('w wf_state, step_phase) prog" where
  "complete_step E d i step started_at attempts output =
     bindM (onWorld (utc_now (we_clock E))) (\<lambda>now.
     bindM (wf_event E d i ''action.completed'' (step_payload step @ [(''attempts'', JInt (int attempts))])) (\<lambda>_.
     ret (Ph_over (Inr (step_record step Step_succeeded attempts started_at now None, Some output)))))"

definition check_step ::
  "'w workflow_engine \<Rightarrow> 'w workflow_definition \<Rightarrow> string \<Rightarrow> step_outputs \<Rightarrow> 'w workflow_step \<Rightarrow> json \<Rightarrow> nat
     \<Rightarrow> ('w wf_state, unit) prog" where
  "check_step E d i outputs step output index =
     bindM (onWorld ((ws_postchecks step ! index) output outputs)) (\<lambda>passed.
     if \<not> passed then raise (ActionError ''POSTCHECK_FAILED'')
     else wf_event E d i ''workflow.postcheck.passed''
       [(''step_id'', JStr (ws_id step)), (''postcheck_index'', JInt (int index))])"

text \<open>\<open>_run_action\<close>.\<close>

definition run_action ::
  "'w workflow_step \<Rightarrow> string \<Rightarrow> json \<Rightarrow> 'w wf_state \<Rightarrow> ((wf_stop + exc) + json) \<times> 'w wf_state" where
  "run_action step i inputs s =
     (let (r, w) = act_run (ws_action step) i inputs (wf_world s) in
      (case r of
         Ended (Inr output) \<Rightarrow> Inr output
       | Ended (Inl e) \<Rightarrow> Inl (Inr e)
       | Timed_out \<Rightarrow> Inl (Inr TimeoutError)
       | Interrupted \<Rightarrow> Inl (Inl Stop_cancelled), s\<lparr>wf_world := w\<rparr>))"

text \<open>One segment of \<open>_run_step\<close>. The loop \<open>while attempts < max_attempts\<close> is the return to \<open>Ph_attempt\<close>.\<close>

definition step_segment ::
  "'w workflow_engine \<Rightarrow> 'w workflow_definition \<Rightarrow> string \<Rightarrow> step_outputs \<Rightarrow> 'w workflow_step \<Rightarrow> step_phase
     \<Rightarrow> ('w wf_state, step_phase) prog" where
  "step_segment E d i outputs step phase = (case phase of
     Ph_begin \<Rightarrow> begin_step E d i outputs step
   | Ph_attempt started_at inputs attempts \<Rightarrow> (\<lambda>s.
       if cancel_set i s then (Inr (Ph_over (Inl Stop_cancelled)), s)
       else bindM (wf_event E d i ''action.started'' (step_payload step @ [(''attempt'', JInt (int (attempts + 1)))])) (\<lambda>_.
         ret (Ph_action started_at inputs (attempts + 1))) s)
   | Ph_action started_at inputs attempts \<Rightarrow> (\<lambda>s.
       case run_action step i inputs s of
         (Inr output, s') \<Rightarrow> (Inr (Ph_check started_at inputs attempts output 0), s')
       | (Inl (Inr e), s') \<Rightarrow> attempt_raised E d i step started_at inputs attempts e s'
       | (Inl (Inl stop), s') \<Rightarrow> (Inr (Ph_over (Inl stop)), s'))
   | Ph_check started_at inputs attempts output index \<Rightarrow>
       if index < length (ws_postchecks step) then (\<lambda>s.
         case check_step E d i outputs step output index s of
           (Inr _, s') \<Rightarrow> (Inr (Ph_check started_at inputs attempts output (index + 1)), s')
         | (Inl e, s') \<Rightarrow> attempt_raised E d i step started_at inputs attempts e s')
       else complete_step E d i step started_at attempts output
   | Ph_over r \<Rightarrow> ret (Ph_over r))"

definition advance_step ::
  "'w workflow_engine \<Rightarrow> 'w workflow_definition \<Rightarrow> string \<Rightarrow> step_outputs \<Rightarrow> 'w workflow_step \<Rightarrow> step_phase
     \<Rightarrow> 'w wf_state \<Rightarrow> step_phase \<times> 'w wf_state" where
  "advance_step E d i outputs step phase s = (case step_segment E d i outputs step phase s of
     (Inl e, s') \<Rightarrow> (Ph_over (Inl (Stop_exception e)), s') | (Inr p, s') \<Rightarrow> (p, s'))"

section \<open>Schedules\<close>

type_synonym 'w wf_schedule = "(nat \<times> ('w wf_state \<Rightarrow> 'w wf_state)) list"

type_synonym 'w wf_tasks = "('w workflow_step \<times> step_phase) list"

definition step_over :: "step_phase \<Rightarrow> bool" where
  "step_over p = (case p of Ph_over _ \<Rightarrow> True | _ \<Rightarrow> False)"

text \<open>A task that can advance: it is not over, and at a checkpoint the gate is open.\<close>

definition step_ready :: "string \<Rightarrow> 'w wf_state \<Rightarrow> step_phase \<Rightarrow> bool" where
  "step_ready i s p = (case p of Ph_over _ \<Rightarrow> False | Ph_attempt _ _ _ \<Rightarrow> gate_open i s | _ \<Rightarrow> True)"

definition advance_tasks ::
  "'w workflow_engine \<Rightarrow> 'w workflow_definition \<Rightarrow> string \<Rightarrow> step_outputs \<Rightarrow> nat \<Rightarrow> 'w wf_tasks
     \<Rightarrow> 'w wf_state \<Rightarrow> 'w wf_tasks \<times> 'w wf_state" where
  "advance_tasks E d i outputs n ts s =
     (let ready = filter (\<lambda>k. step_ready i s (snd (ts ! k))) [0..<length ts] in
      if ready = [] then (ts, s)
      else let k = ready ! (n mod length ready);
               (p, s') = advance_step E d i outputs (fst (ts ! k)) (snd (ts ! k)) s
           in (ts[k := (fst (ts ! k), p)], s'))"

fun run_tasks ::
  "'w workflow_engine \<Rightarrow> 'w workflow_definition \<Rightarrow> string \<Rightarrow> step_outputs \<Rightarrow> 'w wf_schedule \<Rightarrow> 'w wf_tasks
     \<Rightarrow> 'w wf_state \<Rightarrow> ('w wf_tasks \<times> 'w wf_state \<times> 'w wf_schedule) option" where
  "run_tasks E d i outputs sch ts s =
     (if list_all (\<lambda>t. step_over (snd t)) ts then Some (ts, s, sch)
      else case sch of
        [] \<Rightarrow> None
      | (n, env) # sch' \<Rightarrow>
          (let (ts', s') = advance_tasks E d i outputs n ts (env s) in run_tasks E d i outputs sch' ts' s'))"

declare run_tasks.simps [simp del]

fun await_gate ::
  "string \<Rightarrow> 'w wf_schedule \<Rightarrow> 'w wf_state \<Rightarrow> ('w wf_state \<times> 'w wf_schedule) option" where
  "await_gate i sch s =
     (if gate_open i s then Some (s, sch)
      else case sch of [] \<Rightarrow> None | (n, env) # sch' \<Rightarrow> await_gate i sch' (env s))"

declare await_gate.simps [simp del]

section \<open>Stages\<close>

record 'w wf_run =
  run_records :: "step_execution list"
  run_outputs :: step_outputs
  run_compensations :: "('w workflow_step \<times> json) list"

definition add_result :: "'w workflow_step \<Rightarrow> step_execution \<Rightarrow> json option \<Rightarrow> 'w wf_run \<Rightarrow> 'w wf_run" where
  "add_result step rec output run =
     (case output of
        None \<Rightarrow> run\<lparr>run_records := run_records run @ [rec]\<rparr>
      | Some v \<Rightarrow> run\<lparr>run_records := run_records run @ [rec], run_outputs := dict_set (ws_id step) v (run_outputs run),
          run_compensations := run_compensations run @ (if ws_compensate_on_failure step then [(step, v)] else [])\<rparr>)"

text \<open>What stops the stage, if anything, and what has been gathered so far.\<close>

type_synonym 'w wf_progress = "wf_stop option \<times> 'w wf_run \<times> 'w wf_state \<times> 'w wf_schedule"

definition phase_result :: "step_phase \<Rightarrow> wf_stop + (step_execution \<times> json option)" where
  "phase_result p = (case p of Ph_over r \<Rightarrow> r | _ \<Rightarrow> Inl Stop_cancelled)"

fun run_sequential ::
  "'w workflow_engine \<Rightarrow> 'w workflow_definition \<Rightarrow> string \<Rightarrow> 'w workflow_step list \<Rightarrow> 'w wf_run \<Rightarrow> 'w wf_state
     \<Rightarrow> 'w wf_schedule \<Rightarrow> 'w wf_progress option" where
  "run_sequential E d i [] run s sch = Some (None, run, s, sch)"
| "run_sequential E d i (step # steps) run s sch =
     (case run_tasks E d i (run_outputs run) sch [(step, Ph_begin)] s of
        None \<Rightarrow> None
      | Some (ts, s', sch') \<Rightarrow> (case phase_result (snd (hd ts)) of
          Inl stop \<Rightarrow> Some (Some stop, run, s', sch')
        | Inr (rec, output) \<Rightarrow> run_sequential E d i steps (add_result step rec output run) s' sch'))"

text \<open>The loop over the gathered outcomes of a parallel stage: failures, whether one was cancelled, and the run.\<close>

fun collect_outcomes ::
  "'w workflow_engine \<Rightarrow> 'w wf_tasks \<Rightarrow> step_execution list \<Rightarrow> bool \<Rightarrow> 'w wf_run
     \<Rightarrow> ('w wf_state, step_execution list \<times> bool \<times> 'w wf_run) prog" where
  "collect_outcomes E [] failures cancelled run = ret (failures, cancelled, run)"
| "collect_outcomes E ((step, p) # ts) failures cancelled run = (case phase_result p of
     Inl (Stop_step_failed rec) \<Rightarrow> collect_outcomes E ts (failures @ [rec]) cancelled run
   | Inl Stop_cancelled \<Rightarrow> collect_outcomes E ts failures True run
   | Inl _ \<Rightarrow>
       bindM (onWorld (utc_now (we_clock E))) (\<lambda>started_at.
       bindM (onWorld (utc_now (we_clock E))) (\<lambda>now.
       collect_outcomes E ts (failures @ [step_record step Step_failed 0 started_at now (Some ''WORKFLOW_STEP_INVALID'')])
         cancelled run))
   | Inr (rec, output) \<Rightarrow> collect_outcomes E ts failures cancelled (add_result step rec output run))"

definition stage_stop :: "step_execution list \<Rightarrow> bool \<Rightarrow> 'w wf_run \<Rightarrow> wf_stop option \<times> 'w wf_run" where
  "stage_stop failures cancelled run =
     (if cancelled then (Some Stop_cancelled, run)
      else case failures of
        [] \<Rightarrow> (None, run)
      | f # fs \<Rightarrow> (Some (Stop_parallel (sx_error_code f)), run\<lparr>run_records := run_records run @ f # fs\<rparr>))"

definition run_parallel ::
  "'w workflow_engine \<Rightarrow> 'w workflow_definition \<Rightarrow> string \<Rightarrow> 'w workflow_step list \<Rightarrow> 'w wf_run \<Rightarrow> 'w wf_state
     \<Rightarrow> 'w wf_schedule \<Rightarrow> 'w wf_progress option" where
  "run_parallel E d i steps run s sch =
     (case run_tasks E d i (run_outputs run) sch (map (\<lambda>step. (step, Ph_begin)) steps) s of
        None \<Rightarrow> None
      | Some (ts, s', sch') \<Rightarrow> (case collect_outcomes E ts [] False run s' of
          (Inl e, s'') \<Rightarrow> Some (Some (Stop_exception e), run, s'', sch')
        | (Inr (failures, cancelled, run'), s'') \<Rightarrow>
            (let (stop, run'') = stage_stop failures cancelled run' in Some (stop, run'', s'', sch'))))"

fun run_stages ::
  "'w workflow_engine \<Rightarrow> 'w workflow_definition \<Rightarrow> string \<Rightarrow> 'w workflow_stage list \<Rightarrow> 'w wf_run \<Rightarrow> 'w wf_state
     \<Rightarrow> 'w wf_schedule \<Rightarrow> 'w wf_progress option" where
  "run_stages E d i [] run s sch = Some (None, run, s, sch)"
| "run_stages E d i (g # gs) run s sch =
     (case await_gate i sch s of
        None \<Rightarrow> None
      | Some (s', sch') \<Rightarrow>
          if cancel_set i s' then Some (Some Stop_cancelled, run, s', sch')
          else (case (if wg_mode g = Sequential then run_sequential E d i (wg_steps g) run s' sch'
                      else run_parallel E d i (wg_steps g) run s' sch') of
              None \<Rightarrow> None
            | Some (Some stop, run', s'', sch'') \<Rightarrow> Some (Some stop, run', s'', sch'')
            | Some (None, run', s'', sch'') \<Rightarrow> run_stages E d i gs run' s'' sch''))"

section \<open>An execution\<close>

text \<open>\<open>_compensate\<close>: the newest first; an exception of a compensation is recorded and passed over.\<close>

fun compensate_all ::
  "'w workflow_engine \<Rightarrow> 'w workflow_definition \<Rightarrow> string \<Rightarrow> ('w workflow_step \<times> json) list \<Rightarrow> bool
     \<Rightarrow> ('w wf_state, bool) prog" where
  "compensate_all E d i [] complete = ret complete"
| "compensate_all E d i ((step, output) # rest) complete = (\<lambda>s.
     case onWorld (act_compensate (ws_action step) i output) s of
       (Inl CancelledError, s') \<Rightarrow> (Inl CancelledError, s')
     | (Inl e, s') \<Rightarrow> bindM (wf_event E d i ''workflow.compensation.failed'' (step_payload step)) (\<lambda>_.
         compensate_all E d i rest False) s'
     | (Inr _, s') \<Rightarrow> bindM (wf_event E d i ''workflow.compensation.completed'' (step_payload step)) (\<lambda>_.
         compensate_all E d i rest complete) s')"

definition wf_compensate ::
  "'w workflow_engine \<Rightarrow> 'w workflow_definition \<Rightarrow> string \<Rightarrow> ('w workflow_step \<times> json) list \<Rightarrow> ('w wf_state, bool) prog" where
  "wf_compensate E d i completed =
     bindM (wf_event E d i ''workflow.rollback.started'' []) (\<lambda>_.
     bindM (compensate_all E d i (rev completed) True) (\<lambda>complete.
     bindM (wf_event E d i ''workflow.rollback.completed'' [(''complete'', JBool complete)]) (\<lambda>_.
     ret True)))"

definition result_receipt :: "'w workflow_engine \<Rightarrow> json \<Rightarrow> exc + json" where
  "result_receipt E result = (case we_dumps E result of
     Inl e \<Rightarrow> Inl e
   | Inr encoded \<Rightarrow> Inr (JObj [(''sha256'', JStr (we_sha256 E encoded)), (''bytes'', JInt (utf8_length encoded)),
       (''top_level_fields'', JList (case result of JObj kvs \<Rightarrow> map JStr (sort_key (\<lambda>k. k) (map fst kvs)) | _ \<Rightarrow> []))]))"

definition remember :: "workflow_execution \<Rightarrow> 'w wf_state \<Rightarrow> 'w wf_state" where
  "remember x s = (let xs = dict_set (wx_id x) x (wf_executions s)
     in s\<lparr>wf_executions := drop (length xs - MAX_RETAINED_EXECUTIONS) xs\<rparr>)"

definition execution_value :: "execution_status \<Rightarrow> string" where
  "execution_value s = (case s of Exec_succeeded \<Rightarrow> ''succeeded'' | Exec_failed \<Rightarrow> ''failed'' | Exec_cancelled \<Rightarrow> ''cancelled'')"

text \<open>The three handlers around the stages: what is recorded, the status and the error code; an exception that
  none of them catches leaves the execution.\<close>

definition handle_stop ::
  "wf_stop option \<Rightarrow> 'w wf_run \<Rightarrow> exc + ('w wf_run \<times> execution_status \<times> string option)" where
  "handle_stop stop run = (case stop of
     None \<Rightarrow> Inr (run, Exec_succeeded, None)
   | Some (Stop_step_failed rec) \<Rightarrow> Inr (run\<lparr>run_records := run_records run @ [rec]\<rparr>, Exec_failed, sx_error_code rec)
   | Some (Stop_parallel code) \<Rightarrow> Inr (run, Exec_failed, code)
   | Some Stop_cancelled \<Rightarrow> Inr (run, Exec_cancelled, Some ''WORKFLOW_CANCELLED'')
   | Some (Stop_exception e) \<Rightarrow> Inl e)"

text \<open>The result and its receipt. A \<open>TypeError\<close> of the encoder, caught with \<open>ValueError\<close>, is a value error here.\<close>

definition compute_result ::
  "'w workflow_engine \<Rightarrow> 'w workflow_definition \<Rightarrow> 'w wf_run \<Rightarrow> execution_status \<Rightarrow> string option
     \<Rightarrow> exc + (execution_status \<times> string option \<times> json option \<times> json option)" where
  "compute_result E d run status code =
     (if status \<noteq> Exec_succeeded then Inr (status, code, None, None)
      else case wd_result d (run_outputs run) of
        Inl e \<Rightarrow> if is_value_error e then Inr (Exec_failed, Some ''WORKFLOW_RESULT_INVALID'', None, None) else Inl e
      | Inr result \<Rightarrow> (case result_receipt E result of
          Inl e \<Rightarrow> if is_value_error e then Inr (Exec_failed, Some ''WORKFLOW_RESULT_INVALID'', Some result, None) else Inl e
        | Inr receipt \<Rightarrow> Inr (Exec_succeeded, None, Some result, Some receipt)))"

definition optional :: "string option \<Rightarrow> json" where
  "optional v = (case v of None \<Rightarrow> JNull | Some s \<Rightarrow> JStr s)"

definition terminal_event :: "execution_status \<Rightarrow> string" where
  "terminal_event s = (case s of Exec_succeeded \<Rightarrow> ''workflow.completed''
     | Exec_cancelled \<Rightarrow> ''workflow.cancelled'' | Exec_failed \<Rightarrow> ''workflow.failed'')"

text \<open>\<open>execute\<close> behind the stages.\<close>

definition finish_execution_wf ::
  "'w workflow_engine \<Rightarrow> 'w workflow_definition \<Rightarrow> string \<Rightarrow> int \<Rightarrow> wf_stop option \<Rightarrow> 'w wf_run
     \<Rightarrow> ('w wf_state, workflow_execution) prog" where
  "finish_execution_wf E d i started_at stop run =
     bindM (liftE (handle_stop stop run)) (\<lambda>(run, status, code).
     bindM (liftE (compute_result E d run status code)) (\<lambda>(status, code, result, receipt).
     bindM (if status \<noteq> Exec_succeeded \<and> run_compensations run \<noteq> []
            then wf_compensate E d i (run_compensations run) else ret False) (\<lambda>rollback.
     bindM (onWorld (utc_now (we_clock E))) (\<lambda>now.
     let x = \<lparr>wx_id = i, wx_workflow_id = wd_id d, wx_workflow_version = wd_version d,
               wx_capability_id = wd_capability_id d, wx_status = status, wx_started_at = started_at,
               wx_finished_at = now, wx_steps = run_records run, wx_result = result, wx_error_code = code,
               wx_rollback_performed = rollback\<rparr>
     in
     bindM (wf_event E d i (terminal_event status)
       [(''status'', JStr (execution_value status)), (''error_code'', optional code)]) (\<lambda>_.
     bindM (wf_event E d i (if status = Exec_succeeded then ''capability.completed'' else ''capability.failed'')
       [(''status'', JStr (execution_value status)), (''error_code'', optional code),
        (''result_receipt'', case receipt of None \<Rightarrow> JNull | Some r \<Rightarrow> r)]) (\<lambda>_.
     bindM (modifyM (\<lambda>s. remember x (s\<lparr>wf_controls := dict_del i (wf_controls s)\<rparr>))) (\<lambda>_.
     ret x)))))))"

definition start_execution ::
  "'w workflow_engine \<Rightarrow> 'w workflow_definition \<Rightarrow> string \<Rightarrow> ('w wf_state, int) prog" where
  "start_execution E d i = (\<lambda>s.
     if map_of (wf_controls s) i \<noteq> None \<or> map_of (wf_executions s) i \<noteq> None
     then (Inl (ValueError ''workflow execution ID already exists''), s)
     else
       bindM (modifyM (\<lambda>s. s\<lparr>wf_controls := dict_set i \<lparr>ct_open = True, ct_cancelled = False,
           ct_workflow_id = wd_id d, ct_capability_id = wd_capability_id d\<rparr> (wf_controls s)\<rparr>)) (\<lambda>_.
       bindM (onWorld (utc_now (we_clock E))) (\<lambda>started_at.
       bindM (wf_event E d i ''workflow.started'' [(''workflow_version'', JStr (wd_version d))]) (\<lambda>_.
       bindM (wf_event E d i ''capability.started'' []) (\<lambda>_.
       ret started_at)))) s)"

text \<open>\<open>execute\<close> under a schedule; \<^const>\<open>None\<close> when the schedule ends before the execution does.\<close>

definition wf_execute ::
  "'w workflow_engine \<Rightarrow> 'w workflow_definition \<Rightarrow> string option \<Rightarrow> 'w wf_schedule \<Rightarrow> 'w wf_state
     \<Rightarrow> ((exc + workflow_execution) \<times> 'w wf_state) option" where
  "wf_execute E d execution_id sch s =
     (case (case execution_id of
              None \<Rightarrow> onWorld (uuid4_hex (we_clock E)) s
            | Some i \<Rightarrow> if i = [] then onWorld (uuid4_hex (we_clock E)) s else (Inr i, s)) of
        (Inl e, s1) \<Rightarrow> Some (Inl e, s1)
      | (Inr i, s1) \<Rightarrow> (case start_execution E d i s1 of
          (Inl e, s2) \<Rightarrow> Some (Inl e, s2)
        | (Inr started_at, s2) \<Rightarrow>
            (case run_stages E d i (wd_stages d) \<lparr>run_records = [], run_outputs = [], run_compensations = []\<rparr> s2 sch of
               None \<Rightarrow> None
             | Some (stop, run, s3, _) \<Rightarrow> Some (finish_execution_wf E d i started_at stop run s3))))"

end
