(* ===== verification/Workflow_Guards.thy ===== *)
theory Workflow_Guards
  imports Workflow_Engine "HOL-Library.Multiset"
begin

text \<open>
  The workflow engine: what a task of a step may have recorded in each phase, that every advance brings it
  closer to its end, and what the stages gather.
\<close>

section \<open>Phases of a step\<close>

definition record_ok :: "'w workflow_step \<Rightarrow> step_execution \<Rightarrow> bool" where
  "record_ok step rec \<longleftrightarrow> sx_step_id rec = ws_id step \<and> sx_action_id rec = act_id (ws_action step) \<and>
     sx_attempts rec \<le> rp_max_attempts (ws_retry step) \<and>
     (sx_status rec = Step_succeeded \<longrightarrow> 0 < sx_attempts rec) \<and> (sx_status rec = Step_skipped \<longrightarrow> sx_attempts rec = 0) \<and>
     sx_status rec \<noteq> Step_cancelled \<and> (sx_status rec = Step_failed \<longleftrightarrow> sx_error_code rec \<noteq> None)"

fun phase_ok :: "'w workflow_step \<Rightarrow> step_phase \<Rightarrow> bool" where
  "phase_ok step Ph_begin = True"
| "phase_ok step (Ph_attempt t inputs n) = (n < rp_max_attempts (ws_retry step))"
| "phase_ok step (Ph_action t inputs n) = (0 < n \<and> n \<le> rp_max_attempts (ws_retry step))"
| "phase_ok step (Ph_check t inputs n out k) =
     (0 < n \<and> n \<le> rp_max_attempts (ws_retry step) \<and> k \<le> length (ws_postchecks step))"
| "phase_ok step (Ph_over (Inr (rec, out))) =
     (record_ok step rec \<and> sx_status rec \<noteq> Step_failed \<and> (out \<noteq> None \<longleftrightarrow> sx_status rec = Step_succeeded))"
| "phase_ok step (Ph_over (Inl (Stop_step_failed rec))) = (record_ok step rec \<and> sx_status rec = Step_failed)"
| "phase_ok step (Ph_over (Inl (Stop_parallel code))) = False"
| "phase_ok step (Ph_over (Inl Stop_cancelled)) = True"
| "phase_ok step (Ph_over (Inl (Stop_exception e))) = True"

text \<open>How many advances a step can still take.\<close>

definition attempt_segments :: "'w workflow_step \<Rightarrow> nat" where
  "attempt_segments step = length (ws_postchecks step) + 3"

fun remaining :: "'w workflow_step \<Rightarrow> step_phase \<Rightarrow> nat" where
  "remaining step Ph_begin = rp_max_attempts (ws_retry step) * attempt_segments step + 1"
| "remaining step (Ph_attempt t inputs n) = (rp_max_attempts (ws_retry step) - n) * attempt_segments step"
| "remaining step (Ph_action t inputs n) =
     (rp_max_attempts (ws_retry step) - n) * attempt_segments step + length (ws_postchecks step) + 2"
| "remaining step (Ph_check t inputs n out k) =
     (rp_max_attempts (ws_retry step) - n) * attempt_segments step + (length (ws_postchecks step) - k) + 1"
| "remaining step (Ph_over r) = 0"

lemma onWorld_iff [prog_simps]: "onWorld m s = (r, s') \<longleftrightarrow> (\<exists>w. m (wf_world s) = (r, w) \<and> s' = s\<lparr>wf_world := w\<rparr>)"
  by (auto simp: onWorld_def split: prod.splits)

lemma attempt_left:
  fixes n m k :: nat
  assumes "0 < n" "n \<le> m"
  shows "(m - n) * k + k \<le> m * k"
proof -
  have "(m - n) * k + k = (Suc (m - n)) * k"
    by simp
  also have "\<dots> \<le> m * k"
    using assms by (intro mult_right_mono) auto
  finally show ?thesis .
qed

lemma failed_step_Inr:
  "failed_step E step t n code s = (Inr p, s') \<Longrightarrow>
     \<exists>now. p = Ph_over (Inl (Stop_step_failed (step_record step Step_failed n t now (Some code))))"
  by (auto simp: failed_step_def bindM_Inr_iff ret_iff)

lemma attempt_failed_phase:
  assumes "attempt_failed E d i step t inputs n code s = (Inr p, s')" "0 < n" "n \<le> rp_max_attempts (ws_retry step)"
  shows "phase_ok step p \<and> remaining step p \<le> (rp_max_attempts (ws_retry step) - n) * attempt_segments step"
  using assms unfolding attempt_failed_def
  by (auto simp: bindM_Inr_iff ret_iff record_ok_def step_record_def dest!: failed_step_Inr split: if_splits)

lemma attempt_raised_phase:
  assumes "attempt_raised E d i step t inputs n e s = (Inr p, s')" "0 < n" "n \<le> rp_max_attempts (ws_retry step)"
  shows "phase_ok step p \<and> remaining step p \<le> (rp_max_attempts (ws_retry step) - n) * attempt_segments step"
  using assms unfolding attempt_raised_def
  by (auto simp: raise_def dest: attempt_failed_phase split: option.splits)

lemma begin_step_phase:
  assumes "begin_step E d i outputs step s = (Inr p, s')"
  shows "phase_ok step p \<and> remaining step p < remaining step Ph_begin"
proof (cases "case ws_condition step of None \<Rightarrow> Inr True | Some condition \<Rightarrow> condition outputs")
  case (Inl e)
  then show ?thesis
    using assms unfolding begin_step_def
    by (auto simp: bindM_Inr_iff record_ok_def step_record_def dest!: failed_step_Inr)
next
  case (Inr b)
  then show ?thesis
    using assms unfolding begin_step_def
    by (cases b; cases "ws_inputs step outputs")
      (auto simp: bindM_Inr_iff ret_iff record_ok_def step_record_def dest!: failed_step_Inr split: if_splits)
qed

text \<open>Every segment keeps the phase in order and brings the step closer to its end.\<close>

lemma step_segment_phase:
  assumes "step_segment E d i outputs step p s = (Inr p', s')" "phase_ok step p" "\<not> step_over p"
  shows "phase_ok step p' \<and> remaining step p' < remaining step p"
proof (cases p)
  case Ph_begin
  then show ?thesis
    using assms(1) begin_step_phase by (simp add: step_segment_def)
next
  case (Ph_attempt t inputs n)
  have "(rp_max_attempts (ws_retry step) - Suc n) * attempt_segments step + attempt_segments step
      \<le> (rp_max_attempts (ws_retry step) - n) * attempt_segments step"
    using attempt_left [of "Suc 0" "rp_max_attempts (ws_retry step) - n" "attempt_segments step"] assms(2) Ph_attempt by simp
  then have "remaining step (Ph_action t inputs (n + 1)) < remaining step p"
    unfolding Ph_attempt by (simp add: attempt_segments_def)
  then show ?thesis
    using assms(1,2) unfolding step_segment_def Ph_attempt
    by (auto simp: bindM_Inr_iff ret_iff attempt_segments_def split: if_splits)
next
  case (Ph_action t inputs n)
  then have n: "0 < n" "n \<le> rp_max_attempts (ws_retry step)"
    using assms(2) by simp_all
  show ?thesis
    using assms(1) n unfolding step_segment_def Ph_action
    by (auto simp: run_action_def Let_def dest!: attempt_raised_phase
        split: prod.splits sum.splits action_end.splits)
next
  case (Ph_check t inputs n out k)
  then have n: "0 < n" "n \<le> rp_max_attempts (ws_retry step)" "k \<le> length (ws_postchecks step)"
    using assms(2) by simp_all
  show ?thesis
    using assms(1) n unfolding step_segment_def Ph_check
    by (auto simp: complete_step_def bindM_Inr_iff ret_iff record_ok_def step_record_def
        dest!: attempt_raised_phase split: prod.splits sum.splits if_splits)
next
  case (Ph_over r)
  then show ?thesis
    using assms(3) by (simp add: step_over_def)
qed

lemma advance_step_phase:
  assumes "advance_step E d i outputs step p s = (p', s')" "phase_ok step p" "\<not> step_over p"
  shows "phase_ok step p' \<and> remaining step p' < remaining step p"
proof -
  have "0 < remaining step p"
    using assms(2,3) by (cases p) (simp_all add: step_over_def attempt_segments_def)
  then show ?thesis
    using assms step_segment_phase [of E d i outputs step p s]
    by (auto simp: advance_step_def split: prod.splits sum.splits)
qed

section \<open>Controls\<close>

text \<open>No segment of an execution touches the controls.\<close>

lemma preserves_onWorld: "(\<And>s w. I s \<Longrightarrow> I (s\<lparr>wf_world := w\<rparr>)) \<Longrightarrow> preserves I (onWorld m)"
  by (auto simp: preserves_def onWorld_def split: prod.splits)

abbreviation same_controls :: "(string \<times> wf_control) list \<Rightarrow> 'w wf_state \<Rightarrow> bool" where
  "same_controls c s \<equiv> wf_controls s = c"

lemma controls_onWorld [preserves_intros]: "preserves (same_controls c) (onWorld m)"
  by (rule preserves_onWorld) simp

lemma controls_event [preserves_intros]: "preserves (same_controls c) (wf_event E d i name payload)"
  unfolding wf_event_def publish_event_def by (rule controls_onWorld)

lemma controls_failed [preserves_intros]:
  "preserves (same_controls c) (failed_step E step t n code)"
  "preserves (same_controls c) (attempt_failed E d i step t inputs n code)"
  "preserves (same_controls c) (attempt_raised E d i step t inputs n e)"
  "preserves (same_controls c) (complete_step E d i step t n out)"
  "preserves (same_controls c) (check_step E d i outputs step out k)"
  unfolding failed_step_def attempt_failed_def attempt_raised_def complete_step_def check_step_def
  by (intro preserves_intros)+

lemma controls_begin: "preserves (same_controls c) (begin_step E d i outputs step)"
  unfolding begin_step_def
  by (intro preserves_intros) (auto split: sum.split bool.split intro!: preserves_intros)

lemma controls_segment: "preserves (same_controls c) (step_segment E d i outputs step p)"
proof (cases p)
  case (Ph_action t inputs n)
  have "preserves (same_controls c) (attempt_raised E d i step t inputs n e)" for e
    by (intro preserves_intros)
  then show ?thesis
    unfolding Ph_action step_segment_def preserves_def run_action_def
    by (auto simp: Let_def split: prod.splits sum.splits action_end.splits)
next
  case (Ph_check t inputs n out k)
  have "preserves (same_controls c) (attempt_raised E d i step t inputs n e)"
    "preserves (same_controls c) (check_step E d i outputs step out k)"
    "preserves (same_controls c) (complete_step E d i step t n out)" for e
    by (intro preserves_intros)+
  then show ?thesis
    unfolding Ph_check step_segment_def preserves_def
    by (auto split: prod.splits sum.splits if_splits)
next
  case (Ph_attempt t inputs n)
  have "preserves (same_controls c) (bindM (wf_event E d i name payload) (\<lambda>_. ret (v :: step_phase)))" for name payload v
    by (intro preserves_intros)
  then show ?thesis
    unfolding Ph_attempt step_segment_def by (fastforce simp: preserves_def)
qed (auto simp: step_segment_def controls_begin intro: preserves_intros)

lemma advance_controls:
  assumes "advance_step E d i outputs step p s = (p', s')"
  shows "wf_controls s' = wf_controls s"
  using assms preservesD [OF controls_segment refl, of E d i outputs step p s]
  by (auto simp: advance_step_def split: prod.splits sum.splits)

section \<open>Tasks\<close>

definition tasks_ok :: "'w wf_tasks \<Rightarrow> bool" where
  "tasks_ok ts \<longleftrightarrow> list_all (\<lambda>(step, p). phase_ok step p) ts"

definition tasks_over :: "'w wf_tasks \<Rightarrow> bool" where
  "tasks_over ts \<longleftrightarrow> list_all (\<lambda>t. step_over (snd t)) ts"

definition total :: "'w wf_tasks \<Rightarrow> nat" where
  "total ts = (\<Sum>t \<leftarrow> ts. remaining (fst t) (snd t))"

lemma sum_list_decreases:
  fixes f :: "'b \<Rightarrow> nat"
  assumes "k < length xs" "f y < f (xs ! k)"
  shows "(\<Sum>x \<leftarrow> xs[k := y]. f x) < (\<Sum>x \<leftarrow> xs. f x)"
  using assms
proof (induction xs arbitrary: k)
  case (Cons x xs)
  then show ?case
    by (cases k) auto
qed simp

text \<open>One advance: either no task is ready, or one of them moves on.\<close>

lemma advance_tasks_cases:
  assumes "advance_tasks E d i outputs n ts s = (ts', s')" "tasks_ok ts"
  obtains (idle) "ts' = ts" "s' = s" "\<forall>t \<in> set ts. \<not> step_ready i s (snd t)"
  | (moved) k p where "k < length ts" "ts' = ts[k := (fst (ts ! k), p)]" "wf_controls s' = wf_controls s"
      "phase_ok (fst (ts ! k)) p" "remaining (fst (ts ! k)) p < remaining (fst (ts ! k)) (snd (ts ! k))"
proof -
  let ?ready = "filter (\<lambda>k. step_ready i s (snd (ts ! k))) [0..<length ts]"
  show thesis
  proof (cases "?ready = []")
    case True
    then have "\<not> step_ready i s (snd (ts ! k))" if "k < length ts" for k
      using that by (auto simp: filter_empty_conv)
    then have "\<forall>t \<in> set ts. \<not> step_ready i s (snd t)"
      by (metis in_set_conv_nth)
    then show ?thesis
      using assms(1) True idle by (simp add: advance_tasks_def)
  next
    case False
    define k where "k = ?ready ! (n mod length ?ready)"
    have "k \<in> set ?ready"
      unfolding k_def using False by (intro nth_mem mod_less_divisor) blast
    then have k: "k < length ts" "step_ready i s (snd (ts ! k))"
      by simp_all
    obtain p s1 where adv: "advance_step E d i outputs (fst (ts ! k)) (snd (ts ! k)) s = (p, s1)"
      by (metis prod.collapse)
    have "phase_ok (fst (ts ! k)) (snd (ts ! k))" "\<not> step_over (snd (ts ! k))"
      using assms(2) k by (auto simp: tasks_ok_def list_all_length step_ready_def step_over_def case_prod_beta
          split: step_phase.splits)
    then show ?thesis
      using moved [of k p] k(1) advance_step_phase [OF adv] advance_controls [OF adv] assms(1) False adv
      by (simp add: advance_tasks_def Let_def flip: k_def)
  qed
qed

lemma advance_tasks_keeps:
  assumes "advance_tasks E d i outputs n ts s = (ts', s')" "tasks_ok ts"
  shows "map fst ts' = map fst ts \<and> tasks_ok ts' \<and> wf_controls s' = wf_controls s"
  using assms
proof (cases rule: advance_tasks_cases)
  case (moved k p)
  then show ?thesis
    using assms(2) by (auto simp: tasks_ok_def list_all_length nth_list_update map_update intro: nth_equalityI)
qed (simp add: assms(2))

lemma run_tasks_Some:
  assumes "run_tasks E d i outputs sch ts s = Some (ts', s', sch')" "tasks_ok ts"
  shows "map fst ts' = map fst ts \<and> tasks_ok ts' \<and> tasks_over ts'"
  using assms
proof (induction sch arbitrary: ts s)
  case Nil
  then show ?case
    by (auto simp: run_tasks.simps [of _ _ _ _ "[]"] tasks_over_def split: if_splits)
next
  case (Cons e sch)
  obtain n env where e: "e = (n, env)"
    by (metis prod.collapse)
  obtain ts1 s1 where adv: "advance_tasks E d i outputs n ts (env s) = (ts1, s1)"
    by (metis prod.collapse)
  show ?case
  proof (cases "tasks_over ts")
    case True
    then show ?thesis
      using Cons.prems by (simp add: run_tasks.simps [of _ _ _ _ "_ # _"] tasks_over_def)
  next
    case False
    then show ?thesis
      using Cons advance_tasks_keeps [OF adv Cons.prems(2)] e adv
      by (simp add: run_tasks.simps [of _ _ _ _ "_ # _"] tasks_over_def)
  qed
qed

text \<open>An environment that does not leave the execution paused.\<close>

definition keeps_open :: "string \<Rightarrow> 'w wf_schedule \<Rightarrow> bool" where
  "keeps_open i sch \<longleftrightarrow> (\<forall>(n, env) \<in> set sch. \<forall>s. gate_open i s \<longrightarrow> gate_open i (env s))"

lemma gate_open_controls: "wf_controls s' = wf_controls s \<Longrightarrow> gate_open i s' = gate_open i s"
  by (simp add: gate_open_def)

lemma advance_tasks_progress:
  assumes "advance_tasks E d i outputs n ts s = (ts', s')" "tasks_ok ts" "\<not> tasks_over ts" "gate_open i s"
  shows "total ts' < total ts \<and> gate_open i s'"
  using assms(1,2)
proof (cases rule: advance_tasks_cases)
  case idle
  have "step_ready i s p \<or> step_over p" for p
    using assms(4) by (simp add: step_ready_def step_over_def split: step_phase.split)
  then show ?thesis
    using assms(3) idle(3) by (auto simp: tasks_over_def list_all_iff)
next
  case (moved k p)
  then show ?thesis
    using sum_list_decreases [of k ts "\<lambda>t. remaining (fst t) (snd t)" "(fst (ts ! k), p)"] assms(4)
      gate_open_controls [OF moved(3)] by (simp add: total_def)
qed

lemma run_tasks_progress:
  assumes "tasks_ok ts" "gate_open i s" "keeps_open i sch" "total ts \<le> length sch"
  shows "\<exists>ts' s' sch'. run_tasks E d i outputs sch ts s = Some (ts', s', sch') \<and> gate_open i s' \<and>
    keeps_open i sch' \<and> length sch \<le> length sch' + total ts"
  using assms
proof (induction sch arbitrary: ts s)
  case Nil
  have "tasks_over ts"
  proof -
    have "remaining step p = 0 \<Longrightarrow> phase_ok step p \<Longrightarrow> step_over p" for step :: "'a workflow_step" and p
      by (cases p) (auto simp: step_over_def attempt_segments_def)
    then show ?thesis
      using Nil by (fastforce simp: total_def tasks_over_def tasks_ok_def list_all_iff)
  qed
  then show ?case
    using Nil by (simp add: run_tasks.simps [of _ _ _ _ "[]"] tasks_over_def)
next
  case (Cons e sch)
  obtain n env where e: "e = (n, env)"
    by (metis prod.collapse)
  obtain ts1 s1 where adv: "advance_tasks E d i outputs n ts (env s) = (ts1, s1)"
    by (metis prod.collapse)
  show ?case
  proof (cases "tasks_over ts")
    case True
    then show ?thesis
      using Cons.prems by (simp add: run_tasks.simps [of _ _ _ _ "_ # _"] tasks_over_def)
  next
    case False
    have "gate_open i (env s)" "keeps_open i sch"
      using Cons.prems(2,3) by (auto simp: keeps_open_def e)
    moreover have step: "total ts1 < total ts" "gate_open i s1"
      using advance_tasks_progress [OF adv Cons.prems(1) False] calculation by auto
    ultimately obtain ts' s' sch' where "run_tasks E d i outputs sch ts1 s1 = Some (ts', s', sch')" "gate_open i s'"
      "keeps_open i sch'" "length sch \<le> length sch' + total ts1"
      using Cons.IH [of ts1 s1] Cons.prems(4) advance_tasks_keeps [OF adv Cons.prems(1)] by auto
    then show ?thesis
      using False e adv step(1) by (simp add: run_tasks.simps [of _ _ _ _ "_ # _"] tasks_over_def)
  qed
qed

section \<open>What the stages gather\<close>

text \<open>The records of a run with the steps they belong to, and the compensations they give rise to.\<close>

definition run_ok :: "('w workflow_step \<times> step_execution) list \<Rightarrow> 'w wf_run \<Rightarrow> bool" where
  "run_ok pairs run \<longleftrightarrow> run_records run = map snd pairs \<and> (\<forall>(step, rec) \<in> set pairs. record_ok step rec) \<and>
     map fst (run_compensations run) =
       map fst (filter (\<lambda>(step, rec). sx_status rec = Step_succeeded \<and> ws_compensate_on_failure step) pairs)"

lemma run_ok_add:
  assumes "run_ok pairs run" "phase_ok step (Ph_over (Inr (rec, out)))"
  shows "run_ok (pairs @ [(step, rec)]) (add_result step rec out run)"
  using assms by (cases out) (auto simp: run_ok_def add_result_def)

lemma run_ok_failed:
  assumes "run_ok pairs run" "\<forall>(step, rec) \<in> set fs. record_ok step rec \<and> sx_status rec = Step_failed"
  shows "run_ok (pairs @ fs) (run\<lparr>run_records := run_records run @ map snd fs\<rparr>)"
  using assms by (auto simp: run_ok_def filter_empty_conv)

definition all_passed :: "('w workflow_step \<times> step_execution) list \<Rightarrow> bool" where
  "all_passed pairs \<longleftrightarrow> (\<forall>(step, rec) \<in> set pairs. sx_status rec \<in> {Step_succeeded, Step_skipped})"

text \<open>What a stop may say after some of the steps.\<close>

definition gathered ::
  "'w workflow_step list \<Rightarrow> ('w workflow_step \<times> step_execution) list \<Rightarrow> wf_stop option \<Rightarrow> 'w wf_run \<Rightarrow> bool" where
  "gathered steps pairs stop run \<longleftrightarrow> (\<exists>new. run_ok (pairs @ new) run \<and> mset (map fst new) \<subseteq># mset steps \<and>
     (stop = None \<longrightarrow> map fst new = steps \<and> all_passed new) \<and>
     (\<forall>rec. stop = Some (Stop_step_failed rec) \<longrightarrow> (\<exists>step. record_ok step rec \<and> sx_status rec = Step_failed \<and>
        add_mset step (mset (map fst new)) \<subseteq># mset steps)) \<and>
     stop \<noteq> Some (Stop_parallel None))"

lemma passed_record: "phase_ok step (Ph_over (Inr (rec, out))) \<Longrightarrow> sx_status rec \<in> {Step_succeeded, Step_skipped}"
  by (cases "sx_status rec") (auto simp: record_ok_def)

lemma gathered_none: "run_ok pairs run \<Longrightarrow> gathered [] pairs None run"
  by (auto simp: gathered_def all_passed_def)

lemma gathered_stop:
  assumes "run_ok pairs run" "\<And>rec. stop = Stop_step_failed rec \<Longrightarrow> \<exists>step \<in> set steps. record_ok step rec \<and> sx_status rec = Step_failed"
    "stop \<noteq> Stop_parallel None"
  shows "gathered steps pairs (Some stop) run"
  unfolding gathered_def using assms by (intro exI [of _ "[]"]) (auto simp: subseteq_mset_def)

lemma gathered_cons:
  assumes "gathered steps (pairs @ done) stop run" "map fst done = earlier" "all_passed done"
  shows "gathered (earlier @ steps) pairs stop run"
proof -
  obtain new where new: "run_ok ((pairs @ done) @ new) run" "mset (map fst new) \<subseteq># mset steps"
    "stop = None \<longrightarrow> map fst new = steps \<and> all_passed new"
    "\<forall>rec. stop = Some (Stop_step_failed rec) \<longrightarrow> (\<exists>step. record_ok step rec \<and> sx_status rec = Step_failed \<and>
        add_mset step (mset (map fst new)) \<subseteq># mset steps)" "stop \<noteq> Some (Stop_parallel None)"
    using assms(1) unfolding gathered_def by blast
  have "mset (map fst (done @ new)) = mset earlier + mset (map fst new)"
    using assms(2) by simp
  then show ?thesis
    unfolding gathered_def using new assms(2,3)
    by (intro exI [of _ "done @ new"]) (auto simp: all_passed_def)
qed

lemma gathered_stop_mono:
  assumes "gathered steps pairs (Some x) run"
  shows "gathered (steps @ rest) pairs (Some x) run"
proof -
  have le: "M \<subseteq># mset steps \<Longrightarrow> M \<subseteq># mset (steps @ rest)" for M
    by (auto intro: subset_mset.order_trans [OF _ mset_subset_eq_add_left])
  obtain new where new: "run_ok (pairs @ new) run" "mset (map fst new) \<subseteq># mset steps"
    "\<forall>rec. Some x = Some (Stop_step_failed rec) \<longrightarrow> (\<exists>step. record_ok step rec \<and> sx_status rec = Step_failed \<and>
        add_mset step (mset (map fst new)) \<subseteq># mset steps)" "Some x \<noteq> Some (Stop_parallel None)"
    using assms unfolding gathered_def by blast
  show ?thesis
    unfolding gathered_def
  proof (intro exI [of _ new] conjI allI impI)
    fix rec
    assume "Some x = Some (Stop_step_failed rec)"
    then show "\<exists>step. record_ok step rec \<and> sx_status rec = Step_failed \<and>
        add_mset step (mset (map fst new)) \<subseteq># mset (steps @ rest)"
      using new(3) le by blast
  qed (use new(1,2,4) le in simp_all)
qed

lemma run_sequential_gathers:
  assumes "run_sequential E d i steps run s sch = Some (stop, run', s', sch')" "run_ok pairs run"
  shows "gathered steps pairs stop run'"
  using assms
proof (induction steps arbitrary: run s sch pairs)
  case Nil
  then show ?case
    using gathered_none by simp
next
  case (Cons step steps)
  obtain ts s1 sch1 where tasks: "run_tasks E d i (run_outputs run) sch [(step, Ph_begin)] s = Some (ts, s1, sch1)"
    using Cons.prems(1) by (auto split: option.splits)
  have ok: "tasks_ok [(step, Ph_begin)]"
    by (simp add: tasks_ok_def)
  obtain r where ts: "ts = [(step, Ph_over r)]" and r: "phase_ok step (Ph_over r)"
    using run_tasks_Some [OF tasks ok]
    by (cases ts) (auto simp: tasks_ok_def tasks_over_def step_over_def split: step_phase.splits)
  show ?case
  proof (cases r)
    case (Inl stop')
    then show ?thesis
      using Cons.prems tasks ts r by (auto simp: phase_result_def intro!: gathered_stop)
  next
    case (Inr out)
    obtain rec v where out: "out = (rec, v)"
      by (metis prod.collapse)
    have "gathered steps (pairs @ [(step, rec)]) stop run'"
      using Cons.IH Cons.prems tasks ts Inr out run_ok_add [OF Cons.prems(2), of step rec v] r
      by (simp add: phase_result_def)
    then show ?thesis
      using gathered_cons [of steps pairs "[(step, rec)]" stop run' "[step]"] passed_record [of step rec v] r Inr out
      by (simp add: all_passed_def)
  qed
qed

lemma collect_outcomes_gathers:
  assumes "collect_outcomes E ts failures cancelled run s = (Inr (failures', cancelled', run'), s')"
    and "run_ok pairs run" "tasks_ok ts" "tasks_over ts"
  shows "\<exists>new fs. run_ok (pairs @ new) run' \<and> all_passed new \<and> failures' = failures @ map snd fs \<and>
    (\<forall>(step, rec) \<in> set fs. record_ok step rec \<and> sx_status rec = Step_failed) \<and>
    mset (map fst (new @ fs)) \<subseteq># mset (map fst ts) \<and> (cancelled \<longrightarrow> cancelled') \<and>
    (fs = [] \<and> \<not> cancelled' \<longrightarrow> map fst new = map fst ts)"
  using assms
proof (induction ts arbitrary: failures cancelled run s pairs)
  case Nil
  then show ?case
    by (intro exI [of _ "[]"]) (auto simp: ret_def all_passed_def)
next
  case (Cons t ts)
  obtain step r where t: "t = (step, Ph_over r)" and r: "phase_ok step (Ph_over r)"
    using Cons.prems(3,4)
    by (cases t) (auto simp: tasks_ok_def tasks_over_def step_over_def split: step_phase.splits)
  have ts: "tasks_ok ts" "tasks_over ts"
    using Cons.prems(3,4) by (simp_all add: tasks_ok_def tasks_over_def)
  have failed: ?case if rec: "record_ok step rec" "sx_status rec = Step_failed"
    and run: "collect_outcomes E ts (failures @ [rec]) cancelled run s1 = (Inr (failures', cancelled', run'), s')" for rec s1
  proof -
    obtain new fs where "run_ok (pairs @ new) run'" "all_passed new" "failures' = (failures @ [rec]) @ map snd fs"
      "\<forall>(step, rec) \<in> set fs. record_ok step rec \<and> sx_status rec = Step_failed"
      "mset (map fst (new @ fs)) \<subseteq># mset (map fst ts)" "cancelled \<longrightarrow> cancelled'"
      using Cons.IH [OF run Cons.prems(2) ts] by blast
    then show ?thesis
      using rec by (intro exI [of _ new] exI [of _ "(step, rec) # fs"]) (auto simp: t)
  qed
  show ?case
  proof (cases r)
    case (Inl stop)
    show ?thesis
    proof (cases stop)
      case (Stop_step_failed rec)
      then show ?thesis
        using failed [of rec s] Cons.prems(1) r Inl by (simp add: t phase_result_def)
    next
      case (Stop_parallel code)
      then show ?thesis
        using r Inl by simp
    next
      case Stop_cancelled
      then obtain new fs where "run_ok (pairs @ new) run'" "all_passed new" "failures' = failures @ map snd fs"
        "\<forall>(step, rec) \<in> set fs. record_ok step rec \<and> sx_status rec = Step_failed"
        "mset (map fst (new @ fs)) \<subseteq># mset (map fst ts)" "cancelled'"
        using Cons.IH [of failures True run s pairs] Cons.prems(1,2) ts Inl by (auto simp: t phase_result_def)
      then show ?thesis
        by (intro exI [of _ new] exI [of _ fs]) (auto simp: t intro: subset_mset.order_trans)
    next
      case (Stop_exception e)
      obtain started now s1 where "collect_outcomes E ts
          (failures @ [step_record step Step_failed 0 started now (Some ''WORKFLOW_STEP_INVALID'')]) cancelled run s1
          = (Inr (failures', cancelled', run'), s')"
        using Cons.prems(1) Inl Stop_exception by (auto simp: t phase_result_def bindM_Inr_iff)
      then show ?thesis
        by (intro failed) (auto simp: record_ok_def step_record_def)
    qed
  next
    case (Inr out)
    obtain rec v where out: "out = (rec, v)"
      by (metis prod.collapse)
    have "run_ok (pairs @ [(step, rec)]) (add_result step rec v run)"
      using run_ok_add [OF Cons.prems(2)] r Inr out by simp
    then obtain new fs where "run_ok ((pairs @ [(step, rec)]) @ new) run'" "all_passed new" "failures' = failures @ map snd fs"
      "\<forall>(step, rec) \<in> set fs. record_ok step rec \<and> sx_status rec = Step_failed"
      "mset (map fst (new @ fs)) \<subseteq># mset (map fst ts)" "cancelled \<longrightarrow> cancelled'"
      "fs = [] \<and> \<not> cancelled' \<longrightarrow> map fst new = map fst ts"
      using Cons.IH [of failures cancelled "add_result step rec v run" s "pairs @ [(step, rec)]"] Cons.prems(1) ts Inr out
      by (auto simp: t phase_result_def)
    then show ?thesis
      using passed_record [of step rec v] r Inr out
      by (intro exI [of _ "(step, rec) # new"] exI [of _ fs]) (auto simp: t all_passed_def)
  qed
qed

lemma begin_tasks_ok: "tasks_ok (map (\<lambda>step. (step, Ph_begin)) steps)"
  by (simp add: tasks_ok_def list_all_iff)

lemma run_parallel_gathers:
  assumes "run_parallel E d i steps run s sch = Some (stop, run', s', sch')" "run_ok pairs run"
  shows "gathered steps pairs stop run'"
proof -
  obtain ts s1 sch1 where tasks: "run_tasks E d i (run_outputs run) sch (map (\<lambda>step. (step, Ph_begin)) steps) s
      = Some (ts, s1, sch1)"
    using assms(1) by (auto simp: run_parallel_def split: option.splits)
  have ts: "map fst ts = steps" "tasks_ok ts" "tasks_over ts"
    using run_tasks_Some [OF tasks begin_tasks_ok] by (simp_all add: comp_def)
  obtain r s2 where collect: "collect_outcomes E ts [] False run s1 = (r, s2)"
    by (metis prod.collapse)
  show ?thesis
  proof (cases r)
    case (Inl e)
    then show ?thesis
      using assms tasks collect by (auto simp: run_parallel_def intro!: gathered_stop)
  next
    case (Inr v)
    obtain failures cancelled run1 where v: "v = (failures, cancelled, run1)"
      by (metis prod.collapse)
    obtain new fs where g: "run_ok (pairs @ new) run1" "all_passed new" "failures = map snd fs"
      "\<forall>(step, rec) \<in> set fs. record_ok step rec \<and> sx_status rec = Step_failed"
      "mset (map fst (new @ fs)) \<subseteq># mset steps" "fs = [] \<and> \<not> cancelled \<longrightarrow> map fst new = steps"
      using collect_outcomes_gathers [OF collect [unfolded Inr v] assms(2) ts(2,3)] ts(1) by auto
    have out: "(stop, run') = stage_stop failures cancelled run1"
      using assms(1) tasks collect Inr v by (auto simp: run_parallel_def Let_def split: prod.splits)
    have sub: "mset (map fst new) \<subseteq># mset steps"
      using g(5) by (auto intro: subset_mset.order_trans [OF mset_subset_eq_add_left])
    show ?thesis
    proof (cases "cancelled \<or> fs = []")
      case True
      then show ?thesis
        unfolding gathered_def using out g sub
        by (intro exI [of _ new]) (auto simp: stage_stop_def split: if_splits)
    next
      case False
      then obtain step rec fs' where fs: "fs = (step, rec) # fs'"
        by (cases fs) auto
      then have "sx_error_code rec \<noteq> None"
        using g(4) by (auto simp: record_ok_def)
      then show ?thesis
        unfolding gathered_def using out g False fs run_ok_failed [OF g(1,4)]
        by (intro exI [of _ "new @ fs"]) (auto simp: stage_stop_def)
    qed
  qed
qed

lemma run_stages_gathers:
  assumes "run_stages E d i gs run s sch = Some (stop, run', s', sch')" "run_ok pairs run"
  shows "gathered (concat (map wg_steps gs)) pairs stop run'"
  using assms
proof (induction gs arbitrary: run s sch pairs)
  case Nil
  then show ?case
    using gathered_none by simp
next
  case (Cons g gs)
  obtain s1 sch1 where gate: "await_gate i sch s = Some (s1, sch1)"
    using Cons.prems(1) by (auto split: option.splits)
  show ?case
  proof (cases "cancel_set i s1")
    case True
    then show ?thesis
      using Cons.prems gate by (auto intro!: gathered_stop)
  next
    case False
    obtain stop1 run1 s2 sch2 where stage: "(if wg_mode g = Sequential then run_sequential E d i (wg_steps g) run s1 sch1
        else run_parallel E d i (wg_steps g) run s1 sch1) = Some (stop1, run1, s2, sch2)"
      using Cons.prems(1) gate False by (auto split: option.splits)
    then have g: "gathered (wg_steps g) pairs stop1 run1"
      using run_sequential_gathers run_parallel_gathers Cons.prems(2) by (auto split: if_splits)
    show ?thesis
    proof (cases stop1)
      case None
      then obtain new where new: "run_ok (pairs @ new) run1" "map fst new = wg_steps g" "all_passed new"
        using g unfolding gathered_def by blast
      have "run_stages E d i gs run1 s2 sch2 = Some (stop, run', s', sch')"
        using Cons.prems(1) gate False stage None by simp
      then show ?thesis
        using gathered_cons [OF Cons.IH [OF _ new(1)] new(2,3)] by simp
    next
      case (Some x)
      have "stop = stop1" "run' = run1"
        using Cons.prems(1) gate False stage Some by simp_all
      then show ?thesis
        using g Some gathered_stop_mono by simp
    qed
  qed
qed

section \<open>Progress of the stages\<close>

definition step_bound :: "'w workflow_step \<Rightarrow> nat" where
  "step_bound step = remaining step Ph_begin"

lemma total_begin: "total (map (\<lambda>step. (step, Ph_begin)) steps) = (\<Sum>step \<leftarrow> steps. step_bound step)"
  by (simp add: total_def step_bound_def comp_def)

definition ends_within ::
  "nat \<Rightarrow> string \<Rightarrow> 'w wf_schedule \<Rightarrow> 'w wf_progress option \<Rightarrow> bool" where
  "ends_within bound i sch r \<longleftrightarrow> (\<exists>stop run s' sch'. r = Some (stop, run, s', sch') \<and> gate_open i s' \<and> keeps_open i sch' \<and>
     length sch \<le> length sch' + bound)"

lemma run_sequential_progress:
  assumes "gate_open i s" "keeps_open i sch" "(\<Sum>step \<leftarrow> steps. step_bound step) \<le> length sch"
  shows "ends_within (\<Sum>step \<leftarrow> steps. step_bound step) i sch (run_sequential E d i steps run s sch)"
  using assms
proof (induction steps arbitrary: run s sch)
  case Nil
  then show ?case
    by (simp add: ends_within_def)
next
  case (Cons step steps)
  have ok: "tasks_ok [(step, Ph_begin)]" "total [(step, Ph_begin)] = step_bound step"
    by (simp_all add: tasks_ok_def total_def step_bound_def)
  obtain ts s1 sch1 where tasks: "run_tasks E d i (run_outputs run) sch [(step, Ph_begin)] s = Some (ts, s1, sch1)"
    "gate_open i s1" "keeps_open i sch1" "length sch \<le> length sch1 + step_bound step"
    using run_tasks_progress [OF ok(1) Cons.prems(1,2), of E d "run_outputs run"] Cons.prems(3) ok(2) by auto
  show ?case
  proof (cases "phase_result (snd (hd ts))")
    case (Inl stop)
    then show ?thesis
      using tasks by (simp add: ends_within_def)
  next
    case (Inr v)
    obtain rec out where v: "v = (rec, out)"
      by (metis prod.collapse)
    show ?thesis
      using Cons.IH [OF tasks(2,3), of "add_result step rec out run"] Cons.prems(3) tasks Inr v
      by (fastforce simp: ends_within_def)
  qed
qed

lemma collect_controls: "preserves (same_controls c) (collect_outcomes E ts failures cancelled run)"
proof (induction ts arbitrary: failures cancelled run)
  case (Cons t ts)
  then show ?case
    by (cases t) (auto split: sum.split wf_stop.split prod.split intro!: preserves_intros)
qed (auto intro: preserves_intros)

lemma run_parallel_progress:
  assumes "gate_open i s" "keeps_open i sch" "(\<Sum>step \<leftarrow> steps. step_bound step) \<le> length sch"
  shows "ends_within (\<Sum>step \<leftarrow> steps. step_bound step) i sch (run_parallel E d i steps run s sch)"
proof -
  obtain ts s1 sch1 where tasks: "run_tasks E d i (run_outputs run) sch (map (\<lambda>step. (step, Ph_begin)) steps) s
      = Some (ts, s1, sch1)" "gate_open i s1" "keeps_open i sch1"
    "length sch \<le> length sch1 + (\<Sum>step \<leftarrow> steps. step_bound step)"
    using run_tasks_progress [OF begin_tasks_ok assms(1,2), of steps E d "run_outputs run"] assms(3) total_begin [of steps]
    by auto
  obtain r s2 where collect: "collect_outcomes E ts [] False run s1 = (r, s2)"
    by (metis prod.collapse)
  have "gate_open i s2"
    using gate_open_controls [of s2 s1] preservesD [OF collect_controls refl collect] tasks(2) by simp
  then show ?thesis
    using tasks collect by (cases r) (auto simp: run_parallel_def ends_within_def Let_def split: prod.splits)
qed

lemma run_stages_progress:
  assumes "gate_open i s" "keeps_open i sch" "(\<Sum>step \<leftarrow> concat (map wg_steps gs). step_bound step) \<le> length sch"
  shows "ends_within (\<Sum>step \<leftarrow> concat (map wg_steps gs). step_bound step) i sch (run_stages E d i gs run s sch)"
  using assms
proof (induction gs arbitrary: run s sch)
  case Nil
  then show ?case
    by (simp add: ends_within_def)
next
  case (Cons g gs)
  let ?stage = "\<lambda>s sch. if wg_mode g = Sequential then run_sequential E d i (wg_steps g) run s sch
        else run_parallel E d i (wg_steps g) run s sch"
  have gate: "await_gate i sch s = Some (s, sch)"
    using Cons.prems(1) by (cases sch) (simp_all add: await_gate.simps)
  have stage: "ends_within (\<Sum>step \<leftarrow> wg_steps g. step_bound step) i sch (?stage s sch)"
    using run_sequential_progress [OF Cons.prems(1,2)] run_parallel_progress [OF Cons.prems(1,2)] Cons.prems(3) by simp
  then obtain stop run1 s1 sch1 where st: "?stage s sch = Some (stop, run1, s1, sch1)" "gate_open i s1"
    "keeps_open i sch1" "length sch \<le> length sch1 + (\<Sum>step \<leftarrow> wg_steps g. step_bound step)"
    unfolding ends_within_def by blast
  show ?case
  proof (cases "cancel_set i s")
    case True
    then show ?thesis
      using gate Cons.prems by (simp add: ends_within_def)
  next
    case False
    show ?thesis
    proof (cases stop)
      case None
      then have "run_stages E d i (g # gs) run s sch = run_stages E d i gs run1 s1 sch1"
        using gate False st(1) by simp
      moreover have "ends_within (\<Sum>step \<leftarrow> concat (map wg_steps gs). step_bound step) i sch1 (run_stages E d i gs run1 s1 sch1)"
        using Cons.IH [OF st(2,3)] Cons.prems(3) st(4) by simp
      ultimately show ?thesis
        using st(4) by (fastforce simp: ends_within_def)
    next
      case (Some x)
      then have "run_stages E d i (g # gs) run s sch = Some (Some x, run1, s1, sch1)"
        using gate False st(1) by simp
      then show ?thesis
        using st by (simp add: ends_within_def)
    qed
  qed
qed

end
