(* ===== verification/Workflow_Theorems.thy ===== *)
theory Workflow_Theorems
  imports Workflow_Guards Sample_Disk
begin

text \<open>The theorems about the workflow engine, for every schedule and every behaviour of the actions, with their
  application to a workflow of three steps.\<close>

section \<open>The end of an execution\<close>

lemma finish_execution_Inr:
  assumes "finish_execution_wf E d i t stop run s = (Inr x, s')"
  obtains run' status code result receipt where "handle_stop stop run = Inr (run', status, code)"
    "compute_result E d run' status code = Inr (wx_status x, wx_error_code x, wx_result x, receipt)"
    "wx_id x = i" "wx_steps x = run_records run'"
    "wx_rollback_performed x \<longleftrightarrow> wx_status x \<noteq> Exec_succeeded \<and> run_compensations run' \<noteq> []"
    "length (wf_executions s') \<le> MAX_RETAINED_EXECUTIONS" "map_of (wf_controls s') i = None"
  using assms unfolding finish_execution_wf_def wf_compensate_def
  by (auto simp: bindM_Inr_iff liftE_iff ret_iff modifyM_iff Let_def remember_def split: prod.splits if_splits)

lemma compute_result_facts:
  assumes "compute_result E d run status code = Inr (status', code', result, receipt)"
    and "status \<noteq> Exec_succeeded \<longleftrightarrow> code \<noteq> None"
  shows "(status' = Exec_succeeded \<longrightarrow> status = Exec_succeeded \<and> code' = None \<and> result \<noteq> None) \<and>
    (status' \<noteq> Exec_succeeded \<longrightarrow> code' \<noteq> None)"
  using assms unfolding compute_result_def by (auto split: if_splits sum.splits)

text \<open>The records at the end with their steps.\<close>

lemma handle_stop_records:
  assumes "gathered steps [] stop run" "handle_stop stop run = Inr (run', status, code)"
  obtains pairs where "run_ok pairs run'" "mset (map fst pairs) \<subseteq># mset steps"
    "status = Exec_succeeded \<longrightarrow> map fst pairs = steps \<and> all_passed pairs" "status \<noteq> Exec_succeeded \<longleftrightarrow> code \<noteq> None"
proof -
  obtain new where new: "run_ok new run" "mset (map fst new) \<subseteq># mset steps"
    "stop = None \<longrightarrow> map fst new = steps \<and> all_passed new"
    "\<forall>rec. stop = Some (Stop_step_failed rec) \<longrightarrow> (\<exists>step. record_ok step rec \<and> sx_status rec = Step_failed \<and>
        add_mset step (mset (map fst new)) \<subseteq># mset steps)" "stop \<noteq> Some (Stop_parallel None)"
    using assms(1) unfolding gathered_def by auto
  show thesis
  proof (cases "\<exists>rec. stop = Some (Stop_step_failed rec)")
    case True
    then obtain rec step where rec: "stop = Some (Stop_step_failed rec)" "record_ok step rec" "sx_status rec = Step_failed"
      "add_mset step (mset (map fst new)) \<subseteq># mset steps"
      using new(4) by blast
    have "run_ok (new @ [(step, rec)]) (run\<lparr>run_records := run_records run @ map snd [(step, rec)]\<rparr>)"
      by (rule run_ok_failed [OF new(1)]) (simp add: rec)
    then show ?thesis
      using that [of "new @ [(step, rec)]"] rec assms(2) by (auto simp: handle_stop_def record_ok_def)
  next
    case False
    then show ?thesis
      using that [of new] new assms(2) by (auto simp: handle_stop_def split: option.splits wf_stop.splits)
  qed
qed

lemma wf_execute_Inr:
  assumes "wf_execute E d eid sch s = Some (Inr x, s')"
  obtains i t s1 stop run s2 sch' where
    "run_stages E d i (wd_stages d) \<lparr>run_records = [], run_outputs = [], run_compensations = []\<rparr> s1 sch = Some (stop, run, s2, sch')"
    "finish_execution_wf E d i t stop run s2 = (Inr x, s')"
  using assms unfolding wf_execute_def by (auto split: option.splits prod.splits sum.splits if_splits)

lemma distinct_submset:
  assumes "mset xs \<subseteq># mset ys" "distinct ys"
  shows "distinct xs"
  unfolding distinct_count_atmost_1
proof (intro allI)
  fix a
  have "count (mset xs) a \<le> count (mset ys) a"
    using assms(1) by (rule mset_subset_eq_count)
  moreover have "count (mset ys) a \<le> 1"
    using assms(2) by (simp add: distinct_count_atmost_1)
  ultimately have "count (mset xs) a \<le> 1"
    by linarith
  then show "count (mset xs) a = (if a \<in> set xs then 1 else 0)"
    using count_mset_0_iff [of xs a] by (auto simp: le_Suc_eq)
qed

lemma distinct_records:
  assumes "mset (map fst pairs) \<subseteq># mset steps" "distinct (map ws_id steps)" "\<forall>(step, rec) \<in> set pairs. record_ok step rec"
  shows "distinct (map (sx_step_id \<circ> snd) pairs) \<and> set (map fst pairs) \<subseteq> set steps"
proof -
  have ids: "map (sx_step_id \<circ> snd) pairs = map ws_id (map fst pairs)"
    using assms(3) by (auto simp: record_ok_def)
  have "mset (map ws_id (map fst pairs)) \<subseteq># mset (map ws_id steps)"
    using image_mset_subseteq_mono [OF assms(1), of ws_id] by (simp only: mset_map)
  then have "distinct (map ws_id (map fst pairs))"
    using assms(2) by (rule distinct_submset)
  moreover have "set (map fst pairs) \<subseteq> set steps"
    using set_mset_mono [OF assms(1)] by simp
  ultimately show ?thesis
    unfolding ids by simp
qed

section \<open>A concrete workflow\<close>

text \<open>The world is a counter, and the bus keeps nothing; the first action fails once, the third always.\<close>

type_synonym flow_world = nat

definition flow_engine :: "flow_world workflow_engine" where
  "flow_engine = \<lparr>we_bus = \<lparr>eb_append = (\<lambda>_ n. (Inr (), n)), eb_subscribers = []\<rparr>,
     we_clock = \<lparr>clk_now = (\<lambda>n. (0, n)), clk_uuid4 = (\<lambda>n. (''event'', n))\<rparr>,
     we_dumps = (\<lambda>_. Inr ''{}''), we_sha256 = (\<lambda>s. s)\<rparr>"

definition flow_action :: "string \<Rightarrow> bool \<Rightarrow> (nat \<Rightarrow> action_end) \<Rightarrow> flow_world action" where
  "flow_action name idem f = \<lparr>act_id = name, act_idempotent = idem, act_run = (\<lambda>_ _ n. (f n, Suc n)),
     act_compensate = (\<lambda>_ _ w. (Inr (), w))\<rparr>"

definition flow_step :: "flow_world action \<Rightarrow> nat \<Rightarrow> bool \<Rightarrow> flow_world workflow_step" where
  "flow_step a attempts undo = \<lparr>ws_id = act_id a, ws_action = a, ws_inputs = (\<lambda>_. Inr JNull), ws_timeout_seconds = 10,
     ws_retry = \<lparr>rp_max_attempts = attempts, rp_delay_seconds = 0\<rparr>, ws_condition = None,
     ws_postchecks = [\<lambda>_ _. ret True], ws_compensate_on_failure = undo\<rparr>"

definition flow_definition :: "flow_world workflow_definition" where
  "flow_definition = \<lparr>wd_id = ''flow'', wd_version = ''1'', wd_capability_id = ''cap'',
     wd_stages =
       [\<lparr>wg_id = ''one'', wg_mode = Sequential,
         wg_steps = [flow_step (flow_action ''a'' True (\<lambda>n. if n = 0 then Timed_out else Ended (Inr JNull))) 2 True]\<rparr>,
        \<lparr>wg_id = ''two'', wg_mode = Parallel,
         wg_steps = [flow_step (flow_action ''b'' False (\<lambda>_. Ended (Inr JNull))) 1 False,
           flow_step (flow_action ''c'' False (\<lambda>_. Ended (Inl (ActionError ''X'')))) 1 False]\<rparr>],
     wd_result = (\<lambda>_. Inr JNull)\<rparr>"

definition flow_start :: "flow_world wf_state" where
  "flow_start = \<lparr>wf_world = 0, wf_controls = [], wf_executions = []\<rparr>"

definition flow_schedule :: "flow_world wf_schedule" where
  "flow_schedule = replicate 19 (1, \<lambda>s. s)"

definition flow_view ::
  "((exc + workflow_execution) \<times> flow_world wf_state) option
     \<Rightarrow> (execution_status \<times> (string \<times> step_status \<times> nat) list \<times> string option \<times> bool) option" where
  "flow_view r = (case r of Some (Inr x, s) \<Rightarrow> Some (wx_status x,
     map (\<lambda>rec. (sx_step_id rec, sx_status rec, sx_attempts rec)) (wx_steps x), wx_error_code x, wx_rollback_performed x)
   | _ \<Rightarrow> None)"

lemma flow_result:
  "flow_view (wf_execute flow_engine flow_definition (Some ''execution'') flow_schedule flow_start) =
     Some (Exec_failed, [(''a'', Step_succeeded, 2), (''b'', Step_succeeded, 1), (''c'', Step_failed, 1)], Some ''X'', True)"
  by code_simp

lemma flow_valid: "workflow_definition_valid flow_definition"
  by (simp add: workflow_definition_valid_def definition_steps_def workflow_stage_valid_def workflow_step_valid_def
      retry_policy_valid_def flow_definition_def flow_step_def flow_action_def)

section \<open>Theorems\<close>

text \<open>C32 (functional): The record of an execution. Under every schedule, with whatever the rest of the program
  does in between, an execution of a valid definition that returns has at most one record per step, each
  of a step of the definition, with its action and at most the allowed attempts, at most one for an action
  that is not idempotent, and an error code exactly if it failed. If it succeeded, it has one record for
  every step in the order of the definition, each succeeded or skipped, and a result; otherwise it has an
  error code. A rollback was performed exactly if it did not succeed and some step that asks for
  compensation had succeeded. The engine retains at most 256 executions.\<close>

theorem execution_record_is_faithful:
  assumes "wf_execute E d eid sch s = Some (Inr x, s')" "workflow_definition_valid d"
  shows "\<exists>pairs. wx_steps x = map snd pairs \<and> distinct (map sx_step_id (wx_steps x)) \<and>
    set (map fst pairs) \<subseteq> set (definition_steps d) \<and>
    (\<forall>(step, rec) \<in> set pairs. record_ok step rec \<and> (\<not> act_idempotent (ws_action step) \<longrightarrow> sx_attempts rec \<le> 1)) \<and>
    (wx_status x = Exec_succeeded \<longrightarrow> map fst pairs = definition_steps d \<and> all_passed pairs \<and>
       wx_result x \<noteq> None \<and> wx_error_code x = None) \<and>
    (wx_status x \<noteq> Exec_succeeded \<longrightarrow> wx_error_code x \<noteq> None) \<and>
    (wx_rollback_performed x \<longleftrightarrow> wx_status x \<noteq> Exec_succeeded \<and>
       (\<exists>(step, rec) \<in> set pairs. sx_status rec = Step_succeeded \<and> ws_compensate_on_failure step)) \<and>
    length (wf_executions s') \<le> MAX_RETAINED_EXECUTIONS"
proof -
  obtain i t s1 stop run s2 sch' where
    stages: "run_stages E d i (wd_stages d) \<lparr>run_records = [], run_outputs = [], run_compensations = []\<rparr> s1 sch
      = Some (stop, run, s2, sch')" and finish: "finish_execution_wf E d i t stop run s2 = (Inr x, s')"
    using assms(1) by (rule wf_execute_Inr)
  have gathers: "gathered (definition_steps d) [] stop run"
    unfolding definition_steps_def using stages by (rule run_stages_gathers) (simp add: run_ok_def)
  obtain run' status code receipt where handled: "handle_stop stop run = Inr (run', status, code)"
    and computed: "compute_result E d run' status code = Inr (wx_status x, wx_error_code x, wx_result x, receipt)"
    and out: "wx_steps x = run_records run'"
      "wx_rollback_performed x \<longleftrightarrow> wx_status x \<noteq> Exec_succeeded \<and> run_compensations run' \<noteq> []"
      "length (wf_executions s') \<le> MAX_RETAINED_EXECUTIONS"
    using finish by (rule finish_execution_Inr)
  obtain pairs where pairs: "run_ok pairs run'" "mset (map fst pairs) \<subseteq># mset (definition_steps d)"
    "status = Exec_succeeded \<longrightarrow> map fst pairs = definition_steps d \<and> all_passed pairs"
    "status \<noteq> Exec_succeeded \<longleftrightarrow> code \<noteq> None"
    using gathers handled by (rule handle_stop_records)
  have ok: "\<forall>(step, rec) \<in> set pairs. record_ok step rec" and steps: "wx_steps x = map snd pairs"
    using pairs(1) out(1) by (auto simp: run_ok_def)
  have distinct: "distinct (map (sx_step_id \<circ> snd) pairs)" "set (map fst pairs) \<subseteq> set (definition_steps d)"
    using distinct_records [OF pairs(2) _ ok] assms(2) by (auto simp: workflow_definition_valid_def)
  have "workflow_step_valid step" if "step \<in> set (definition_steps d)" for step
    using that assms(2) by (auto simp: definition_steps_def workflow_definition_valid_def workflow_stage_valid_def)
  then have attempts: "\<forall>(step, rec) \<in> set pairs. record_ok step rec \<and> (\<not> act_idempotent (ws_action step) \<longrightarrow> sx_attempts rec \<le> 1)"
    using ok distinct(2) by (fastforce simp: record_ok_def workflow_step_valid_def)
  let ?undo = "\<lambda>(step, rec). sx_status rec = Step_succeeded \<and> ws_compensate_on_failure step"
  have "map fst (run_compensations run') = map fst (filter ?undo pairs)"
    using pairs(1) by (simp add: run_ok_def)
  then have "run_compensations run' = [] \<longleftrightarrow> filter ?undo pairs = []"
    by (metis map_is_Nil_conv)
  then have "run_compensations run' \<noteq> [] \<longleftrightarrow>
      (\<exists>(step, rec) \<in> set pairs. sx_status rec = Step_succeeded \<and> ws_compensate_on_failure step)"
    by (simp add: filter_empty_conv split_beta)
  then show ?thesis
    using compute_result_facts [OF computed pairs(4)] pairs(3) out(2,3) steps distinct attempts
    by (intro exI [of _ pairs]) (simp add: comp_def)
qed

theorem execution_record_is_faithful_witness:
  "\<exists>x s'. wf_execute flow_engine flow_definition (Some ''execution'') flow_schedule flow_start = Some (Inr x, s') \<and>
     distinct (map sx_step_id (wx_steps x)) \<and> wx_status x \<noteq> Exec_succeeded \<and> wx_error_code x \<noteq> None"
proof -
  obtain x s' where run: "wf_execute flow_engine flow_definition (Some ''execution'') flow_schedule flow_start = Some (Inr x, s')"
    and "wx_status x = Exec_failed"
    using flow_result unfolding flow_view_def by (auto split: option.splits prod.splits sum.splits)
  then show ?thesis
    using execution_record_is_faithful [OF run flow_valid] by (intro exI conjI) (assumption | auto)+
qed

text \<open>C33 (termination): An execution that is not left paused ends. If nothing closes its gate, then a schedule
  with at least \<open>max_attempts * (post-checks + 3) + 1\<close> advances for each step of the definition is enough
  for the execution to return, whatever the actions do and in whatever order parallel steps advance.\<close>

theorem unpaused_executions_end:
  assumes "i \<noteq> []" "keeps_open i sch"
    and "(\<Sum>step \<leftarrow> definition_steps d. rp_max_attempts (ws_retry step) * (length (ws_postchecks step) + 3) + 1) \<le> length sch"
  shows "\<exists>r s'. wf_execute E d (Some i) sch s = Some (r, s')"
proof -
  obtain r s1 where start: "start_execution E d i s = (r, s1)"
    by (metis prod.collapse)
  show ?thesis
  proof (cases r)
    case (Inl e)
    then show ?thesis
      using start assms(1) by (simp add: wf_execute_def)
  next
    case (Inr t)
    let ?c = "\<lparr>ct_open = True, ct_cancelled = False, ct_workflow_id = wd_id d, ct_capability_id = wd_capability_id d\<rparr>"
    let ?s = "s\<lparr>wf_controls := dict_set i ?c (wf_controls s)\<rparr>"
    let ?events = "bindM (onWorld (utc_now (we_clock E))) (\<lambda>started_at.
       bindM (wf_event E d i ''workflow.started'' [(''workflow_version'', JStr (wd_version d))]) (\<lambda>_.
       bindM (wf_event E d i ''capability.started'' []) (\<lambda>_. ret started_at)))"
    have run: "?events ?s = (Inr t, s1)"
      using start Inr by (auto simp: start_execution_def bindM_def modifyM_def split: if_splits)
    have "preserves (same_controls (dict_set i ?c (wf_controls s))) ?events"
      by (intro preserves_intros)
    from preservesD [OF this _ run] have "wf_controls s1 = dict_set i ?c (wf_controls s)"
      by simp
    then have "gate_open i s1"
      by (simp add: gate_open_def)
    moreover have "(\<Sum>step \<leftarrow> concat (map wg_steps (wd_stages d)). step_bound step) \<le> length sch"
      using assms(3) by (simp add: step_bound_def attempt_segments_def definition_steps_def)
    ultimately have "ends_within (\<Sum>step \<leftarrow> concat (map wg_steps (wd_stages d)). step_bound step) i sch
        (run_stages E d i (wd_stages d) \<lparr>run_records = [], run_outputs = [], run_compensations = []\<rparr> s1 sch)"
      using run_stages_progress assms(2) by blast
    then obtain stop run s2 sch' where "run_stages E d i (wd_stages d)
        \<lparr>run_records = [], run_outputs = [], run_compensations = []\<rparr> s1 sch = Some (stop, run, s2, sch')"
      unfolding ends_within_def by blast
    then show ?thesis
      using start Inr assms(1) by (simp add: wf_execute_def)
  qed
qed

theorem unpaused_executions_end_witness:
  "\<exists>r s'. wf_execute flow_engine flow_definition (Some ''execution'') flow_schedule flow_start = Some (r, s')"
proof (rule unpaused_executions_end)
  show "keeps_open ''execution'' flow_schedule"
    by (simp add: keeps_open_def flow_schedule_def)
  show "(\<Sum>step \<leftarrow> definition_steps flow_definition. rp_max_attempts (ws_retry step) * (length (ws_postchecks step) + 3) + 1)
      \<le> length flow_schedule"
    by code_simp
qed simp

end
