(* ===== verification/Python_Text.thy ===== *)
theory Python_Text
  imports Prelude
begin

text \<open>
  Parts of Python's strings, tuples and sorting that the capability manager and the backup tools use:
  splitting, replacing, the orders of tuples of integers and of strings, and a stable sort.
\<close>

section \<open>Splitting and replacing\<close>

text \<open>\<open>str.split(sep)\<close> for one character, and \<open>str.split()\<close>.\<close>

fun split_char :: "char \<Rightarrow> string \<Rightarrow> string list" where
  "split_char sep [] = [[]]"
| "split_char sep (c # s) = (if c = sep then [] # split_char sep s
     else (case split_char sep s of [] \<Rightarrow> [[c]] | w # ws \<Rightarrow> (c # w) # ws))"

fun split_space :: "string \<Rightarrow> string list" where
  "split_space [] = []"
| "split_space (c # s) = (if is_space c then split_space s
     else (case s of
         [] \<Rightarrow> [[c]]
       | d # _ \<Rightarrow> if is_space d then [c] # split_space s
           else (case split_space s of [] \<Rightarrow> [[c]] | w # ws \<Rightarrow> (c # w) # ws)))"

text \<open>\<open>s.split(sep, 1)\<close> when \<open>sep\<close> occurs, and \<open>s.replace(old, new)\<close> for a non-empty \<open>old\<close>.\<close>

fun split_once :: "string \<Rightarrow> string \<Rightarrow> (string \<times> string) option" where
  "split_once sep [] = (if sep = [] then Some ([], []) else None)"
| "split_once sep (c # s) = (if prefix_of sep (c # s) then Some ([], drop (length sep) (c # s))
     else map_option (\<lambda>(l, r). (c # l, r)) (split_once sep s))"

fun replace_text :: "string \<Rightarrow> string \<Rightarrow> string \<Rightarrow> string" where
  "replace_text old new [] = []"
| "replace_text old new (c # s) = (if prefix_of old (c # s) then new @ replace_text old new (drop (length old - 1) s)
     else c # replace_text old new s)"

lemma split_char_not_Nil [simp]: "split_char sep s \<noteq> []"
  by (induction s) (auto split: list.splits)

lemma split_char_plain: "sep \<notin> set w \<Longrightarrow> split_char sep w = [w]"
  by (induction w) auto

lemma split_char_append: "sep \<notin> set w \<Longrightarrow> split_char sep (w @ sep # s) = w # split_char sep s"
  by (induction w) auto

lemma split_char_join:
  "ws \<noteq> [] \<Longrightarrow> \<forall>w \<in> set ws. sep \<notin> set w \<Longrightarrow> split_char sep (join [sep] ws) = ws"
  by (induction "[sep]" ws rule: join.induct) (auto simp: split_char_plain split_char_append)

lemma split_char_parts: "w \<in> set (split_char sep s) \<Longrightarrow> sep \<notin> set w"
  by (induction s arbitrary: w) (auto split: if_splits list.splits)

section \<open>Orders and sorting\<close>

text \<open>The order of tuples of integers.\<close>

fun tuple_less :: "int list \<Rightarrow> int list \<Rightarrow> bool" where
  "tuple_less xs [] = False"
| "tuple_less [] (y # ys) = True"
| "tuple_less (x # xs) (y # ys) = (x < y \<or> x = y \<and> tuple_less xs ys)"

text \<open>A stable sort that puts \<open>x\<close> before \<open>y\<close> if \<open>before x y\<close> or they are equal.\<close>

fun insert_by :: "('a \<Rightarrow> 'a \<Rightarrow> bool) \<Rightarrow> 'a \<Rightarrow> 'a list \<Rightarrow> 'a list" where
  "insert_by before x [] = [x]"
| "insert_by before x (y # ys) = (if before y x then y # insert_by before x ys else x # y # ys)"

definition sort_by :: "('a \<Rightarrow> 'a \<Rightarrow> bool) \<Rightarrow> 'a list \<Rightarrow> 'a list" where
  "sort_by before xs = foldr (insert_by before) xs []"

definition text_less :: "string \<Rightarrow> string \<Rightarrow> bool" where
  "text_less a b = tuple_less (map of_char a) (map of_char b)"

lemma mset_insert_by [simp]: "mset (insert_by before x ys) = add_mset x (mset ys)"
  by (induction ys) auto

lemma mset_sort_by [simp]: "mset (sort_by before xs) = mset xs"
  unfolding sort_by_def by (induction xs) auto

lemma set_sort_by [simp]: "set (sort_by before xs) = set xs"
  using mset_sort_by [of before xs] by (metis set_mset_mset)

lemma distinct_sort_by [simp]: "distinct (sort_by before xs) = distinct xs"
  using mset_sort_by [of before xs] by (metis mset_eq_imp_distinct_iff)

lemma sort_by_Nil_iff [simp]: "sort_by before xs = [] \<longleftrightarrow> xs = []"
  by (metis set_empty set_sort_by)

end
