(* ===== verification/Capability_Manager.thy ===== *)
theory Capability_Manager
  imports Python_Text Storage_Models Workflow_Engine
begin

text \<open>
  The capability registry: the metadata contracts of \<^verbatim>\<open>capabilities/models.py\<close>, the provider boundary of
  \<^verbatim>\<open>capabilities/base.py\<close> and the manager of \<^verbatim>\<open>capabilities/manager.py\<close>, which loads plugins, seals the registry,
  resolves dependencies and runs workflows. Plugins and the Pydantic models of inputs and outputs are
  values of the model: a model is its check for being a \<open>BaseModel\<close>, its schema and its validation, and a
  validated instance is the object of its attributes.
\<close>

section \<open>Metadata\<close>

datatype capability_category =
    Cat_storage | Cat_backup | Cat_recovery | Cat_security | Cat_network | Cat_packages | Cat_hardware
  | Cat_optimization | Cat_windows

datatype risk_level = Risk_low | Risk_medium | Risk_high | Risk_critical

datatype operation_class = Observe | Change | Recover

datatype capability_mode = Read_only | Mutating

record permission_requirement =
  pr_id :: string
  pr_reason :: string
  pr_required :: bool

record os_compatibility =
  oc_families :: "string list"
  oc_architectures :: "string list"
  oc_minimum_version :: "string option"
  oc_live_modes :: "string list"

record rollback_policy =
  rbp_supported :: bool
  rbp_strategy :: string

record audit_policy =
  ap_record_inputs :: bool
  ap_record_outputs :: bool
  ap_redact_sensitive_values :: bool
  ap_event_names :: "string list"

record capability_metadata =
  md_id :: string
  md_version :: string
  md_name :: string
  md_description :: string
  md_objective :: string
  md_category :: capability_category
  md_operation :: operation_class
  md_mode :: capability_mode
  md_os_compatibility :: os_compatibility
  md_risk :: risk_level
  md_estimated_duration_seconds :: int
  md_permissions :: "permission_requirement list"
  md_dependencies :: "string list"
  md_internal_actions :: "string list"
  md_postchecks :: "string list"
  md_rollback :: rollback_policy
  md_requires_authorization :: bool
  md_requires_protection_checkpoint :: bool
  md_supported_filesystems :: "string list"
  md_requires_unmounted :: bool
  md_supports_dry_run :: bool
  md_supports_verification :: bool
  md_supports_rollback :: bool
  md_required_evidence :: "string list"
  md_emitted_events :: "string list"
  md_metrics :: "string list"
  md_audit :: audit_policy
  md_keywords :: "string list"
  md_enabled :: bool
  md_disabled_reason :: "string option"

record plugin_manifest =
  pm_id :: string
  pm_version :: string
  pm_core_api_version :: string
  pm_name :: string
  pm_permissions :: "string list"
  pm_dependencies :: "string list"
  pm_os_compatibility :: os_compatibility
  pm_capabilities :: "string list"

record capability_descriptor =
  cd_metadata :: capability_metadata
  cd_input_schema :: json
  cd_output_schema :: json
  cd_plugin_id :: string
  cd_plugin_version :: string
  cd_active :: bool

section \<open>Providers\<close>

record pydantic_model =
  model_is_base_model :: bool
  model_json_schema :: json
  model_validate :: "json \<Rightarrow> exc + json"

record 'w capability =
  cap_metadata :: capability_metadata
  cap_input_model :: pydantic_model
  cap_output_model :: pydantic_model
  cap_build_workflow :: "json \<Rightarrow> exc + 'w workflow_definition"

record 'w capability_plugin =
  plugin_manifest_of :: plugin_manifest
  plugin_capabilities :: "'w capability list"

section \<open>State of the manager\<close>

record 'w registration =
  reg_capability :: "'w capability"
  reg_plugin_id :: string
  reg_plugin_version :: string

record system_profile =
  sp_os_family :: string
  sp_os_version :: string
  sp_architecture :: string
  sp_live_mode :: string

record 'w capability_manager =
  cm_capabilities :: "(string \<times> (string \<times> 'w registration) list) list"
  cm_plugins :: "((string \<times> string) \<times> 'w capability_plugin) list"
  cm_sealed :: bool

definition new_manager :: "'w capability_manager" where
  "new_manager = \<lparr>cm_capabilities = [], cm_plugins = [], cm_sealed = False\<rparr>"

definition CORE_API_VERSION :: string where
  "CORE_API_VERSION = ''2.0''"

section \<open>Versions\<close>

fun int_parts :: "string list \<Rightarrow> int list option" where
  "int_parts [] = Some []"
| "int_parts (p # ps) = (case (py_int p, int_parts ps) of (Some n, Some ns) \<Rightarrow> Some (n # ns) | _ \<Rightarrow> None)"

definition version_tuple :: "string \<Rightarrow> exc + int list" where
  "version_tuple value = (case int_parts (split_char CHR ''.'' value) of
     None \<Rightarrow> Inl (ValueError ''version is invalid'')
   | Some parts \<Rightarrow> Inr (parts @ replicate (3 - length parts) 0))"

text \<open>\<open>max(versions, key=_version_tuple)\<close>, the first of several largest ones.\<close>

fun max_version :: "string \<Rightarrow> int list \<Rightarrow> string list \<Rightarrow> exc + string" where
  "max_version best key [] = Inr best"
| "max_version best key (v # vs) = bindE (version_tuple v) (\<lambda>k.
     if tuple_less key k then max_version v k vs else max_version best key vs)"

definition active_version :: "'w capability_manager \<Rightarrow> string \<Rightarrow> exc + string" where
  "active_version M capability_id = (case map_of (cm_capabilities M) capability_id of
     None \<Rightarrow> Inl (KeyError capability_id)
   | Some versions \<Rightarrow> (case map fst versions of
       [] \<Rightarrow> Inl (KeyError capability_id)
     | v # vs \<Rightarrow> bindE (version_tuple v) (\<lambda>k. max_version v k vs)))"

definition registration_of :: "'w capability_manager \<Rightarrow> string \<Rightarrow> string option \<Rightarrow> exc + 'w registration option" where
  "registration_of M capability_id version = (case map_of (cm_capabilities M) capability_id of
     None \<Rightarrow> Inr None
   | Some versions \<Rightarrow>
       if versions = [] then Inr None
       else bindE (case version of
           None \<Rightarrow> active_version M capability_id
         | Some v \<Rightarrow> if v = [] then active_version M capability_id else Inr v)
         (\<lambda>selected. Inr (map_of versions selected)))"

section \<open>Loading plugins\<close>

definition validate_compatibility :: "system_profile \<Rightarrow> os_compatibility \<Rightarrow> exc + unit" where
  "validate_compatibility S c =
     (let incompatible = Inl (ValueError ''plugin or capability is incompatible with this system'') in
      if sp_os_family S \<notin> set (oc_families c) \<or> sp_architecture S \<notin> set (oc_architectures c)
        \<or> sp_live_mode S \<notin> set (oc_live_modes c) then incompatible
      else (case oc_minimum_version c of
          None \<Rightarrow> Inr ()
        | Some minimum \<Rightarrow>
            bindE (version_tuple (sp_os_version S)) (\<lambda>current.
            bindE (version_tuple minimum) (\<lambda>needed.
            if tuple_less current needed then incompatible else Inr ()))))"

definition check_capability :: "system_profile \<Rightarrow> plugin_manifest \<Rightarrow> 'w capability \<Rightarrow> exc + unit" where
  "check_capability S manifest c =
     (let md = cap_metadata c in
      if \<not> model_is_base_model (cap_input_model c) then
        Inl (ValueError ''capability input_model must be a Pydantic model'')
      else if \<not> model_is_base_model (cap_output_model c) then
        Inl (ValueError ''capability output_model must be a Pydantic model'')
      else if md_mode md = Read_only \<and> md_operation md \<noteq> Observe then
        Inl (ValueError ''read-only capabilities must use observe operation class'')
      else if md_requires_authorization md \<and> md_mode md \<noteq> Mutating then
        Inl (ValueError ''only mutating capabilities may require authorization'')
      else if md_requires_protection_checkpoint md \<and> md_mode md \<noteq> Mutating then
        Inl (ValueError ''only mutating capabilities may require a protection checkpoint'')
      else if md_enabled md \<and> md_disabled_reason md \<noteq> None then
        Inl (ValueError ''enabled capability must not declare disabled_reason'')
      else if \<not> md_enabled md \<and> \<not> truthy (md_disabled_reason md) then
        Inl (ValueError ''disabled capability must declare disabled_reason'')
      else bindE (validate_compatibility S (md_os_compatibility md)) (\<lambda>_.
        if \<not> pr_id ` set (md_permissions md) \<subseteq> set (pm_permissions manifest) then
          Inl (ValueError ''capability permission is absent from plugin manifest'')
        else Inr ()))"

definition register_capability ::
  "system_profile \<Rightarrow> plugin_manifest \<Rightarrow> 'w capability \<Rightarrow> ('w capability_manager, unit) prog" where
  "register_capability S manifest c =
     bindM (liftE (check_capability S manifest c)) (\<lambda>_ M.
       let md = cap_metadata c;
           versions = (case map_of (cm_capabilities M) (md_id md) of None \<Rightarrow> [] | Some vs \<Rightarrow> vs);
           M = M\<lparr>cm_capabilities := dict_set (md_id md) versions (cm_capabilities M)\<rparr>
       in if md_version md \<in> fst ` set versions then (Inl (ValueError ''duplicate capability id and version''), M)
          else (Inr (), M\<lparr>cm_capabilities := dict_set (md_id md)
            (dict_set (md_version md) \<lparr>reg_capability = c, reg_plugin_id = pm_id manifest,
               reg_plugin_version = pm_version manifest\<rparr> versions) (cm_capabilities M)\<rparr>))"

fun register_all ::
  "system_profile \<Rightarrow> plugin_manifest \<Rightarrow> 'w capability list \<Rightarrow> ('w capability_manager, unit) prog" where
  "register_all S manifest [] = ret ()"
| "register_all S manifest (c # cs) = bindM (register_capability S manifest c) (\<lambda>_. register_all S manifest cs)"

definition load_plugin :: "system_profile \<Rightarrow> 'w capability_plugin \<Rightarrow> ('w capability_manager, unit) prog" where
  "load_plugin S plugin =
     (let manifest = plugin_manifest_of plugin; key = (pm_id manifest, pm_version manifest) in
      bindM (getM cm_plugins) (\<lambda>plugins.
      if key \<in> fst ` set plugins then raise (ValueError ''duplicate plugin id and version'')
      else if pm_core_api_version manifest \<noteq> CORE_API_VERSION then
        raise (ValueError ''plugin targets an incompatible core API'')
      else
      bindM (liftE (validate_compatibility S (pm_os_compatibility manifest))) (\<lambda>_.
      if map (\<lambda>c. md_id (cap_metadata c)) (plugin_capabilities plugin) \<noteq> pm_capabilities manifest then
        raise (ValueError ''plugin manifest does not match discovered capabilities'')
      else
      bindM (register_all S manifest (plugin_capabilities plugin)) (\<lambda>_.
      modifyM (\<lambda>M. M\<lparr>cm_plugins := dict_set key plugin (cm_plugins M)\<rparr>)))))"

fun load_plugins :: "system_profile \<Rightarrow> 'w capability_plugin list \<Rightarrow> ('w capability_manager, unit) prog" where
  "load_plugins S [] = ret ()"
| "load_plugins S (p # ps) = bindM (load_plugin S p) (\<lambda>_. load_plugins S ps)"

definition manager_load :: "system_profile \<Rightarrow> 'w capability_plugin list \<Rightarrow> ('w capability_manager, unit) prog" where
  "manager_load S plugins =
     bindM (getM cm_sealed) (\<lambda>is_sealed.
     if is_sealed then raise (RuntimeError ''capability registry is sealed'')
     else load_plugins S plugins)"

section \<open>Dependencies\<close>

type_synonym resolution = "string list \<times> capability_metadata list"

lemma registration_registered: "registration_of M i v = Inr (Some r) \<Longrightarrow> i \<in> fst ` set (cm_capabilities M)"
  by (auto simp: registration_of_def dest: map_of_SomeD split: option.splits intro: rev_image_eqI)

lemma unvisited_decreases:
  assumes "registration_of M i v = Inr (Some r)" "i \<notin> set visiting"
  shows "card (fst ` set (cm_capabilities M) - insert i (set visiting)) < card (fst ` set (cm_capabilities M) - set visiting)"
  using assms registration_registered [OF assms(1)] by (intro psubset_card_mono) auto

text \<open>\<open>visit\<close> of \<open>resolve_dependencies\<close>, with the ids being visited as an argument and the visited ids and the
  order as its state; an exception ends the whole resolution, so what was being visited is not restored.\<close>

function visit :: "'w capability_manager \<Rightarrow> string list \<Rightarrow> string \<Rightarrow> resolution \<Rightarrow> exc + resolution"
  and visit_all :: "'w capability_manager \<Rightarrow> string list \<Rightarrow> string list \<Rightarrow> resolution \<Rightarrow> exc + resolution" where
  "visit M visiting current_id st =
     (if current_id \<in> set (fst st) then Inr st
      else if current_id \<in> set visiting then Inl (ValueError ''capability dependency cycle detected'')
      else (case registration_of M current_id None of
          Inl e \<Rightarrow> Inl e
        | Inr None \<Rightarrow> Inl (ValueError ''capability dependency is unavailable'')
        | Inr (Some r) \<Rightarrow>
            (case visit_all M (current_id # visiting) (md_dependencies (cap_metadata (reg_capability r))) st of
               Inl e \<Rightarrow> Inl e
             | Inr (visited, ordered) \<Rightarrow> Inr (current_id # visited, ordered @ [cap_metadata (reg_capability r)]))))"
| "visit_all M visiting [] st = Inr st"
| "visit_all M visiting (d # ds) st = (case visit M visiting d st of
     Inl e \<Rightarrow> Inl e
   | Inr st' \<Rightarrow> visit_all M visiting ds st')"
  by pat_completeness auto

termination
  by (relation "measures
       [case_sum (\<lambda>(M, visiting, _). card (fst ` set (cm_capabilities M) - set visiting))
          (\<lambda>(M, visiting, _). card (fst ` set (cm_capabilities M) - set visiting)),
        case_sum (\<lambda>_. 0) (\<lambda>(M, visiting, ds, st). Suc (length ds))]")
    (simp_all add: unvisited_decreases)

declare visit.simps [simp del] visit_all.simps [simp del]

definition resolve_dependencies :: "'w capability_manager \<Rightarrow> string \<Rightarrow> exc + capability_metadata list" where
  "resolve_dependencies M capability_id =
     (if capability_id \<notin> fst ` set (cm_capabilities M) then Inl (KeyError capability_id)
      else bindE (visit M [] capability_id ([], [])) (\<lambda>(visited, ordered). Inr ordered))"

fun resolve_each :: "'w capability_manager \<Rightarrow> string list \<Rightarrow> exc + unit" where
  "resolve_each M [] = Inr ()"
| "resolve_each M (i # is) = bindE (resolve_dependencies M i) (\<lambda>_. resolve_each M is)"

definition manager_seal :: "('w capability_manager, unit) prog" where
  "manager_seal =
     bindM (getM id) (\<lambda>M.
     if \<not> (\<forall>(key, plugin) \<in> set (cm_plugins M).
         set (pm_dependencies (plugin_manifest_of plugin)) \<subseteq> fst ` fst ` set (cm_plugins M)) then
       raise (ValueError ''plugin dependency is unavailable'')
     else if \<not> (\<forall>(i, versions) \<in> set (cm_capabilities M). \<forall>(v, r) \<in> set versions.
         set (md_dependencies (cap_metadata (reg_capability r))) \<subseteq> fst ` set (cm_capabilities M)) then
       raise (ValueError ''capability dependency is unavailable'')
     else
     bindM (liftE (resolve_each M (map fst (cm_capabilities M)))) (\<lambda>_.
     modifyM (\<lambda>M. M\<lparr>cm_sealed := True\<rparr>)))"

section \<open>Documentation\<close>

definition descriptor :: "'w capability_manager \<Rightarrow> string \<Rightarrow> string option \<Rightarrow> exc + capability_descriptor option" where
  "descriptor M capability_id version =
     bindE (registration_of M capability_id version) (\<lambda>registration.
     case registration of
       None \<Rightarrow> Inr None
     | Some r \<Rightarrow> bindE (active_version M capability_id) (\<lambda>active.
         Inr (Some \<lparr>cd_metadata = cap_metadata (reg_capability r),
           cd_input_schema = model_json_schema (cap_input_model (reg_capability r)),
           cd_output_schema = model_json_schema (cap_output_model (reg_capability r)),
           cd_plugin_id = reg_plugin_id r, cd_plugin_version = reg_plugin_version r,
           cd_active = (active = md_version (cap_metadata (reg_capability r)))\<rparr>)))"

definition manager_get :: "'w capability_manager \<Rightarrow> string \<Rightarrow> string option \<Rightarrow> exc + capability_metadata option" where
  "manager_get M capability_id version = bindE (descriptor M capability_id version) (\<lambda>d. Inr (map_option cd_metadata d))"

fun keyed :: "string list \<Rightarrow> exc + (int list \<times> string) list" where
  "keyed [] = Inr []"
| "keyed (v # vs) = bindE (version_tuple v) (\<lambda>k. bindE (keyed vs) (\<lambda>rest. Inr ((k, v) # rest)))"

fun describe_each :: "'w capability_manager \<Rightarrow> (string \<times> string option) list \<Rightarrow> exc + capability_descriptor list" where
  "describe_each M [] = Inr []"
| "describe_each M ((i, v) # rest) = bindE (descriptor M i v) (\<lambda>d.
     bindE (describe_each M rest) (\<lambda>ds. Inr (case d of None \<Rightarrow> ds | Some x \<Rightarrow> x # ds)))"

definition versions_of :: "'w capability_manager \<Rightarrow> string \<Rightarrow> exc + capability_descriptor list" where
  "versions_of M capability_id =
     bindE (keyed (case map_of (cm_capabilities M) capability_id of None \<Rightarrow> [] | Some vs \<Rightarrow> map fst vs)) (\<lambda>ks.
     describe_each M (map (\<lambda>(k, v). (capability_id, Some v)) (sort_by (\<lambda>a b. tuple_less (fst b) (fst a)) ks)))"

definition matches :: "string list \<Rightarrow> capability_category option \<Rightarrow> capability_descriptor \<Rightarrow> bool" where
  "matches terms category d =
     (let md = cd_metadata d;
          haystack = py_casefold (join '' '' ([md_id md, md_name md, md_description md, md_objective md] @ md_keywords md))
      in (category = None \<or> category = Some (md_category md)) \<and> (\<forall>term \<in> set terms. contains term haystack))"

definition descriptors ::
  "'w capability_manager \<Rightarrow> string option \<Rightarrow> capability_category option \<Rightarrow> exc + capability_descriptor list" where
  "descriptors M query category =
     bindE (describe_each M (map (\<lambda>(i, vs). (i, None)) (cm_capabilities M))) (\<lambda>ds.
     Inr (sort_by (\<lambda>a b. text_less (md_id (cd_metadata a)) (md_id (cd_metadata b)))
       (filter (matches (split_space (py_casefold (or_empty query))) category) ds)))"

definition catalog ::
  "'w capability_manager \<Rightarrow> string option \<Rightarrow> capability_category option \<Rightarrow> exc + capability_metadata list" where
  "catalog M query category = bindE (descriptors M query category) (\<lambda>ds. Inr (map cd_metadata ds))"

section \<open>Execution\<close>

definition validate_workflow_contract :: "capability_metadata \<Rightarrow> 'w workflow_definition \<Rightarrow> exc + unit" where
  "validate_workflow_contract md d =
     (if wd_capability_id d \<noteq> md_id md then Inl (ValueError ''workflow capability id does not match its registration'')
      else if (\<lambda>step. act_id (ws_action step)) ` set (definition_steps d) \<noteq> set (md_internal_actions md) then
        Inl (ValueError ''workflow actions do not match capability metadata'')
      else Inr ())"

text \<open>\<open>getattr(payload, name, None)\<close> restricted to strings.\<close>

definition text_attribute :: "json \<Rightarrow> string \<Rightarrow> string option" where
  "text_attribute payload name = (case json_get payload name of Some (JStr s) \<Rightarrow> Some s | _ \<Rightarrow> None)"

definition validate_protection_checkpoint ::
  "capability_metadata \<Rightarrow> json \<Rightarrow> protection_checkpoint option \<Rightarrow> exc + unit" where
  "validate_protection_checkpoint md payload checkpoint =
     (if \<not> md_requires_protection_checkpoint md then Inr ()
      else (case checkpoint of
          None \<Rightarrow> Inl (PermissionError ''verified protection checkpoint required'')
        | Some cp \<Rightarrow>
            if cp_status cp \<noteq> CP_READY \<or> cp_protected_resources cp = [] \<or> cp_verification_id cp = None then
              Inl (PermissionError ''verified protection checkpoint required'')
            else if text_attribute payload ''session_id'' \<notin> {None, Some (cp_session_id cp)} then
              Inl (PermissionError ''protection checkpoint belongs to another session'')
            else (case text_attribute payload ''protected_resource_id'' of
                None \<Rightarrow> Inr ()
              | Some resource \<Rightarrow>
                  if resource \<notin> set (cp_protected_resources cp) then
                    Inl (PermissionError ''protection checkpoint protects another resource'')
                  else (case text_attribute payload ''protected_resource_fingerprint_sha256'' of
                      None \<Rightarrow> Inr ()
                    | Some fingerprint \<Rightarrow>
                        if map_of (cp_resource_fingerprints cp) resource \<noteq> Some fingerprint then
                          Inl (PermissionError ''protection checkpoint fingerprint does not match target'')
                        else Inr ()))))"

text \<open>The checks of \<open>execute\<close> before the workflow runs.\<close>

definition prepare_execution ::
  "'w capability_manager \<Rightarrow> string \<Rightarrow> json \<Rightarrow> string option \<Rightarrow> protection_checkpoint option
     \<Rightarrow> exc + ('w capability \<times> 'w workflow_definition)" where
  "prepare_execution M capability_id payload version checkpoint =
     (if \<not> cm_sealed M then Inl (RuntimeError ''capability registry is not sealed'')
      else bindE (registration_of M capability_id version) (\<lambda>registration.
        case registration of
          None \<Rightarrow> Inl (KeyError capability_id)
        | Some r \<Rightarrow>
            let c = reg_capability r; md = cap_metadata c in
            if \<not> md_enabled md then
              Inl (PermissionError (if truthy (md_disabled_reason md) then or_empty (md_disabled_reason md)
                else ''capability is disabled''))
            else
              bindE (model_validate (cap_input_model c) payload) (\<lambda>validated.
              bindE (validate_protection_checkpoint md validated checkpoint) (\<lambda>_.
              bindE (cap_build_workflow c validated) (\<lambda>d.
              bindE (validate_workflow_contract md d) (\<lambda>_. Inr (c, d)))))))"

definition checked_output :: "'w capability \<Rightarrow> workflow_execution \<Rightarrow> exc + workflow_execution" where
  "checked_output c x = (if wx_status x \<noteq> Exec_succeeded then Inr x
     else (case wx_result x of
         None \<Rightarrow> Inr x
       | Some result \<Rightarrow> bindE (model_validate (cap_output_model c) result) (\<lambda>out. Inr (x\<lparr>wx_result := Some out\<rparr>))))"

text \<open>\<open>execute\<close> under a schedule of the workflow engine.\<close>

definition manager_execute ::
  "'w capability_manager \<Rightarrow> 'w workflow_engine \<Rightarrow> string \<Rightarrow> json \<Rightarrow> string option \<Rightarrow> string option
     \<Rightarrow> protection_checkpoint option \<Rightarrow> 'w wf_schedule \<Rightarrow> 'w wf_state
     \<Rightarrow> ((exc + workflow_execution) \<times> 'w wf_state) option" where
  "manager_execute M E capability_id payload version execution_id checkpoint sch s =
     (case prepare_execution M capability_id payload version checkpoint of
        Inl e \<Rightarrow> Some (Inl e, s)
      | Inr (c, d) \<Rightarrow> (case wf_execute E d execution_id sch s of
          None \<Rightarrow> None
        | Some (Inl e, s') \<Rightarrow> Some (Inl e, s')
        | Some (Inr x, s') \<Rightarrow> Some (checked_output c x, s')))"

end
