(* ===== verification/Capability_Guards.thy ===== *)
theory Capability_Guards
  imports Capability_Manager Workflow_Theorems
begin

text \<open>
  Lemmas about the capability registry: the dependency relation and the depth-first resolution, the
  invariant of loading and sealing, and the contract between the manager and the engine that runs its
  workflows.
\<close>

section \<open>The dependency relation\<close>

definition active_metadata :: "'w capability_manager \<Rightarrow> string \<Rightarrow> capability_metadata option" where
  "active_metadata M i = (case registration_of M i None of
     Inr (Some r) \<Rightarrow> Some (cap_metadata (reg_capability r)) | _ \<Rightarrow> None)"

definition depends :: "'w capability_manager \<Rightarrow> (string \<times> string) set" where
  "depends M = {(a, b). \<exists>md. active_metadata M a = Some md \<and> b \<in> set (md_dependencies md)}"

text \<open>Every id is its own, and depends only on ids before it.\<close>

definition topological :: "capability_metadata list \<Rightarrow> bool" where
  "topological xs \<longleftrightarrow> (\<forall>ys x zs. xs = ys @ x # zs \<longrightarrow>
     set (md_dependencies x) \<subseteq> md_id ` set ys \<and> md_id x \<notin> md_id ` set ys)"

lemma topological_Nil [simp]: "topological []"
  by (simp add: topological_def)

lemma topological_snoc:
  "topological (xs @ [x]) \<longleftrightarrow> topological xs \<and> set (md_dependencies x) \<subseteq> md_id ` set xs \<and> md_id x \<notin> md_id ` set xs"
  (is "?lhs \<longleftrightarrow> ?rhs")
proof
  assume l: ?lhs
  have "topological xs"
    unfolding topological_def
  proof (intro allI impI)
    fix ys y zs
    assume "xs = ys @ y # zs"
    then have "xs @ [x] = ys @ y # (zs @ [x])"
      by simp
    then show "set (md_dependencies y) \<subseteq> md_id ` set ys \<and> md_id y \<notin> md_id ` set ys"
      using l unfolding topological_def by blast
  qed
  then show ?rhs
    using l unfolding topological_def by blast
next
  assume r: ?rhs
  show ?lhs
    unfolding topological_def
  proof (intro allI impI)
    fix ys y zs
    assume eq: "xs @ [x] = ys @ y # zs"
    show "set (md_dependencies y) \<subseteq> md_id ` set ys \<and> md_id y \<notin> md_id ` set ys"
    proof (cases zs rule: rev_cases)
      case Nil
      then show ?thesis
        using eq r by simp
    next
      case (snoc ws w)
      then have "xs = ys @ y # ws"
        using eq by simp
      then show ?thesis
        using r unfolding topological_def by blast
    qed
  qed
qed

lemma topological_append: "topological (xs @ ys) \<Longrightarrow> topological xs"
  by (induction ys rule: rev_induct) (auto simp: topological_snoc simp flip: append_assoc)

lemma topological_distinct: "topological xs \<Longrightarrow> distinct (map md_id xs)"
  by (induction xs rule: rev_induct) (auto simp: topological_snoc)

definition all_active :: "'w capability_manager \<Rightarrow> capability_metadata list \<Rightarrow> bool" where
  "all_active M xs \<longleftrightarrow> (\<forall>x \<in> set xs. active_metadata M (md_id x) = Some x)"

text \<open>What is ordered is closed under dependencies, and so without a cycle.\<close>

lemma topological_closed:
  assumes "topological xs" "all_active M xs" "(a, b) \<in> depends M" "a \<in> md_id ` set xs"
  shows "b \<in> md_id ` set xs"
proof -
  obtain x where x: "x \<in> set xs" "md_id x = a"
    using assms(4) by auto
  then obtain ys zs where "xs = ys @ x # zs"
    by (auto simp: in_set_conv_decomp)
  moreover have "b \<in> set (md_dependencies x)"
    using assms(2,3) x by (auto simp: depends_def all_active_def)
  ultimately show ?thesis
    using assms(1) unfolding topological_def by fastforce
qed

lemma closed_rtrancl:
  assumes "(a, b) \<in> R\<^sup>*" "a \<in> A" "\<And>x y. (x, y) \<in> R \<Longrightarrow> x \<in> A \<Longrightarrow> y \<in> A"
  shows "b \<in> A"
  using assms(1,2) by (induction rule: rtrancl_induct) (auto dest: assms(3))

lemma topological_acyclic:
  assumes "topological xs" "all_active M xs" "a \<in> md_id ` set xs"
  shows "(a, a) \<notin> (depends M)\<^sup>+"
proof
  assume "(a, a) \<in> (depends M)\<^sup>+"
  then obtain b where b: "(a, b) \<in> depends M" "(b, a) \<in> (depends M)\<^sup>*"
    by (meson tranclD)
  obtain x where x: "x \<in> set xs" "md_id x = a"
    using assms(3) by auto
  then obtain ys zs where xs: "xs = ys @ x # zs"
    by (auto simp: in_set_conv_decomp)
  have ys: "topological ys" "all_active M ys"
    using assms(1,2) xs topological_append by (auto simp: all_active_def)
  have "b \<in> set (md_dependencies x)"
    using b(1) assms(2) x by (auto simp: depends_def all_active_def)
  then have "b \<in> md_id ` set ys"
    using assms(1) xs unfolding topological_def by blast
  then have "a \<in> md_id ` set ys"
    using topological_closed [OF ys] by (rule closed_rtrancl [OF b(2)])
  then show False
    using assms(1) xs x(2) unfolding topological_def by blast
qed

section \<open>The depth-first resolution\<close>

definition keyed_by_id :: "'w capability_manager \<Rightarrow> bool" where
  "keyed_by_id M \<longleftrightarrow> (\<forall>i md. active_metadata M i = Some md \<longrightarrow> md_id md = i)"

definition resolved :: "'w capability_manager \<Rightarrow> resolution \<Rightarrow> bool" where
  "resolved M st \<longleftrightarrow> set (fst st) = md_id ` set (snd st) \<and> topological (snd st) \<and> all_active M (snd st)"

lemma active_metadata_Some:
  "registration_of M i None = Inr (Some r) \<Longrightarrow> active_metadata M i = Some (cap_metadata (reg_capability r))"
  by (simp add: active_metadata_def)

lemma active_metadata_None:
  "registration_of M i None = Inl e \<Longrightarrow> active_metadata M i = None"
  "registration_of M i None = Inr None \<Longrightarrow> active_metadata M i = None"
  by (simp_all add: active_metadata_def)

lemma reachable_cons:
  assumes "(i, d) \<in> depends M" "j \<in> (depends M)\<^sup>* `` {d}"
  shows "j \<in> (depends M)\<^sup>* `` {i}"
  using assms by (auto intro: converse_rtrancl_into_rtrancl)

lemma visit_resolves:
  shows "\<lbrakk>visit M visiting i st = Inr st'; resolved M st; keyed_by_id M\<rbrakk> \<Longrightarrow>
      resolved M st' \<and> insert i (set (fst st)) \<subseteq> set (fst st') \<and>
      set (fst st') \<subseteq> set (fst st) \<union> (depends M)\<^sup>* `` {i} \<and> set (fst st') \<inter> set visiting \<subseteq> set (fst st)"
    and "\<lbrakk>visit_all M visiting ds st = Inr st'; resolved M st; keyed_by_id M\<rbrakk> \<Longrightarrow>
      resolved M st' \<and> set ds \<union> set (fst st) \<subseteq> set (fst st') \<and>
      set (fst st') \<subseteq> set (fst st) \<union> (depends M)\<^sup>* `` set ds \<and> set (fst st') \<inter> set visiting \<subseteq> set (fst st)"
proof (induction M visiting i st and M visiting ds st arbitrary: st' and st' rule: visit_visit_all.induct)
  case (1 M visiting i st)
  show ?case
  proof (cases "i \<in> set (fst st)")
    case True
    then show ?thesis
      using 1(2,3) by (simp add: visit.simps)
  next
    case False
    then obtain r visited ordered where vis: "i \<notin> set visiting" and r: "registration_of M i None = Inr (Some r)"
      and deps: "visit_all M (i # visiting) (md_dependencies (cap_metadata (reg_capability r))) st = Inr (visited, ordered)"
      and st': "st' = (i # visited, ordered @ [cap_metadata (reg_capability r)])"
      using 1(2) by (auto simp: visit.simps split: if_splits sum.splits option.splits)
    let ?md = "cap_metadata (reg_capability r)"
    have md: "active_metadata M i = Some ?md"
      using r by (rule active_metadata_Some)
    then have id: "md_id ?md = i"
      using 1(4) by (simp add: keyed_by_id_def)
    have IH: "resolved M (visited, ordered)" "set (md_dependencies ?md) \<union> set (fst st) \<subseteq> set visited"
      "set visited \<subseteq> set (fst st) \<union> (depends M)\<^sup>* `` set (md_dependencies ?md)"
      "set visited \<inter> set (i # visiting) \<subseteq> set (fst st)"
      using 1(1) [OF False vis r refl deps 1(3,4)] by simp_all
    have "i \<notin> set visited"
      using IH(4) False by auto
    then have "resolved M st'"
      using IH(1,2) id md unfolding st' resolved_def all_active_def by (auto simp: topological_snoc)
    moreover have "(depends M)\<^sup>* `` set (md_dependencies ?md) \<subseteq> (depends M)\<^sup>* `` {i}"
      using md by (auto simp: depends_def intro: converse_rtrancl_into_rtrancl)
    then have "set visited \<subseteq> set (fst st) \<union> (depends M)\<^sup>* `` {i}"
      using IH(3) by blast
    moreover have "i \<in> (depends M)\<^sup>* `` {i}"
      by simp
    ultimately show ?thesis
      using IH(2,4) vis unfolding st' fst_conv list.set by blast
  qed
next
  case (2 M visiting st)
  then show ?case
    by (simp add: visit_all.simps)
next
  case (3 M visiting d ds st)
  then obtain st1 where first: "visit M visiting d st = Inr st1" and rest: "visit_all M visiting ds st1 = Inr st'"
    by (auto simp: visit_all.simps split: sum.splits)
  have f: "resolved M st1" "insert d (set (fst st)) \<subseteq> set (fst st1)"
    "set (fst st1) \<subseteq> set (fst st) \<union> (depends M)\<^sup>* `` {d}" "set (fst st1) \<inter> set visiting \<subseteq> set (fst st)"
    using 3(1) [OF first 3(4,5)] by blast+
  have "resolved M st'" "set ds \<union> set (fst st1) \<subseteq> set (fst st')"
    "set (fst st') \<subseteq> set (fst st1) \<union> (depends M)\<^sup>* `` set ds" "set (fst st') \<inter> set visiting \<subseteq> set (fst st1)"
    using 3(2) [OF first rest f(1) 3(5)] by blast+
  moreover have "(depends M)\<^sup>* `` set (d # ds) = (depends M)\<^sup>* `` {d} \<union> (depends M)\<^sup>* `` set ds"
    by auto
  ultimately show ?case
    using f unfolding list.set by blast
qed

lemma visit_last:
  assumes "visit M visiting i st = Inr st'" "i \<notin> set (fst st)" "keyed_by_id M"
  shows "snd st' \<noteq> [] \<and> md_id (last (snd st')) = i"
  using assms active_metadata_Some [of M i] unfolding keyed_by_id_def
  by (auto simp: visit.simps split: if_splits sum.splits option.splits)

text \<open>A resolution that fails has met an id without a registration, or one on a cycle.\<close>

definition unresolvable :: "'w capability_manager \<Rightarrow> string \<Rightarrow> bool" where
  "unresolvable M j \<longleftrightarrow> active_metadata M j = None \<or> (j, j) \<in> (depends M)\<^sup>+"

lemma visit_fails:
  shows "\<lbrakk>visit M visiting i st = Inl e; \<forall>v \<in> set visiting. (v, i) \<in> (depends M)\<^sup>+\<rbrakk> \<Longrightarrow>
      \<exists>j \<in> (depends M)\<^sup>* `` {i}. unresolvable M j"
    and "\<lbrakk>visit_all M visiting ds st = Inl e; \<forall>v \<in> set visiting. \<forall>d \<in> set ds. (v, d) \<in> (depends M)\<^sup>+\<rbrakk> \<Longrightarrow>
      \<exists>j \<in> (depends M)\<^sup>* `` set ds. unresolvable M j"
proof (induction M visiting i st and M visiting ds st arbitrary: e and e rule: visit_visit_all.induct)
  case (1 M visiting i st)
  have out: "i \<notin> set (fst st)"
    using 1(2) by (auto simp: visit.simps)
  show ?case
  proof (cases "i \<in> set visiting \<or> active_metadata M i = None")
    case True
    then have "unresolvable M i"
      using 1(3) by (auto simp: unresolvable_def)
    then show ?thesis
      by auto
  next
    case False
    then obtain r where r: "registration_of M i None = Inr (Some r)"
      by (auto simp: active_metadata_def split: sum.splits option.splits)
    let ?md = "cap_metadata (reg_capability r)"
    have md: "active_metadata M i = Some ?md"
      using r by (rule active_metadata_Some)
    have fail: "visit_all M (i # visiting) (md_dependencies ?md) st = Inl e"
      using 1(2) out False r by (auto simp: visit.simps split: sum.splits)
    have step: "(i, d) \<in> depends M" if "d \<in> set (md_dependencies ?md)" for d
      using that md by (simp add: depends_def)
    then have "\<forall>v \<in> set (i # visiting). \<forall>d \<in> set (md_dependencies ?md). (v, d) \<in> (depends M)\<^sup>+"
      using 1(3) by (auto intro: trancl_into_trancl)
    then obtain j where "j \<in> (depends M)\<^sup>* `` set (md_dependencies ?md)" "unresolvable M j"
      using 1(1) [OF out _ r refl fail] False by blast
    then show ?thesis
      using step by (auto intro: converse_rtrancl_into_rtrancl)
  qed
next
  case (2 M visiting st)
  then show ?case
    by (simp add: visit_all.simps)
next
  case (3 M visiting d ds st)
  show ?case
  proof (cases "visit M visiting d st")
    case (Inl e')
    then show ?thesis
      using 3(1) [OF Inl] 3(4) by auto
  next
    case (Inr st1)
    then have "visit_all M visiting ds st1 = Inl e"
      using 3(3) by (simp add: visit_all.simps)
    then show ?thesis
      using 3(2) [OF Inr] 3(4) by auto
  qed
qed

lemma resolve_Inr:
  assumes "resolve_dependencies M i = Inr order" "keyed_by_id M"
  shows "topological order \<and> all_active M order \<and> md_id ` set order = (depends M)\<^sup>* `` {i} \<and>
    order \<noteq> [] \<and> md_id (last order) = i"
proof -
  obtain visited where visit: "visit M [] i ([], []) = Inr (visited, order)"
    using assms(1) by (auto simp: resolve_dependencies_def prog_simps split: if_splits)
  have start: "resolved M ([], [])"
    by (simp add: resolved_def all_active_def)
  have res: "resolved M (visited, order)" "i \<in> set visited" "set visited \<subseteq> (depends M)\<^sup>* `` {i}"
    using visit_resolves(1) [OF visit start assms(2)] by auto
  then have ids: "set visited = md_id ` set order" and ok: "topological order" "all_active M order"
    by (auto simp: resolved_def)
  have "(depends M)\<^sup>* `` {i} \<subseteq> set visited"
    using res(2) closed_rtrancl [of i _ "depends M" "set visited"] topological_closed [OF ok] unfolding ids by blast
  then show ?thesis
    using res(3) ids ok visit_last [OF visit _ assms(2)] by auto
qed

lemma resolve_iff:
  assumes "keyed_by_id M" "i \<in> fst ` set (cm_capabilities M)"
  shows "(\<exists>order. resolve_dependencies M i = Inr order) \<longleftrightarrow> (\<forall>j \<in> (depends M)\<^sup>* `` {i}. \<not> unresolvable M j)"
proof
  assume "\<exists>order. resolve_dependencies M i = Inr order"
  then obtain order where order: "topological order" "all_active M order" "md_id ` set order = (depends M)\<^sup>* `` {i}"
    using resolve_Inr [OF _ assms(1)] by blast
  show "\<forall>j \<in> (depends M)\<^sup>* `` {i}. \<not> unresolvable M j"
  proof
    fix j
    assume "j \<in> (depends M)\<^sup>* `` {i}"
    then have j: "j \<in> md_id ` set order"
      by (simp add: order(3))
    then have "active_metadata M j \<noteq> None"
      using order(2) by (auto simp: all_active_def)
    then show "\<not> unresolvable M j"
      using topological_acyclic [OF order(1,2) j] by (simp add: unresolvable_def)
  qed
next
  assume none: "\<forall>j \<in> (depends M)\<^sup>* `` {i}. \<not> unresolvable M j"
  show "\<exists>order. resolve_dependencies M i = Inr order"
  proof (cases "visit M [] i ([], [])")
    case (Inl e)
    then show ?thesis
      using visit_fails(1) [OF Inl] none by auto
  next
    case (Inr st)
    then show ?thesis
      using assms(2) by (cases st) (simp add: resolve_dependencies_def)
  qed
qed

section \<open>Loading and sealing\<close>

text \<open>A registration comes from one of the plugins that were offered.\<close>

definition registered_ok ::
  "system_profile \<Rightarrow> 'w capability_plugin set \<Rightarrow> string \<Rightarrow> string \<Rightarrow> 'w registration \<Rightarrow> bool" where
  "registered_ok S P i v r \<longleftrightarrow> md_id (cap_metadata (reg_capability r)) = i \<and> md_version (cap_metadata (reg_capability r)) = v \<and>
     (\<exists>plugin \<in> P. reg_capability r \<in> set (plugin_capabilities plugin) \<and>
        pm_id (plugin_manifest_of plugin) = reg_plugin_id r \<and> pm_version (plugin_manifest_of plugin) = reg_plugin_version r \<and>
        check_capability S (plugin_manifest_of plugin) (reg_capability r) = Inr ())"

definition registry_ok :: "system_profile \<Rightarrow> 'w capability_plugin set \<Rightarrow> 'w capability_manager \<Rightarrow> bool" where
  "registry_ok S P M \<longleftrightarrow> (\<forall>i versions v r. map_of (cm_capabilities M) i = Some versions \<longrightarrow>
     map_of versions v = Some r \<longrightarrow> registered_ok S P i v r)"

lemma registry_ok_mono: "registry_ok S P M \<Longrightarrow> P \<subseteq> Q \<Longrightarrow> registry_ok S Q M"
  unfolding registry_ok_def registered_ok_def by blast

lemma registration_of_Some:
  assumes "registration_of M i v = Inr (Some r)"
  obtains versions w where "map_of (cm_capabilities M) i = Some versions" "map_of versions w = Some r"
  using assms by (auto simp: registration_of_def prog_simps split: option.splits if_splits)

lemma registry_ok_registration:
  assumes "registry_ok S P M" "registration_of M i v = Inr (Some r)"
  shows "\<exists>w. registered_ok S P i w r"
proof -
  obtain versions w where "map_of (cm_capabilities M) i = Some versions" "map_of versions w = Some r"
    using assms(2) by (rule registration_of_Some)
  then show ?thesis
    using assms(1) unfolding registry_ok_def by blast
qed

lemma registry_ok_keyed: "registry_ok S P M \<Longrightarrow> keyed_by_id M"
  unfolding keyed_by_id_def active_metadata_def
  by (auto split: sum.splits option.splits dest!: registry_ok_registration simp: registered_ok_def)

lemma registry_ok_add:
  assumes "registry_ok S P M" "check_capability S (plugin_manifest_of plugin) c = Inr ()"
    and "versions = (case map_of (cm_capabilities M) (md_id (cap_metadata c)) of None \<Rightarrow> [] | Some vs \<Rightarrow> vs)"
    and "reg = \<lparr>reg_capability = c, reg_plugin_id = pm_id (plugin_manifest_of plugin),
      reg_plugin_version = pm_version (plugin_manifest_of plugin)\<rparr>"
    and "new = versions \<or> new = dict_set (md_version (cap_metadata c)) reg versions"
    and "cm_capabilities M' = dict_set (md_id (cap_metadata c)) new (cm_capabilities M)"
    and "plugin \<in> P" "c \<in> set (plugin_capabilities plugin)"
  shows "registry_ok S P M'"
proof -
  have old: "registered_ok S P i v r" if "map_of (cm_capabilities M) i = Some vs" "map_of vs v = Some r" for i vs v r
    using assms(1) that by (simp add: registry_ok_def)
  have "registered_ok S P (md_id (cap_metadata c)) (md_version (cap_metadata c)) reg"
    using assms(2,4,7,8) by (auto simp: registered_ok_def)
  then have new: "registered_ok S P (md_id (cap_metadata c)) v r" if "map_of new v = Some r" for v r
    using that assms(3,5) old by (auto split: if_splits option.splits)
  show ?thesis
    unfolding registry_ok_def assms(6) using new old by (auto split: if_splits)
qed

lemma registry_ok_register:
  assumes "plugin \<in> P" "c \<in> set (plugin_capabilities plugin)"
  shows "preserves (registry_ok S P) (register_capability S (plugin_manifest_of plugin) c)"
proof (rule preservesI)
  fix M r M'
  assume ok: "registry_ok S P M" and run: "register_capability S (plugin_manifest_of plugin) c M = (r, M')"
  show "registry_ok S P M'"
  proof (cases "check_capability S (plugin_manifest_of plugin) c")
    case (Inl e)
    then show ?thesis
      using ok run by (simp add: register_capability_def prog_eval)
  next
    case (Inr u)
    then have check: "check_capability S (plugin_manifest_of plugin) c = Inr ()"
      by simp
    let ?versions = "case map_of (cm_capabilities M) (md_id (cap_metadata c)) of None \<Rightarrow> [] | Some vs \<Rightarrow> vs"
    have "\<exists>new. (new = ?versions \<or> new = dict_set (md_version (cap_metadata c)) \<lparr>reg_capability = c,
          reg_plugin_id = pm_id (plugin_manifest_of plugin), reg_plugin_version = pm_version (plugin_manifest_of plugin)\<rparr> ?versions) \<and>
        cm_capabilities M' = dict_set (md_id (cap_metadata c)) new (cm_capabilities M)"
      using run check by (cases "md_version (cap_metadata c) \<in> fst ` set ?versions")
        (auto simp: register_capability_def prog_eval Let_def)
    then show ?thesis
      using registry_ok_add [OF ok check refl refl _ _ assms] by blast
  qed
qed

lemma registry_ok_plugins:
  "registry_ok S P (M\<lparr>cm_plugins := ps\<rparr>) = registry_ok S P M" "registry_ok S P (M\<lparr>cm_sealed := b\<rparr>) = registry_ok S P M"
  by (simp_all add: registry_ok_def)

lemma preserves_register_all:
  assumes "\<And>c. c \<in> set cs \<Longrightarrow> preserves I (register_capability S manifest c)"
  shows "preserves I (register_all S manifest cs)"
  using assms by (induction cs) (auto intro!: preserves_intros)

lemma preserves_load_plugins:
  assumes "\<And>plugin c. \<lbrakk>plugin \<in> set plugins; c \<in> set (plugin_capabilities plugin)\<rbrakk> \<Longrightarrow>
      preserves I (register_capability S (plugin_manifest_of plugin) c)"
    and "\<And>M ps. I M \<Longrightarrow> I (M\<lparr>cm_plugins := ps\<rparr>)"
  shows "preserves I (load_plugins S plugins)"
  using assms(1)
proof (induction plugins)
  case (Cons plugin plugins)
  have "preserves I (load_plugin S plugin)"
    unfolding load_plugin_def Let_def
    by (intro preserves_intros preserves_modifyM preserves_register_all) (use Cons.prems assms(2) in auto)
  moreover have "preserves I (load_plugins S plugins)"
    using Cons by simp
  ultimately show ?case
    by (auto intro!: preserves_intros)
qed (simp add: preserves_ret)

lemma unsealed_register: "preserves (\<lambda>M. \<not> cm_sealed M) (register_capability S manifest c)"
  unfolding register_capability_def Let_def
  by (rule preserves_bindM [OF preserves_liftE]) (simp add: preserves_def)

definition sealed_ok :: "'w capability_manager \<Rightarrow> bool" where
  "sealed_ok M \<longleftrightarrow> (cm_sealed M \<longrightarrow> (\<forall>i \<in> fst ` set (cm_capabilities M). \<forall>j \<in> (depends M)\<^sup>* `` {i}. \<not> unresolvable M j))"

lemma load_keeps:
  assumes "manager_load S plugins M = (r, M')" "registry_ok S P M" "sealed_ok M"
  shows "registry_ok S (P \<union> set plugins) M' \<and> sealed_ok M'"
proof (cases "cm_sealed M")
  case True
  then show ?thesis
    using assms registry_ok_mono [OF assms(2)] by (auto simp: manager_load_def prog_eval)
next
  case False
  then have run: "load_plugins S plugins M = (r, M')"
    using assms(1) by (simp add: manager_load_def prog_eval)
  have "\<not> cm_sealed M'"
    by (rule preservesD [OF preserves_load_plugins [OF unsealed_register, where plugins = plugins and S = S] False run]) simp
  moreover have "preserves (registry_ok S (P \<union> set plugins)) (load_plugins S plugins)"
    by (rule preserves_load_plugins [OF registry_ok_register]) (simp_all add: registry_ok_plugins)
  then have "registry_ok S (P \<union> set plugins) M'"
    using registry_ok_mono [OF assms(2)] run by (rule preservesD) blast
  ultimately show ?thesis
    by (simp add: sealed_ok_def)
qed

lemma sealed_registration [simp]:
  "registration_of (M\<lparr>cm_sealed := b\<rparr>) i v = registration_of M i v"
  "active_metadata (M\<lparr>cm_sealed := b\<rparr>) = active_metadata M" "depends (M\<lparr>cm_sealed := b\<rparr>) = depends M"
  "unresolvable (M\<lparr>cm_sealed := b\<rparr>) = unresolvable M"
proof -
  have "active_version (M\<lparr>cm_sealed := b\<rparr>) = active_version M"
    by (simp add: active_version_def fun_eq_iff)
  then show reg: "registration_of (M\<lparr>cm_sealed := b\<rparr>) i v = registration_of M i v" for i v
    by (simp add: registration_of_def split: option.split)
  show act: "active_metadata (M\<lparr>cm_sealed := b\<rparr>) = active_metadata M"
    by (simp add: active_metadata_def reg fun_eq_iff)
  show "depends (M\<lparr>cm_sealed := b\<rparr>) = depends M" "unresolvable (M\<lparr>cm_sealed := b\<rparr>) = unresolvable M"
    by (simp_all add: depends_def unresolvable_def act fun_eq_iff)
qed

lemma resolve_each_Inr: "resolve_each M is = Inr u \<Longrightarrow> i \<in> set is \<Longrightarrow> \<exists>order. resolve_dependencies M i = Inr order"
  by (induction "is") (auto simp: prog_simps)

lemma seal_keeps:
  assumes "manager_seal M = (r, M')" "registry_ok S P M" "sealed_ok M"
  shows "registry_ok S P M' \<and> sealed_ok M'"
proof (cases r)
  case (Inl e)
  then have "M' = M"
    using assms(1) by (auto simp: manager_seal_def prog_simps id_def split: if_splits)
  then show ?thesis
    using assms by simp
next
  case (Inr u)
  then have M': "M' = M\<lparr>cm_sealed := True\<rparr>" and each: "resolve_each M (map fst (cm_capabilities M)) = Inr ()"
    using assms(1) by (auto simp: manager_seal_def prog_simps id_def split: if_splits)
  have "\<forall>j \<in> (depends M)\<^sup>* `` {i}. \<not> unresolvable M j" if "i \<in> fst ` set (cm_capabilities M)" for i
    using that resolve_each_Inr [OF each] resolve_iff [OF registry_ok_keyed [OF assms(2)] that] by simp
  then show ?thesis
    using assms(2) by (simp add: M' sealed_ok_def registry_ok_plugins)
qed

text \<open>The managers a service can have: a new one, and what loading and sealing make of it, raising or not; with
  the plugins offered to it.\<close>

inductive manager_history :: "system_profile \<Rightarrow> 'w capability_plugin set \<Rightarrow> 'w capability_manager \<Rightarrow> bool" for S where
  start: "manager_history S {} new_manager"
| loaded: "manager_history S P M \<Longrightarrow> manager_load S plugins M = (r, M') \<Longrightarrow> manager_history S (P \<union> set plugins) M'"
| sealed: "manager_history S P M \<Longrightarrow> manager_seal M = (r, M') \<Longrightarrow> manager_history S P M'"

lemma history_ok: "manager_history S P M \<Longrightarrow> registry_ok S P M \<and> sealed_ok M"
proof (induction rule: manager_history.induct)
  case start
  show ?case
    by (simp add: registry_ok_def sealed_ok_def new_manager_def)
next
  case (loaded P M plugins r M')
  then show ?case
    using load_keeps by blast
next
  case (sealed P M r M')
  then show ?case
    using seal_keeps by blast
qed

lemmas history_keyed = registry_ok_keyed [OF conjunct1 [OF history_ok]]

lemma check_capability_Inr:
  assumes "check_capability S manifest c = Inr ()"
  shows "validate_compatibility S (md_os_compatibility (cap_metadata c)) = Inr ()"
    "md_mode (cap_metadata c) = Read_only \<longrightarrow> md_operation (cap_metadata c) = Observe \<and>
       \<not> md_requires_authorization (cap_metadata c) \<and> \<not> md_requires_protection_checkpoint (cap_metadata c)"
    "md_enabled (cap_metadata c) \<longleftrightarrow> md_disabled_reason (cap_metadata c) = None"
    "pr_id ` set (md_permissions (cap_metadata c)) \<subseteq> set (pm_permissions manifest)"
  using assms by (auto simp: check_capability_def Let_def prog_simps truthy_def split: if_splits option.splits)

section \<open>Execution\<close>

text \<open>What the manager relies on when it hands a definition to the engine: the records of an execution
  are of the actions of its definition, and it is filed under the definition's capability.\<close>

locale definition_runner =
  fixes run :: "'w workflow_definition \<Rightarrow> string option \<Rightarrow> 'w wf_schedule \<Rightarrow> 'w wf_state
    \<Rightarrow> ((exc + workflow_execution) \<times> 'w wf_state) option"
  assumes run_actions: "run d i sch s = Some (Inr x, s') \<Longrightarrow>
      sx_action_id ` set (wx_steps x) \<subseteq> (\<lambda>step. act_id (ws_action step)) ` set (definition_steps d)"
    and run_capability: "run d i sch s = Some (Inr x, s') \<Longrightarrow> wx_capability_id x = wd_capability_id d"
begin

lemma contract_run:
  assumes "validate_workflow_contract md d = Inr u" "run d i sch s = Some (Inr x, s')"
  shows "wx_capability_id x = md_id md \<and> sx_action_id ` set (wx_steps x) \<subseteq> set (md_internal_actions md)"
  using assms(1) run_actions [OF assms(2)] run_capability [OF assms(2)]
  by (auto simp: validate_workflow_contract_def split: if_splits)

end

lemma finish_execution_capability:
  "finish_execution_wf E d i t stop run s = (Inr x, s') \<Longrightarrow> wx_capability_id x = wd_capability_id d"
  unfolding finish_execution_wf_def
  by (auto simp: bindM_Inr_iff liftE_iff ret_iff modifyM_iff Let_def split: prod.splits if_splits)

lemma finish_execution_actions:
  assumes "gathered steps [] stop run" "finish_execution_wf E d i t stop run s = (Inr x, s')"
  shows "sx_action_id ` set (wx_steps x) \<subseteq> (\<lambda>step. act_id (ws_action step)) ` set steps"
proof -
  obtain run' status code where handled: "handle_stop stop run = Inr (run', status, code)"
    and steps: "wx_steps x = run_records run'"
    using assms(2) by (rule finish_execution_Inr)
  obtain pairs where pairs: "run_ok pairs run'" "mset (map fst pairs) \<subseteq># mset steps"
    using assms(1) handled by (rule handle_stop_records)
  have "set (map fst pairs) \<subseteq> set steps"
    using set_mset_mono [OF pairs(2)] by simp
  moreover have "wx_steps x = map snd pairs" "\<forall>(step, rec) \<in> set pairs. sx_action_id rec = act_id (ws_action step)"
    using pairs(1) steps by (auto simp: run_ok_def record_ok_def)
  ultimately show ?thesis
    by fastforce
qed

interpretation engine: definition_runner "wf_execute E" for E
proof
  fix d :: "'a workflow_definition" and i sch s x s'
  assume run: "wf_execute E d i sch s = Some (Inr x, s')"
  from run obtain j t s1 stop run s2 sch' where
    stages: "run_stages E d j (wd_stages d) \<lparr>run_records = [], run_outputs = [], run_compensations = []\<rparr> s1 sch
      = Some (stop, run, s2, sch')" and finish: "finish_execution_wf E d j t stop run s2 = (Inr x, s')"
    by (rule wf_execute_Inr)
  have "gathered (definition_steps d) [] stop run"
    unfolding definition_steps_def using stages by (rule run_stages_gathers) (simp add: run_ok_def)
  then show "sx_action_id ` set (wx_steps x) \<subseteq> (\<lambda>step. act_id (ws_action step)) ` set (definition_steps d)"
    using finish by (rule finish_execution_actions)
  show "wx_capability_id x = wd_capability_id d"
    using finish by (rule finish_execution_capability)
qed

text \<open>What a checkpoint has to be for an execution.\<close>

definition checkpoint_covers :: "json \<Rightarrow> protection_checkpoint \<Rightarrow> bool" where
  "checkpoint_covers payload cp \<longleftrightarrow> cp_status cp = CP_READY \<and> cp_protected_resources cp \<noteq> [] \<and> cp_verification_id cp \<noteq> None \<and>
     (\<forall>s. text_attribute payload ''session_id'' = Some s \<longrightarrow> cp_session_id cp = s) \<and>
     (\<forall>q. text_attribute payload ''protected_resource_id'' = Some q \<longrightarrow> q \<in> set (cp_protected_resources cp) \<and>
        (\<forall>f. text_attribute payload ''protected_resource_fingerprint_sha256'' = Some f \<longrightarrow>
           map_of (cp_resource_fingerprints cp) q = Some f))"

lemma validate_protection_checkpoint_iff:
  "validate_protection_checkpoint md payload checkpoint = Inr u \<longleftrightarrow>
     (md_requires_protection_checkpoint md \<longrightarrow> (\<exists>cp. checkpoint = Some cp \<and> checkpoint_covers payload cp))"
  unfolding validate_protection_checkpoint_def checkpoint_covers_def
  by (auto split: option.splits)

lemma prepare_execution_Inr:
  assumes "prepare_execution M i payload version checkpoint = Inr (c, d)"
  obtains r validated where "cm_sealed M" "registration_of M i version = Inr (Some r)" "c = reg_capability r"
    "md_enabled (cap_metadata c)" "model_validate (cap_input_model c) payload = Inr validated"
    "md_requires_protection_checkpoint (cap_metadata c) \<longrightarrow> (\<exists>cp. checkpoint = Some cp \<and> checkpoint_covers validated cp)"
    "cap_build_workflow c validated = Inr d" "validate_workflow_contract (cap_metadata c) d = Inr ()"
  using assms unfolding prepare_execution_def
  by (auto simp: bindE_Inr_iff Let_def validate_protection_checkpoint_iff split: if_splits option.splits)

end
