(* ===== verification/Capability_Theorems.thy ===== *)
theory Capability_Theorems
  imports Capability_Guards
begin

text \<open>The theorems about the capability manager, for every history of its registry, with their application to a
  registry of two capabilities, one of which depends on the other.\<close>

section \<open>A concrete registry\<close>

definition demo_compatibility :: os_compatibility where
  "demo_compatibility = \<lparr>oc_families = [''debian''], oc_architectures = [''amd64''], oc_minimum_version = Some ''12.4'',
     oc_live_modes = [''live'']\<rparr>"

definition demo_metadata :: "string \<Rightarrow> capability_mode \<Rightarrow> string list \<Rightarrow> capability_metadata" where
  "demo_metadata i mode dependencies = \<lparr>md_id = i, md_version = ''1.0.0'', md_name = i, md_description = i, md_objective = i,
     md_category = Cat_storage, md_operation = (if mode = Read_only then Observe else Change), md_mode = mode,
     md_os_compatibility = demo_compatibility, md_risk = Risk_low, md_estimated_duration_seconds = 1,
     md_permissions = [\<lparr>pr_id = ''read'', pr_reason = ''reads'', pr_required = True\<rparr>], md_dependencies = dependencies,
     md_internal_actions = [''a'', ''b'', ''c''], md_postchecks = [], md_rollback = \<lparr>rbp_supported = False, rbp_strategy = ''none''\<rparr>,
     md_requires_authorization = False, md_requires_protection_checkpoint = (mode = Mutating),
     md_supported_filesystems = [], md_requires_unmounted = False, md_supports_dry_run = False,
     md_supports_verification = False, md_supports_rollback = False, md_required_evidence = [], md_emitted_events = [],
     md_metrics = [], md_audit = \<lparr>ap_record_inputs = True, ap_record_outputs = True, ap_redact_sensitive_values = True,
       ap_event_names = []\<rparr>, md_keywords = [], md_enabled = True, md_disabled_reason = None\<rparr>"

definition demo_model :: pydantic_model where
  "demo_model = \<lparr>model_is_base_model = True, model_json_schema = JNull, model_validate = Inr\<rparr>"

definition demo_capability :: "string \<Rightarrow> capability_mode \<Rightarrow> string list \<Rightarrow> flow_world capability" where
  "demo_capability i mode dependencies = \<lparr>cap_metadata = demo_metadata i mode dependencies, cap_input_model = demo_model,
     cap_output_model = demo_model, cap_build_workflow = (\<lambda>_. Inr flow_definition)\<rparr>"

definition demo_plugin :: "flow_world capability_plugin" where
  "demo_plugin = \<lparr>plugin_manifest_of = \<lparr>pm_id = ''plugin'', pm_version = ''1.0.0'', pm_core_api_version = ''2.0'',
       pm_name = ''plugin'', pm_permissions = [''read''], pm_dependencies = [], pm_os_compatibility = demo_compatibility,
       pm_capabilities = [''cap'', ''scan'']\<rparr>,
     plugin_capabilities = [demo_capability ''cap'' Mutating [''scan''], demo_capability ''scan'' Read_only []]\<rparr>"

definition demo_profile :: system_profile where
  "demo_profile = \<lparr>sp_os_family = ''debian'', sp_os_version = ''13'', sp_architecture = ''amd64'', sp_live_mode = ''live''\<rparr>"

definition demo_loaded :: "flow_world capability_manager" where
  "demo_loaded = snd (manager_load demo_profile [demo_plugin] new_manager)"

definition demo_manager :: "flow_world capability_manager" where
  "demo_manager = snd (manager_seal demo_loaded)"

definition demo_checkpoint :: protection_checkpoint where
  "demo_checkpoint = \<lparr>cp_id = ''cp'', cp_created_at = 0, cp_status = CP_READY, cp_protected_resources = [''disk''],
     cp_resource_fingerprints = [(''disk'', ''f'')], cp_provider_capability_id = ''backup'', cp_protection_kind = BACKUP_KIND,
     cp_backup_id = None, cp_verification_id = Some ''v'', cp_session_id = ''session'', cp_evidence_sha256 = ''e'',
     cp_limitations = []\<rparr>"

lemma demo_history: "manager_history demo_profile ({} \<union> set [demo_plugin]) demo_manager"
proof -
  have l: "manager_history demo_profile ({} \<union> set [demo_plugin]) demo_loaded"
    unfolding demo_loaded_def by (rule manager_history.loaded [OF manager_history.start prod.collapse [symmetric]])
  show ?thesis
    unfolding demo_manager_def by (rule manager_history.sealed [OF l prod.collapse [symmetric]])
qed

lemma demo_sealed: "cm_sealed demo_manager"
  by code_simp

lemma demo_registered: "''cap'' \<in> fst ` set (cm_capabilities demo_manager)"
  by code_simp

lemma demo_order: "(case resolve_dependencies demo_manager ''cap'' of Inr order \<Rightarrow> map md_id order | Inl _ \<Rightarrow> []) = [''scan'', ''cap'']"
  by code_simp

lemma demo_run:
  "flow_view (manager_execute demo_manager flow_engine ''cap'' (JObj [(''session_id'', JStr ''session''),
       (''protected_resource_id'', JStr ''disk'')]) None (Some ''execution'') (Some demo_checkpoint) flow_schedule flow_start) =
     Some (Exec_failed, [(''a'', Step_succeeded, 2), (''b'', Step_succeeded, 1), (''c'', Step_failed, 1)], Some ''X'', True)"
  by code_simp

section \<open>Theorems\<close>

text \<open>C34 (functional): Resolution of dependencies. For every registered capability the resolution ends, and either
  it returns the metadata of exactly the capabilities reachable through dependencies, each in its active
  version, once, after everything it depends on, the requested one last, and then no reachable capability
  is on a dependency cycle; or it raises, and then a reachable capability is not registered or is on a
  dependency cycle.\<close>

theorem dependencies_come_first:
  assumes "manager_history S P M" "i \<in> fst ` set (cm_capabilities M)"
  shows "case resolve_dependencies M i of
      Inr order \<Rightarrow> topological order \<and> md_id ` set order = (depends M)\<^sup>* `` {i} \<and> order \<noteq> [] \<and> md_id (last order) = i \<and>
        (\<forall>md \<in> set order. active_metadata M (md_id md) = Some md) \<and> (\<forall>j \<in> (depends M)\<^sup>* `` {i}. (j, j) \<notin> (depends M)\<^sup>+)
    | Inl _ \<Rightarrow> \<exists>j \<in> (depends M)\<^sup>* `` {i}. active_metadata M j = None \<or> (j, j) \<in> (depends M)\<^sup>+"
proof (cases "resolve_dependencies M i")
  case (Inl e)
  then show ?thesis
    using resolve_iff [OF history_keyed [OF assms(1)] assms(2)] by (auto simp: unresolvable_def)
next
  case (Inr order)
  then have "\<forall>j \<in> (depends M)\<^sup>* `` {i}. \<not> unresolvable M j"
    using resolve_iff [OF history_keyed [OF assms(1)] assms(2)] by blast
  then have "\<forall>j \<in> (depends M)\<^sup>* `` {i}. (j, j) \<notin> (depends M)\<^sup>+"
    by (simp add: unresolvable_def)
  then show ?thesis
    using resolve_Inr [OF Inr history_keyed [OF assms(1)]] Inr unfolding all_active_def by simp
qed

theorem dependencies_come_first_witness:
  "\<exists>order. resolve_dependencies demo_manager ''cap'' = Inr order \<and> map md_id order = [''scan'', ''cap''] \<and> topological order"
proof -
  obtain order where order: "resolve_dependencies demo_manager ''cap'' = Inr order" "map md_id order = [''scan'', ''cap'']"
    using demo_order by (cases "resolve_dependencies demo_manager ''cap''") auto
  then show ?thesis
    using dependencies_come_first [OF demo_history demo_registered] by simp
qed

text \<open>C35 (invariant): The sealed registry. Whatever was loaded before, successfully or not, in a sealed registry
  the dependencies of every capability resolve, a further load raises and changes nothing, and every
  registered capability is under its own id, is compatible with the system, observes only if it is
  read-only and needs then no authorization or checkpoint, has a reason exactly if it is disabled, and
  asks only for permissions declared by the manifest of the offered plugin that provides it.\<close>

theorem sealed_registry_is_sound:
  assumes "manager_history S P M" "cm_sealed M"
  shows "(\<forall>plugins. \<exists>e. manager_load S plugins M = (Inl e, M)) \<and>
    (\<forall>i \<in> fst ` set (cm_capabilities M). \<exists>order. resolve_dependencies M i = Inr order) \<and>
    (\<forall>i v r. registration_of M i v = Inr (Some r) \<longrightarrow> (let md = cap_metadata (reg_capability r) in
       md_id md = i \<and> validate_compatibility S (md_os_compatibility md) = Inr () \<and>
       (md_mode md = Read_only \<longrightarrow> md_operation md = Observe \<and> \<not> md_requires_authorization md \<and>
          \<not> md_requires_protection_checkpoint md) \<and>
       (md_enabled md \<longleftrightarrow> md_disabled_reason md = None) \<and>
       (\<exists>plugin \<in> P. reg_capability r \<in> set (plugin_capabilities plugin) \<and> pm_id (plugin_manifest_of plugin) = reg_plugin_id r \<and>
          pr_id ` set (md_permissions md) \<subseteq> set (pm_permissions (plugin_manifest_of plugin)))))"
proof (intro conjI allI impI ballI)
  fix plugins
  show "\<exists>e. manager_load S plugins M = (Inl e, M)"
    using assms(2) by (simp add: manager_load_def prog_eval)
next
  fix i
  assume i: "i \<in> fst ` set (cm_capabilities M)"
  then show "\<exists>order. resolve_dependencies M i = Inr order"
    using history_ok [OF assms(1)] assms(2) resolve_iff [OF history_keyed [OF assms(1)] i]
    unfolding sealed_ok_def by blast
next
  fix i v r
  assume "registration_of M i v = Inr (Some r)"
  then obtain w where "registered_ok S P i w r"
    using registry_ok_registration [OF conjunct1 [OF history_ok [OF assms(1)]]] by blast
  then obtain plugin where plugin: "md_id (cap_metadata (reg_capability r)) = i" "plugin \<in> P"
    "reg_capability r \<in> set (plugin_capabilities plugin)" "pm_id (plugin_manifest_of plugin) = reg_plugin_id r"
    and "check_capability S (plugin_manifest_of plugin) (reg_capability r) = Inr ()"
    by (auto simp: registered_ok_def)
  then show "let md = cap_metadata (reg_capability r) in
       md_id md = i \<and> validate_compatibility S (md_os_compatibility md) = Inr () \<and>
       (md_mode md = Read_only \<longrightarrow> md_operation md = Observe \<and> \<not> md_requires_authorization md \<and>
          \<not> md_requires_protection_checkpoint md) \<and>
       (md_enabled md \<longleftrightarrow> md_disabled_reason md = None) \<and>
       (\<exists>plugin \<in> P. reg_capability r \<in> set (plugin_capabilities plugin) \<and> pm_id (plugin_manifest_of plugin) = reg_plugin_id r \<and>
          pr_id ` set (md_permissions md) \<subseteq> set (pm_permissions (plugin_manifest_of plugin)))"
    unfolding Let_def using check_capability_Inr plugin by blast
qed

theorem sealed_registry_is_sound_witness:
  "cm_sealed demo_manager \<and> (\<exists>order. resolve_dependencies demo_manager ''cap'' = Inr order) \<and>
     (\<exists>e. manager_load demo_profile [demo_plugin] demo_manager = (Inl e, demo_manager))"
  using sealed_registry_is_sound [OF demo_history demo_sealed] demo_sealed demo_registered by blast

text \<open>C36 (safety): A capability runs behind its gates. An execution either raises and leaves the workflow engine
  untouched, or the registry was sealed, the capability enabled, the payload validated, the protection
  checkpoint, if one is required, ready, verified and of the session and the resource with the fingerprint
  that the payload names, and the workflow was run under the schedule with exactly the declared actions.
  An execution that returns is filed under the capability, its records are of declared actions, and the
  result of a successful one is an output that the capability's output model validated.\<close>

theorem capability_runs_behind_gates:
  assumes "manager_execute M E i payload version eid checkpoint sch s = Some (result, s')" "manager_history S P M"
  shows "(\<exists>e. result = Inl e) \<and> s' = s \<or>
    (\<exists>r validated d. cm_sealed M \<and> registration_of M i version = Inr (Some r) \<and>
       (let c = reg_capability r; md = cap_metadata c in
        md_enabled md \<and> model_validate (cap_input_model c) payload = Inr validated \<and>
        (md_requires_protection_checkpoint md \<longrightarrow> (\<exists>cp. checkpoint = Some cp \<and> checkpoint_covers validated cp)) \<and>
        cap_build_workflow c validated = Inr d \<and> (\<exists>outcome. wf_execute E d eid sch s = Some (outcome, s')) \<and>
        (\<lambda>step. act_id (ws_action step)) ` set (definition_steps d) = set (md_internal_actions md) \<and>
        (\<forall>x. result = Inr x \<longrightarrow> wx_capability_id x = i \<and> sx_action_id ` set (wx_steps x) \<subseteq> set (md_internal_actions md) \<and>
           (wx_status x = Exec_succeeded \<longrightarrow>
              (\<forall>out. wx_result x = Some out \<longrightarrow> (\<exists>raw. model_validate (cap_output_model c) raw = Inr out))))))"
proof (cases "prepare_execution M i payload version checkpoint")
  case (Inl e)
  then have "result = Inl e" "s' = s"
    using assms(1) by (simp_all add: manager_execute_def)
  then show ?thesis
    by blast
next
  case (Inr cd)
  obtain c d where cd: "cd = (c, d)"
    by fastforce
  obtain r validated where r: "cm_sealed M" "registration_of M i version = Inr (Some r)" "c = reg_capability r"
    and gates: "md_enabled (cap_metadata c)" "model_validate (cap_input_model c) payload = Inr validated"
      "md_requires_protection_checkpoint (cap_metadata c) \<longrightarrow> (\<exists>cp. checkpoint = Some cp \<and> checkpoint_covers validated cp)"
      "cap_build_workflow c validated = Inr d" and contract: "validate_workflow_contract (cap_metadata c) d = Inr ()"
    using Inr unfolding cd by (rule prepare_execution_Inr)
  obtain outcome where run: "wf_execute E d eid sch s = Some (outcome, s')"
    and out: "result = (case outcome of Inl e \<Rightarrow> Inl e | Inr x \<Rightarrow> checked_output c x)"
    using assms(1) Inr unfolding cd by (auto simp: manager_execute_def split: option.splits prod.splits sum.splits)
  have id: "md_id (cap_metadata c) = i"
    using registry_ok_registration [OF conjunct1 [OF history_ok [OF assms(2)]] r(2)] r(3) by (auto simp: registered_ok_def)
  have actions: "(\<lambda>step. act_id (ws_action step)) ` set (definition_steps d) = set (md_internal_actions (cap_metadata c))"
    using contract by (auto simp: validate_workflow_contract_def split: if_splits)
  have returned: "wx_capability_id x = i \<and> sx_action_id ` set (wx_steps x) \<subseteq> set (md_internal_actions (cap_metadata c)) \<and>
      (wx_status x = Exec_succeeded \<longrightarrow>
         (\<forall>out. wx_result x = Some out \<longrightarrow> (\<exists>raw. model_validate (cap_output_model c) raw = Inr out)))"
    if res: "result = Inr x" for x
  proof -
    obtain y where y: "outcome = Inr y" "checked_output c y = Inr x"
      using res out by (cases outcome) auto
    then have "wx_capability_id y = i \<and> sx_action_id ` set (wx_steps y) \<subseteq> set (md_internal_actions (cap_metadata c))"
      using engine.contract_run [OF contract] run id by simp
    then show ?thesis
      using y(2) by (auto simp: checked_output_def prog_simps split: if_splits option.splits)
  qed
  then have all: "\<forall>x. result = Inr x \<longrightarrow> wx_capability_id x = i \<and>
      sx_action_id ` set (wx_steps x) \<subseteq> set (md_internal_actions (cap_metadata c)) \<and>
      (wx_status x = Exec_succeeded \<longrightarrow>
         (\<forall>out. wx_result x = Some out \<longrightarrow> (\<exists>raw. model_validate (cap_output_model c) raw = Inr out)))"
    by blast
  show ?thesis
    unfolding Let_def
    by (intro disjI2 exI [of _ r] exI [of _ validated] exI [of _ d] conjI exI [of _ outcome] r(1,2) run
        gates [unfolded r(3)] actions [unfolded r(3)] all [unfolded r(3)])
qed

theorem capability_runs_behind_gates_witness:
  "\<exists>x s'. manager_execute demo_manager flow_engine ''cap'' (JObj [(''session_id'', JStr ''session''),
       (''protected_resource_id'', JStr ''disk'')]) None (Some ''execution'') (Some demo_checkpoint) flow_schedule flow_start
       = Some (Inr x, s') \<and> wx_capability_id x = ''cap''"
proof -
  obtain x s' where run: "manager_execute demo_manager flow_engine ''cap'' (JObj [(''session_id'', JStr ''session''),
       (''protected_resource_id'', JStr ''disk'')]) None (Some ''execution'') (Some demo_checkpoint) flow_schedule flow_start
       = Some (Inr x, s')"
    using demo_run unfolding flow_view_def by (auto split: option.splits prod.splits sum.splits)
  then show ?thesis
    using capability_runs_behind_gates [OF run demo_history] by (auto simp: Let_def)
qed

end
