(* ===== verification/File_System.thy ===== *)
theory File_System
  imports Python_Text "HOL-Library.Sublist"
begin

text \<open>
  The part of \<open>os\<close> and \<open>pathlib\<close> that the backup tools use, on a file system given as a dictionary from paths
  to nodes. A path is the list of its names from the root. Open files are named by their path, links are
  never followed, and the errors are those of the structure of the tree (a name that exists, is missing or
  is not a directory); permissions, quotas, hardware errors and the \<open>umask\<close> are not modelled.
\<close>

section \<open>Paths\<close>

type_synonym path = "string list"

definition path_parts :: "string \<Rightarrow> path" where
  "path_parts s = filter (\<lambda>w. w \<noteq> [] \<and> w \<noteq> ''.'') (split_char CHR ''/'' s)"

definition is_absolute :: "string \<Rightarrow> bool" where
  "is_absolute s \<longleftrightarrow> prefix_of ''/'' s"

definition as_posix :: "path \<Rightarrow> string" where
  "as_posix ps = join ''/'' ps"

definition path_str :: "path \<Rightarrow> string" where
  "path_str ps = CHR ''/'' # as_posix ps"

definition clean_name :: "string \<Rightarrow> bool" where
  "clean_name w \<longleftrightarrow> w \<noteq> [] \<and> w \<noteq> ''.'' \<and> w \<noteq> ''..'' \<and> CHR ''/'' \<notin> set w"

lemma path_parts_as_posix: "\<forall>w \<in> set ps. clean_name w \<Longrightarrow> path_parts (as_posix ps) = ps"
proof (cases "ps = []")
  case False
  assume clean: "\<forall>w \<in> set ps. clean_name w"
  have "filter (\<lambda>w. w \<noteq> [] \<and> w \<noteq> ''.'') ps = ps"
    using clean by (induction ps) (auto simp: clean_name_def)
  then show ?thesis
    using clean split_char_join [OF False, of "CHR ''/''"] by (simp add: path_parts_def as_posix_def clean_name_def)
qed (simp add: path_parts_def as_posix_def)

lemma path_parts_path_str: "\<forall>w \<in> set ps. clean_name w \<Longrightarrow> path_parts (path_str ps) = ps"
  using path_parts_as_posix [of ps] by (simp add: path_parts_def path_str_def)

lemma as_posix_inj:
  assumes "as_posix ps = as_posix qs" "\<forall>w \<in> set ps \<union> set qs. clean_name w"
  shows "ps = qs"
  using assms path_parts_as_posix by (metis UnCI)

lemma as_posix_relative:
  assumes "\<forall>w \<in> set ps. clean_name w"
  shows "\<not> is_absolute (as_posix ps)"
proof (cases ps)
  case (Cons w ws)
  then obtain c t where w: "w = c # t" "c \<noteq> CHR ''/''"
    using assms by (cases w) (auto simp: clean_name_def)
  obtain r where "as_posix ps = c # r"
    unfolding as_posix_def Cons w by (cases ws) auto
  then show ?thesis
    using w(2) by (simp add: is_absolute_def prefix_of_def)
qed (simp add: is_absolute_def prefix_of_def as_posix_def)

section \<open>Nodes\<close>

datatype node_kind = Directory | Regular | Link | Special

record node =
  nd_kind :: node_kind
  nd_content :: string
  nd_mode :: int
  nd_mtime :: int
  nd_dev :: string
  nd_ino :: int

type_synonym fs = "(path \<times> node) list"

definition st_size :: "node \<Rightarrow> int" where
  "st_size n = int (length (nd_content n))"

definition has_kind :: "fs \<Rightarrow> path \<Rightarrow> node_kind \<Rightarrow> bool" where
  "has_kind f p k \<longleftrightarrow> (case map_of f p of None \<Rightarrow> False | Some n \<Rightarrow> nd_kind n = k)"

lemma has_kind_iff: "has_kind f p k \<longleftrightarrow> (\<exists>n. map_of f p = Some n \<and> nd_kind n = k)"
  by (auto simp: has_kind_def split: option.splits)

definition lstat :: "fs \<Rightarrow> path \<Rightarrow> exc + node" where
  "lstat f p = (case map_of f p of
     Some n \<Rightarrow> Inr n
   | None \<Rightarrow> if list_ex (\<lambda>k. map_of f (take k p) \<noteq> None \<and> \<not> has_kind f (take k p) Directory) [0..<length p]
       then Inl (OSError ''not a directory'') else Inl (FileNotFoundError ''no such file or directory''))"

lemma lstat_Inr [simp]: "lstat f p = Inr n \<longleftrightarrow> map_of f p = Some n"
  by (simp add: lstat_def split: option.split)

lemma lstat_Some [simp]: "map_of f p = Some n \<Longrightarrow> lstat f p = Inr n"
  by simp

lemma lstat_None [simp]: "map_of f p = None \<Longrightarrow> lstat f p \<noteq> Inr n"
  by simp

lemma lstat_Inl: "lstat f p = Inl e \<Longrightarrow> map_of f p = None \<and> is_os_error e"
  by (auto simp: lstat_def is_os_error_def split: option.splits if_splits)

text \<open>\<open>sorted(os.scandir(d), key=name)\<close>, each name with whether it is a link.\<close>

definition child_names :: "fs \<Rightarrow> path \<Rightarrow> string list" where
  "child_names f d = remdups (map (\<lambda>(p, n). last p) (filter (\<lambda>(p, n). p \<noteq> [] \<and> butlast p = d) f))"

definition scandir :: "fs \<Rightarrow> path \<Rightarrow> exc + (string \<times> bool) list" where
  "scandir f d = (if has_kind f d Directory
     then Inr (map (\<lambda>w. (w, has_kind f (d @ [w]) Link)) (sort_by text_less (child_names f d)))
     else Inl (OSError ''not a directory''))"

lemma set_child_names: "set (child_names f d) = {w. d @ [w] \<in> fst ` set f}"
proof -
  have "w \<in> set (child_names f d) \<longleftrightarrow> (\<exists>(p, n) \<in> set f. p = d @ [w])" for w
    by (auto simp: child_names_def split_beta image_iff) (metis append_butlast_last_id snoc_eq_iff_butlast fst_conv)+
  then show ?thesis
    by (force simp: image_iff split_beta)
qed

section \<open>Changes\<close>

definition new_node :: "fs \<Rightarrow> path \<Rightarrow> node_kind \<Rightarrow> int \<Rightarrow> node" where
  "new_node f p k mode = \<lparr>nd_kind = k, nd_content = [], nd_mode = mode, nd_mtime = 0,
     nd_dev = (case map_of f (butlast p) of None \<Rightarrow> [] | Some n \<Rightarrow> nd_dev n), nd_ino = int (length f)\<rparr>"

text \<open>\<open>os.mkdir\<close>, and \<open>os.open\<close> with \<open>O_CREAT | O_EXCL\<close>.\<close>

definition make_node :: "fs \<Rightarrow> path \<Rightarrow> node_kind \<Rightarrow> int \<Rightarrow> exc + fs" where
  "make_node f p k mode =
     (if map_of f p \<noteq> None then Inl (OSError ''file exists'')
      else if p = [] \<or> map_of f (butlast p) = None then Inl (FileNotFoundError ''no such file or directory'')
      else if \<not> has_kind f (butlast p) Directory then Inl (OSError ''not a directory'')
      else Inr (dict_set p (new_node f p k mode) f))"

text \<open>\<open>Path.mkdir(parents=True)\<close>.\<close>

fun ensure_dirs :: "fs \<Rightarrow> path \<Rightarrow> path \<Rightarrow> exc + fs" where
  "ensure_dirs f base [] = Inr f"
| "ensure_dirs f base (w # ws) =
     (if map_of f (base @ [w]) \<noteq> None then
        (if has_kind f (base @ [w]) Directory then ensure_dirs f (base @ [w]) ws else Inl (OSError ''not a directory''))
      else bindE (make_node f (base @ [w]) Directory 511) (\<lambda>f'. ensure_dirs f' (base @ [w]) ws))"

definition mkdir_parents :: "fs \<Rightarrow> path \<Rightarrow> int \<Rightarrow> bool \<Rightarrow> exc + fs" where
  "mkdir_parents f p mode exist_ok =
     (if map_of f p \<noteq> None then (if exist_ok \<and> has_kind f p Directory then Inr f else Inl (OSError ''file exists''))
      else bindE (ensure_dirs f [] (butlast p)) (\<lambda>f'. make_node f' p Directory mode))"

definition append_content :: "path \<Rightarrow> string \<Rightarrow> fs \<Rightarrow> fs" where
  "append_content p block f = (case map_of f p of
     None \<Rightarrow> f | Some n \<Rightarrow> dict_set p (n\<lparr>nd_content := nd_content n @ block\<rparr>) f)"

definition set_attributes :: "path \<Rightarrow> int \<Rightarrow> int \<Rightarrow> fs \<Rightarrow> fs" where
  "set_attributes p mode mtime f = (case map_of f p of
     None \<Rightarrow> f | Some n \<Rightarrow> dict_set p (n\<lparr>nd_mode := mode, nd_mtime := mtime\<rparr>) f)"

definition at_or_below :: "path \<Rightarrow> path \<Rightarrow> bool" where
  "at_or_below root p \<longleftrightarrow> take (length root) p = root"

lemma at_or_below_prefix: "at_or_below root p \<longleftrightarrow> prefix root p"
  unfolding at_or_below_def prefix_def by (metis append_eq_conv_conj append_take_drop_id)

text \<open>\<open>os.replace\<close> of a directory; an empty directory gives way.\<close>

definition rename :: "fs \<Rightarrow> path \<Rightarrow> path \<Rightarrow> exc + fs" where
  "rename f src dst =
     (if map_of f src = None \<or> map_of f (butlast dst) = None then Inl (FileNotFoundError ''no such file or directory'')
      else if map_of f dst \<noteq> None \<and> (\<not> has_kind f dst Directory \<or> child_names f dst \<noteq> []) then
        Inl (OSError ''directory not empty'')
      else if at_or_below src dst then Inl (OSError ''invalid argument'')
      else Inr (map (\<lambda>(p, n). (if at_or_below src p then dst @ drop (length src) p else p, n))
        (filter (\<lambda>(p, n). p \<noteq> dst) f)))"

definition rmtree :: "fs \<Rightarrow> path \<Rightarrow> fs" where
  "rmtree f root = filter (\<lambda>(p, n). \<not> at_or_below root p) f"

text \<open>The paths that \<open>os.walk\<close> meets below a directory, relative to it.\<close>

definition tree_below :: "fs \<Rightarrow> path \<Rightarrow> path list" where
  "tree_below f root = map (\<lambda>(p, n). drop (length root) p)
     (filter (\<lambda>(p, n). at_or_below root p \<and> length root < length p) f)"

end
