(* ===== verification/Backup_Tools.thy ===== *)
theory Backup_Tools
  imports File_System Storage_Planning Backup_Models
begin

text \<open>
  The backup tools of \<^verbatim>\<open>tools/backup.py\<close>: planning a backup, revalidating the plan, copying the source into a
  partial directory that is published by one rename, and verifying a backup against its manifest. The file
  system is part of the state, so that a callback of the caller, or another process that runs while the
  tool waits for it, can change it. A loop over the file system takes fuel and gives \<^const>\<open>None\<close> when it runs out.
\<close>

section \<open>Records of \<open>backup/models.py\<close> for running and verifying\<close>

text \<open>Progress without the percentage, speed and remaining time, which are floats of the clock.\<close>

record backup_progress =
  bpr_files_completed :: int
  bpr_files_total :: int
  bpr_bytes_completed :: int
  bpr_bytes_total :: int

record backup_execution =
  bex_id :: string
  bex_backup_id :: string
  bex_workflow_execution_id :: "string option"
  bex_status :: backup_status
  bex_started_at :: "int option"
  bex_finished_at :: "int option"
  bex_progress :: backup_progress
  bex_authorization_challenge_id :: "string option"
  bex_error_code :: "string option"

record backup =
  bk_id :: string
  bk_version :: string
  bk_created_at :: int
  bk_source :: backup_source
  bk_destination :: backup_destination
  bk_size :: int
  bk_file_count :: int
  bk_status :: backup_status
  bk_checksum :: "string option"
  bk_verification_status :: backup_verification_status
  bk_encryption_status :: string
  bk_compression_status :: string
  bk_metadata :: "(string \<times> json) list"
  bk_created_by :: string
  bk_session_id :: string
  bk_plan_id :: string
  bk_execution :: backup_execution

section \<open>Environment and state\<close>

text \<open>What the tools ask of the system besides the file system: the text of the mount table, the block
  devices of \<^verbatim>\<open>/sys\<close>, free space, access rights, SHA-256, JSON text and the clock.\<close>

record 'w backup_env =
  bt_mountinfo :: "exc + string"
  bt_block_path :: "string \<Rightarrow> path option"
  bt_sys_file :: "path \<Rightarrow> string option"
  bt_statvfs :: "fs \<Rightarrow> path \<Rightarrow> exc + (int \<times> int)"
  bt_access :: "fs \<Rightarrow> path \<Rightarrow> bool"
  bt_sha256 :: "string \<Rightarrow> string"
  bt_dumps :: "json \<Rightarrow> string"
  bt_load_manifest :: "string \<Rightarrow> backup_manifest option"
  bt_clock :: "'w clock"
  bt_random_id :: "'w \<Rightarrow> string \<times> 'w"

record 'w backup_host =
  bh_fs :: fs
  bh_world :: 'w

definition CHUNK_BYTES :: int where
  "CHUNK_BYTES = 1048576"

definition MIN_HEADROOM_BYTES :: int where
  "MIN_HEADROOM_BYTES = 16777216"

definition MAX_MANIFEST_BYTES :: int where
  "MAX_MANIFEST_BYTES = 128000000"

definition INCOMPATIBLE_DESTINATION_FILESYSTEMS :: "string list" where
  "INCOMPATIBLE_DESTINATION_FILESYSTEMS =
     [''proc'', ''sysfs'', ''devtmpfs'', ''devpts'', ''tmpfs'', ''overlay'', ''squashfs'', ''iso9660'', ''cgroup'',
      ''cgroup2'', ''efivarfs'', ''securityfs'', ''tracefs'', ''debugfs'']"

text \<open>Programs with fuel.\<close>

type_synonym ('s, 'a) fprog = "'s \<Rightarrow> ((exc + 'a) \<times> 's) option"

definition liftF :: "('s, 'a) prog \<Rightarrow> ('s, 'a) fprog" where
  "liftF m s = Some (m s)"

definition bindF :: "('s, 'a) fprog \<Rightarrow> ('a \<Rightarrow> ('s, 'b) fprog) \<Rightarrow> ('s, 'b) fprog" where
  "bindF m f s = (case m s of
     None \<Rightarrow> None | Some (Inl e, s') \<Rightarrow> Some (Inl e, s') | Some (Inr x, s') \<Rightarrow> f x s')"

definition catchF :: "('s, 'a) fprog \<Rightarrow> (exc \<Rightarrow> ('s, 'a) fprog) \<Rightarrow> ('s, 'a) fprog" where
  "catchF m h s = (case m s of
     None \<Rightarrow> None | Some (Inl e, s') \<Rightarrow> h e s' | Some (Inr x, s') \<Rightarrow> Some (Inr x, s'))"

section \<open>Mounts and devices\<close>

record mount_info =
  mi_device_id :: string
  mi_mount_point :: path
  mi_filesystem_type :: string
  mi_source :: string
  mi_options :: "string list"

definition decode_mount :: "string \<Rightarrow> string" where
  "decode_mount value = replace_text (CHR 0x5C # ''134'') [CHR 0x5C] (replace_text (CHR 0x5C # ''012'') [CHR 0x0A]
     (replace_text (CHR 0x5C # ''011'') [CHR 0x09] (replace_text (CHR 0x5C # ''040'') '' '' value)))"

definition parse_mountinfo :: "string \<Rightarrow> mount_info option" where
  "parse_mountinfo line = (case split_once '' - '' line of
     None \<Rightarrow> None
   | Some (left, right) \<Rightarrow>
       let fields = split_space left; rest = split_space right in
       if length fields < 6 \<or> length rest < 2 then None
       else if \<not> is_absolute (decode_mount (fields ! 4)) then None
       else Some \<lparr>mi_device_id = fields ! 2, mi_mount_point = path_parts (decode_mount (fields ! 4)),
         mi_filesystem_type = rest ! 0, mi_source = decode_mount (rest ! 1),
         mi_options = split_char CHR '','' (fields ! 5)\<rparr>)"

definition is_relative_to :: "path \<Rightarrow> path \<Rightarrow> bool" where
  "is_relative_to p root = at_or_below root p"

fun deepest_mount :: "mount_info \<Rightarrow> mount_info list \<Rightarrow> mount_info" where
  "deepest_mount best [] = best"
| "deepest_mount best (m # ms) =
     (if length (mi_mount_point best) < length (mi_mount_point m) then deepest_mount m ms else deepest_mount best ms)"

definition mount_for :: "'w backup_env \<Rightarrow> fs \<Rightarrow> path \<Rightarrow> exc + mount_info option" where
  "mount_for T f p = (case bt_mountinfo T of
     Inl e \<Rightarrow>
       if \<not> is_os_error e then Inl e
       else bindE (lstat f p) (\<lambda>n. Inr (Some \<lparr>mi_device_id = nd_dev n, mi_mount_point = [],
         mi_filesystem_type = ''unknown'', mi_source = ''unknown'', mi_options = []\<rparr>))
   | Inr text \<Rightarrow>
       (case filter (\<lambda>m. is_relative_to p (mi_mount_point m)) (List.map_filter parse_mountinfo (splitlines text)) of
          [] \<Rightarrow> Inr None
        | m # ms \<Rightarrow> Inr (Some (deepest_mount m ms))))"

definition is_removable :: "'w backup_env \<Rightarrow> string \<Rightarrow> bool" where
  "is_removable T device_id = (case bt_block_path T device_id of
     None \<Rightarrow> False
   | Some current \<Rightarrow> list_ex (\<lambda>k. case bt_sys_file T (take k current @ [''removable'']) of
         None \<Rightarrow> False | Some text \<Rightarrow> py_strip text = ''1'') (rev [0..<Suc (length current)]))"

definition physical_device_id :: "'w backup_env \<Rightarrow> string \<Rightarrow> string option" where
  "physical_device_id T device_id = (case bt_block_path T device_id of
     None \<Rightarrow> None
   | Some resolved \<Rightarrow>
       let candidate = (if bt_sys_file T (resolved @ [''partition'']) \<noteq> None then butlast resolved else resolved);
           physical_id = (case bt_sys_file T (candidate @ [''dev'']) of None \<Rightarrow> [] | Some text \<Rightarrow> py_strip text)
       in if physical_id \<noteq> [] then Some physical_id
          else if candidate \<noteq> [] then Some (last candidate) else None)"

definition reject_same_storage :: "string \<Rightarrow> string \<Rightarrow> string option \<Rightarrow> string option \<Rightarrow> exc + unit" where
  "reject_same_storage source_device destination_device source_physical destination_physical =
     (if source_device = destination_device then Inl (BackupToolError ''BACKUP_SAME_FILESYSTEM'')
      else if source_physical \<noteq> None \<and> destination_physical \<noteq> None \<and> source_physical = destination_physical then
        Inl (BackupToolError ''BACKUP_SAME_DEVICE'')
      else Inr ())"

definition destination_kind :: "'w backup_env \<Rightarrow> mount_info \<Rightarrow> backup_destination_kind" where
  "destination_kind T info =
     (if is_removable T (mi_device_id info) then Usb_storage
      else if prefix_of ''/dev/'' (mi_source info) \<and> mi_mount_point info \<noteq> [] then Mounted_external_disk
      else Local_filesystem)"

section \<open>Checks of paths\<close>

fun reject_symlink_components :: "fs \<Rightarrow> path \<Rightarrow> path \<Rightarrow> string \<Rightarrow> exc + unit" where
  "reject_symlink_components f current [] code = Inr ()"
| "reject_symlink_components f current (part # parts) code = (case lstat f (current @ [part]) of
     Inl e \<Rightarrow> Inl (BackupToolError code)
   | Inr n \<Rightarrow> if nd_kind n = Link then Inl (BackupToolError code)
       else reject_symlink_components f (current @ [part]) parts code)"

text \<open>A path without links resolves to itself.\<close>

definition canonical_existing :: "fs \<Rightarrow> string \<Rightarrow> string \<Rightarrow> exc + path" where
  "canonical_existing f raw code =
     (if CHR 0x00 \<in> set raw then Inl (BackupToolError code)
      else if \<not> is_absolute raw \<or> ''..'' \<in> set (path_parts raw) then Inl (BackupToolError code)
      else bindE (reject_symlink_components f [] (path_parts raw) code) (\<lambda>_.
        if map_of f (path_parts raw) = None then Inl (BackupToolError code) else Inr (path_parts raw)))"

definition validate_destination :: "'w backup_env \<Rightarrow> fs \<Rightarrow> path \<Rightarrow> mount_info \<Rightarrow> exc + unit" where
  "validate_destination T f p info =
     (if ''ro'' \<in> set (mi_options info) then Inl (BackupToolError ''BACKUP_DESTINATION_READ_ONLY'')
      else if mi_filesystem_type info \<in> set INCOMPATIBLE_DESTINATION_FILESYSTEMS then
        Inl (BackupToolError ''BACKUP_DESTINATION_FILESYSTEM_INCOMPATIBLE'')
      else if \<not> bt_access T f p then Inl (BackupToolError ''BACKUP_DESTINATION_NOT_WRITABLE'')
      else Inr ())"

definition available_bytes :: "'w backup_env \<Rightarrow> fs \<Rightarrow> path \<Rightarrow> exc + int" where
  "available_bytes T f p = (case bt_statvfs T f p of
     Inl e \<Rightarrow> Inl (if is_os_error e then BackupToolError ''BACKUP_DESTINATION_SPACE_UNKNOWN'' else e)
   | Inr (bavail, frsize) \<Rightarrow> Inr (bavail * frsize))"

definition path_exists_or_symlink :: "fs \<Rightarrow> path \<Rightarrow> bool" where
  "path_exists_or_symlink f p = (case lstat f p of
     Inr n \<Rightarrow> True | Inl (FileNotFoundError _) \<Rightarrow> False | Inl _ \<Rightarrow> True)"

definition assert_descendant :: "path \<Rightarrow> path \<Rightarrow> exc + unit" where
  "assert_descendant p root = (if is_relative_to p root then Inr () else Inl (BackupToolError ''BACKUP_PATH_TRAVERSAL''))"

section \<open>Walking the source\<close>

type_synonym walk_yield = "path \<times> path \<times> string option"

text \<open>The generator \<open>_walk_source\<close> between two items: the stack of directories, and the directory being listed
  with its remaining entries. The entries are those that \<open>os.scandir\<close> saw, their \<open>stat\<close> is taken when an
  entry is reached. A directory is pushed when its entry is passed on.\<close>

record walker =
  wk_stack :: "(path \<times> path) list"
  wk_directory :: path
  wk_relative :: path
  wk_items :: "(string \<times> bool) list"

definition walk_start :: "path \<Rightarrow> walker" where
  "walk_start root = \<lparr>wk_stack = [(root, [])], wk_directory = [], wk_relative = [], wk_items = []\<rparr>"

fun open_next :: "fs \<Rightarrow> (path \<times> path) list
    \<Rightarrow> exc + (path \<times> path \<times> (string \<times> bool) list \<times> (path \<times> path) list) option" where
  "open_next f [] = Inr None"
| "open_next f ((d, r) # stack) = (case scandir f d of
     Inl e \<Rightarrow> Inl e
   | Inr items \<Rightarrow> if items = [] then open_next f stack else Inr (Some (d, r, items, stack)))"

definition walk_reason :: "fs \<Rightarrow> string \<Rightarrow> backup_policy \<Rightarrow> path \<Rightarrow> string \<Rightarrow> bool \<Rightarrow> string option" where
  "walk_reason f device_id policy item name is_link =
     (if name \<in> set (bpol_excluded_names policy) then Some ''policy_excluded_name''
      else if is_link then Some ''symlink_not_followed''
      else (case lstat f item of
          Inl e \<Rightarrow> Some ''stat_failed''
        | Inr n \<Rightarrow>
            if \<not> bpol_cross_filesystems policy \<and> nd_dev n \<noteq> device_id then Some ''cross_filesystem''
            else if nd_kind n = Directory \<or> nd_kind n = Regular then None
            else Some ''special_file''))"

fun walk_item :: "fs \<Rightarrow> string \<Rightarrow> backup_policy \<Rightarrow> path \<Rightarrow> path \<Rightarrow> (string \<times> bool) list \<Rightarrow> (path \<times> path) list
    \<Rightarrow> (walk_yield \<times> walker) option" where
  "walk_item f device_id policy d r [] stack = None"
| "walk_item f device_id policy d r ((name, is_link) # items) stack =
     (let item = d @ [name]; reason = walk_reason f device_id policy item name is_link in
      Some ((item, r @ [name], reason),
        \<lparr>wk_stack = (if reason = None \<and> has_kind f item Directory then (item, r @ [name]) # stack else stack),
         wk_directory = d, wk_relative = r, wk_items = items\<rparr>))"

definition walk_next :: "fs \<Rightarrow> string \<Rightarrow> backup_policy \<Rightarrow> walker \<Rightarrow> exc + (walk_yield \<times> walker) option" where
  "walk_next f device_id policy w =
     (if wk_items w \<noteq> []
      then Inr (walk_item f device_id policy (wk_directory w) (wk_relative w) (wk_items w) (wk_stack w))
      else (case open_next f (wk_stack w) of
          Inl e \<Rightarrow> Inl e
        | Inr None \<Rightarrow> Inr None
        | Inr (Some (d, r, items, stack)) \<Rightarrow> Inr (walk_item f device_id policy d r items stack)))"

text \<open>On a file system that does not change, every item makes the rest of the walk smaller.\<close>

definition below :: "fs \<Rightarrow> path \<Rightarrow> nat" where
  "below f d = length (filter (\<lambda>(p, n). strict_prefix d p) f)"

definition walk_size :: "fs \<Rightarrow> walker \<Rightarrow> nat" where
  "walk_size f w = (\<Sum>(d, r) \<leftarrow> wk_stack w. below f d) + (\<Sum>(name, l) \<leftarrow> wk_items w. Suc (below f (wk_directory w @ [name])))"

lemma prefix_child: "prefix (d @ [w]) p \<longleftrightarrow> (\<exists>t. p = d @ w # t)"
  by (auto simp: prefix_def)

lemma children_once:
  assumes "distinct ws"
  shows "(\<Sum>w \<leftarrow> ws. if prefix (d @ [w]) p then 1 else 0) \<le> (if strict_prefix d p then 1 else 0 :: nat)"
proof (cases "\<exists>w t. p = d @ w # t")
  case True
  then obtain w t where p: "p = d @ w # t"
    by blast
  have "(\<Sum>v \<leftarrow> ws. if prefix (d @ [v]) p then 1 else 0 :: nat) \<le> (if w \<in> set ws then 1 else 0)"
    using assms by (induction ws) (auto simp: p prefix_child split: if_splits)
  also have "\<dots> \<le> 1"
    by simp
  finally show ?thesis
    by (simp add: p strict_prefix_def)
next
  case False
  then show ?thesis
    by (auto simp: prefix_child)
qed

lemma children_below:
  assumes "distinct ws"
  shows "(\<Sum>w \<leftarrow> ws. length (filter (\<lambda>(p, n). prefix (d @ [w]) p) f)) \<le> below f d"
proof (induction f)
  case (Cons x f)
  have "(\<Sum>w \<leftarrow> ws. length (filter (\<lambda>(p, n). prefix (d @ [w]) p) (x # f))) =
      (\<Sum>w \<leftarrow> ws. (if prefix (d @ [w]) (fst x) then 1 else 0)) + (\<Sum>w \<leftarrow> ws. length (filter (\<lambda>(p, n). prefix (d @ [w]) p) f))"
    by (induction ws) (auto simp: split_beta)
  also have "\<dots> \<le> (if strict_prefix d (fst x) then 1 else 0) + below f d"
    using Cons children_once [OF assms, of d "fst x"] by (rule add_mono [rotated])
  also have "\<dots> = below (x # f) d"
    by (simp add: below_def split_beta)
  finally show ?case .
qed (simp add: below_def)

lemma below_present:
  assumes "p \<in> fst ` set f"
  shows "Suc (below f p) \<le> length (filter (\<lambda>(q, n). prefix p q) f)"
  using assms
proof (induction f)
  case (Cons x f)
  have "length (filter (\<lambda>(q, n). strict_prefix p q) f) \<le> length (filter (\<lambda>(q, n). prefix p q) f)"
    by (induction f) auto
  then show ?case
    using Cons by (auto simp: below_def)
qed simp

text \<open>The size is taken in a file system \<open>F\<close> that has the names the walk meets in \<open>f\<close>.\<close>

definition names_in :: "fs \<Rightarrow> fs \<Rightarrow> path \<Rightarrow> bool" where
  "names_in F f d \<longleftrightarrow> (\<forall>w. map_of f (d @ [w]) \<noteq> None \<longrightarrow> map_of F (d @ [w]) \<noteq> None)"

lemma names_in_refl [simp]: "names_in f f d"
  by (simp add: names_in_def)

lemma scandir_size:
  assumes "scandir f d = Inr items" "names_in F f d"
  shows "(\<Sum>(name, l) \<leftarrow> items. Suc (below F (d @ [name]))) \<le> below F d"
proof -
  define ws where "ws = sort_by text_less (child_names f d)"
  have items: "items = map (\<lambda>w. (w, has_kind f (d @ [w]) Link)) ws"
    using assms by (auto simp: scandir_def ws_def split: if_splits)
  have "distinct ws"
    by (simp add: ws_def child_names_def)
  have "d @ [w] \<in> fst ` set F" if "w \<in> set ws" for w
    using that assms(2) by (auto simp: ws_def set_child_names names_in_def map_of_eq_None_iff)
  then have "(\<Sum>w \<leftarrow> ws. Suc (below F (d @ [w]))) \<le> (\<Sum>w \<leftarrow> ws. length (filter (\<lambda>(p, n). prefix (d @ [w]) p) F))"
    by (intro sum_list_mono below_present) simp
  also have "\<dots> \<le> below F d"
    using \<open>distinct ws\<close> by (rule children_below)
  finally show ?thesis
    by (simp add: items split_beta comp_def)
qed

lemma open_next_size:
  assumes "open_next f stack = Inr (Some (d, r, items, rest))" "\<forall>(d, r) \<in> set stack. names_in F f d"
  shows "items \<noteq> [] \<and> (\<Sum>(name, l) \<leftarrow> items. Suc (below F (d @ [name]))) + (\<Sum>(d, r) \<leftarrow> rest. below F d) \<le> (\<Sum>(d, r) \<leftarrow> stack. below F d)"
  using assms
  by (induction f stack rule: open_next.induct) (auto split: sum.splits if_splits dest: scandir_size)

lemma walk_item_size:
  assumes "walk_item f dev policy d r items stack = Some (y, w)"
  shows "walk_size F w < (\<Sum>(d, r) \<leftarrow> stack. below F d) + (\<Sum>(name, l) \<leftarrow> items. Suc (below F (d @ [name])))"
  using assms by (cases items) (auto simp: Let_def walk_size_def)

lemma walk_next_size:
  assumes "walk_next f dev policy w = Inr (Some (y, w'))" "\<forall>(d, r) \<in> set (wk_stack w). names_in F f d"
  shows "walk_size F w' < walk_size F w"
proof (cases "wk_items w = []")
  case True
  then obtain d r items rest where opened: "open_next f (wk_stack w) = Inr (Some (d, r, items, rest))"
    and item: "walk_item f dev policy d r items rest = Some (y, w')"
    using assms by (auto simp: walk_next_def split: sum.splits option.splits)
  then show ?thesis
    using open_next_size [OF opened assms(2)] walk_item_size [OF item, of F] True by (simp add: walk_size_def)
next
  case False
  then show ?thesis
    using assms(1) walk_item_size [of f dev policy _ _ _ _ y w' F] by (fastforce simp: walk_next_def walk_size_def)
qed

section \<open>Scanning\<close>

record scan =
  sc_bytes_total :: int
  sc_file_count :: int
  sc_directory_count :: int
  sc_exclusions :: "backup_exclusion list"

definition scan_item :: "fs \<Rightarrow> walk_yield \<Rightarrow> scan \<Rightarrow> exc + scan" where
  "scan_item f y acc = (case y of (item, relative, reason) \<Rightarrow> (case reason of
     Some why \<Rightarrow> Inr (if length (sc_exclusions acc) < 1024
       then acc\<lparr>sc_exclusions := sc_exclusions acc @ [\<lparr>bx_relative_path = as_posix relative, bx_reason = why\<rparr>]\<rparr>
       else acc)
   | None \<Rightarrow> bindE (lstat f item) (\<lambda>n.
       Inr (if nd_kind n = Directory then acc\<lparr>sc_directory_count := sc_directory_count acc + 1\<rparr>
            else if nd_kind n = Regular then
              acc\<lparr>sc_file_count := sc_file_count acc + 1, sc_bytes_total := sc_bytes_total acc + st_size n\<rparr>
            else acc))))"

function scan_loop :: "fs \<Rightarrow> string \<Rightarrow> backup_policy \<Rightarrow> walker \<Rightarrow> scan \<Rightarrow> exc + scan" where
  "scan_loop f device_id policy w acc = (case walk_next f device_id policy w of
     Inl e \<Rightarrow> Inl e
   | Inr None \<Rightarrow> Inr acc
   | Inr (Some (y, w')) \<Rightarrow> (case scan_item f y acc of
       Inl e \<Rightarrow> Inl e
     | Inr acc' \<Rightarrow> scan_loop f device_id policy w' acc'))"
  by pat_completeness auto
termination
  by (relation "measure (\<lambda>(f, device_id, policy, w, acc). walk_size f w)") (auto intro!: walk_next_size)

declare scan_loop.simps [simp del]

definition scan_source :: "fs \<Rightarrow> path \<Rightarrow> string \<Rightarrow> backup_policy \<Rightarrow> exc + scan" where
  "scan_source f root device_id policy =
     (if has_kind f root Regular then
        bindE (lstat f root) (\<lambda>n.
        Inr \<lparr>sc_bytes_total = st_size n, sc_file_count = 1, sc_directory_count = 0, sc_exclusions = []\<rparr>)
      else (case scan_loop f device_id policy (walk_start root)
          \<lparr>sc_bytes_total = 0, sc_file_count = 0, sc_directory_count = 0, sc_exclusions = []\<rparr> of
        Inr acc \<Rightarrow> Inr acc
      | Inl (PermissionError _) \<Rightarrow> Inl (BackupToolError ''BACKUP_SOURCE_NOT_READABLE'')
      | Inl e \<Rightarrow> Inl (if is_os_error e then BackupToolError ''BACKUP_SOURCE_SCAN_FAILED'' else e)))"

section \<open>Canonical payloads\<close>

definition optional_text :: "string option \<Rightarrow> json" where
  "optional_text v = (case v of None \<Rightarrow> JNull | Some s \<Rightarrow> JStr s)"

definition source_json :: "backup_source \<Rightarrow> json" where
  "source_json b = JObj
     [(''path'', JStr (bs_path b)), (''device_id'', JStr (bs_device_id b)),
      (''physical_device_id'', optional_text (bs_physical_device_id b)), (''mount_point'', JStr (bs_mount_point b)),
      (''filesystem_type'', JStr (bs_filesystem_type b)), (''estimated_size_bytes'', JInt (bs_estimated_size_bytes b)),
      (''estimated_file_count'', JInt (bs_estimated_file_count b)),
      (''estimated_directory_count'', JInt (bs_estimated_directory_count b))]"

fun destination_kind_value :: "backup_destination_kind \<Rightarrow> string" where
  "destination_kind_value Local_filesystem = ''local_filesystem''"
| "destination_kind_value Mounted_external_disk = ''mounted_external_disk''"
| "destination_kind_value Usb_storage = ''usb_storage''"

definition destination_json :: "backup_destination \<Rightarrow> json" where
  "destination_json b = JObj
     [(''root_path'', JStr (bd_root_path b)), (''backup_path'', JStr (bd_backup_path b)),
      (''device_id'', JStr (bd_device_id b)), (''physical_device_id'', optional_text (bd_physical_device_id b)),
      (''mount_point'', JStr (bd_mount_point b)), (''filesystem_type'', JStr (bd_filesystem_type b)),
      (''kind'', JStr (destination_kind_value (bd_kind b))), (''available_bytes'', JInt (bd_available_bytes b))]"

definition policy_json :: "backup_policy \<Rightarrow> json" where
  "policy_json b = JObj
     [(''overwrite'', JBool (bpol_overwrite b)), (''follow_symlinks'', JBool (bpol_follow_symlinks b)),
      (''allow_same_filesystem'', JBool (bpol_allow_same_filesystem b)),
      (''cross_filesystems'', JBool (bpol_cross_filesystems b)),
      (''checksum_algorithm'', JStr (bpol_checksum_algorithm b)),
      (''excluded_names'', JList (map JStr (bpol_excluded_names b)))]"

definition exclusion_json :: "backup_exclusion \<Rightarrow> json" where
  "exclusion_json x = JObj [(''relative_path'', JStr (bx_relative_path x)), (''reason'', JStr (bx_reason x))]"

fun entry_type_value :: "backup_entry_type \<Rightarrow> string" where
  "entry_type_value Entry_file = ''file''"
| "entry_type_value Entry_directory = ''directory''"

definition entry_json :: "backup_entry \<Rightarrow> json" where
  "entry_json e = JObj
     [(''relative_path'', JStr (be_relative_path e)), (''size_bytes'', JInt (be_size_bytes e)),
      (''mtime_ns'', JInt (be_mtime_ns e)), (''mode'', JInt (be_mode e)),
      (''entry_type'', JStr (entry_type_value (be_entry_type e))),
      (''checksum_sha256'', optional_text (be_checksum_sha256 e))]"

definition sha256_json :: "'w backup_env \<Rightarrow> json \<Rightarrow> string" where
  "sha256_json T v = bt_sha256 T (bt_dumps T v)"

text \<open>The model dumps without \<open>fingerprint_sha256\<close>, \<open>created_at\<close> and \<open>expires_at\<close>, and without
  \<open>manifest_checksum_sha256\<close> and \<open>created_at\<close>.\<close>

definition plan_fingerprint :: "'w backup_env \<Rightarrow> backup_plan \<Rightarrow> string" where
  "plan_fingerprint T p = sha256_json T (JObj
     [(''id'', JStr (bp_id p)), (''backup_id'', JStr (bp_backup_id p)), (''version'', JStr (bp_version p)),
      (''source'', source_json (bp_source p)), (''destination'', destination_json (bp_destination p)),
      (''policy'', policy_json (bp_policy p)), (''required_bytes'', JInt (bp_required_bytes p)),
      (''included_file_count'', JInt (bp_included_file_count p)),
      (''included_directory_count'', JInt (bp_included_directory_count p)),
      (''exclusions'', JList (map exclusion_json (bp_exclusions p))), (''risk'', JStr (bp_risk p)),
      (''estimated_duration_seconds'', case bp_estimated_duration_seconds p of None \<Rightarrow> JNull | Some d \<Rightarrow> JInt d),
      (''authorization_required'', JBool (bp_authorization_required p))])"

definition manifest_fields :: "backup_manifest \<Rightarrow> (string \<times> json) list" where
  "manifest_fields m =
     [(''backup_id'', JStr (bman_backup_id m)), (''format_version'', JStr (bman_format_version m)),
      (''source'', source_json (bman_source m)), (''entries'', JList (map entry_json (bman_entries m))),
      (''file_count'', JInt (bman_file_count m)), (''directory_count'', JInt (bman_directory_count m)),
      (''total_size_bytes'', JInt (bman_total_size_bytes m))]"

definition manifest_fingerprint :: "'w backup_env \<Rightarrow> backup_manifest \<Rightarrow> string" where
  "manifest_fingerprint T m = sha256_json T (JObj (manifest_fields m))"

definition manifest_json :: "backup_manifest \<Rightarrow> json" where
  "manifest_json m = JObj (manifest_fields m @ [(''created_at'', JInt (bman_created_at m)),
     (''manifest_checksum_sha256'', JStr (bman_manifest_checksum_sha256 m))])"

section \<open>Planning\<close>

definition worldB :: "('w, 'a) prog \<Rightarrow> ('w backup_host, 'a) prog" where
  "worldB m s = (let (r, w) = m (bh_world s) in (r, s\<lparr>bh_world := w\<rparr>))"

definition random_id :: "'w backup_env \<Rightarrow> ('w, string) prog" where
  "random_id T w = (let (i, w') = bt_random_id T w in (Inr i, w'))"

text \<open>The checks that planning and revalidation share, up to the mounts and the storage devices.\<close>

definition required_bytes :: "scan \<Rightarrow> int" where
  "required_bytes scan = sc_bytes_total scan + max MIN_HEADROOM_BYTES (sc_bytes_total scan div 50)"

definition draft_backup_plan ::
  "'w backup_env \<Rightarrow> path \<Rightarrow> path \<Rightarrow> mount_info \<Rightarrow> mount_info \<Rightarrow> backup_policy \<Rightarrow> scan \<Rightarrow> int
     \<Rightarrow> string \<Rightarrow> string \<Rightarrow> int \<Rightarrow> backup_plan" where
  "draft_backup_plan T source_root destination_root source_info destination_info policy scan available
       backup_id plan_identifier now =
     (let p = \<lparr>bp_id = plan_identifier, bp_backup_id = backup_id, bp_version = ''1.0'', bp_created_at = now,
        bp_expires_at = now + 900000000,
        bp_source = \<lparr>bs_path = path_str source_root, bs_device_id = mi_device_id source_info,
          bs_physical_device_id = physical_device_id T (mi_device_id source_info),
          bs_mount_point = path_str (mi_mount_point source_info), bs_filesystem_type = mi_filesystem_type source_info,
          bs_estimated_size_bytes = sc_bytes_total scan, bs_estimated_file_count = sc_file_count scan,
          bs_estimated_directory_count = sc_directory_count scan\<rparr>,
        bp_destination = \<lparr>bd_root_path = path_str destination_root,
          bd_backup_path = path_str (destination_root @ [''ARES'', backup_id]),
          bd_device_id = mi_device_id destination_info,
          bd_physical_device_id = physical_device_id T (mi_device_id destination_info),
          bd_mount_point = path_str (mi_mount_point destination_info),
          bd_filesystem_type = mi_filesystem_type destination_info, bd_kind = destination_kind T destination_info,
          bd_available_bytes = available\<rparr>,
        bp_policy = policy, bp_required_bytes = required_bytes scan, bp_included_file_count = sc_file_count scan,
        bp_included_directory_count = sc_directory_count scan, bp_exclusions = sc_exclusions scan, bp_risk = ''medium'',
        bp_estimated_duration_seconds = None, bp_authorization_required = True, bp_fingerprint_sha256 = []\<rparr>
      in p\<lparr>bp_fingerprint_sha256 := plan_fingerprint T p\<rparr>)"

text \<open>The part of \<open>build_plan\<close> that only reads the file system.\<close>

definition plan_inputs ::
  "'w backup_env \<Rightarrow> fs \<Rightarrow> string \<Rightarrow> string \<Rightarrow> backup_policy
     \<Rightarrow> exc + (path \<times> path \<times> mount_info \<times> mount_info \<times> scan \<times> int)" where
  "plan_inputs T f source_path destination_path policy =
     bindE (canonical_existing f source_path ''BACKUP_SOURCE_INVALID'') (\<lambda>source_root.
     bindE (canonical_existing f destination_path ''BACKUP_DESTINATION_INVALID'') (\<lambda>destination_root.
     bindE (mount_for T f source_root) (\<lambda>source_mount.
     bindE (mount_for T f destination_root) (\<lambda>destination_mount.
     case source_mount of
       None \<Rightarrow> Inl (BackupToolError ''BACKUP_SOURCE_FILESYSTEM_UNKNOWN'')
     | Some source_info \<Rightarrow> (case destination_mount of
         None \<Rightarrow> Inl (BackupToolError ''BACKUP_DESTINATION_FILESYSTEM_UNKNOWN'')
       | Some destination_info \<Rightarrow>
           if source_root = destination_root \<or> is_relative_to destination_root source_root then
             Inl (BackupToolError ''BACKUP_DESTINATION_INSIDE_SOURCE'')
           else
           bindE (reject_same_storage (mi_device_id source_info) (mi_device_id destination_info)
             (physical_device_id T (mi_device_id source_info)) (physical_device_id T (mi_device_id destination_info))) (\<lambda>_.
           bindE (validate_destination T f destination_root destination_info) (\<lambda>_.
           bindE (scan_source f source_root (mi_device_id source_info) policy) (\<lambda>scan.
           bindE (available_bytes T f destination_root) (\<lambda>available.
           if available < required_bytes scan then Inl (BackupToolError ''BACKUP_INSUFFICIENT_SPACE'')
           else Inr (source_root, destination_root, source_info, destination_info, scan, available))))))))))"

definition build_plan ::
  "'w backup_env \<Rightarrow> string \<Rightarrow> string \<Rightarrow> backup_policy \<Rightarrow> ('w backup_host, backup_plan) prog" where
  "build_plan T source_path destination_path policy =
     bindM (getM bh_fs) (\<lambda>f.
     bindM (liftE (plan_inputs T f source_path destination_path policy))
       (\<lambda>(source_root, destination_root, source_info, destination_info, scan, available).
     bindM (worldB (random_id T)) (\<lambda>backup_id.
     bindM (worldB (random_id T)) (\<lambda>plan_identifier.
     if path_exists_or_symlink f (destination_root @ [''ARES'', backup_id]) then
       raise (BackupToolError ''BACKUP_DESTINATION_EXISTS'')
     else
     bindM (worldB (utc_now (bt_clock T))) (\<lambda>now.
     ret (draft_backup_plan T source_root destination_root source_info destination_info policy scan available
       backup_id plan_identifier now))))))"

definition same_mount :: "'w backup_env \<Rightarrow> mount_info option \<Rightarrow> string \<Rightarrow> string \<Rightarrow> exc + mount_info" where
  "same_mount T info device_id code = (case info of
     None \<Rightarrow> Inl (BackupToolError code)
   | Some i \<Rightarrow> if mi_device_id i \<noteq> device_id then Inl (BackupToolError code) else Inr i)"

definition plan_still_valid :: "'w backup_env \<Rightarrow> fs \<Rightarrow> int \<Rightarrow> backup_plan \<Rightarrow> exc + unit" where
  "plan_still_valid T f now p =
     (if bp_expires_at p \<le> now then Inl (BackupToolError ''BACKUP_PLAN_EXPIRED'')
      else
      bindE (canonical_existing f (bs_path (bp_source p)) ''BACKUP_SOURCE_INVALID'') (\<lambda>source.
      bindE (canonical_existing f (bd_root_path (bp_destination p)) ''BACKUP_DESTINATION_INVALID'') (\<lambda>destination.
      bindE (mount_for T f source) (\<lambda>source_mount.
      bindE (mount_for T f destination) (\<lambda>destination_mount.
      bindE (same_mount T source_mount (bs_device_id (bp_source p)) ''BACKUP_SOURCE_IDENTITY_CHANGED'') (\<lambda>source_info.
      bindE (same_mount T destination_mount (bd_device_id (bp_destination p)) ''BACKUP_DESTINATION_IDENTITY_CHANGED'')
        (\<lambda>destination_info.
      if physical_device_id T (mi_device_id source_info) \<noteq> bs_physical_device_id (bp_source p) then
        Inl (BackupToolError ''BACKUP_SOURCE_IDENTITY_CHANGED'')
      else if physical_device_id T (mi_device_id destination_info) \<noteq> bd_physical_device_id (bp_destination p) then
        Inl (BackupToolError ''BACKUP_DESTINATION_IDENTITY_CHANGED'')
      else
      bindE (reject_same_storage (mi_device_id source_info) (mi_device_id destination_info)
        (physical_device_id T (mi_device_id source_info)) (physical_device_id T (mi_device_id destination_info))) (\<lambda>_.
      bindE (validate_destination T f destination destination_info) (\<lambda>_.
      if path_str (destination @ [''ARES'', bp_backup_id p]) \<noteq> bd_backup_path (bp_destination p) then
        Inl (BackupToolError ''BACKUP_DESTINATION_PLAN_MISMATCH'')
      else if path_exists_or_symlink f (destination @ [''ARES'', bp_backup_id p]) then
        Inl (BackupToolError ''BACKUP_DESTINATION_EXISTS'')
      else
      bindE (scan_source f source (mi_device_id source_info) (bp_policy p)) (\<lambda>scan.
      if sc_bytes_total scan \<noteq> bs_estimated_size_bytes (bp_source p) \<or> sc_file_count scan \<noteq> bp_included_file_count p
        \<or> sc_directory_count scan \<noteq> bp_included_directory_count p \<or> sc_exclusions scan \<noteq> bp_exclusions p then
        Inl (BackupToolError ''BACKUP_SOURCE_CHANGED'')
      else
      bindE (available_bytes T f destination) (\<lambda>available.
      if available < bp_required_bytes p then Inl (BackupToolError ''BACKUP_INSUFFICIENT_SPACE'')
      else if bp_fingerprint_sha256 p \<noteq> plan_fingerprint T p then
        Inl (BackupToolError ''BACKUP_PLAN_FINGERPRINT_MISMATCH'')
      else Inr ())))))))))))"

definition revalidate_plan :: "'w backup_env \<Rightarrow> backup_plan \<Rightarrow> ('w backup_host, unit) prog" where
  "revalidate_plan T p =
     bindM (worldB (utc_now (bt_clock T))) (\<lambda>now.
     bindM (getM bh_fs) (\<lambda>f. liftE (plan_still_valid T f now p)))"

section \<open>Copying\<close>

text \<open>The local variables of \<open>create_backup\<close> beside the host.\<close>

record 'w copy_run =
  cr_host :: "'w backup_host"
  cr_entries :: "backup_entry list"
  cr_files_done :: int
  cr_bytes_done :: int

abbreviation cr_fs :: "'w copy_run \<Rightarrow> fs" where
  "cr_fs s \<equiv> bh_fs (cr_host s)"

definition onHost :: "('w backup_host, 'a) prog \<Rightarrow> ('w copy_run, 'a) prog" where
  "onHost m s = (let (r, h) = m (cr_host s) in (r, s\<lparr>cr_host := h\<rparr>))"

text \<open>A call that replaces the file system or raises.\<close>

definition changeFs :: "(fs \<Rightarrow> exc + fs) \<Rightarrow> ('w copy_run, unit) prog" where
  "changeFs g s = (case g (cr_fs s) of
     Inl e \<Rightarrow> (Inl e, s)
   | Inr f \<Rightarrow> (Inr (), s\<lparr>cr_host := (cr_host s)\<lparr>bh_fs := f\<rparr>\<rparr>))"

record 'w backup_callbacks =
  cb_on_progress :: "backup_progress \<Rightarrow> ('w backup_host, unit) prog"
  cb_on_entry :: "backup_entry \<Rightarrow> ('w backup_host, unit) prog"

definition report_progress :: "'w backup_callbacks \<Rightarrow> backup_plan \<Rightarrow> ('w copy_run, unit) prog" where
  "report_progress B p s = onHost (cb_on_progress B
     \<lparr>bpr_files_completed = cr_files_done s, bpr_files_total = bp_included_file_count p,
      bpr_bytes_completed = cr_bytes_done s, bpr_bytes_total = bs_estimated_size_bytes (bp_source p)\<rparr>) s"

definition content_of :: "fs \<Rightarrow> path \<Rightarrow> string" where
  "content_of f p = (case map_of f p of None \<Rightarrow> [] | Some n \<Rightarrow> nd_content n)"

text \<open>The loop of \<open>_copy_regular_file\<close>; \<open>copied\<close> is what was read so far.\<close>

fun copy_blocks ::
  "nat \<Rightarrow> 'w backup_callbacks \<Rightarrow> backup_plan \<Rightarrow> path \<Rightarrow> path \<Rightarrow> string \<Rightarrow> ('w copy_run, string) fprog" where
  "copy_blocks 0 B p source destination copied s = None"
| "copy_blocks (Suc n) B p source destination copied s =
     (let block = py_take CHUNK_BYTES (drop (length copied) (content_of (cr_fs s) source)) in
      if block = [] then Some (Inr copied, s)
      else bindF (liftF (bindM (changeFs (\<lambda>f. Inr (append_content destination block f))) (\<lambda>_.
          bindM (modifyM (\<lambda>s. s\<lparr>cr_bytes_done := cr_bytes_done s + int (length block)\<rparr>)) (\<lambda>_.
          report_progress B p)))) (\<lambda>_. copy_blocks n B p source destination (copied @ block)) s)"

definition source_unchanged :: "fs \<Rightarrow> path \<Rightarrow> node \<Rightarrow> bool" where
  "source_unchanged f source info = (case map_of f source of
     None \<Rightarrow> False | Some n \<Rightarrow> st_size n = st_size info \<and> nd_mtime n = nd_mtime info)"

definition open_source :: "fs \<Rightarrow> path \<Rightarrow> node \<Rightarrow> exc + unit" where
  "open_source f source info = bindE (lstat f source) (\<lambda>current.
     if nd_kind current = Link then Inl (OSError ''too many levels of symbolic links'')
     else if nd_kind current \<noteq> Regular \<or> nd_ino current \<noteq> nd_ino info \<or> nd_dev current \<noteq> nd_dev info then
       Inl (BackupToolError ''BACKUP_SOURCE_CHANGED'')
     else Inr ())"

definition copy_regular_file ::
  "nat \<Rightarrow> 'w backup_env \<Rightarrow> 'w backup_callbacks \<Rightarrow> backup_plan \<Rightarrow> path \<Rightarrow> path \<Rightarrow> node \<Rightarrow> ('w copy_run, string) fprog" where
  "copy_regular_file n T B p source destination info =
     bindF (liftF (bindM (\<lambda>s. (open_source (cr_fs s) source info, s)) (\<lambda>_.
         changeFs (\<lambda>f. make_node f destination Regular 384)))) (\<lambda>_.
     bindF (copy_blocks n B p source destination []) (\<lambda>copied.
     liftF (\<lambda>s.
       if \<not> source_unchanged (cr_fs s) source info then (Inl (BackupToolError ''BACKUP_SOURCE_CHANGED''), s)
       else bindM (changeFs (\<lambda>f. Inr (set_attributes destination (nd_mode info) (nd_mtime info) f))) (\<lambda>_.
         ret (bt_sha256 T copied)) s)))"

text \<open>One item of the copy loop.\<close>

definition copy_directory :: "path \<Rightarrow> path \<Rightarrow> node \<Rightarrow> ('w copy_run, backup_entry) prog" where
  "copy_directory target relative info =
     bindM (changeFs (\<lambda>f. mkdir_parents f target (nd_mode info) False)) (\<lambda>_.
     ret \<lparr>be_relative_path = as_posix relative, be_size_bytes = 0, be_mtime_ns = nd_mtime info, be_mode = nd_mode info,
       be_entry_type = Entry_directory, be_checksum_sha256 = None\<rparr>)"

definition copy_file ::
  "nat \<Rightarrow> 'w backup_env \<Rightarrow> 'w backup_callbacks \<Rightarrow> backup_plan \<Rightarrow> path \<Rightarrow> path \<Rightarrow> path \<Rightarrow> node
     \<Rightarrow> ('w copy_run, backup_entry) fprog" where
  "copy_file n T B p item target relative info =
     bindF (liftF (changeFs (\<lambda>f. mkdir_parents f (butlast target) 448 True))) (\<lambda>_.
     bindF (copy_regular_file n T B p item target info) (\<lambda>checksum.
     liftF (bindM (modifyM (\<lambda>s. s\<lparr>cr_files_done := cr_files_done s + 1\<rparr>)) (\<lambda>_.
       ret \<lparr>be_relative_path = as_posix relative, be_size_bytes = st_size info, be_mtime_ns = nd_mtime info,
         be_mode = nd_mode info, be_entry_type = Entry_file, be_checksum_sha256 = Some checksum\<rparr>))))"

definition copy_item ::
  "nat \<Rightarrow> 'w backup_env \<Rightarrow> 'w backup_callbacks \<Rightarrow> backup_plan \<Rightarrow> path \<Rightarrow> path \<Rightarrow> path \<Rightarrow> ('w copy_run, unit) fprog" where
  "copy_item n T B p partial item relative =
     (let target = partial @ relative in
      bindF (liftF (liftE (assert_descendant target partial))) (\<lambda>_.
      bindF (\<lambda>s. Some (lstat (cr_fs s) item, s)) (\<lambda>info.
      bindF (if nd_kind info = Directory then liftF (copy_directory target relative info)
             else if nd_kind info = Regular then copy_file n T B p item target relative info
             else liftF (raise (BackupToolError ''BACKUP_SOURCE_CHANGED''))) (\<lambda>entry.
      liftF (bindM (modifyM (\<lambda>s. s\<lparr>cr_entries := cr_entries s @ [entry]\<rparr>)) (\<lambda>_.
        bindM (onHost (cb_on_entry B entry)) (\<lambda>_.
        report_progress B p)))))))"

text \<open>The loop of \<open>create_backup\<close> over \<open>_walk_copy_entries\<close> of a directory.\<close>

fun copy_walk ::
  "nat \<Rightarrow> 'w backup_env \<Rightarrow> 'w backup_callbacks \<Rightarrow> backup_plan \<Rightarrow> string \<Rightarrow> path \<Rightarrow> walker \<Rightarrow> ('w copy_run, unit) fprog" where
  "copy_walk 0 T B p device_id partial w s = None"
| "copy_walk (Suc n) T B p device_id partial w s = (case walk_next (cr_fs s) device_id (bp_policy p) w of
     Inl e \<Rightarrow> Some (Inl e, s)
   | Inr None \<Rightarrow> Some (Inr (), s)
   | Inr (Some ((item, relative, reason), w')) \<Rightarrow>
       if reason \<noteq> None then copy_walk n T B p device_id partial w' s
       else bindF (copy_item n T B p partial item relative) (\<lambda>_. copy_walk n T B p device_id partial w') s)"

definition copy_entries ::
  "nat \<Rightarrow> 'w backup_env \<Rightarrow> 'w backup_callbacks \<Rightarrow> backup_plan \<Rightarrow> string \<Rightarrow> path \<Rightarrow> path \<Rightarrow> ('w copy_run, unit) fprog" where
  "copy_entries n T B p device_id partial root s =
     (if has_kind (cr_fs s) root Regular then copy_item n T B p partial root [last root] s
      else copy_walk n T B p device_id partial (walk_start root) s)"

section \<open>Creating a backup\<close>

text \<open>\<open>_prepare_backup_destination\<close>; a link at \<open>ARES\<close> is taken to point to a directory.\<close>

definition make_ares_root :: "path \<Rightarrow> fs \<Rightarrow> exc + fs" where
  "make_ares_root ares f = (case make_node f ares Directory 448 of
     Inr f' \<Rightarrow> Inr f'
   | Inl e \<Rightarrow> if has_kind f ares Directory \<or> has_kind f ares Link then Inr f else Inl e)"

definition prepare_backup_destination :: "path \<Rightarrow> path \<Rightarrow> path \<Rightarrow> ('w copy_run, unit) prog" where
  "prepare_backup_destination ares final partial =
     bindM (getM cr_fs) (\<lambda>f.
     if path_exists_or_symlink f final \<or> path_exists_or_symlink f partial then
       raise (BackupToolError ''BACKUP_DESTINATION_EXISTS'')
     else
     bindM (changeFs (make_ares_root ares)) (\<lambda>_.
     bindM (getM cr_fs) (\<lambda>f.
     if has_kind f ares Link then raise (BackupToolError ''BACKUP_DESTINATION_UNSAFE'')
     else changeFs (\<lambda>f. make_node f partial Directory 448))))"

definition entry_files :: "backup_entry list \<Rightarrow> backup_entry list" where
  "entry_files entries = filter (\<lambda>e. be_entry_type e = Entry_file) entries"

definition entry_directories :: "backup_entry list \<Rightarrow> backup_entry list" where
  "entry_directories entries = filter (\<lambda>e. be_entry_type e = Entry_directory) entries"

definition total_size :: "backup_entry list \<Rightarrow> int" where
  "total_size entries = (\<Sum>e \<leftarrow> entry_files entries. be_size_bytes e)"

definition new_manifest :: "'w backup_env \<Rightarrow> backup_plan \<Rightarrow> backup_entry list \<Rightarrow> int \<Rightarrow> backup_manifest" where
  "new_manifest T p entries now =
     (let m = \<lparr>bman_backup_id = bp_backup_id p, bman_format_version = ''1.0'', bman_created_at = now,
        bman_source = bp_source p, bman_entries = entries, bman_file_count = int (length (entry_files entries)),
        bman_directory_count = int (length (entry_directories entries)), bman_total_size_bytes = total_size entries,
        bman_manifest_checksum_sha256 = []\<rparr>
      in m\<lparr>bman_manifest_checksum_sha256 := manifest_fingerprint T m\<rparr>)"

text \<open>The bytes of the manifest file; \<open>bt_dumps\<close> gives the UTF-8 encoding of the JSON text.\<close>

definition manifest_text :: "'w backup_env \<Rightarrow> backup_manifest \<Rightarrow> string" where
  "manifest_text T m = bt_dumps T (manifest_json m) @ [CHR 0x0A]"

definition write_manifest_file :: "'w backup_env \<Rightarrow> path \<Rightarrow> backup_manifest \<Rightarrow> ('w copy_run, unit) prog" where
  "write_manifest_file T root m =
     (if int (length (manifest_text T m)) > MAX_MANIFEST_BYTES then raise (BackupToolError ''BACKUP_MANIFEST_TOO_LARGE'')
      else
      bindM (changeFs (\<lambda>f. make_node f (root @ [''.ares-manifest.json'']) Regular 384)) (\<lambda>_.
      changeFs (\<lambda>f. Inr (append_content (root @ [''.ares-manifest.json'']) (manifest_text T m) f))))"

definition counts_match :: "backup_plan \<Rightarrow> 'w copy_run \<Rightarrow> bool" where
  "counts_match p s \<longleftrightarrow> int (length (entry_files (cr_entries s))) = bp_included_file_count p \<and>
     int (length (entry_directories (cr_entries s))) = bp_included_directory_count p \<and>
     total_size (cr_entries s) = bs_estimated_size_bytes (bp_source p) \<and> cr_bytes_done s = total_size (cr_entries s)"

definition publish_manifest ::
  "'w backup_env \<Rightarrow> 'w backup_callbacks \<Rightarrow> backup_plan \<Rightarrow> path \<Rightarrow> path \<Rightarrow> ('w copy_run, backup_manifest) prog" where
  "publish_manifest T B p partial final =
     bindM (\<lambda>s. guardM (counts_match p s) (BackupToolError ''BACKUP_SOURCE_CHANGED'') s) (\<lambda>_.
     bindM (onHost (worldB (utc_now (bt_clock T)))) (\<lambda>now.
     bindM (getM (\<lambda>s. new_manifest T p (cr_entries s) now)) (\<lambda>m.
     bindM (write_manifest_file T partial m) (\<lambda>_.
     bindM (changeFs (\<lambda>f. rename f partial final)) (\<lambda>_.
     bindM (onHost (cb_on_progress B
       \<lparr>bpr_files_completed = bman_file_count m, bpr_files_total = bman_file_count m,
        bpr_bytes_completed = bman_total_size_bytes m, bpr_bytes_total = bman_total_size_bytes m\<rparr>)) (\<lambda>_.
     ret m))))))"

definition remove_partial :: "path \<Rightarrow> ('w copy_run, unit) prog" where
  "remove_partial partial = bindM (getM (\<lambda>s. lstat (cr_fs s) partial)) (\<lambda>info. case info of
     Inl (FileNotFoundError _) \<Rightarrow> ret ()
   | Inl e \<Rightarrow> raise e
   | Inr n \<Rightarrow> if nd_kind n = Directory then changeFs (\<lambda>f. Inr (rmtree f partial)) else ret ())"

definition abandon :: "path \<Rightarrow> exc \<Rightarrow> ('w copy_run, 'a) prog" where
  "abandon partial e = (case e of
     CancelledError \<Rightarrow> bindM (remove_partial partial) (\<lambda>_. raise e)
   | BackupToolError _ \<Rightarrow> bindM (remove_partial partial) (\<lambda>_. raise e)
   | _ \<Rightarrow> if is_os_error e then bindM (remove_partial partial) (\<lambda>_. raise (BackupToolError ''BACKUP_IO_FAILED''))
       else raise e)"

definition copy_and_publish ::
  "nat \<Rightarrow> 'w backup_env \<Rightarrow> 'w backup_callbacks \<Rightarrow> backup_plan \<Rightarrow> path \<Rightarrow> path \<Rightarrow> path \<Rightarrow> ('w copy_run, backup_manifest) fprog" where
  "copy_and_publish n T B p source partial final =
     bindF (\<lambda>s. Some (mount_for T (cr_fs s) source, s)) (\<lambda>mount. case mount of
       None \<Rightarrow> liftF (raise (BackupToolError ''BACKUP_SOURCE_FILESYSTEM_UNKNOWN''))
     | Some info \<Rightarrow>
         bindF (copy_entries n T B p (mi_device_id info) partial source) (\<lambda>_.
         liftF (publish_manifest T B p partial final)))"

definition partial_path :: "backup_plan \<Rightarrow> path" where
  "partial_path p = path_parts (bd_root_path (bp_destination p)) @ [''ARES'', ''.partial-'' @ bp_backup_id p]"

definition create_backup ::
  "nat \<Rightarrow> 'w backup_env \<Rightarrow> 'w backup_callbacks \<Rightarrow> backup_plan \<Rightarrow> ('w backup_host, backup_manifest) fprog" where
  "create_backup n T B p =
     bindF (liftF (revalidate_plan T p)) (\<lambda>_ h.
       let source = path_parts (bs_path (bp_source p));
           ares = path_parts (bd_root_path (bp_destination p)) @ [''ARES''];
           final = path_parts (bd_backup_path (bp_destination p));
           partial = partial_path p
       in map_option (\<lambda>(r, s). (r, cr_host s))
         (bindF (liftF (prepare_backup_destination ares final partial)) (\<lambda>_.
          catchF (copy_and_publish n T B p source partial final) (\<lambda>e. liftF (abandon partial e)))
          \<lparr>cr_host = h, cr_entries = [], cr_files_done = 0, cr_bytes_done = 0\<rparr>))"

section \<open>Verification\<close>

definition hash_file_no_follow :: "'w backup_env \<Rightarrow> fs \<Rightarrow> path \<Rightarrow> exc + string" where
  "hash_file_no_follow T f p = bindE (lstat f p) (\<lambda>n.
     if nd_kind n \<noteq> Regular then Inl (OSError ''not a regular file'') else Inr (bt_sha256 T (nd_content n)))"

definition path_token :: "'w backup_env \<Rightarrow> string \<Rightarrow> string" where
  "path_token T relative = py_take 24 (bt_sha256 T relative)"

definition safe_backup_root :: "fs \<Rightarrow> path \<Rightarrow> bool" where
  "safe_backup_root f root = has_kind f root Directory"

definition destination_manifest_matches :: "'w backup_env \<Rightarrow> fs \<Rightarrow> path \<Rightarrow> backup_manifest \<Rightarrow> bool" where
  "destination_manifest_matches T f root m = (case map_of f (root @ [''.ares-manifest.json'']) of
     None \<Rightarrow> False
   | Some n \<Rightarrow>
       if nd_kind n \<noteq> Regular \<or> st_size n > MAX_MANIFEST_BYTES then False
       else (case bt_load_manifest T (nd_content n) of
           None \<Rightarrow> False
         | Some stored \<Rightarrow> stored = m \<and> bman_manifest_checksum_sha256 stored = manifest_fingerprint T stored))"

record verify_state =
  vs_mismatches :: "string list"
  vs_missing :: "string list"
  vs_source_changed :: "string list"
  vs_files :: int
  vs_bytes :: int
  vs_expected :: "string list"

text \<open>The comparison with the source behind an intact file.\<close>

definition check_source :: "'w backup_env \<Rightarrow> fs \<Rightarrow> path \<Rightarrow> string \<Rightarrow> string \<Rightarrow> verify_state \<Rightarrow> verify_state" where
  "check_source T f source_item relative checksum v =
     (if has_kind f source_item Regular then
        (case hash_file_no_follow T f source_item of
           Inl e \<Rightarrow> v\<lparr>vs_source_changed := vs_source_changed v @ [path_token T relative]\<rparr>
         | Inr source_checksum \<Rightarrow>
             if source_checksum \<noteq> checksum then v\<lparr>vs_source_changed := vs_source_changed v @ [path_token T relative]\<rparr>
             else v)
      else v)"

definition verify_entry ::
  "'w backup_env \<Rightarrow> fs \<Rightarrow> path \<Rightarrow> path \<Rightarrow> backup_entry \<Rightarrow> verify_state \<Rightarrow> exc + verify_state" where
  "verify_entry T f root source_root e v =
     (let relative = path_parts (be_relative_path e);
          mismatch = (\<lambda>v. Inr (v\<lparr>vs_mismatches := vs_mismatches v @ [path_token T (be_relative_path e)]\<rparr>))
      in
      if is_absolute (be_relative_path e) \<or> ''..'' \<in> set relative then mismatch v
      else
        let v = v\<lparr>vs_expected := as_posix relative # vs_expected v\<rparr>; target = root @ relative in
        bindE (assert_descendant target root) (\<lambda>_.
        case lstat f target of
          Inl _ \<Rightarrow> Inr (v\<lparr>vs_missing := vs_missing v @ [path_token T (be_relative_path e)]\<rparr>)
        | Inr info \<Rightarrow>
            if be_entry_type e = Entry_directory then (if nd_kind info \<noteq> Directory then mismatch v else Inr v)
            else if nd_kind info \<noteq> Regular then mismatch v
            else
            bindE (hash_file_no_follow T f target) (\<lambda>checksum.
            if Some checksum \<noteq> be_checksum_sha256 e \<or> st_size info \<noteq> be_size_bytes e then mismatch v
            else Inr (check_source T f (source_root @ relative) (be_relative_path e) checksum
              (v\<lparr>vs_files := vs_files v + 1, vs_bytes := vs_bytes v + st_size info\<rparr>)))))"

fun verify_entries ::
  "'w backup_env \<Rightarrow> fs \<Rightarrow> path \<Rightarrow> path \<Rightarrow> backup_entry list \<Rightarrow> verify_state \<Rightarrow> exc + verify_state" where
  "verify_entries T f root source_root [] v = Inr v"
| "verify_entries T f root source_root (e # es) v =
     bindE (verify_entry T f root source_root e v) (verify_entries T f root source_root es)"

definition unexpected_paths :: "'w backup_env \<Rightarrow> fs \<Rightarrow> path \<Rightarrow> string list \<Rightarrow> string list" where
  "unexpected_paths T f root expected = remdups (map (path_token T)
     (filter (\<lambda>relative. relative \<notin> set expected) (map as_posix (tree_below f root))))"

definition verification_failure ::
  "backup \<Rightarrow> backup_manifest \<Rightarrow> string list \<Rightarrow> string \<Rightarrow> string \<Rightarrow> int \<Rightarrow> backup_verification" where
  "verification_failure b m missing message i now =
     \<lparr>bv_id = i, bv_backup_id = bk_id b, bv_created_at = now, bv_status = BV_CORRUPTED,
      bv_expected_file_count = bman_file_count m, bv_verified_file_count = 0,
      bv_expected_size_bytes = bman_total_size_bytes m, bv_verified_size_bytes = 0, bv_manifest_valid = False,
      bv_checksum_mismatches = [], bv_missing_entries = missing, bv_unexpected_entries = [],
      bv_source_changed_entries = [], bv_message = message\<rparr>"

definition verification_of ::
  "'w backup_env \<Rightarrow> fs \<Rightarrow> backup \<Rightarrow> backup_manifest \<Rightarrow> path \<Rightarrow> verify_state \<Rightarrow> string \<Rightarrow> int \<Rightarrow> backup_verification" where
  "verification_of T f b m root v i now =
     (let unexpected = sort_by text_less (unexpected_paths T f root (vs_expected v));
          (status, message) =
            (if vs_mismatches v \<noteq> [] \<or> vs_missing v \<noteq> [] \<or> unexpected \<noteq> [] then
               (BV_CORRUPTED, ''Backup verification detected missing, unexpected or corrupt entries.'')
             else if vs_source_changed v \<noteq> [] then
               (BV_FAILED, ''Backup is internally consistent, but the source changed after copying.'')
             else (BV_VERIFIED, ''Backup manifest, file counts, sizes and SHA-256 checksums verified.''))
      in \<lparr>bv_id = i, bv_backup_id = bk_id b, bv_created_at = now, bv_status = status,
        bv_expected_file_count = bman_file_count m, bv_verified_file_count = vs_files v,
        bv_expected_size_bytes = bman_total_size_bytes m, bv_verified_size_bytes = vs_bytes v,
        bv_manifest_valid = True, bv_checksum_mismatches = sort_by text_less (vs_mismatches v),
        bv_missing_entries = sort_by text_less (vs_missing v), bv_unexpected_entries = unexpected,
        bv_source_changed_entries = sort_by text_less (vs_source_changed v), bv_message = message\<rparr>)"

definition verify_state_start :: verify_state where
  "verify_state_start = \<lparr>vs_mismatches = [], vs_missing = [], vs_source_changed = [], vs_files = 0, vs_bytes = 0,
     vs_expected = [''.ares-manifest.json'']\<rparr>"

definition verification_record ::
  "'w backup_env \<Rightarrow> fs \<Rightarrow> backup \<Rightarrow> backup_manifest \<Rightarrow> exc + (string \<Rightarrow> int \<Rightarrow> backup_verification)" where
  "verification_record T f b m =
     (let root = path_parts (bd_backup_path (bk_destination b)) in
      if \<not> safe_backup_root f root then
        Inr (verification_failure b m [''backup-root''] ''Backup destination is missing or unsafe.'')
      else if bman_manifest_checksum_sha256 m \<noteq> manifest_fingerprint T m then
        Inr (verification_failure b m [] ''Backup manifest checksum is invalid.'')
      else if \<not> destination_manifest_matches T f root m then
        Inr (verification_failure b m [] ''Destination manifest is missing, changed or invalid.'')
      else
      bindE (verify_entries T f root (path_parts (bs_path (bman_source m))) (bman_entries m) verify_state_start) (\<lambda>v.
      Inr (verification_of T f b m root v)))"

definition verify_backup :: "'w backup_env \<Rightarrow> backup \<Rightarrow> backup_manifest \<Rightarrow> ('w backup_host, backup_verification) prog" where
  "verify_backup T b m =
     bindM (getM bh_fs) (\<lambda>f.
     bindM (liftE (verification_record T f b m)) (\<lambda>result.
     bindM (worldB (uuid4_hex (bt_clock T))) (\<lambda>i.
     bindM (worldB (utc_now (bt_clock T))) (\<lambda>now.
     ret (result i now)))))"

end
