(* ===== verification/Backup_Guards.thy ===== *)
theory Backup_Guards
  imports Backup_Tools
begin

text \<open>
  Lemmas about the backup tools: what each change does to the file system, what the verification of an entry
  concludes, that a creation stays inside its partial directory, and that what it copies there is the tree
  that the manifest describes.
\<close>

section \<open>Changes of the file system\<close>

lemma make_node_Inr:
  assumes "make_node f p k mode = Inr f'"
  shows "map_of f p = None" "p \<noteq> []" "has_kind f (butlast p) Directory"
    "map_of f' = (map_of f)(p \<mapsto> new_node f p k mode)"
  using assms by (auto simp: make_node_def fun_eq_iff split: if_splits)

lemma map_of_append_content [simp]:
  "map_of (append_content p b f) = (map_of f)(p := map_option (\<lambda>n. n\<lparr>nd_content := nd_content n @ b\<rparr>) (map_of f p))"
  by (auto simp: append_content_def fun_eq_iff split: option.splits)

lemma map_of_set_attributes [simp]:
  "map_of (set_attributes p mode mtime f) = (map_of f)(p := map_option (\<lambda>n. n\<lparr>nd_mode := mode, nd_mtime := mtime\<rparr>) (map_of f p))"
  by (auto simp: set_attributes_def fun_eq_iff split: option.splits)

lemma map_of_filter_key: "map_of (filter (\<lambda>(p, n). P p) f) q = (if P q then map_of f q else None)"
  by (induction f) auto

lemma map_of_rmtree [simp]: "map_of (rmtree f root) q = (if at_or_below root q then None else map_of f q)"
  unfolding rmtree_def by (simp add: map_of_filter_key)

lemma map_of_map_key:
  assumes "inj_on g (insert q (fst ` set f))"
  shows "map_of (map (\<lambda>(p, n). (g p, n)) f) (g q) = map_of f q"
  using assms by (induction f) (auto simp: inj_on_def)

lemma in_keys_iff: "p \<in> fst ` set f \<longleftrightarrow> map_of f p \<noteq> None"
  by (metis map_of_eq_None_iff)

lemma at_or_below_refl [simp]: "at_or_below p p"
  by (simp add: at_or_below_def)

lemma at_or_below_append [simp]: "at_or_below p (p @ q)"
  by (simp add: at_or_below_def)

lemma at_or_below_iff: "at_or_below root p \<longleftrightarrow> (\<exists>t. p = root @ t)"
  by (simp add: at_or_below_prefix prefix_def)

text \<open>A rename to a free name.\<close>

lemma rename_Inr:
  assumes "rename f src dst = Inr f'" "\<And>t. map_of f (dst @ t) = None"
  shows "map_of f src \<noteq> None" "\<not> at_or_below src dst" "map_of f' (dst @ t) = map_of f (src @ t)"
    and "\<not> at_or_below src p \<Longrightarrow> \<not> at_or_below dst p \<Longrightarrow> map_of f' p = map_of f p"
    and "\<not> at_or_below dst src \<Longrightarrow> map_of f' (src @ t) = None"
proof -
  define g where "g = (\<lambda>p. if at_or_below src p then dst @ drop (length src) p else p)"
  have below: "g (src @ t) = dst @ t" for t
    by (simp add: g_def)
  have g_cases: "(\<exists>u. p = src @ u \<and> g p = dst @ u) \<or> (\<not> at_or_below src p \<and> g p = p)" for p
    by (auto simp: g_def at_or_below_iff)
  have free: "map_of f dst = None"
    using assms(2) [of "[]"] by simp
  then have all: "filter (\<lambda>(p, n). p \<noteq> dst) f = f"
    by (intro filter_True) (force simp: map_of_eq_None_iff)
  have f': "f' = map (\<lambda>(p, n). (g p, n)) f" and s: "map_of f src \<noteq> None" "\<not> at_or_below src dst"
    using assms(1) unfolding rename_def all g_def by (auto split: if_splits)
  show "map_of f src \<noteq> None" "\<not> at_or_below src dst"
    using s .
  have keys: "fst ` set f' = g ` fst ` set f"
    unfolding f' by (auto simp: image_image split_beta)
  have dst: "p \<noteq> dst @ t" if "p \<in> fst ` set f" for p t
    using that assms(2) by (auto simp: in_keys_iff)
  have at: "map_of f' (g q) = map_of f q" if q: "\<not> at_or_below dst q" for q
  proof -
    have out: "\<not> at_or_below dst x" if "x \<in> insert q (fst ` set f)" for x
      using that q dst by (auto simp: at_or_below_iff)
    have "x = y" if "x \<in> insert q (fst ` set f)" "y \<in> insert q (fst ` set f)" "g x = g y" for x y
      using g_cases [of x] g_cases [of y] out [OF that(1)] out [OF that(2)] that(3) by (auto simp: at_or_below_iff)
    then show ?thesis
      unfolding f' by (intro map_of_map_key inj_onI)
  qed
  show "map_of f' p = map_of f p" if "\<not> at_or_below src p" "\<not> at_or_below dst p"
    using at [OF that(2)] that(1) by (simp add: g_def)
  show "map_of f' (dst @ t) = map_of f (src @ t)"
  proof (cases "at_or_below dst (src @ t)")
    case False
    then show ?thesis
      using at [OF False] by (simp add: below)
  next
    case True
    then have none: "map_of f (src @ t) = None"
      using assms(2) by (auto simp: at_or_below_iff)
    have "map_of f' (dst @ t) = None"
    proof (rule ccontr)
      assume "map_of f' (dst @ t) \<noteq> None"
      then have "dst @ t \<in> g ` fst ` set f"
        unfolding keys [symmetric] in_keys_iff .
      then obtain p where p: "p \<in> fst ` set f" "g p = dst @ t"
        by (metis imageE)
      then have "p = src @ t"
        using g_cases [of p] dst [OF p(1), of t] p(2) by auto
      then show False
        using p(1) none by (simp add: in_keys_iff)
    qed
    then show ?thesis
      using none by simp
  qed
  show "map_of f' (src @ t) = None" if "\<not> at_or_below dst src"
  proof (rule ccontr)
    assume "map_of f' (src @ t) \<noteq> None"
    then have "src @ t \<in> g ` fst ` set f"
      unfolding keys [symmetric] in_keys_iff .
    then obtain p where "g p = src @ t"
      by (metis imageE)
    then have "\<exists>u. dst @ u = src @ t"
      using g_cases [of p] by (auto simp: at_or_below_iff)
    then show False
      using s(2) that by (auto simp: at_or_below_iff append_eq_append_conv2)
  qed
qed

section \<open>Verification of entries\<close>

definition relative_of :: "backup_entry \<Rightarrow> path" where
  "relative_of e = path_parts (be_relative_path e)"

text \<open>The entry is in the tree as the manifest says, and its source, where there is one, has the same content.\<close>

definition entry_matches :: "'w backup_env \<Rightarrow> fs \<Rightarrow> path \<Rightarrow> backup_entry \<Rightarrow> bool" where
  "entry_matches T f root e \<longleftrightarrow> \<not> is_absolute (be_relative_path e) \<and> ''..'' \<notin> set (relative_of e) \<and>
     (case map_of f (root @ relative_of e) of
        None \<Rightarrow> False
      | Some n \<Rightarrow> if be_entry_type e = Entry_directory then nd_kind n = Directory
          else nd_kind n = Regular \<and> be_checksum_sha256 e = Some (bt_sha256 T (nd_content n)) \<and> be_size_bytes e = st_size n)"

definition source_agrees :: "'w backup_env \<Rightarrow> fs \<Rightarrow> path \<Rightarrow> backup_entry \<Rightarrow> bool" where
  "source_agrees T f source e \<longleftrightarrow> (\<forall>n. be_entry_type e = Entry_file \<longrightarrow> map_of f (source @ relative_of e) = Some n \<longrightarrow>
     nd_kind n = Regular \<longrightarrow> be_checksum_sha256 e = Some (bt_sha256 T (nd_content n)))"

definition matched :: "'w backup_env \<Rightarrow> fs \<Rightarrow> path \<Rightarrow> backup_entry \<Rightarrow> verify_state \<Rightarrow> verify_state" where
  "matched T f source e v = (let v = v\<lparr>vs_expected := as_posix (relative_of e) # vs_expected v\<rparr> in
     if be_entry_type e = Entry_directory then v
     else v\<lparr>vs_files := vs_files v + 1, vs_bytes := vs_bytes v + be_size_bytes e,
       vs_source_changed := vs_source_changed v @ (if source_agrees T f source e then [] else [path_token T (be_relative_path e)])\<rparr>)"

lemma entry_type_cases: "be_entry_type e = Entry_directory \<or> be_entry_type e = Entry_file"
  by (cases "be_entry_type e") auto

lemma checksum_record [simp]: "(v :: verify_state)\<lparr>vs_source_changed := vs_source_changed v\<rparr> = v"
  by simp

lemma check_source_eq:
  assumes "be_checksum_sha256 e = Some checksum" "be_entry_type e = Entry_file"
  shows "check_source T f (source @ relative_of e) (be_relative_path e) checksum v =
    v\<lparr>vs_source_changed := vs_source_changed v @ (if source_agrees T f source e then [] else [path_token T (be_relative_path e)])\<rparr>"
  using assms by (auto simp: check_source_def source_agrees_def has_kind_def hash_file_no_follow_def split: option.splits)

lemma verify_entry_match:
  assumes "entry_matches T f root e"
  shows "verify_entry T f root source e v = Inr (matched T f source e v)"
proof -
  obtain n where n: "map_of f (root @ relative_of e) = Some n"
    using assms by (auto simp: entry_matches_def split: option.splits)
  have guards: "\<not> is_absolute (be_relative_path e)" "''..'' \<notin> set (relative_of e)"
    using assms by (auto simp: entry_matches_def)
  have stat: "lstat f (root @ relative_of e) = Inr n"
    using n by simp
  show ?thesis
  proof (cases "be_entry_type e = Entry_directory")
    case True
    then show ?thesis
      using assms n guards stat
      by (simp add: verify_entry_def matched_def entry_matches_def Let_def assert_descendant_def is_relative_to_def
          flip: relative_of_def)
  next
    case False
    then have reg: "be_entry_type e = Entry_file" "nd_kind n = Regular"
      "be_checksum_sha256 e = Some (bt_sha256 T (nd_content n))" "be_size_bytes e = st_size n"
      using assms n entry_type_cases [of e] by (auto simp: entry_matches_def)
    have "hash_file_no_follow T f (root @ relative_of e) = Inr (bt_sha256 T (nd_content n))"
      using stat reg(2) by (simp add: hash_file_no_follow_def)
    then show ?thesis
      using guards stat reg
      by (simp add: verify_entry_def matched_def Let_def assert_descendant_def is_relative_to_def check_source_eq
          flip: relative_of_def)
  qed
qed

definition flawed :: "verify_state \<Rightarrow> bool" where
  "flawed v \<longleftrightarrow> vs_mismatches v \<noteq> [] \<or> vs_missing v \<noteq> []"

lemma verify_entry_mismatch:
  assumes "\<not> entry_matches T f root e"
  shows "\<exists>v'. verify_entry T f root source e v = Inr v' \<and> flawed v'"
proof (cases "map_of f (root @ relative_of e)")
  case None
  then obtain x where "lstat f (root @ relative_of e) = Inl x"
    by (cases "lstat f (root @ relative_of e)") auto
  then show ?thesis
    by (simp add: verify_entry_def Let_def assert_descendant_def is_relative_to_def flawed_def flip: relative_of_def)
next
  case (Some n)
  then have stat: "lstat f (root @ relative_of e) = Inr n"
    by simp
  show ?thesis
    using assms Some stat
    by (auto simp: verify_entry_def entry_matches_def Let_def assert_descendant_def is_relative_to_def flawed_def
        hash_file_no_follow_def simp flip: relative_of_def)
qed

lemma matched_flawed [simp]: "flawed (matched T f source e v) = flawed v"
  by (simp add: matched_def flawed_def Let_def)

lemma verify_entry_flawed:
  assumes "verify_entry T f root source e v = Inr v'" "flawed v"
  shows "flawed v'"
proof (cases "entry_matches T f root e")
  case True
  then show ?thesis
    using assms verify_entry_match [OF True, of source v] by auto
next
  case False
  then show ?thesis
    using assms verify_entry_mismatch [OF False, of source v] by auto
qed

lemma verify_entries_total:
  "\<exists>v'. verify_entries T f root source es v = Inr v' \<and>
     (if \<forall>e \<in> set es. entry_matches T f root e then v' = fold (matched T f source) es v else flawed v') \<and> (flawed v \<longrightarrow> flawed v')"
proof (induction es arbitrary: v)
  case (Cons e es)
  obtain v1 where v1: "verify_entry T f root source e v = Inr v1" "flawed v \<longrightarrow> flawed v1"
    "if entry_matches T f root e then v1 = matched T f source e v else flawed v1"
    using verify_entry_match [of T f root e source v] verify_entry_mismatch [of T f root e source v] verify_entry_flawed
    by (cases "entry_matches T f root e") auto
  then show ?case
    using Cons.IH [of v1] by (auto split: if_splits)
qed auto

lemma fold_matched:
  "vs_expected (fold (matched T f source) es v) = rev (map (as_posix \<circ> relative_of) es) @ vs_expected v"
  "vs_files (fold (matched T f source) es v) = vs_files v + int (length (entry_files es))"
  "vs_bytes (fold (matched T f source) es v) = vs_bytes v + total_size es"
  "vs_mismatches (fold (matched T f source) es v) = vs_mismatches v" "vs_missing (fold (matched T f source) es v) = vs_missing v"
  "vs_source_changed (fold (matched T f source) es v) = [] \<longleftrightarrow> vs_source_changed v = [] \<and> (\<forall>e \<in> set es. source_agrees T f source e)"
proof -
  have type: "be_entry_type e = Entry_file \<longleftrightarrow> be_entry_type e \<noteq> Entry_directory" for e
    using entry_type_cases [of e] by auto
  have dir: "be_entry_type e = Entry_directory \<Longrightarrow> source_agrees T f source e" for e
    by (simp add: source_agrees_def)
  show "vs_expected (fold (matched T f source) es v) = rev (map (as_posix \<circ> relative_of) es) @ vs_expected v"
    "vs_files (fold (matched T f source) es v) = vs_files v + int (length (entry_files es))"
    "vs_bytes (fold (matched T f source) es v) = vs_bytes v + total_size es"
    "vs_mismatches (fold (matched T f source) es v) = vs_mismatches v" "vs_missing (fold (matched T f source) es v) = vs_missing v"
    "vs_source_changed (fold (matched T f source) es v) = [] \<longleftrightarrow> vs_source_changed v = [] \<and> (\<forall>e \<in> set es. source_agrees T f source e)"
    by (induction es arbitrary: v)
      (auto simp: matched_def Let_def entry_files_def total_size_def type dir)
qed

text \<open>The tree is the one of the manifest: the manifest is stored in it, every entry matches, and nothing else is there.\<close>

definition backup_intact :: "'w backup_env \<Rightarrow> fs \<Rightarrow> path \<Rightarrow> backup_manifest \<Rightarrow> bool" where
  "backup_intact T f root m \<longleftrightarrow> has_kind f root Directory \<and> bman_manifest_checksum_sha256 m = manifest_fingerprint T m \<and>
     destination_manifest_matches T f root m \<and> (\<forall>e \<in> set (bman_entries m). entry_matches T f root e) \<and>
     (\<forall>relative \<in> set (tree_below f root). as_posix relative \<in>
        insert ''.ares-manifest.json'' ((\<lambda>e. as_posix (relative_of e)) ` set (bman_entries m)))"

lemma unexpected_Nil_iff:
  "unexpected_paths T f root expected = [] \<longleftrightarrow> (\<forall>relative \<in> set (tree_below f root). as_posix relative \<in> set expected)"
  by (auto simp: unexpected_paths_def filter_empty_conv)

lemma verification_of_status:
  "bv_status (verification_of T f b m root v i now) =
     (if flawed v \<or> unexpected_paths T f root (vs_expected v) \<noteq> [] then BV_CORRUPTED
      else if vs_source_changed v \<noteq> [] then BV_FAILED else BV_VERIFIED)"
  "bv_verified_file_count (verification_of T f b m root v i now) = vs_files v"
  "bv_verified_size_bytes (verification_of T f b m root v i now) = vs_bytes v"
  by (simp_all add: verification_of_def flawed_def Let_def)

lemma verification_record_exact:
  fixes T :: "'w backup_env"
  defines "root \<equiv> \<lambda>b. path_parts (bd_backup_path (bk_destination b))"
    and "source \<equiv> \<lambda>m. path_parts (bs_path (bman_source m))"
  shows "\<exists>g. verification_record T f b m = Inr g \<and> (\<forall>i now.
    bv_status (g i now) = (if \<not> backup_intact T f (root b) m then BV_CORRUPTED
      else if \<forall>e \<in> set (bman_entries m). source_agrees T f (source m) e then BV_VERIFIED else BV_FAILED) \<and>
    (backup_intact T f (root b) m \<longrightarrow> bv_verified_file_count (g i now) = int (length (entry_files (bman_entries m))) \<and>
       bv_verified_size_bytes (g i now) = total_size (bman_entries m)))"
proof (cases "safe_backup_root f (root b) \<and> bman_manifest_checksum_sha256 m = manifest_fingerprint T m \<and>
    destination_manifest_matches T f (root b) m")
  case False
  then have "\<not> backup_intact T f (root b) m"
    by (auto simp: backup_intact_def safe_backup_root_def)
  then show ?thesis
    using False unfolding verification_record_def Let_def root_def by (auto simp: verification_failure_def)
next
  case True
  obtain v where v: "verify_entries T f (root b) (source m) (bman_entries m) verify_state_start = Inr v"
    "if \<forall>e \<in> set (bman_entries m). entry_matches T f (root b) e
     then v = fold (matched T f (source m)) (bman_entries m) verify_state_start else flawed v"
    using verify_entries_total by blast
  have rec: "verification_record T f b m = Inr (verification_of T f b m (root b) v)"
    using True v(1) by (simp add: verification_record_def Let_def root_def source_def)
  show ?thesis
  proof (cases "\<forall>e \<in> set (bman_entries m). entry_matches T f (root b) e")
    case False
    then have "\<not> backup_intact T f (root b) m" "flawed v"
      using v(2) by (auto simp: backup_intact_def)
    then show ?thesis
      using rec by (simp add: verification_of_status)
  next
    case all: True
    then have v: "v = fold (matched T f (source m)) (bman_entries m) verify_state_start"
      using v(2) by simp
    have "\<not> flawed v"
      unfolding v flawed_def fold_matched by (simp add: verify_state_start_def)
    moreover have "unexpected_paths T f (root b) (vs_expected v) = [] \<longleftrightarrow> backup_intact T f (root b) m"
      using True all unfolding v unexpected_Nil_iff fold_matched backup_intact_def
      by (simp add: verify_state_start_def safe_backup_root_def comp_def)
    moreover have "vs_source_changed v = [] \<longleftrightarrow> (\<forall>e \<in> set (bman_entries m). source_agrees T f (source m) e)"
      unfolding v fold_matched by (simp add: verify_state_start_def)
    moreover have "vs_files v = int (length (entry_files (bman_entries m)))" "vs_bytes v = total_size (bman_entries m)"
      unfolding v fold_matched by (simp_all add: verify_state_start_def)
    ultimately show ?thesis
      using rec by (simp add: verification_of_status)
  qed
qed

lemma worldB_iff [prog_simps]: "worldB m s = (r, s') \<longleftrightarrow> (\<exists>w. m (bh_world s) = (r, w) \<and> s' = s\<lparr>bh_world := w\<rparr>)"
  by (auto simp: worldB_def split: prod.splits)

lemma clock_total:
  "\<exists>x w. utc_now C s = (Inr x, w)" "\<exists>x w. uuid4_hex C s = (Inr x, w)"
  by (simp_all add: utc_now_def uuid4_hex_def split: prod.splits)

lemma verify_backup_record:
  assumes "verification_record T (bh_fs h) b m = Inr g"
  shows "\<exists>i now h'. verify_backup T b m h = (Inr (g i now), h') \<and> bh_fs h' = bh_fs h"
proof -
  obtain i w where i: "uuid4_hex (bt_clock T) (bh_world h) = (Inr i, w)"
    using clock_total(2) [of "bt_clock T" "bh_world h"] by blast
  obtain now w' where now: "utc_now (bt_clock T) w = (Inr now, w')"
    using clock_total(1) [of "bt_clock T" w] by blast
  have "verify_backup T b m h = (Inr (g i now), h\<lparr>bh_world := w'\<rparr>)"
    using assms i now by (simp add: verify_backup_def prog_eval worldB_def)
  then show ?thesis
    by auto
qed

section \<open>Programs with fuel that keep an invariant\<close>

lemma bindF_iff:
  "bindF m f s = Some (r, s'') \<longleftrightarrow> (\<exists>x s'. m s = Some (Inr x, s') \<and> f x s' = Some (r, s'')) \<or>
     (\<exists>e. m s = Some (Inl e, s'') \<and> r = Inl e)"
  by (auto simp: bindF_def split: option.splits sum.splits)

lemma catchF_iff:
  "catchF m h s = Some (r, s'') \<longleftrightarrow> (\<exists>x. m s = Some (Inr x, s'') \<and> r = Inr x) \<or>
     (\<exists>e s'. m s = Some (Inl e, s') \<and> h e s' = Some (r, s''))"
  by (auto simp: catchF_def split: option.splits sum.splits)

definition keepsF :: "('s \<Rightarrow> bool) \<Rightarrow> ('s, 'a) fprog \<Rightarrow> bool" where
  "keepsF I m \<longleftrightarrow> (\<forall>s r s'. I s \<longrightarrow> m s = Some (r, s') \<longrightarrow> I s')"

lemma keepsFD: "keepsF I m \<Longrightarrow> I s \<Longrightarrow> m s = Some (r, s') \<Longrightarrow> I s'"
  by (auto simp: keepsF_def)

lemma keepsF_liftF [preserves_intros]: "preserves I m \<Longrightarrow> keepsF I (liftF m)"
  by (auto simp: keepsF_def liftF_def dest: preservesD)

lemma keepsF_bindF [preserves_intros]: "keepsF I m \<Longrightarrow> (\<And>x. keepsF I (f x)) \<Longrightarrow> keepsF I (bindF m f)"
  unfolding keepsF_def bindF_iff by blast

lemma keepsF_catchF [preserves_intros]: "keepsF I m \<Longrightarrow> (\<And>e. keepsF I (h e)) \<Longrightarrow> keepsF I (catchF m h)"
  unfolding keepsF_def catchF_iff by blast

lemma keepsF_if [preserves_intros]: "keepsF I m \<Longrightarrow> keepsF I m' \<Longrightarrow> keepsF I (if c then m else m')"
  by simp

lemma keepsF_read [preserves_intros]: "keepsF I (\<lambda>s. Some (g s, s))"
  by (auto simp: keepsF_def)

lemma keepsF_case_option [preserves_intros]: "keepsF I m \<Longrightarrow> (\<And>x. keepsF I (f x)) \<Longrightarrow> keepsF I (case v of None \<Rightarrow> m | Some x \<Rightarrow> f x)"
  by (cases v) auto

lemma preserves_read [preserves_intros]: "preserves I (\<lambda>s. (g s, s))"
  by (simp add: preserves_def)

lemma liftF_iff: "liftF m s = Some (r, s') \<longleftrightarrow> m s = (r, s')"
  by (auto simp: liftF_def)

section \<open>A creation stays in its partial directory\<close>

text \<open>The ancestors of the partial directory, and a file system that differs from \<open>F\<close> only in it.\<close>

definition rooted :: "fs \<Rightarrow> path \<Rightarrow> bool" where
  "rooted F partial \<longleftrightarrow> (\<forall>k < length partial. has_kind F (take k partial) Directory)"

definition contained :: "fs \<Rightarrow> path \<Rightarrow> fs \<Rightarrow> bool" where
  "contained F partial f \<longleftrightarrow> rooted F partial \<and> has_kind f partial Directory \<and>
     (\<forall>p. \<not> at_or_below partial p \<longrightarrow> map_of f p = map_of F p)"

text \<open>Callbacks that leave the file system alone, and so does what happens while the tool waits for them.\<close>

definition quiet :: "'w backup_callbacks \<Rightarrow> bool" where
  "quiet B \<longleftrightarrow> (\<forall>x h. bh_fs (snd (cb_on_progress B x h)) = bh_fs h) \<and> (\<forall>x h. bh_fs (snd (cb_on_entry B x h)) = bh_fs h)"

lemma contained_kind: "contained F partial f \<Longrightarrow> has_kind f partial Directory"
  by (simp add: contained_def)

lemma contained_ancestor:
  assumes "contained F partial f" "prefix q (partial @ t)" "\<not> at_or_below partial q"
  shows "has_kind f q Directory"
proof -
  have "prefix q partial"
    using assms(2,3) by (auto simp: at_or_below_prefix prefix_def append_eq_append_conv2)
  then obtain k where k: "k < length partial" "q = take k partial"
    using assms(3) by (metis at_or_below_refl at_or_below_prefix append_eq_conv_conj leI prefixE prefix_length_le
        prefix_order.antisym take_all)
  then show ?thesis
    using assms(1,3) by (auto simp: contained_def rooted_def has_kind_def)
qed

lemma contained_exists:
  assumes "contained F partial f" "prefix q partial"
  shows "has_kind f q Directory"
  using assms contained_ancestor [of F partial f q "[]"] contained_kind
  by (cases "at_or_below partial q") (auto simp: at_or_below_prefix dest: prefix_order.antisym)

text \<open>A change of nodes at or below the partial directory, which stays a directory.\<close>

lemma contained_change:
  assumes "contained F partial f" "\<And>q. \<not> at_or_below partial q \<Longrightarrow> map_of f' q = map_of f q" "has_kind f' partial Directory"
  shows "contained F partial f'"
  using assms by (simp add: contained_def)

lemma contained_make_node:
  assumes "contained F partial f" "make_node f (partial @ t) k mode = Inr f'"
  shows "contained F partial f'"
proof (rule contained_change [OF assms(1)])
  have "t \<noteq> []"
    using make_node_Inr(1) [OF assms(2)] contained_kind [OF assms(1)] by (auto simp: has_kind_iff)
  then show "has_kind f' partial Directory"
    using contained_kind [OF assms(1)] make_node_Inr(4) [OF assms(2)] by (simp add: has_kind_def)
qed (use make_node_Inr(4) [OF assms(2)] in auto)

lemma ensure_dirs_Inr:
  assumes "ensure_dirs f base ws = Inr f'"
  shows "map_of f q \<noteq> None \<Longrightarrow> map_of f' q = map_of f q"
    and "map_of f' q \<noteq> map_of f q \<Longrightarrow> prefix q (base @ ws)"
  using assms
proof (induction f base ws arbitrary: f' rule: ensure_dirs.induct)
  case (2 f base w ws)
  { case 1
    show ?case
    proof (cases "map_of f (base @ [w]) = None")
      case True
      then obtain g where g: "make_node f (base @ [w]) Directory 511 = Inr g" "ensure_dirs g (base @ [w]) ws = Inr f'"
        using 1(2) by (auto simp: prog_simps)
      then show ?thesis
        using 2(3) [of g f'] True 1(1) make_node_Inr(4) [OF g(1)] by (auto split: if_splits)
    next
      case False
      then show ?thesis
        using 1 2(1) by (auto split: if_splits)
    qed }
  { case 2
    show ?case
    proof (cases "map_of f (base @ [w]) = None")
      case True
      then obtain g where g: "make_node f (base @ [w]) Directory 511 = Inr g" "ensure_dirs g (base @ [w]) ws = Inr f'"
        using 2(2) by (auto simp: prog_simps)
      have "map_of g q \<noteq> map_of f q \<Longrightarrow> q = base @ [w]"
        using make_node_Inr(4) [OF g(1)] by (auto split: if_splits)
      then have "q = base @ [w] \<or> map_of f' q \<noteq> map_of g q"
        using 2(1) by metis
      then show ?thesis
        using "2.IH"(4) [of f' g] g(2) True by (auto simp: prefix_def)
    next
      case False
      then show ?thesis
        using 2 "2.IH"(2) by (auto split: if_splits)
    qed }
qed auto

lemma contained_mkdir_parents:
  assumes "contained F partial f" "mkdir_parents f (partial @ t) mode ok = Inr f'"
  shows "contained F partial f'"
proof (cases "map_of f (partial @ t) = None")
  case True
  then obtain g where g: "ensure_dirs f [] (butlast (partial @ t)) = Inr g" "make_node g (partial @ t) Directory mode = Inr f'"
    using assms(2) by (auto simp: mkdir_parents_def prog_simps)
  have "contained F partial g"
  proof (rule contained_change [OF assms(1)])
    fix q
    assume "\<not> at_or_below partial q"
    show "map_of g q = map_of f q"
    proof (rule ccontr)
      assume ne: "map_of g q \<noteq> map_of f q"
      then have "prefix q (partial @ t)"
        using ensure_dirs_Inr(2) [OF g(1) ne] by (metis append_Nil prefixeq_butlast prefix_order.trans)
      then have "map_of f q \<noteq> None"
        using contained_ancestor [OF assms(1) _ \<open>\<not> at_or_below partial q\<close>] by (auto simp: has_kind_iff)
      then show False
        using ensure_dirs_Inr(1) [OF g(1)] ne by simp
    qed
  next
    show "has_kind g partial Directory"
      using contained_kind [OF assms(1)] ensure_dirs_Inr(1) [OF g(1)] by (auto simp: has_kind_iff)
  qed
  then show ?thesis
    using g(2) by (rule contained_make_node)
next
  case False
  then show ?thesis
    using assms by (auto simp: mkdir_parents_def split: if_splits)
qed

lemma contained_append: "contained F partial f \<Longrightarrow> contained F partial (append_content (partial @ t) b f)"
  by (rule contained_change) (auto simp: contained_def has_kind_def split: option.splits)

lemma contained_attributes: "contained F partial f \<Longrightarrow> contained F partial (set_attributes (partial @ t) mode mtime f)"
  by (rule contained_change) (auto simp: contained_def has_kind_def split: option.splits)

abbreviation inside :: "fs \<Rightarrow> path \<Rightarrow> 'w copy_run \<Rightarrow> bool" where
  "inside F partial s \<equiv> contained F partial (cr_fs s)"

lemma preserves_changeFs:
  "(\<And>f f'. I f \<Longrightarrow> g f = Inr f' \<Longrightarrow> I f') \<Longrightarrow> preserves (\<lambda>s. I (cr_fs s)) (changeFs g)"
  by (auto simp: preserves_def changeFs_def split: sum.split)

lemma preserves_quiet:
  assumes "quiet B"
  shows "preserves (\<lambda>s. I (cr_fs s)) (onHost (cb_on_progress B x))" "preserves (\<lambda>s. I (cr_fs s)) (onHost (cb_on_entry B y))"
    "preserves (\<lambda>s. I (cr_fs s)) (report_progress B p)"
  using assms by (auto simp: preserves_def onHost_def report_progress_def quiet_def split: prod.splits)
    (metis snd_conv)+

lemma preserves_counter:
  "preserves (\<lambda>s. I (cr_fs s)) (modifyM (\<lambda>s. s\<lparr>cr_bytes_done := g s\<rparr>))"
  "preserves (\<lambda>s. I (cr_fs s)) (modifyM (\<lambda>s. s\<lparr>cr_files_done := g s\<rparr>))"
  "preserves (\<lambda>s. I (cr_fs s)) (modifyM (\<lambda>s. s\<lparr>cr_entries := h s\<rparr>))"
  by (auto simp: preserves_def modifyM_def)

lemmas inside_intros = preserves_intros preserves_quiet preserves_counter

lemma inside_make_node: "preserves (inside F partial) (changeFs (\<lambda>f. make_node f (partial @ t) k mode))"
  by (rule preserves_changeFs) (rule contained_make_node)

lemma inside_mkdir: "preserves (inside F partial) (changeFs (\<lambda>f. mkdir_parents f (partial @ t) mode ok))"
  by (rule preserves_changeFs) (rule contained_mkdir_parents)

lemma inside_append: "preserves (inside F partial) (changeFs (\<lambda>f. Inr (append_content (partial @ t) b f)))"
  by (rule preserves_changeFs) (auto intro: contained_append)

lemma inside_attributes: "preserves (inside F partial) (changeFs (\<lambda>f. Inr (set_attributes (partial @ t) mode mtime f)))"
  by (rule preserves_changeFs) (auto intro: contained_attributes)

lemmas inside_changes = inside_make_node inside_mkdir inside_append inside_attributes

lemma inside_copy_blocks:
  assumes "quiet B"
  shows "keepsF (inside F partial) (copy_blocks n B p source (partial @ t) copied)"
proof (induction n arbitrary: copied)
  case 0
  show ?case
    by (simp add: keepsF_def)
next
  case (Suc n)
  let ?step = "\<lambda>block. bindF (liftF (bindM (changeFs (\<lambda>f. Inr (append_content (partial @ t) block f))) (\<lambda>_.
      bindM (modifyM (\<lambda>s. s\<lparr>cr_bytes_done := cr_bytes_done s + int (length block)\<rparr>)) (\<lambda>_. report_progress B p))))
      (\<lambda>_. copy_blocks n B p source (partial @ t) (copied @ block))"
  have "keepsF (inside F partial) (?step block)" for block
    using assms by (intro inside_intros inside_changes Suc) simp_all
  then show ?case
    unfolding keepsF_def by (auto simp: Let_def split: if_splits)
qed

lemma inside_copy_regular:
  fixes B :: "'w backup_callbacks"
  assumes "quiet B"
  shows "keepsF (inside F partial) (copy_regular_file n T B p source (partial @ t) info)"
proof -
  have last: "preserves (inside F partial :: 'w copy_run \<Rightarrow> bool) (\<lambda>s.
      if \<not> source_unchanged (cr_fs s) source info then (Inl (BackupToolError ''BACKUP_SOURCE_CHANGED''), s)
      else bindM (changeFs (\<lambda>f. Inr (set_attributes (partial @ t) (nd_mode info) (nd_mtime info) f))) (\<lambda>_.
        ret (bt_sha256 T copied)) s)" for copied
  proof -
    have "preserves (inside F partial :: 'w copy_run \<Rightarrow> bool) (bindM (changeFs (\<lambda>f. Inr (set_attributes (partial @ t) (nd_mode info) (nd_mtime info) f)))
        (\<lambda>_. ret (bt_sha256 T copied)))"
      by (intro inside_intros inside_changes)
    then show ?thesis
      by (simp add: preserves_def)
  qed
  show ?thesis
    unfolding copy_regular_file_def
    by (intro inside_intros inside_changes inside_copy_blocks assms last)
qed

lemma inside_copy_item:
  assumes "quiet B" "relative \<noteq> []"
  shows "keepsF (inside F partial) (copy_item n T B p partial item relative)"
proof -
  have "butlast (partial @ relative) = partial @ butlast relative"
    using assms(2) by (simp add: butlast_append)
  then show ?thesis
    unfolding copy_item_def copy_directory_def copy_file_def Let_def
    using assms(1) by (simp only:) (intro inside_intros inside_changes inside_copy_regular; simp)
qed

lemma walk_item_relative:
  assumes "walk_item f dev policy d r items stack = Some ((item, relative, reason), w)"
  obtains name where "relative = r @ [name]" "item = d @ [name]" "name \<in> fst ` set items"
  using assms by (cases items) (auto simp: Let_def)

lemma walk_next_relative:
  assumes "walk_next f dev policy w = Inr (Some ((item, relative, reason), w'))"
  shows "relative \<noteq> []"
  using assms unfolding walk_next_def
  by (auto split: if_splits sum.splits option.splits elim!: walk_item_relative)

lemma inside_copy_walk:
  assumes "quiet B"
  shows "keepsF (inside F partial) (copy_walk n T B p dev partial w)"
proof (induction n arbitrary: w)
  case 0
  show ?case
    by (simp add: keepsF_def)
next
  case (Suc n)
  show ?case
    unfolding keepsF_def
  proof (intro allI impI)
    fix s r s'
    assume s: "inside F partial s" and run: "copy_walk (Suc n) T B p dev partial w s = Some (r, s')"
    show "inside F partial s'"
    proof (cases "\<exists>item relative reason w'. walk_next (cr_fs s) dev (bp_policy p) w = Inr (Some ((item, relative, reason), w'))")
      case True
      then obtain item relative reason w' where next_item: "walk_next (cr_fs s) dev (bp_policy p) w = Inr (Some ((item, relative, reason), w'))"
        by blast
      have item: "keepsF (inside F partial) (bindF (copy_item n T B p partial item relative) (\<lambda>_. copy_walk n T B p dev partial w'))"
        using assms walk_next_relative [OF next_item] by (intro inside_intros inside_copy_item Suc)
      then show ?thesis
        using run next_item keepsFD [OF Suc s] keepsFD [OF item s] by (simp split: if_splits)
    next
      case False
      then have "s' = s"
        using run by (auto split: sum.splits option.splits)
      then show ?thesis
        using s by simp
    qed
  qed
qed

lemma inside_copy_entries:
  assumes "quiet B"
  shows "keepsF (inside F partial) (copy_entries n T B p dev partial root)"
  unfolding keepsF_def
proof (intro allI impI)
  fix s r s'
  assume s: "inside F partial s" and run: "copy_entries n T B p dev partial root s = Some (r, s')"
  show "inside F partial s'"
  proof (cases "has_kind (cr_fs s) root Regular")
    case True
    then have "copy_item n T B p partial root [last root] s = Some (r, s')"
      using run by (simp add: copy_entries_def)
    then show ?thesis
      by (rule keepsFD [OF inside_copy_item [OF assms] s, rotated]) simp
  next
    case False
    then have "copy_walk n T B p dev partial (walk_start root) s = Some (r, s')"
      using run by (simp add: copy_entries_def)
    then show ?thesis
      by (rule keepsFD [OF inside_copy_walk [OF assms] s])
  qed
qed

lemma inside_write_manifest: "preserves (inside F partial) (write_manifest_file T partial m)"
  unfolding write_manifest_file_def by (intro inside_intros inside_changes)

section \<open>What is copied is what the manifest says\<close>

lemma onHost_iff [prog_simps]: "onHost m s = (r, s') \<longleftrightarrow> (\<exists>h. m (cr_host s) = (r, h) \<and> s' = s\<lparr>cr_host := h\<rparr>)"
  by (auto simp: onHost_def split: prod.splits)

lemma changeFs_Inr [prog_simps]:
  "changeFs g s = (Inr u, s') \<longleftrightarrow> (\<exists>f. g (cr_fs s) = Inr f \<and> s' = s\<lparr>cr_host := (cr_host s)\<lparr>bh_fs := f\<rparr>\<rparr>)"
  by (auto simp: changeFs_def split: sum.splits)

lemma quiet_effects:
  assumes "quiet B"
  shows "cb_on_progress B x h = (r, h') \<Longrightarrow> bh_fs h' = bh_fs h" "cb_on_entry B e h = (r, h') \<Longrightarrow> bh_fs h' = bh_fs h"
    "report_progress B p s = (r, s') \<Longrightarrow> cr_fs s' = cr_fs s \<and> cr_entries s' = cr_entries s"
proof -
  show "cb_on_progress B x h = (r, h') \<Longrightarrow> bh_fs h' = bh_fs h" for x h r h'
    using assms unfolding quiet_def by (metis snd_conv)
  then show "report_progress B p s = (r, s') \<Longrightarrow> cr_fs s' = cr_fs s \<and> cr_entries s' = cr_entries s"
    unfolding report_progress_def onHost_iff by fastforce
  show "cb_on_entry B e h = (r, h') \<Longrightarrow> bh_fs h' = bh_fs h"
    using assms unfolding quiet_def by (metis snd_conv)
qed

lemma chunk_Nil_iff: "py_take CHUNK_BYTES xs = [] \<longleftrightarrow> xs = []"
  by (simp add: py_take_eq CHUNK_BYTES_def)

lemma chunk_prefix:
  assumes "prefix copied c"
  shows "prefix (copied @ py_take CHUNK_BYTES (drop (length copied) c)) c"
  using assms by (auto simp: py_take_eq prefix_def) (metis append_take_drop_id)

lemma copy_blocks_Inr:
  assumes "copy_blocks n B p source dst copied s = Some (Inr result, s')" "quiet B" "source \<noteq> dst"
    and "map_of (cr_fs s) dst = Some d" "nd_content d = copied" "map_of (cr_fs s) source = Some i" "prefix copied (nd_content i)"
  shows "result = nd_content i \<and> map_of (cr_fs s') = (map_of (cr_fs s))(dst \<mapsto> d\<lparr>nd_content := result\<rparr>) \<and> cr_entries s' = cr_entries s"
  using assms(1,4-)
proof (induction n arbitrary: copied s d)
  case (Suc n)
  let ?block = "py_take CHUNK_BYTES (drop (length copied) (nd_content i))"
  have content: "content_of (cr_fs s) source = nd_content i"
    using Suc.prems by (simp add: content_of_def)
  show ?case
  proof (cases "?block = []")
    case True
    then have "copied = nd_content i"
      using Suc.prems(5) by (auto simp: chunk_Nil_iff prefix_def)
    then show ?thesis
      using Suc.prems True by (auto simp: content fun_eq_iff)
  next
    case False
    let ?d = "d\<lparr>nd_content := copied @ ?block\<rparr>"
    obtain s1 where step: "bindM (changeFs (\<lambda>f. Inr (append_content dst ?block f))) (\<lambda>_.
          bindM (modifyM (\<lambda>s. s\<lparr>cr_bytes_done := cr_bytes_done s + int (length ?block)\<rparr>)) (\<lambda>_. report_progress B p)) s = (Inr (), s1)"
      and rest: "copy_blocks n B p source dst (copied @ ?block) s1 = Some (Inr result, s')"
      using Suc.prems(1) False by (auto simp: content Let_def bindF_iff liftF_iff)
    from step have s1: "cr_fs s1 = append_content dst ?block (cr_fs s)" "cr_entries s1 = cr_entries s"
      using quiet_effects(3) [OF assms(2)] by (auto simp: bindM_Inr_iff changeFs_Inr modifyM_iff)
    have "result = nd_content i \<and> map_of (cr_fs s') = (map_of (cr_fs s1))(dst \<mapsto> ?d\<lparr>nd_content := result\<rparr>) \<and> cr_entries s' = cr_entries s1"
      using Suc.prems s1 assms(3) by (intro Suc.IH [OF rest]) (auto intro: chunk_prefix)
    then show ?thesis
      using s1 by simp
  qed
qed simp

text \<open>The effect of copying one file on a free name.\<close>

lemma copy_regular_file_Inr:
  assumes "copy_regular_file n T B p source dst info s = Some (Inr checksum, s')" "quiet B" "source \<noteq> dst"
    and "map_of (cr_fs s) source = Some info"
  shows "map_of (cr_fs s) dst = None" "has_kind (cr_fs s) (butlast dst) Directory" "checksum = bt_sha256 T (nd_content info)"
    "cr_entries s' = cr_entries s" "dst \<noteq> []"
    "\<exists>d. map_of (cr_fs s') = (map_of (cr_fs s))(dst \<mapsto> d) \<and> nd_kind d = Regular \<and> nd_content d = nd_content info"
proof -
  obtain s1 s2 copied where s1: "bindM (\<lambda>s. (open_source (cr_fs s) source info, s)) (\<lambda>_.
       changeFs (\<lambda>f. make_node f dst Regular 384)) s = (Inr (), s1)"
    and blocks: "copy_blocks n B p source dst [] s1 = Some (Inr copied, s2)"
    and final: "source_unchanged (cr_fs s2) source info" "bindM (changeFs (\<lambda>f. Inr (set_attributes dst (nd_mode info) (nd_mtime info) f)))
       (\<lambda>_. ret (bt_sha256 T copied)) s2 = (Inr checksum, s')"
    using assms(1) unfolding copy_regular_file_def bindF_iff liftF_iff
    by (auto split: if_splits)
  obtain f where f: "make_node (cr_fs s) dst Regular 384 = Inr f" "cr_fs s1 = f" "cr_entries s1 = cr_entries s"
    using s1 by (auto simp: bindM_Inr_iff changeFs_Inr)
  show free: "map_of (cr_fs s) dst = None" "has_kind (cr_fs s) (butlast dst) Directory" "dst \<noteq> []"
    using make_node_Inr [OF f(1)] by auto
  have node: "map_of (cr_fs s1) = (map_of (cr_fs s))(dst \<mapsto> new_node (cr_fs s) dst Regular 384)"
    using make_node_Inr(4) [OF f(1)] f(2) by simp
  have copied: "copied = nd_content info \<and> map_of (cr_fs s2) = (map_of (cr_fs s1))(dst \<mapsto> (new_node (cr_fs s) dst Regular 384)\<lparr>nd_content := copied\<rparr>) \<and>
      cr_entries s2 = cr_entries s1"
    using node assms(3,4) by (intro copy_blocks_Inr [OF blocks assms(2,3)]) (auto simp: new_node_def)
  have s': "cr_fs s' = set_attributes dst (nd_mode info) (nd_mtime info) (cr_fs s2)" "cr_entries s' = cr_entries s2"
    "checksum = bt_sha256 T copied"
    using final(2) by (auto simp: bindM_Inr_iff changeFs_Inr ret_iff)
  show "checksum = bt_sha256 T (nd_content info)" "cr_entries s' = cr_entries s"
    using s' copied f(3) by simp_all
  show "\<exists>d. map_of (cr_fs s') = (map_of (cr_fs s))(dst \<mapsto> d) \<and> nd_kind d = Regular \<and> nd_content d = nd_content info"
    unfolding s'(1) map_of_set_attributes using copied node
    by (intro exI [of _ "(new_node (cr_fs s) dst Regular 384)\<lparr>nd_content := nd_content info, nd_mode := nd_mode info,
        nd_mtime := nd_mtime info\<rparr>"]) (simp add: new_node_def)
qed

text \<open>Below the partial directory there are exactly the entries, each a clean relative name, as copied from the source.\<close>

definition clean_entry :: "backup_entry \<Rightarrow> bool" where
  "clean_entry e \<longleftrightarrow> relative_of e \<noteq> [] \<and> (\<forall>w \<in> set (relative_of e). clean_name w) \<and> be_relative_path e = as_posix (relative_of e)"

definition copied_tree :: "'w backup_env \<Rightarrow> fs \<Rightarrow> path \<Rightarrow> path \<Rightarrow> 'w copy_run \<Rightarrow> bool" where
  "copied_tree T F partial source s \<longleftrightarrow> inside F partial s \<and>
     (\<forall>e \<in> set (cr_entries s). clean_entry e \<and> entry_matches T (cr_fs s) partial e \<and> source_agrees T F source e) \<and>
     (\<forall>t. t \<noteq> [] \<longrightarrow> map_of (cr_fs s) (partial @ t) \<noteq> None \<longrightarrow>
        t \<in> relative_of ` set (cr_entries s) \<and> has_kind (cr_fs s) (partial @ butlast t) Directory)"

lemma clean_parts: "\<forall>w \<in> set r. clean_name w \<Longrightarrow> path_parts (as_posix r) = r" "\<forall>w \<in> set r. clean_name w \<Longrightarrow> ''..'' \<notin> set r"
  by (rule path_parts_as_posix) (auto simp: clean_name_def)

lemma tree_directories:
  assumes "copied_tree T F partial source s" "has_kind (cr_fs s) (partial @ r) Directory" "prefix q (partial @ r)"
  shows "has_kind (cr_fs s) q Directory"
  using assms(2,3)
proof (induction r rule: rev_induct)
  case Nil
  then show ?case
    using assms(1) contained_exists by (auto simp: copied_tree_def)
next
  case (snoc x r)
  then have "has_kind (cr_fs s) (partial @ r) Directory"
    using assms(1) unfolding copied_tree_def by (metis butlast_snoc has_kind_iff option.distinct(1) snoc_eq_iff_butlast)
  then show ?case
    using snoc by (cases "q = partial @ r @ [x]") (auto simp: prefix_snoc simp flip: append_assoc)
qed

lemma ensure_dirs_exist: "(\<And>k. k \<le> length ws \<Longrightarrow> has_kind f (base @ take k ws) Directory) \<Longrightarrow> ensure_dirs f base ws = Inr f"
proof (induction ws arbitrary: base)
  case (Cons w ws)
  have "has_kind f (base @ [w]) Directory"
    using Cons.prems [of 1] by simp
  moreover have "ensure_dirs f (base @ [w]) ws = Inr f"
    using Cons.prems [of "Suc k" for k] by (intro Cons.IH) simp
  ultimately show ?case
    by (auto simp: has_kind_iff)
qed simp

lemma mkdir_parents_ready:
  assumes "\<And>q. prefix q p \<Longrightarrow> has_kind f q Directory"
  shows "mkdir_parents f p mode True = Inr f"
    "map_of f (p @ [w]) = None \<Longrightarrow> mkdir_parents f (p @ [w]) mode' False = make_node f (p @ [w]) Directory mode'"
proof -
  have "has_kind f p Directory"
    using assms by simp
  then show "mkdir_parents f p mode True = Inr f"
    by (auto simp: mkdir_parents_def has_kind_iff)
  have "ensure_dirs f [] p = Inr f"
    using assms by (intro ensure_dirs_exist) (simp add: take_is_prefix)
  then show "map_of f (p @ [w]) = None \<Longrightarrow> mkdir_parents f (p @ [w]) mode' False = make_node f (p @ [w]) Directory mode'"
    by (simp add: mkdir_parents_def)
qed

text \<open>One more entry at a free name.\<close>

lemma copied_tree_add:
  assumes tree: "copied_tree T F partial source s" and in_s': "inside F partial s'"
    and f': "map_of (cr_fs s') = (map_of (cr_fs s))(partial @ r @ [w] \<mapsto> d)" and free: "map_of (cr_fs s) (partial @ r @ [w]) = None"
    and parent: "has_kind (cr_fs s) (partial @ r) Directory"
    and entry: "cr_entries s' = cr_entries s @ [e]" "clean_entry e" "relative_of e = r @ [w]" "source_agrees T F source e"
    and d: "if be_entry_type e = Entry_directory then nd_kind d = Directory
      else nd_kind d = Regular \<and> be_checksum_sha256 e = Some (bt_sha256 T (nd_content d)) \<and> be_size_bytes e = st_size d"
  shows "copied_tree T F partial source s'"
proof -
  have other: "map_of (cr_fs s') q = map_of (cr_fs s) q" if "map_of (cr_fs s) q \<noteq> None" for q
    using that free f' by auto
  have "entry_matches T (cr_fs s') partial e'" if "e' \<in> set (cr_entries s)" for e'
  proof -
    have m: "entry_matches T (cr_fs s) partial e'"
      using tree that by (simp add: copied_tree_def)
    then have "map_of (cr_fs s') (partial @ relative_of e') = map_of (cr_fs s) (partial @ relative_of e')"
      by (intro other) (auto simp: entry_matches_def split: option.splits)
    then show ?thesis
      using m by (simp add: entry_matches_def)
  qed
  moreover have "entry_matches T (cr_fs s') partial e"
    using entry(2,3) d f' as_posix_relative [of "relative_of e"] clean_parts(2) [of "relative_of e"]
    by (simp add: entry_matches_def clean_entry_def)
  moreover have kept: "has_kind (cr_fs s') q Directory" if "has_kind (cr_fs s) q Directory" for q
    using that other by (auto simp: has_kind_iff)
  have "t \<in> relative_of ` set (cr_entries s') \<and> has_kind (cr_fs s') (partial @ butlast t) Directory"
    if "t \<noteq> []" "map_of (cr_fs s') (partial @ t) \<noteq> None" for t
  proof (cases "t = r @ [w]")
    case True
    then show ?thesis
      using entry(1,3) kept [OF parent] by auto
  next
    case False
    then have "map_of (cr_fs s) (partial @ t) \<noteq> None"
      using that(2) f' by simp
    then show ?thesis
      using tree that(1) kept entry(1) unfolding copied_tree_def by auto
  qed
  ultimately show ?thesis
    using tree in_s' entry unfolding copied_tree_def by auto
qed

text \<open>One item: it is copied to a free name below an existing directory.\<close>

definition new_entry :: "'w backup_env \<Rightarrow> path \<Rightarrow> node \<Rightarrow> backup_entry" where
  "new_entry T relative info = (if nd_kind info = Directory
     then \<lparr>be_relative_path = as_posix relative, be_size_bytes = 0, be_mtime_ns = nd_mtime info, be_mode = nd_mode info,
       be_entry_type = Entry_directory, be_checksum_sha256 = None\<rparr>
     else \<lparr>be_relative_path = as_posix relative, be_size_bytes = st_size info, be_mtime_ns = nd_mtime info,
       be_mode = nd_mode info, be_entry_type = Entry_file, be_checksum_sha256 = Some (bt_sha256 T (nd_content info))\<rparr>)"

lemma copy_item_Inr:
  assumes run: "copy_item n T B p partial item (r @ [w]) s = Some (Inr u, s')" and "quiet B"
    and tree: "copied_tree T F partial source s" and parent: "has_kind (cr_fs s) (partial @ r) Directory"
    and "\<not> at_or_below partial item"
  shows "\<exists>info d. map_of (cr_fs s) item = Some info \<and> map_of (cr_fs s) (partial @ r @ [w]) = None \<and>
    map_of (cr_fs s') = (map_of (cr_fs s))(partial @ r @ [w] \<mapsto> d) \<and> cr_entries s' = cr_entries s @ [new_entry T (r @ [w]) info] \<and>
    (if nd_kind info = Directory then nd_kind d = Directory
     else nd_kind info = Regular \<and> nd_kind d = Regular \<and> nd_content d = nd_content info)"
proof -
  let ?target = "partial @ r @ [w]"
  obtain info entry s1 where info: "map_of (cr_fs s) item = Some info"
    and copied: "(if nd_kind info = Directory then liftF (copy_directory ?target (r @ [w]) info)
             else if nd_kind info = Regular then copy_file n T B p item ?target (r @ [w]) info
             else liftF (raise (BackupToolError ''BACKUP_SOURCE_CHANGED''))) s = Some (Inr entry, s1)"
    and last: "bindM (modifyM (\<lambda>s. s\<lparr>cr_entries := cr_entries s @ [entry]\<rparr>)) (\<lambda>_.
        bindM (onHost (cb_on_entry B entry)) (\<lambda>_. report_progress B p)) s1 = (Inr u, s')"
    using run unfolding copy_item_def Let_def bindF_iff liftF_iff by (auto simp: liftE_iff)
  have s': "cr_fs s' = cr_fs s1" "cr_entries s' = cr_entries s1 @ [entry]"
    using last quiet_effects(2,3) [OF assms(2)] by (fastforce simp: bindM_Inr_iff modifyM_iff onHost_iff)+
  have ready: "has_kind (cr_fs s) q Directory" if "prefix q (partial @ r)" for q
    using tree_directories [OF tree parent that] .
  show ?thesis
  proof (cases "nd_kind info = Directory")
    case True
    then obtain f where f: "mkdir_parents (cr_fs s) ?target (nd_mode info) False = Inr f" "cr_fs s1 = f" "cr_entries s1 = cr_entries s"
      "entry = new_entry T (r @ [w]) info"
      using copied by (auto simp: liftF_iff copy_directory_def bindM_Inr_iff changeFs_Inr ret_iff new_entry_def)
    have free: "map_of (cr_fs s) ?target = None"
      using f(1) by (auto simp: mkdir_parents_def split: if_splits)
    then have "make_node (cr_fs s) ?target Directory (nd_mode info) = Inr f"
      using f(1) mkdir_parents_ready(2) [of "partial @ r" "cr_fs s" w "nd_mode info"] ready by simp
    then have "map_of f = (map_of (cr_fs s))(?target \<mapsto> new_node (cr_fs s) ?target Directory (nd_mode info))"
      by (rule make_node_Inr(4))
    then show ?thesis
      using info free f s' True by (intro exI conjI) (auto simp: new_node_def)
  next
    case False
    then have kind: "nd_kind info = Regular" and run_file: "copy_file n T B p item ?target (r @ [w]) info s = Some (Inr entry, s1)"
      using copied by (auto simp: liftF_iff raise_iff split: if_splits)
    have dirs: "mkdir_parents (cr_fs s) (partial @ r) 448 True = Inr (cr_fs s)"
      by (rule mkdir_parents_ready(1) [OF ready])
    then have "changeFs (\<lambda>f. mkdir_parents f (butlast ?target) 448 True) s = (Inr (), s)"
      by (simp add: changeFs_def butlast_append)
    then obtain checksum s2 where reg: "copy_regular_file n T B p item ?target info s = Some (Inr checksum, s2)"
      and s1: "cr_fs s1 = cr_fs s2" "cr_entries s1 = cr_entries s2" and entry: "entry = \<lparr>be_relative_path = as_posix (r @ [w]),
         be_size_bytes = st_size info, be_mtime_ns = nd_mtime info, be_mode = nd_mode info, be_entry_type = Entry_file,
         be_checksum_sha256 = Some checksum\<rparr>"
      using run_file unfolding copy_file_def bindF_iff liftF_iff by (auto simp: bindM_Inr_iff modifyM_iff ret_iff)
    have "item \<noteq> ?target"
      using assms(5) by auto
    note c = copy_regular_file_Inr [OF reg assms(2) this info]
    show ?thesis
      using c(1,3,4,6) info kind entry s' s1 by (auto simp: new_entry_def)
  qed
qed

lemma copy_item_tree:
  assumes "copy_item n T B p partial item (r @ [w]) s = Some (Inr u, s')" "quiet B" "copied_tree T F partial source s"
    and "has_kind (cr_fs s) (partial @ r) Directory" "\<not> at_or_below partial item" "\<forall>x \<in> set (r @ [w]). clean_name x"
    and "\<And>n. map_of F (source @ r @ [w]) = Some n \<Longrightarrow> nd_kind n = Regular \<Longrightarrow> map_of F item = Some n"
  shows "copied_tree T F partial source s'"
    "\<And>q. has_kind (cr_fs s) q Directory \<Longrightarrow> has_kind (cr_fs s') q Directory"
    "has_kind (cr_fs s) item Directory \<Longrightarrow> has_kind (cr_fs s') (partial @ r @ [w]) Directory"
proof -
  obtain info d where info: "map_of (cr_fs s) item = Some info" "map_of (cr_fs s) (partial @ r @ [w]) = None"
    and f': "map_of (cr_fs s') = (map_of (cr_fs s))(partial @ r @ [w] \<mapsto> d)"
    and entry: "cr_entries s' = cr_entries s @ [new_entry T (r @ [w]) info]"
    and d: "if nd_kind info = Directory then nd_kind d = Directory
     else nd_kind info = Regular \<and> nd_kind d = Regular \<and> nd_content d = nd_content info"
    using copy_item_Inr [OF assms(1-5)] by blast
  let ?e = "new_entry T (r @ [w]) info"
  have "map_of F item = Some info"
    using info(1) assms(3,5) by (simp add: copied_tree_def contained_def)
  then have agrees: "source_agrees T F source ?e"
    using assms(7) unfolding source_agrees_def relative_of_def
    by (auto simp: new_entry_def clean_parts(1) [OF assms(6)] split: if_splits)
  have clean: "clean_entry ?e" "relative_of ?e = r @ [w]"
    using clean_parts(1) [OF assms(6)] assms(6) by (auto simp: clean_entry_def relative_of_def new_entry_def)
  have "inside F partial s'"
    using keepsFD [OF inside_copy_item [OF assms(2)] _ assms(1)] assms(3) by (simp add: copied_tree_def)
  then show "copied_tree T F partial source s'"
    using d by (intro copied_tree_add [OF assms(3) _ f' info(2) assms(4) entry clean agrees])
      (auto simp: new_entry_def st_size_def split: if_splits)
  show "has_kind (cr_fs s') q Directory" if "has_kind (cr_fs s) q Directory" for q
    using that f' info(2) by (auto simp: has_kind_iff)
  show "has_kind (cr_fs s') (partial @ r @ [w]) Directory" if "has_kind (cr_fs s) item Directory"
    using that info(1) d f' by (auto simp: has_kind_iff)
qed

text \<open>The walk of the source while its copy grows.\<close>

definition walk_inv :: "path \<Rightarrow> path \<Rightarrow> fs \<Rightarrow> walker \<Rightarrow> bool" where
  "walk_inv partial source f w \<longleftrightarrow>
     (\<forall>(d, r) \<in> set (wk_stack w). d = source @ r \<and> (\<forall>x \<in> set r. clean_name x) \<and> has_kind f (partial @ r) Directory) \<and>
     (wk_items w \<noteq> [] \<longrightarrow> wk_directory w = source @ wk_relative w \<and> (\<forall>x \<in> set (wk_relative w). clean_name x) \<and>
        has_kind f (partial @ wk_relative w) Directory \<and> (\<forall>(x, l) \<in> set (wk_items w). clean_name x))"

definition clean_fs :: "fs \<Rightarrow> bool" where
  "clean_fs f \<longleftrightarrow> (\<forall>p. map_of f p \<noteq> None \<longrightarrow> (\<forall>w \<in> set p. clean_name w))"

definition apart :: "path \<Rightarrow> path \<Rightarrow> bool" where
  "apart p q \<longleftrightarrow> \<not> at_or_below p q \<and> \<not> at_or_below q p"

lemma apart_append: "apart p q \<Longrightarrow> \<not> at_or_below p (q @ t)"
  by (auto simp: apart_def at_or_below_iff append_eq_append_conv2)

lemma scandir_clean:
  assumes "contained F partial f" "clean_fs F" "apart partial source" "scandir f (source @ r) = Inr items"
  shows "\<forall>(x, l) \<in> set items. clean_name x"
proof -
  have "clean_name x" if "x \<in> set (child_names f (source @ r))" for x
  proof -
    have "map_of f (source @ r @ [x]) \<noteq> None"
      using that by (simp add: set_child_names in_keys_iff)
    then have "map_of F (source @ r @ [x]) \<noteq> None"
      using assms(1) apart_append [OF assms(3)] by (simp add: contained_def)
    then show ?thesis
      using assms(2) by (auto simp: clean_fs_def)
  qed
  then show ?thesis
    using assms(4) by (auto simp: scandir_def split: if_splits)
qed

lemma open_next_inv:
  assumes "open_next f stack = Inr (Some (d, r, items, rest))" "contained F partial f" "clean_fs F" "apart partial source"
    and "\<forall>(d, r) \<in> set stack. d = source @ r"
  shows "(d, r) \<in> set stack \<and> set rest \<subseteq> set stack \<and> (\<forall>(x, l) \<in> set items. clean_name x)"
  using assms(1,2,5)
proof (induction f stack rule: open_next.induct)
  case (2 f d' r' stack)
  show ?case
  proof (cases "scandir f d'")
    case (Inr found)
    have d': "d' = source @ r'"
      using 2 by simp
    show ?thesis
    proof (cases "found = []")
      case False
      then show ?thesis
        using 2 Inr scandir_clean [OF _ assms(3,4), of f r' found] d' by auto
    qed (use 2 Inr in auto)
  qed (use 2 in auto)
qed simp

end
