(* ===== verification/Backup_Copy.thy ===== *)
theory Backup_Copy
  imports Backup_Guards
begin

text \<open>
  The creation of a backup as a whole: the walk of the source while its copy grows, the start in a fresh
  partial directory, and the publication.
\<close>

section \<open>Walking and copying\<close>

lemma walk_item_inv:
  assumes "walk_item f dev policy (source @ r) r items stack = Some ((item, relative, reason), w')"
    and "\<forall>(x, l) \<in> set items. clean_name x" "\<forall>x \<in> set r. clean_name x"
    and "\<forall>(d, r) \<in> set stack. d = source @ r \<and> (\<forall>x \<in> set r. clean_name x) \<and> has_kind f (partial @ r) Directory"
    and "has_kind f (partial @ r) Directory"
  shows "\<exists>x. relative = r @ [x] \<and> item = source @ r @ [x] \<and> clean_name x \<and>
    (\<forall>f'. (\<forall>q. has_kind f q Directory \<longrightarrow> has_kind f' q Directory) \<longrightarrow>
       (reason = None \<and> has_kind f item Directory \<longrightarrow> has_kind f' (partial @ relative) Directory) \<longrightarrow>
       walk_inv partial source f' w')"
proof -
  obtain x l items' where items: "items = (x, l) # items'"
    using assms(1) by (cases items) auto
  have y: "item = source @ r @ [x]" "relative = r @ [x]"
    and w': "wk_stack w' = (if reason = None \<and> has_kind f item Directory then (item, relative) # stack else stack)"
      "wk_directory w' = source @ r" "wk_relative w' = r" "wk_items w' = items'"
    using assms(1) unfolding items by (auto simp: Let_def)
  have "walk_inv partial source f' w'" if kept: "\<forall>q. has_kind f q Directory \<longrightarrow> has_kind f' q Directory"
    and pushed: "reason = None \<and> has_kind f item Directory \<longrightarrow> has_kind f' (partial @ relative) Directory" for f'
  proof -
    have "\<forall>(d, r) \<in> set stack. d = source @ r \<and> (\<forall>x \<in> set r. clean_name x) \<and> has_kind f' (partial @ r) Directory"
      using assms(4) kept by fast
    then show ?thesis
      using assms(2,3,5) kept pushed y unfolding walk_inv_def w' items by simp
  qed
  then show ?thesis
    using y assms(2) items by simp
qed

lemma walk_next_inv:
  assumes "walk_next f dev policy w = Inr (Some ((item, relative, reason), w'))" "walk_inv partial source f w"
    and "contained F partial f" "clean_fs F" "apart partial source"
  obtains r x where "relative = r @ [x]" "item = source @ r @ [x]" "\<forall>y \<in> set (r @ [x]). clean_name y"
    "has_kind f (partial @ r) Directory"
    "\<And>f'. (\<And>q. has_kind f q Directory \<Longrightarrow> has_kind f' q Directory) \<Longrightarrow>
       (reason = None \<Longrightarrow> has_kind f item Directory \<Longrightarrow> has_kind f' (partial @ relative) Directory) \<Longrightarrow> walk_inv partial source f' w'"
proof -
  have stack: "\<forall>(d, r) \<in> set (wk_stack w). d = source @ r \<and> (\<forall>x \<in> set r. clean_name x) \<and> has_kind f (partial @ r) Directory"
    using assms(2) by (simp add: walk_inv_def)
  obtain r items rest where item: "walk_item f dev policy (source @ r) r items rest = Some ((item, relative, reason), w')"
    and clean: "\<forall>(x, l) \<in> set items. clean_name x" "\<forall>x \<in> set r. clean_name x" and dir: "has_kind f (partial @ r) Directory"
    and rest: "\<forall>(d, r) \<in> set rest. d = source @ r \<and> (\<forall>x \<in> set r. clean_name x) \<and> has_kind f (partial @ r) Directory"
  proof (cases "wk_items w = []")
    case True
    then obtain d r items rest where o: "open_next f (wk_stack w) = Inr (Some (d, r, items, rest))"
      and item: "walk_item f dev policy d r items rest = Some ((item, relative, reason), w')"
      using assms(1) by (auto simp: walk_next_def split: sum.splits option.splits)
    have set: "(d, r) \<in> set (wk_stack w)" "set rest \<subseteq> set (wk_stack w)" "\<forall>(x, l) \<in> set items. clean_name x"
      using open_next_inv [OF o assms(3-5)] stack by auto
    then have "d = source @ r" "\<forall>x \<in> set r. clean_name x" "has_kind f (partial @ r) Directory"
      using stack by auto
    moreover have "\<forall>(d, r) \<in> set rest. d = source @ r \<and> (\<forall>x \<in> set r. clean_name x) \<and> has_kind f (partial @ r) Directory"
      using stack set(2) by blast
    ultimately show ?thesis
      using that [of r items rest] item set(3) by simp
  next
    case False
    then show ?thesis
      using assms(1,2) stack that [of "wk_relative w" "wk_items w" "wk_stack w"] by (simp add: walk_next_def walk_inv_def)
  qed
  obtain x where x: "relative = r @ [x]" "item = source @ r @ [x]" "clean_name x"
    and inv: "\<forall>f'. (\<forall>q. has_kind f q Directory \<longrightarrow> has_kind f' q Directory) \<longrightarrow>
       (reason = None \<and> has_kind f item Directory \<longrightarrow> has_kind f' (partial @ relative) Directory) \<longrightarrow> walk_inv partial source f' w'"
    using walk_item_inv [OF item clean rest dir] by blast
  show ?thesis
    using x clean(2) dir inv by (intro that [of r x]) auto
qed

lemma copy_walk_tree:
  assumes "copy_walk n T B p dev partial w s = Some (Inr u, s')" "quiet B" "copied_tree T F partial source s"
    and "walk_inv partial source (cr_fs s) w" "clean_fs F" "apart partial source"
  shows "copied_tree T F partial source s'"
  using assms(1,3,4)
proof (induction n arbitrary: w s)
  case (Suc n)
  have inside: "inside F partial s"
    using Suc.prems(2) by (simp add: copied_tree_def)
  show ?case
  proof (cases "\<exists>item relative reason w'. walk_next (cr_fs s) dev (bp_policy p) w = Inr (Some ((item, relative, reason), w'))")
    case True
    then obtain item relative reason w' where
      step: "walk_next (cr_fs s) dev (bp_policy p) w = Inr (Some ((item, relative, reason), w'))"
      by blast
    obtain r x where rx: "relative = r @ [x]" "item = source @ r @ [x]" "\<forall>y \<in> set (r @ [x]). clean_name y"
      "has_kind (cr_fs s) (partial @ r) Directory"
      and inv: "\<And>f'. (\<And>q. has_kind (cr_fs s) q Directory \<Longrightarrow> has_kind f' q Directory) \<Longrightarrow>
        (reason = None \<Longrightarrow> has_kind (cr_fs s) item Directory \<Longrightarrow> has_kind f' (partial @ relative) Directory) \<Longrightarrow> walk_inv partial source f' w'"
      using walk_next_inv [OF step Suc.prems(3) inside assms(5,6)] by blast
    show ?thesis
    proof (cases "reason = None")
      case False
      then have "copy_walk n T B p dev partial w' s = Some (Inr u, s')" "walk_inv partial source (cr_fs s) w'"
        using Suc.prems(1) step inv [of "cr_fs s"] by auto
      then show ?thesis
        using Suc.IH Suc.prems(2) by blast
    next
      case True
      then obtain v s1 where run: "copy_item n T B p partial item (r @ [x]) s = Some (Inr v, s1)"
        and rest: "copy_walk n T B p dev partial w' s1 = Some (Inr u, s')"
        using Suc.prems(1) step rx(1) by (auto simp: bindF_iff)
      have "\<not> at_or_below partial item"
        using apart_append [OF assms(6)] rx(2) by simp
      note item = copy_item_tree [OF run assms(2) Suc.prems(2) rx(4) this rx(3)]
      have "copied_tree T F partial source s1"
        using rx(2) by (intro item(1)) simp
      moreover have "walk_inv partial source (cr_fs s1) w'"
        using item(2,3) rx by (intro inv) auto
      ultimately show ?thesis
        using Suc.IH rest by blast
    qed
  next
    case False
    then have "s' = s"
      using Suc.prems(1) by (auto split: sum.splits option.splits)
    then show ?thesis
      using Suc.prems(2) by simp
  qed
qed simp

text \<open>Names are clean, and what exists is in a directory.\<close>

definition well_formed_fs :: "fs \<Rightarrow> bool" where
  "well_formed_fs f \<longleftrightarrow> clean_fs f \<and> (\<forall>p. map_of f p \<noteq> None \<longrightarrow> p \<noteq> [] \<longrightarrow> has_kind f (butlast p) Directory)"

lemma well_formed_below:
  assumes "well_formed_fs f" "map_of f (p @ t) \<noteq> None" "t \<noteq> []"
  shows "has_kind f p Directory"
  using assms(2,3)
proof (induction t rule: rev_induct)
  case (snoc x t)
  then have "has_kind f (p @ t) Directory"
    using assms(1) by (metis append_assoc append_is_Nil_conv butlast_snoc not_Cons_self2 well_formed_fs_def)
  then show ?case
    using snoc.IH by (cases "t = []") (auto simp: has_kind_iff)
qed simp

lemma copy_entries_tree:
  assumes "copy_entries n T B p dev partial source s = Some (Inr u, s')" "quiet B" "copied_tree T F partial source s"
    and "well_formed_fs F" "apart partial source"
  shows "copied_tree T F partial source s'"
proof (cases "has_kind (cr_fs s) source Regular")
  case True
  have inside: "inside F partial s"
    using assms(3) by (simp add: copied_tree_def)
  have "\<not> at_or_below partial source"
    using assms(5) by (simp add: apart_def)
  then have F: "has_kind F source Regular"
    using True inside by (simp add: contained_def has_kind_def)
  have "has_kind F [] Directory"
    using inside assms(5) unfolding contained_def rooted_def
    by (metis apart_def at_or_below_append length_greater_0_conv self_append_conv2 take0)
  then have "source \<noteq> []"
    using F by (auto simp: has_kind_iff)
  then have clean: "clean_name (last source)"
    using F assms(4) by (auto simp: well_formed_fs_def clean_fs_def has_kind_iff)
  have none: "map_of F (source @ [last source]) = None"
    using well_formed_below [OF assms(4), of source "[last source]"] F by (force simp: has_kind_iff)
  have run: "copy_item n T B p partial source ([] @ [last source]) s = Some (Inr u, s')"
    using assms(1) True by (simp add: copy_entries_def)
  show ?thesis
    using inside clean none \<open>\<not> at_or_below partial source\<close> contained_kind
    by (intro copy_item_tree(1) [OF run assms(2,3)]) auto
next
  case False
  then have "copy_walk n T B p dev partial (walk_start source) s = Some (Inr u, s')"
    using assms(1) by (simp add: copy_entries_def)
  moreover have "walk_inv partial source (cr_fs s) (walk_start source)"
    using assms(3) contained_kind by (auto simp: walk_inv_def walk_start_def copied_tree_def)
  ultimately show ?thesis
    using copy_walk_tree assms(2-5) by (metis well_formed_fs_def)
qed

section \<open>Publication\<close>

lemma new_manifest_simps [simp]:
  "bman_entries (new_manifest T p es now) = es" "bman_source (new_manifest T p es now) = bp_source p"
  "bman_manifest_checksum_sha256 (new_manifest T p es now) = manifest_fingerprint T (new_manifest T p es now)"
  by (simp_all add: new_manifest_def Let_def manifest_fingerprint_def manifest_fields_def)

text \<open>What a successful publication does: a manifest at a free name, then a rename.\<close>

lemma publish_manifest_Inr:
  assumes "publish_manifest T B p partial final s = (Inr m, s')" "quiet B"
  obtains f now where "counts_match p s" "m = new_manifest T p (cr_entries s) now"
    "int (length (manifest_text T m)) \<le> MAX_MANIFEST_BYTES" "map_of (cr_fs s) (partial @ [''.ares-manifest.json'']) = None"
    "\<exists>d. map_of f = (map_of (cr_fs s))(partial @ [''.ares-manifest.json''] \<mapsto> d) \<and> nd_kind d = Regular \<and> nd_content d = manifest_text T m"
    "rename f partial final = Inr (cr_fs s')"
proof -
  obtain now s1 s2 s3 where c: "counts_match p s" and now: "onHost (worldB (utc_now (bt_clock T))) s = (Inr now, s1)"
    and m: "m = new_manifest T p (cr_entries s1) now" and w: "write_manifest_file T partial m s1 = (Inr (), s2)"
    and r: "changeFs (\<lambda>f. rename f partial final) s2 = (Inr (), s3)"
    and last: "onHost (cb_on_progress B \<lparr>bpr_files_completed = bman_file_count m, bpr_files_total = bman_file_count m,
        bpr_bytes_completed = bman_total_size_bytes m, bpr_bytes_total = bman_total_size_bytes m\<rparr>) s3 = (Inr (), s')"
    using assms(1) unfolding publish_manifest_def by (auto simp: bindM_Inr_iff guardM_Inr_iff getM_iff ret_iff)
  have s1: "cr_fs s1 = cr_fs s" "cr_entries s1 = cr_entries s"
    using now by (auto simp: onHost_iff worldB_iff)
  obtain g where g: "int (length (manifest_text T m)) \<le> MAX_MANIFEST_BYTES"
    "make_node (cr_fs s1) (partial @ [''.ares-manifest.json'']) Regular 384 = Inr g"
    "cr_fs s2 = append_content (partial @ [''.ares-manifest.json'']) (manifest_text T m) g"
    using w by (auto simp: write_manifest_file_def bindM_Inr_iff changeFs_Inr raise_iff split: if_splits)
  have "rename (cr_fs s2) partial final = Inr (cr_fs s')"
    using r last quiet_effects(1) [OF assms(2)] by (auto simp: changeFs_Inr onHost_iff)
  moreover have "map_of (cr_fs s2) = (map_of (cr_fs s))(partial @ [''.ares-manifest.json''] \<mapsto>
      (new_node (cr_fs s) (partial @ [''.ares-manifest.json'']) Regular 384)\<lparr>nd_content := manifest_text T m\<rparr>)"
    using g(3) make_node_Inr(4) [OF g(2)] s1 by (simp add: new_node_def)
  then have "\<exists>d. map_of (cr_fs s2) = (map_of (cr_fs s))(partial @ [''.ares-manifest.json''] \<mapsto> d) \<and> nd_kind d = Regular \<and>
      nd_content d = manifest_text T m"
    by (intro exI conjI) (assumption, simp_all add: new_node_def)
  ultimately show ?thesis
    using that [of now "cr_fs s2"] c m g(1) make_node_Inr(1) [OF g(2)] s1 by simp
qed

lemma tree_belowD:
  assumes "t \<in> set (tree_below f root)"
  shows "t \<noteq> []" "map_of f (root @ t) \<noteq> None"
proof -
  obtain p n where p: "(p, n) \<in> set f" "at_or_below root p" "length root < length p" "t = drop (length root) p"
    using assms by (auto simp: tree_below_def)
  then have "p = root @ t" "p \<in> fst ` set f"
    by (auto simp: at_or_below_iff intro: rev_image_eqI)
  then show "t \<noteq> []" "map_of f (root @ t) \<noteq> None"
    using p(3) in_keys_iff [of p f] by auto
qed

lemma published_intact:
  assumes run: "publish_manifest T B p partial final s = (Inr m, s')" "quiet B" and tree: "copied_tree T F partial source s"
    and free: "\<And>t. map_of F (final @ t) = None" and sep: "apart partial final"
    and load: "bt_load_manifest T (manifest_text T m) = Some m"
  shows "backup_intact T (cr_fs s') final m"
proof -
  let ?name = "''.ares-manifest.json''"
  obtain f now d where m: "m = new_manifest T p (cr_entries s) now" and size: "int (length (manifest_text T m)) \<le> MAX_MANIFEST_BYTES"
    and unused: "map_of (cr_fs s) (partial @ [?name]) = None"
    and f: "map_of f = (map_of (cr_fs s))(partial @ [?name] \<mapsto> d)" "nd_kind d = Regular" "nd_content d = manifest_text T m"
    and ren: "rename f partial final = Inr (cr_fs s')"
    using publish_manifest_Inr [OF run] by blast
  have inside: "inside F partial s"
    using tree by (simp add: copied_tree_def)
  have "map_of (cr_fs s) (final @ t) = None" for t
    using inside free apart_append [OF sep] by (simp add: contained_def)
  then have none: "map_of f (final @ t) = None" for t
    using f(1) apart_append [OF sep, of t] by (auto simp: at_or_below_iff)
  note moved = rename_Inr(3) [OF ren none]
  have at: "map_of (cr_fs s') (final @ t) = (if t = [?name] then Some d else map_of (cr_fs s) (partial @ t))" for t
    using moved [of t] f(1) by simp
  show ?thesis
    unfolding backup_intact_def
  proof (intro conjI ballI)
    show "has_kind (cr_fs s') final Directory"
      using at [of "[]"] contained_kind [OF inside] by (simp add: has_kind_def)
    show "bman_manifest_checksum_sha256 m = manifest_fingerprint T m"
      by (simp add: m)
    then show "destination_manifest_matches T (cr_fs s') final m"
      using at [of "[?name]"] f size load by (simp add: destination_manifest_matches_def st_size_def)
  next
    fix e
    assume "e \<in> set (bman_entries m)"
    then have e: "entry_matches T (cr_fs s) partial e"
      using tree m by (simp add: copied_tree_def)
    then have "relative_of e \<noteq> [?name]"
      using unused by (auto simp: entry_matches_def)
    then show "entry_matches T (cr_fs s') final e"
      using e at [of "relative_of e"] by (simp add: entry_matches_def)
  next
    fix t
    assume "t \<in> set (tree_below (cr_fs s') final)"
    then have t: "t \<noteq> []" "map_of (cr_fs s') (final @ t) \<noteq> None"
      by (simp_all add: tree_belowD)
    show "as_posix t \<in> insert ?name ((\<lambda>e. as_posix (relative_of e)) ` set (bman_entries m))"
    proof (cases "t = [?name]")
      case True
      then show ?thesis
        by (simp add: as_posix_def)
    next
      case False
      then have "t \<in> relative_of ` set (cr_entries s)"
        using t at [of t] tree unfolding copied_tree_def by auto
      then show ?thesis
        by (auto simp: m)
    qed
  qed
qed

section \<open>From the plan to a fresh partial directory\<close>

lemma plan_still_valid_Inr:
  assumes "plan_still_valid T f now p = Inr u" "clean_name (bp_backup_id p)"
  shows "map_of f (path_parts (bs_path (bp_source p))) \<noteq> None"
    "path_parts (bd_backup_path (bp_destination p)) = path_parts (bd_root_path (bp_destination p)) @ [''ARES'', bp_backup_id p]"
    "\<forall>w \<in> set (path_parts (bd_root_path (bp_destination p))). clean_name w"
proof -
  let ?source = "path_parts (bs_path (bp_source p))" and ?root = "path_parts (bd_root_path (bp_destination p))"
  have canonical: "x = path_parts raw \<and> map_of f x \<noteq> None \<and> (\<forall>w \<in> set x. clean_name w)" if "canonical_existing f raw code = Inr x" for raw code x
  proof -
    have "x = path_parts raw \<and> map_of f x \<noteq> None \<and> ''..'' \<notin> set x"
      using that by (auto simp: canonical_existing_def prog_simps split: if_splits)
    then show ?thesis
      by (auto simp: path_parts_def clean_name_def dest: split_char_parts)
  qed
  obtain source destination where c: "canonical_existing f (bs_path (bp_source p)) ''BACKUP_SOURCE_INVALID'' = Inr source"
    "canonical_existing f (bd_root_path (bp_destination p)) ''BACKUP_DESTINATION_INVALID'' = Inr destination"
    and path: "path_str (destination @ [''ARES'', bp_backup_id p]) = bd_backup_path (bp_destination p)"
    using assms(1) unfolding plan_still_valid_def by (auto simp: prog_simps split: if_splits)
  show "map_of f ?source \<noteq> None"
    using canonical [OF c(1)] by auto
  show "\<forall>w \<in> set ?root. clean_name w"
    using canonical [OF c(2)] by simp
  have "path_parts (path_str (destination @ [''ARES'', bp_backup_id p])) = destination @ [''ARES'', bp_backup_id p]"
    using canonical [OF c(2)] assms(2) by (intro path_parts_path_str) (auto simp: clean_name_def)
  then show "path_parts (bd_backup_path (bp_destination p)) = ?root @ [''ARES'', bp_backup_id p]"
    using canonical [OF c(2)] path by simp
qed

lemma well_formed_make_node:
  assumes "well_formed_fs f" "make_node f p k mode = Inr f'" "\<forall>w \<in> set p. clean_name w"
  shows "well_formed_fs f'"
proof -
  note made = make_node_Inr [OF assms(2)]
  have "has_kind f' q Directory" if "has_kind f q Directory" for q
    using that made(1,4) by (auto simp: has_kind_iff)
  then show ?thesis
    using assms(1,3) made by (auto simp: well_formed_fs_def clean_fs_def)
qed

lemma well_formed_rooted:
  assumes "well_formed_fs f" "has_kind f (butlast p) Directory"
  shows "rooted f p"
  unfolding rooted_def
proof (intro allI impI)
  fix k
  assume k: "k < length p"
  then have "butlast p = take k p @ drop k (butlast p)"
    by (metis append_take_drop_id take_butlast)
  then show "has_kind f (take k p) Directory"
    using well_formed_below [OF assms(1), of "take k p" "drop k (butlast p)"] assms(2)
    by (cases "drop k (butlast p) = []") (auto simp: has_kind_iff)
qed

lemma absent_below:
  assumes "well_formed_fs f" "map_of f p = None"
  shows "map_of f (p @ t) = None"
  using assms well_formed_below [of f p t] by (cases "t = []") (fastforce simp: has_kind_iff)+

lemma not_existing: "\<not> path_exists_or_symlink f p \<Longrightarrow> map_of f p = None"
  by (cases "lstat f p") (auto simp: path_exists_or_symlink_def dest: lstat_Inl)

text \<open>The copy starts: \<open>f\<close> is the file system before the creation, \<open>F\<close> the one with the \<open>ARES\<close> directory.\<close>

definition started :: "fs \<Rightarrow> path \<Rightarrow> path \<Rightarrow> path \<Rightarrow> fs \<Rightarrow> 'w copy_run \<Rightarrow> bool" where
  "started f ares partial final F s \<longleftrightarrow> well_formed_fs F \<and> (\<forall>q. q \<noteq> ares \<longrightarrow> map_of F q = map_of f q) \<and>
     inside F partial s \<and> cr_entries s = [] \<and> (\<forall>t. map_of F (final @ t) = None) \<and> (\<forall>t. map_of F (partial @ t) = None) \<and>
     (\<forall>t. t \<noteq> [] \<longrightarrow> map_of (cr_fs s) (partial @ t) = None)"

lemma make_ares_root_Inr:
  assumes "make_ares_root ares f = Inr F" "well_formed_fs f" "\<forall>w \<in> set ares. clean_name w"
  shows "well_formed_fs F" "q \<noteq> ares \<Longrightarrow> map_of F q = map_of f q"
proof -
  have "F = f \<or> make_node f ares Directory 448 = Inr F"
    using assms(1) by (auto simp: make_ares_root_def split: sum.splits if_splits)
  then show "well_formed_fs F" "q \<noteq> ares \<Longrightarrow> map_of F q = map_of f q"
    using assms(2) well_formed_make_node [OF assms(2) _ assms(3)] by (auto dest: make_node_Inr(4))
qed

lemma prepare_started:
  assumes "prepare_backup_destination ares final partial s0 = (r, s)" "well_formed_fs (cr_fs s0)" "cr_entries s0 = []"
    and "partial = ares @ [x]" "final = ares @ [y]" "x \<noteq> y" "clean_name x" "\<forall>w \<in> set ares. clean_name w"
  shows "r = Inl e \<Longrightarrow> q \<noteq> ares \<Longrightarrow> map_of (cr_fs s) q = map_of (cr_fs s0) q"
    and "r = Inr u \<Longrightarrow> \<exists>F. started (cr_fs s0) ares partial final F s"
proof -
  let ?f = "cr_fs s0"
  consider "s = s0" "r \<noteq> Inr ()" | F e where "make_ares_root ares ?f = Inr F" "cr_fs s = F" "r = Inl e"
    | F g where "make_ares_root ares ?f = Inr F" "make_node F partial Directory 448 = Inr g" "cr_fs s = g" "cr_entries s = []" "r = Inr ()"
      "\<not> path_exists_or_symlink ?f final" "\<not> path_exists_or_symlink ?f partial"
    using assms(1,3) unfolding prepare_backup_destination_def changeFs_def
    by (auto simp: prog_eval split: sum.splits if_splits)
  note cases = this
  show "map_of (cr_fs s) q = map_of ?f q" if "r = Inl e" "q \<noteq> ares"
    using cases that make_ares_root_Inr(2) [OF _ assms(2,8)] by cases auto
  show "\<exists>F. started ?f ares partial final F s" if "r = Inr u"
    using cases
  proof cases
    case (3 F g)
    note F = make_ares_root_Inr [OF 3(1) assms(2,8)]
    have free: "map_of F partial = None" "map_of F final = None"
      using F(2) 3(6,7) assms(4,5) not_existing by auto
    have g: "map_of g = (map_of F)(partial \<mapsto> new_node F partial Directory 448)" "has_kind F (butlast partial) Directory"
      using make_node_Inr [OF 3(2)] by auto
    have "contained F partial g"
      using well_formed_rooted [OF F(1) g(2)] g(1) by (auto simp: contained_def has_kind_def new_node_def)
    moreover have "map_of g (partial @ t) = None" if "t \<noteq> []" for t
      using that g(1) absent_below [OF F(1) free(1)] by simp
    ultimately have "started ?f ares partial final F s"
      using F absent_below [OF F(1)] free 3(3,4) by (simp add: started_def)
    then show ?thesis ..
  qed (use that in auto)
qed

abbreviation ares_path :: "backup_plan \<Rightarrow> path" where
  "ares_path p \<equiv> path_parts (bd_root_path (bp_destination p)) @ [''ARES'']"

abbreviation final_path :: "backup_plan \<Rightarrow> path" where
  "final_path p \<equiv> path_parts (bd_backup_path (bp_destination p))"

abbreviation source_path :: "backup_plan \<Rightarrow> path" where
  "source_path p \<equiv> path_parts (bs_path (bp_source p))"

lemma create_backup_start:
  assumes wf: "well_formed_fs (bh_fs h)" and id: "clean_name (bp_backup_id p)"
  shows "(\<exists>e h'. (\<forall>n. create_backup n T B p h = Some (Inl e, h')) \<and> (\<forall>q. q \<noteq> ares_path p \<longrightarrow> map_of (bh_fs h') q = map_of (bh_fs h) q)) \<or>
    (\<exists>F s. map_of (bh_fs h) (source_path p) \<noteq> None \<and> final_path p = ares_path p @ [bp_backup_id p] \<and>
      started (bh_fs h) (ares_path p) (partial_path p) (final_path p) F s \<and>
      (\<forall>n. create_backup n T B p h = map_option (\<lambda>(r, s). (r, cr_host s))
         (catchF (copy_and_publish n T B p (source_path p) (partial_path p) (final_path p)) (\<lambda>e. liftF (abandon (partial_path p) e)) s)))"
proof -
  obtain v h0 where rev: "revalidate_plan T p h = (v, h0)"
    by fastforce
  have h0: "bh_fs h0 = bh_fs h"
    using rev by (auto simp: revalidate_plan_def prog_eval worldB_def split: prod.splits sum.splits)
  show ?thesis
  proof (cases v)
    case (Inl e)
    then have "\<forall>n. create_backup n T B p h = Some (Inl e, h0)"
      using rev by (simp add: create_backup_def bindF_def liftF_def)
    then show ?thesis
      using h0 by (intro disjI1) auto
  next
    case (Inr u)
    then obtain now where valid: "plan_still_valid T (bh_fs h) now p = Inr u"
      using rev by (auto simp: revalidate_plan_def bindM_Inr_iff getM_iff liftE_iff worldB_iff)
    note plan = plan_still_valid_Inr [OF valid id]
    define s0 where "s0 = \<lparr>cr_host = h0, cr_entries = [], cr_files_done = 0, cr_bytes_done = 0\<rparr>"
    obtain q s where prep: "prepare_backup_destination (ares_path p) (final_path p) (partial_path p) s0 = (q, s)"
      by fastforce
    have rest: "create_backup n T B p h = map_option (\<lambda>(r, s). (r, cr_host s)) (case q of Inl e \<Rightarrow> Some (Inl e, s) | Inr _ \<Rightarrow>
        catchF (copy_and_publish n T B p (source_path p) (partial_path p) (final_path p)) (\<lambda>e. liftF (abandon (partial_path p) e)) s)" for n
      using rev Inr prep by (cases q) (simp_all add: create_backup_def bindF_def liftF_def Let_def s0_def)
    have clean: "\<forall>w \<in> set (ares_path p). clean_name w"
      using plan(3) by (simp add: clean_name_def)
    have partial: "partial_path p = ares_path p @ [''.partial-'' @ bp_backup_id p]" "''.partial-'' @ bp_backup_id p \<noteq> bp_backup_id p"
      "clean_name (''.partial-'' @ bp_backup_id p)"
      using id by (auto simp: partial_path_def clean_name_def)
    have final: "final_path p = ares_path p @ [bp_backup_id p]"
      using plan(2) by simp
    have s0: "cr_fs s0 = bh_fs h" "cr_entries s0 = []"
      using h0 by (simp_all add: s0_def)
    note start = prepare_started [OF prep _ s0(2) partial(1) final partial(2,3) clean, unfolded s0(1), OF wf]
    show ?thesis
    proof (cases q)
      case (Inl e)
      then show ?thesis
        using rest start(1) [OF Inl] by (intro disjI1 exI [of _ e] exI [of _ "cr_host s"]) simp
    next
      case (Inr u)
      then obtain F where "started (bh_fs h) (ares_path p) (partial_path p) (final_path p) F s"
        using start(2) by blast
      then show ?thesis
        using plan(1) final rest Inr by (intro disjI2 exI [of _ F] exI [of _ s]) simp
    qed
  qed
qed

lemma create_backup_started:
  assumes run: "create_backup n T B p h = Some (r, h')" and wf: "well_formed_fs (bh_fs h)" and id: "clean_name (bp_backup_id p)"
  obtains (refused) e where "r = Inl e" "\<And>q. q \<noteq> ares_path p \<Longrightarrow> map_of (bh_fs h') q = map_of (bh_fs h) q"
  | (copying) F s s' where "map_of (bh_fs h) (source_path p) \<noteq> None" "final_path p = ares_path p @ [bp_backup_id p]"
      "started (bh_fs h) (ares_path p) (partial_path p) (final_path p) F s"
      "catchF (copy_and_publish n T B p (source_path p) (partial_path p) (final_path p)) (\<lambda>e. liftF (abandon (partial_path p) e)) s
         = Some (r, s')" "h' = cr_host s'"
  using create_backup_start [OF wf id, of T B] run
proof (elim disjE exE conjE, goal_cases)
  case (1 e h'')
  then show ?case
    by (intro 1(1) [of e]) simp_all
next
  case (2 F s)
  then show ?case
    by (auto intro: 2(2))
qed

lemma started_apart:
  assumes "started f ares partial final F s" "map_of f source \<noteq> None" "\<not> at_or_below source ares"
  shows "partial = ares @ [x] \<Longrightarrow> apart partial source" "final = ares @ [y] \<Longrightarrow> apart final source"
proof -
  have "source \<noteq> ares"
    using assms(3) by auto
  then have exists: "map_of F source \<noteq> None"
    using assms(1,2) by (simp add: started_def)
  have "apart q source" if q: "q = ares @ [x]" "\<forall>t. map_of F (q @ t) = None" for q x
  proof -
    have "\<not> at_or_below q source"
      using q(2) exists by (auto simp: at_or_below_iff)
    moreover have "\<not> at_or_below source q"
    proof
      assume "at_or_below source q"
      then obtain t where "ares @ [x] = source @ t"
        using q(1) by (auto simp: at_or_below_iff)
      then have "source = q \<or> at_or_below source ares"
        using q(1) by (cases t rule: rev_cases) (auto simp: at_or_below_iff)
      then show False
        using assms(3) q(2) exists by (metis append_Nil2)
    qed
    ultimately show ?thesis
      by (simp add: apart_def)
  qed
  moreover have "\<forall>t. map_of F (partial @ t) = None" "\<forall>t. map_of F (final @ t) = None"
    using assms(1) by (simp_all add: started_def)
  ultimately show "partial = ares @ [x] \<Longrightarrow> apart partial source" "final = ares @ [y] \<Longrightarrow> apart final source"
    by blast+
qed

lemma siblings_apart: "x \<noteq> y \<Longrightarrow> apart (ares @ [x]) (ares @ [y])"
  by (auto simp: apart_def at_or_below_iff)

lemma remove_partial_result: "remove_partial partial s = (r, s') \<Longrightarrow> s' = s \<or> cr_fs s' = rmtree (cr_fs s) partial"
  by (auto simp: remove_partial_def bindM_def getM_def ret_def raise_def changeFs_def split: sum.splits exc.splits if_splits)

lemma abandon_raises:
  assumes "abandon partial e s = (r, s')"
  shows "\<exists>e'. r = Inl e'"
  using assms unfolding abandon_def
  by (auto simp: bindM_def raise_def split: sum.splits exc.splits if_splits prod.splits)

lemma copy_and_publish_Inr:
  assumes "copy_and_publish n T B p source partial final s = Some (Inr m, s')" "quiet B"
    and "started f ares partial final F s" "apart partial source" "apart final source" "apart partial final"
    and "bt_load_manifest T (manifest_text T m) = Some m"
  shows "backup_intact T (cr_fs s') final m" "\<forall>e \<in> set (bman_entries m). source_agrees T (cr_fs s') source e"
    "bman_source m = bp_source p" "int (length (entry_files (bman_entries m))) = bp_included_file_count p"
    "total_size (bman_entries m) = bs_estimated_size_bytes (bp_source p)"
proof -
  obtain dev u s1 where copied: "copy_entries n T B p dev partial source s = Some (Inr u, s1)"
    and published: "publish_manifest T B p partial final s1 = (Inr m, s')"
    using assms(1) unfolding copy_and_publish_def by (auto simp: bindF_iff liftF_iff raise_iff split: option.splits)
  have "copied_tree T F partial source s"
    using assms(3) by (simp add: copied_tree_def started_def)
  then have tree: "copied_tree T F partial source s1"
    using copy_entries_tree [OF copied assms(2)] assms(3,4) by (simp add: started_def)
  have free: "map_of F (final @ t) = None" for t
    using assms(3) by (simp add: started_def)
  show "backup_intact T (cr_fs s') final m"
    by (rule published_intact [OF published assms(2) tree free assms(6,7)])
  obtain g now d where m: "counts_match p s1" "m = new_manifest T p (cr_entries s1) now"
    and g: "map_of g = (map_of (cr_fs s1))(partial @ [''.ares-manifest.json''] \<mapsto> d)" "rename g partial final = Inr (cr_fs s')"
    using publish_manifest_Inr [OF published assms(2)] by metis
  show "bman_source m = bp_source p" "int (length (entry_files (bman_entries m))) = bp_included_file_count p"
    "total_size (bman_entries m) = bs_estimated_size_bytes (bp_source p)"
    using m by (auto simp: counts_match_def)
  have outside: "map_of g q = map_of F q" if "\<not> at_or_below partial q" for q
    using that g(1) tree by (auto simp: copied_tree_def contained_def)
  have "map_of g (final @ t) = None" for t
    using outside apart_append [OF assms(6)] free by simp
  then have "map_of (cr_fs s') (source @ t) = map_of F (source @ t)" for t
    using rename_Inr(4) [OF g(2)] outside apart_append [OF assms(4)] apart_append [OF assms(5)] by simp
  then show "\<forall>e \<in> set (bman_entries m). source_agrees T (cr_fs s') source e"
    using tree m(2) by (simp add: copied_tree_def source_agrees_def)
qed

lemma create_backup_intact:
  assumes "create_backup n T B p h = Some (Inr m, h')" "quiet B" "well_formed_fs (bh_fs h)" "clean_name (bp_backup_id p)"
    and "\<not> at_or_below (source_path p) (ares_path p)" "bt_load_manifest T (manifest_text T m) = Some m"
  shows "backup_intact T (bh_fs h') (final_path p) m \<and> (\<forall>e \<in> set (bman_entries m). source_agrees T (bh_fs h') (source_path p) e) \<and>
    bman_source m = bp_source p \<and> int (length (entry_files (bman_entries m))) = bp_included_file_count p \<and>
    total_size (bman_entries m) = bs_estimated_size_bytes (bp_source p)"
  using assms(1,3,4)
proof (cases rule: create_backup_started)
  case (copying F s s')
  then have run: "copy_and_publish n T B p (source_path p) (partial_path p) (final_path p) s = Some (Inr m, s')"
    by (auto simp: catchF_iff liftF_iff dest: abandon_raises)
  have partial: "partial_path p = ares_path p @ [''.partial-'' @ bp_backup_id p]"
    by (simp add: partial_path_def)
  have "apart (partial_path p) (final_path p)"
    unfolding partial copying(2) by (rule siblings_apart) simp
  note result = copy_and_publish_Inr [OF run assms(2) copying(3) started_apart(1) [OF copying(3,1) assms(5) partial]
      started_apart(2) [OF copying(3,1) assms(5) copying(2)] this assms(6)]
  show ?thesis
    using result copying(5) by simp
qed simp

section \<open>What every outcome leaves behind\<close>

definition leaves :: "('s \<Rightarrow> bool) \<Rightarrow> (exc + 'a \<Rightarrow> 's \<Rightarrow> bool) \<Rightarrow> ('s, 'a) prog \<Rightarrow> bool" where
  "leaves I Q m \<longleftrightarrow> (\<forall>s r s'. I s \<longrightarrow> m s = (r, s') \<longrightarrow> Q r s')"

lemma leaves_bindM:
  assumes "preserves I m" "\<And>x. leaves I Q (f x)" "\<And>e s. I s \<Longrightarrow> Q (Inl e) s"
  shows "leaves I Q (bindM m f)"
  unfolding leaves_def
proof (intro allI impI)
  fix s r s'
  assume s: "I s" and run: "bindM m f s = (r, s')"
  obtain q s1 where m: "m s = (q, s1)"
    by fastforce
  then have "I s1"
    using preservesD [OF assms(1) s] by blast
  then show "Q r s'"
    using run m assms(2,3) by (cases q) (auto simp: bindM_def leaves_def)
qed

lemma publish_outcome:
  assumes "quiet B"
  shows "leaves (inside F partial) (\<lambda>r s'. (inside F partial s' \<and> (\<exists>e. r = Inl e)) \<or> (\<exists>f. contained F partial f \<and> rename f partial final = Inr (cr_fs s')))
    (publish_manifest T B p partial final)" (is "leaves _ ?Q _")
proof -
  have renamed: "leaves (inside F partial) ?Q (bindM (changeFs (\<lambda>f. rename f partial final)) (\<lambda>_. bindM (onHost (cb_on_progress B x)) (\<lambda>_. ret m)))"
    for x and m :: backup_manifest
    unfolding leaves_def
  proof (intro allI impI)
    fix s :: "'a copy_run" and r s'
    assume s: "inside F partial s"
      and run: "bindM (changeFs (\<lambda>f. rename f partial final)) (\<lambda>_. bindM (onHost (cb_on_progress B x)) (\<lambda>_. ret m)) s = (r, s')"
    show "?Q r s'"
    proof (cases "rename (cr_fs s) partial final")
      case (Inl e)
      then show ?thesis
        using s run by (auto simp: bindM_def changeFs_def)
    next
      case (Inr f)
      obtain q h where cb: "cb_on_progress B x ((cr_host s)\<lparr>bh_fs := f\<rparr>) = (q, h)"
        by fastforce
      have "s' = s\<lparr>cr_host := h\<rparr>"
        using run Inr cb by (cases q) (auto simp: bindM_def changeFs_def onHost_def ret_def)
      then show ?thesis
        using s Inr quiet_effects(1) [OF assms cb] by auto
    qed
  qed
  have clock: "preserves (inside F partial) (onHost (worldB (utc_now (bt_clock T))))"
    by (auto simp: preserves_def onHost_def worldB_def split: prod.splits)
  have guard: "preserves (inside F partial) (\<lambda>s. guardM (c s) e s)" for c e
    by (auto simp: preserves_def guardM_def)
  show ?thesis
    unfolding publish_manifest_def
    by (intro leaves_bindM renamed clock guard inside_write_manifest preserves_getM) simp_all
qed

lemma copy_and_publish_outcome:
  assumes "copy_and_publish n T B p source partial final s = Some (r, s')" "quiet B" "inside F partial s"
  shows "(inside F partial s' \<and> (\<exists>e. r = Inl e)) \<or> (\<exists>f. contained F partial f \<and> rename f partial final = Inr (cr_fs s'))"
proof -
  consider e where "r = Inl e" "s' = s" | dev e where "copy_entries n T B p dev partial source s = Some (Inl e, s')" "r = Inl e"
    | dev u s1 where "copy_entries n T B p dev partial source s = Some (Inr u, s1)" "publish_manifest T B p partial final s1 = (r, s')"
    using assms(1) unfolding copy_and_publish_def by (auto simp: bindF_iff liftF_iff raise_iff split: option.splits)
  then show ?thesis
  proof cases
    case 1
    then show ?thesis
      using assms(3) by simp
  next
    case 2
    then show ?thesis
      using keepsFD [OF inside_copy_entries [OF assms(2)] assms(3)] by blast
  next
    case 3
    then show ?thesis
      using publish_outcome [OF assms(2)] keepsFD [OF inside_copy_entries [OF assms(2)] assms(3)] unfolding leaves_def by blast
  qed
qed

text \<open>The errors after which the partial directory is removed.\<close>

definition cleaned_up :: "exc \<Rightarrow> bool" where
  "cleaned_up e \<longleftrightarrow> e = CancelledError \<or> (\<exists>c. e = BackupToolError c)"

lemma remove_partial_directory:
  "has_kind (cr_fs s) partial Directory \<Longrightarrow> \<exists>s'. remove_partial partial s = (Inr (), s') \<and> cr_fs s' = rmtree (cr_fs s) partial"
  by (auto simp: remove_partial_def has_kind_iff prog_eval changeFs_def)

lemma abandon_outcome:
  assumes "abandon partial e s = (r, s')"
  shows "s' = s \<or> cr_fs s' = rmtree (cr_fs s) partial"
    and "r = Inl e' \<Longrightarrow> cleaned_up e' \<Longrightarrow> has_kind (cr_fs s) partial Directory \<Longrightarrow> cr_fs s' = rmtree (cr_fs s) partial"
proof -
  have "(s' = s \<and> r = Inl e \<and> \<not> cleaned_up e) \<or> (\<exists>q. remove_partial partial s = (q, s'))"
    using assms unfolding abandon_def cleaned_up_def
    by (auto simp: bindM_def raise_def split: sum.splits exc.splits if_splits prod.splits)
  then show "s' = s \<or> cr_fs s' = rmtree (cr_fs s) partial"
    "r = Inl e' \<Longrightarrow> cleaned_up e' \<Longrightarrow> has_kind (cr_fs s) partial Directory \<Longrightarrow> cr_fs s' = rmtree (cr_fs s) partial"
    using remove_partial_result remove_partial_directory [of s partial] by fastforce+
qed

lemma rename_published:
  assumes "rename f partial final = Inr f'" "contained F partial f" "\<And>t. map_of F (final @ t) = None" "apart partial final"
  shows "has_kind f' final Directory" "map_of f' (partial @ t) = None"
    and "\<not> at_or_below partial q \<Longrightarrow> \<not> at_or_below final q \<Longrightarrow> map_of f' q = map_of F q"
proof -
  have none: "map_of f (final @ t) = None" for t
    using assms(2,3) apart_append [OF assms(4)] by (simp add: contained_def)
  show "has_kind f' final Directory"
    using rename_Inr(3) [OF assms(1) none, of "[]"] contained_kind [OF assms(2)] by (simp add: has_kind_def)
  show "map_of f' (partial @ t) = None"
    using rename_Inr(5) [OF assms(1) none] assms(4) by (simp add: apart_def)
  show "map_of f' q = map_of F q" if "\<not> at_or_below partial q" "\<not> at_or_below final q"
    using rename_Inr(4) [OF assms(1) none that] assms(2) that by (simp add: contained_def)
qed

lemma create_backup_outcome:
  fixes T :: "'w backup_env"
  assumes "create_backup n T B p h = Some (r, h')" "quiet B" "well_formed_fs (bh_fs h)" "clean_name (bp_backup_id p)"
  shows "(\<forall>q. q \<noteq> ares_path p \<longrightarrow> \<not> at_or_below (partial_path p) q \<longrightarrow> \<not> at_or_below (final_path p) q \<longrightarrow>
        map_of (bh_fs h') q = map_of (bh_fs h) q) \<and>
    (\<forall>m. r = Inr m \<longrightarrow> has_kind (bh_fs h') (final_path p) Directory \<and>
       (\<forall>t. map_of (bh_fs h) (final_path p @ t) = None \<and> map_of (bh_fs h') (partial_path p @ t) = None)) \<and>
    (\<forall>e. r = Inl e \<longrightarrow> cleaned_up e \<longrightarrow> map_of (bh_fs h') (final_path p) = map_of (bh_fs h) (final_path p) \<longrightarrow>
       (\<forall>q. q \<noteq> ares_path p \<longrightarrow> map_of (bh_fs h') q = map_of (bh_fs h) q))"
  using assms(1,3,4)
proof (cases rule: create_backup_started)
  case (copying F s s')
  let ?partial = "partial_path p" and ?final = "final_path p"
  have start: "inside F ?partial s" "\<And>q. q \<noteq> ares_path p \<Longrightarrow> map_of F q = map_of (bh_fs h) q"
    "\<And>t. map_of F (?partial @ t) = None" "\<And>t. map_of F (?final @ t) = None"
    using copying(3) by (simp_all add: started_def)
  have sep: "apart ?partial ?final"
    unfolding partial_path_def copying(2) using siblings_apart [of "''.partial-'' @ bp_backup_id p" "bp_backup_id p" "ares_path p"] by simp
  have final: "map_of (bh_fs h) (?final @ t) = None" for t
    using start(2) [of "?final @ t"] start(4) [of t] copying(2) by simp
  consider (published) f f' where "contained F ?partial f" "rename f ?partial ?final = Inr f'" "map_of (cr_fs s') = map_of f'"
    | (removed) e where "r = Inl e" "\<And>q. map_of (cr_fs s') q = map_of F q"
    | (kept) e where "r = Inl e" "\<not> cleaned_up e" "inside F ?partial s'"
  proof -
    obtain q s1 where q: "copy_and_publish n T B p (source_path p) ?partial ?final s = Some (q, s1)"
      and r: "(\<exists>x. q = Inr x \<and> r = Inr x \<and> s' = s1) \<or> (\<exists>e. q = Inl e \<and> abandon ?partial e s1 = (r, s'))"
      using copying(4) by (auto simp: catchF_iff liftF_iff)
    consider (copying) e where "q = Inl e" "inside F ?partial s1"
      | (finished) f where "contained F ?partial f" "rename f ?partial ?final = Inr (cr_fs s1)"
      using copy_and_publish_outcome [OF q assms(2) start(1)] by blast
    then show ?thesis
    proof cases
      case (copying e)
      then have ab: "abandon ?partial e s1 = (r, s')"
        using r by simp
      obtain e' where e': "r = Inl e'"
        using abandon_raises [OF ab] by blast
      have same: "map_of (rmtree (cr_fs s1) ?partial) x = map_of F x" for x
        using copying(2) start(3) by (auto simp: contained_def at_or_below_iff)
      show ?thesis
      proof (cases "cr_fs s' = rmtree (cr_fs s1) ?partial")
        case True
        then show ?thesis
          using removed [OF e'] same by simp
      next
        case False
        then have "s' = s1" "\<not> cleaned_up e'"
          using abandon_outcome [OF ab] e' contained_kind [OF copying(2)] by auto
        then show ?thesis
          using kept [OF e'] copying(2) by simp
      qed
    next
      case (finished f)
      have "map_of (cr_fs s') = map_of (cr_fs s1)"
      proof (cases "s' = s1")
        case False
        then have "cr_fs s' = rmtree (cr_fs s1) ?partial"
          using r abandon_outcome(1) by blast
        then show ?thesis
          using rename_published(2) [OF finished(2,1) start(4) sep] by (auto simp: at_or_below_iff fun_eq_iff)
      qed simp
      then show ?thesis
        using published finished by blast
    qed
  qed
  then show ?thesis
  proof cases
    case (published f f')
    note after = rename_published [OF published(2,1) start(4) sep]
    have "map_of (bh_fs h') = map_of f'" "has_kind (bh_fs h') q k = has_kind f' q k" for q k
      using published(3) copying(5) by (simp_all add: has_kind_def)
    moreover obtain y where "map_of f' ?final = Some y"
      using after(1) by (auto simp: has_kind_iff)
    ultimately show ?thesis
      using after start(2) final final [of "[]"] by simp
  next
    case (removed e)
    then show ?thesis
      using start(2) copying(5) by simp
  next
    case (kept e)
    then show ?thesis
      using start(2) copying(5) by (simp add: contained_def)
  qed
qed simp

end
