(* ===== verification/Sample_Backup.thy ===== *)
theory Sample_Backup
  imports Backup_Copy
begin

text \<open>
  A small backup that the witnesses evaluate: a directory with a file, a subdirectory and a link on one disk,
  and an empty second disk. The checksum is the text itself and every JSON text is one letter.
\<close>

definition shelf_node :: "node_kind \<Rightarrow> string \<Rightarrow> string \<Rightarrow> int \<Rightarrow> int \<Rightarrow> int \<Rightarrow> node" where
  "shelf_node k c d mode mtime ino =
     \<lparr>nd_kind = k, nd_content = c, nd_mode = mode, nd_mtime = mtime, nd_dev = d, nd_ino = ino\<rparr>"

definition shelf_fs :: fs where
  "shelf_fs =
     [([], shelf_node Directory [] ''8:1'' 420 7 1), ([''data''], shelf_node Directory [] ''8:1'' 420 7 2),
      ([''data'', ''b.txt''], shelf_node Regular ''beta'' ''8:1'' 420 7 3),
      ([''data'', ''docs''], shelf_node Directory [] ''8:1'' 420 7 4),
      ([''data'', ''docs'', ''a.txt''], shelf_node Regular ''alpha'' ''8:1'' 420 7 5),
      ([''data'', ''link''], shelf_node Link [] ''8:1'' 420 7 6), ([''usb''], shelf_node Directory [] ''9:1'' 420 7 7)]"

definition shelf_host :: "nat backup_host" where
  "shelf_host = \<lparr>bh_fs = shelf_fs, bh_world = 2\<rparr>"

definition shelf_tools :: "backup_manifest option \<Rightarrow> nat backup_env" where
  "shelf_tools stored = \<lparr>bt_mountinfo = Inr (''1 0 8:1 / / rw - ext4 /dev/sda1 rw'' @ [CHR 0x0A] @ ''2 1 9:1 / /usb rw - ext4 /dev/sdb1 rw''),
     bt_block_path = (\<lambda>_. None), bt_sys_file = (\<lambda>_. None), bt_statvfs = (\<lambda>_ _. Inr (20000000, 1)),
     bt_access = (\<lambda>_ _. True), bt_sha256 = (\<lambda>s. s), bt_dumps = (\<lambda>_. ''J''), bt_load_manifest = (\<lambda>_. stored),
     bt_clock = \<lparr>clk_now = (\<lambda>n. (5, Suc n)), clk_uuid4 = (\<lambda>n. (''u'', Suc n))\<rparr>,
     bt_random_id = (\<lambda>n. (if n = 0 then ''b1'' else ''p1'', Suc n))\<rparr>"

definition shelf_plan :: backup_plan where
  "shelf_plan = draft_backup_plan (shelf_tools None) [''data''] [''usb'']
     \<lparr>mi_device_id = ''8:1'', mi_mount_point = [], mi_filesystem_type = ''ext4'', mi_source = ''/dev/sda1'', mi_options = [''rw'']\<rparr>
     \<lparr>mi_device_id = ''9:1'', mi_mount_point = [''usb''], mi_filesystem_type = ''ext4'', mi_source = ''/dev/sdb1'', mi_options = [''rw'']\<rparr>
     default_backup_policy
     \<lparr>sc_bytes_total = 9, sc_file_count = 2, sc_directory_count = 1,
      sc_exclusions = [\<lparr>bx_relative_path = ''link'', bx_reason = ''symlink_not_followed''\<rparr>]\<rparr> 20000000 ''b1'' ''p1'' 5"

definition shelf_manifest :: backup_manifest where
  "shelf_manifest = new_manifest (shelf_tools None) shelf_plan
     [\<lparr>be_relative_path = ''b.txt'', be_size_bytes = 4, be_mtime_ns = 7, be_mode = 420, be_entry_type = Entry_file, be_checksum_sha256 = Some ''beta''\<rparr>,
      \<lparr>be_relative_path = ''docs'', be_size_bytes = 0, be_mtime_ns = 7, be_mode = 420, be_entry_type = Entry_directory, be_checksum_sha256 = None\<rparr>,
      \<lparr>be_relative_path = ''docs/a.txt'', be_size_bytes = 5, be_mtime_ns = 7, be_mode = 420, be_entry_type = Entry_file, be_checksum_sha256 = Some ''alpha''\<rparr>] 5"

definition shelf_env :: "nat backup_env" where
  "shelf_env = shelf_tools (Some shelf_manifest)"

definition shelf_callbacks :: "nat backup_callbacks" where
  "shelf_callbacks = \<lparr>cb_on_progress = (\<lambda>_ s. (Inr (), s)), cb_on_entry = (\<lambda>_ s. (Inr (), s))\<rparr>"

text \<open>Callbacks that cancel at the second entry.\<close>

definition cancelling_callbacks :: "nat backup_callbacks" where
  "cancelling_callbacks = \<lparr>cb_on_progress = (\<lambda>_ s. (Inr (), s)),
     cb_on_entry = (\<lambda>e s. if be_relative_path e = ''docs'' then (Inl CancelledError, s) else (Inr (), s))\<rparr>"

definition shelf_after :: fs where
  "shelf_after = shelf_fs @
     [([''usb'', ''ARES''], shelf_node Directory [] ''9:1'' 448 0 7),
      ([''usb'', ''ARES'', ''b1''], shelf_node Directory [] ''9:1'' 448 0 8),
      ([''usb'', ''ARES'', ''b1'', ''b.txt''], shelf_node Regular ''beta'' ''9:1'' 420 7 9),
      ([''usb'', ''ARES'', ''b1'', ''docs''], shelf_node Directory [] ''9:1'' 420 0 10),
      ([''usb'', ''ARES'', ''b1'', ''docs'', ''a.txt''], shelf_node Regular ''alpha'' ''9:1'' 420 7 11),
      ([''usb'', ''ARES'', ''b1'', ''.ares-manifest.json''], shelf_node Regular (''J'' @ [CHR 0x0A]) ''9:1'' 384 0 12)]"

definition shelf_backup :: backup where
  "shelf_backup = \<lparr>bk_id = ''b1'', bk_version = ''1.0'', bk_created_at = 5, bk_source = bp_source shelf_plan,
     bk_destination = bp_destination shelf_plan, bk_size = 9, bk_file_count = 2, bk_status = BK_VERIFYING,
     bk_checksum = None, bk_verification_status = BV_NOT_RUN, bk_encryption_status = ''none'', bk_compression_status = ''none'',
     bk_metadata = [], bk_created_by = ''operator'', bk_session_id = ''s1'', bk_plan_id = ''p1'',
     bk_execution = \<lparr>bex_id = ''x1'', bex_backup_id = ''b1'', bex_workflow_execution_id = None, bex_status = BK_VERIFYING,
       bex_started_at = Some 5, bex_finished_at = None,
       bex_progress = \<lparr>bpr_files_completed = 2, bpr_files_total = 2, bpr_bytes_completed = 9, bpr_bytes_total = 9\<rparr>,
       bex_authorization_challenge_id = None, bex_error_code = None\<rparr>\<rparr>"

lemma shelf_planned:
  "map_prod id bh_fs (build_plan shelf_env ''/data'' ''/usb'' default_backup_policy \<lparr>bh_fs = shelf_fs, bh_world = 0\<rparr>) =
     (Inr shelf_plan, shelf_fs)"
  by code_simp

lemma shelf_created:
  "create_backup 8 shelf_env shelf_callbacks shelf_plan shelf_host = Some (Inr shelf_manifest, \<lparr>bh_fs = shelf_after, bh_world = 4\<rparr>)"
  by code_simp

lemma shelf_cancelled:
  "create_backup 8 shelf_env cancelling_callbacks shelf_plan shelf_host =
     Some (Inl CancelledError, \<lparr>bh_fs = shelf_fs @ [([''usb'', ''ARES''], shelf_node Directory [] ''9:1'' 448 0 7)], bh_world = 3\<rparr>)"
  by code_simp

lemma well_formed_listI:
  assumes "list_all (\<lambda>(p, n). list_all clean_name p \<and> (p = [] \<or> has_kind f (butlast p) Directory)) f"
  shows "well_formed_fs f"
proof -
  have "(\<forall>w \<in> set p. clean_name w) \<and> (p \<noteq> [] \<longrightarrow> has_kind f (butlast p) Directory)" if "map_of f p \<noteq> None" for p
    using that assms by (auto simp: list_all_iff dest!: map_of_SomeD)
  then show ?thesis
    by (simp add: well_formed_fs_def clean_fs_def)
qed

lemma shelf_well_formed: "well_formed_fs (bh_fs shelf_host)"
  by (rule well_formed_listI) code_simp

lemma shelf_quiet: "quiet shelf_callbacks" "quiet cancelling_callbacks"
  by (auto simp: quiet_def shelf_callbacks_def cancelling_callbacks_def)

lemma shelf_guards:
  "clean_name (bp_backup_id shelf_plan)" "\<not> at_or_below (source_path shelf_plan) (ares_path shelf_plan)"
  "bt_load_manifest shelf_env (manifest_text shelf_env shelf_manifest) = Some shelf_manifest"
  "bk_destination shelf_backup = bp_destination shelf_plan"
  by code_simp+

end
