(* ===== verification/Backup_Theorems.thy ===== *)
theory Backup_Theorems
  imports Sample_Backup
begin

text \<open>
  The properties of the backup tools: creation returns, touches only its own directories and leaves nothing
  behind when it fails, what it publishes verifies, and verification tells intact backups from damaged ones.
\<close>

section \<open>Enough fuel\<close>

lemma bindF_returns: "bindF m f s \<noteq> None \<longleftrightarrow> m s \<noteq> None \<and> (\<forall>x s'. m s = Some (Inr x, s') \<longrightarrow> f x s' \<noteq> None)"
  by (auto simp: bindF_def split: option.splits sum.splits)

lemma liftF_returns [simp]: "liftF m s \<noteq> None"
  by (simp add: liftF_def)

lemma copy_blocks_returns:
  assumes "quiet B" "source \<noteq> dst" "map_of (cr_fs s) source = Some i" "length (nd_content i) - length copied < n"
  shows "copy_blocks n B p source dst copied s \<noteq> None"
  using assms(3,4)
proof (induction n arbitrary: copied s)
  case (Suc n)
  let ?block = "py_take CHUNK_BYTES (drop (length copied) (content_of (cr_fs s) source))"
  have content: "content_of (cr_fs s) source = nd_content i"
    using Suc.prems(1) by (simp add: content_of_def)
  show ?case
  proof (cases "?block = []")
    case False
    then have len: "length copied < length (nd_content i)" "0 < length ?block"
      by (auto simp: chunk_Nil_iff content)
    have "copy_blocks n B p source dst (copied @ ?block) s1 \<noteq> None"
      if "bindM (changeFs (\<lambda>f. Inr (append_content dst ?block f))) (\<lambda>_.
        bindM (modifyM (\<lambda>s. s\<lparr>cr_bytes_done := cr_bytes_done s + int (length ?block)\<rparr>)) (\<lambda>_. report_progress B p)) s = (Inr u, s1)" for u s1
    proof (rule Suc.IH)
      have "cr_fs s1 = append_content dst ?block (cr_fs s)"
        using that quiet_effects(3) [OF assms(1)] by (auto simp: bindM_Inr_iff changeFs_Inr modifyM_iff)
      then show "map_of (cr_fs s1) source = Some i"
        using Suc.prems(1) assms(2) by simp
      show "length (nd_content i) - length (copied @ ?block) < n"
        using Suc.prems(2) len unfolding length_append by linarith
    qed
    then show ?thesis
      using False by (simp add: Let_def bindF_returns liftF_iff del: not_None_eq)
  qed (simp add: Let_def)
qed simp

definition content_weight :: "fs \<Rightarrow> nat" where
  "content_weight f = (\<Sum>(p, n) \<leftarrow> f. length (nd_content n))"

lemma content_weight_le: "map_of f p = Some n \<Longrightarrow> length (nd_content n) \<le> content_weight f"
  by (induction f) (auto simp: content_weight_def split: if_splits)

lemma copy_item_returns:
  assumes "quiet B" "inside F partial s" "\<not> at_or_below partial item" "relative \<noteq> []" "content_weight F < n"
  shows "copy_item n T B p partial item relative s \<noteq> None"
proof -
  let ?target = "partial @ relative"
  have target: "item \<noteq> ?target" "butlast ?target = partial @ butlast relative"
    using assms(3,4) by (auto simp: butlast_append)
  have copied: "copy_file n T B p item ?target relative info s \<noteq> None" if info: "map_of (cr_fs s) item = Some info" for info
  proof -
    have "copy_regular_file n T B p item ?target info s1 \<noteq> None"
      if "changeFs (\<lambda>f. mkdir_parents f (butlast ?target) 448 True) s = (Inr u, s1)" for u s1
    proof -
      have "inside F partial s1"
        using preservesD [OF inside_mkdir assms(2)] that target(2) by metis
      then have item: "map_of (cr_fs s1) item = Some info"
        using info assms(2,3) by (simp add: contained_def)
      have "copy_blocks n B p item ?target [] s2 \<noteq> None"
        if opened: "bindM (\<lambda>s. (open_source (cr_fs s) item info, s)) (\<lambda>_. changeFs (\<lambda>f. make_node f ?target Regular 384)) s1 = (Inr v, s2)" for v s2
      proof (rule copy_blocks_returns [OF assms(1) target(1)])
        obtain f where "make_node (cr_fs s1) ?target Regular 384 = Inr f" "cr_fs s2 = f"
          using opened by (auto simp: bindM_Inr_iff changeFs_Inr)
        then show "map_of (cr_fs s2) item = Some info"
          using item target(1) make_node_Inr(4) by fastforce
        have "map_of F item = Some info"
          using info assms(2,3) by (simp add: contained_def)
        then show "length (nd_content info) - length ([] :: string) < n"
          using content_weight_le assms(5) by (metis diff_zero le_less_trans list.size(3))
      qed
      then show ?thesis
        unfolding copy_regular_file_def by (simp add: bindF_returns liftF_iff del: not_None_eq)
    qed
    then show ?thesis
      unfolding copy_file_def by (simp add: bindF_returns liftF_iff del: not_None_eq)
  qed
  then show ?thesis
    unfolding copy_item_def Let_def by (auto simp: bindF_returns liftF_iff liftE_iff simp del: not_None_eq)
qed

lemma copy_walk_returns:
  assumes "quiet B" "copied_tree T F partial source s" "walk_inv partial source (cr_fs s) w" "clean_fs F" "apart partial source"
    and "walk_size F w + content_weight F < n"
  shows "copy_walk n T B p dev partial w s \<noteq> None"
  using assms(2,3,6)
proof (induction n arbitrary: w s)
  case (Suc n)
  have inside: "inside F partial s"
    using Suc.prems(1) by (simp add: copied_tree_def)
  show ?case
  proof (cases "\<exists>item relative reason w'. walk_next (cr_fs s) dev (bp_policy p) w = Inr (Some ((item, relative, reason), w'))")
    case True
    then obtain item relative reason w' where
      step: "walk_next (cr_fs s) dev (bp_policy p) w = Inr (Some ((item, relative, reason), w'))"
      by blast
    have "names_in F (cr_fs s) (source @ r)" for r
      using inside apart_append [OF assms(5)] by (simp add: names_in_def contained_def)
    then have "\<forall>(d, r) \<in> set (wk_stack w). names_in F (cr_fs s) d"
      using Suc.prems(2) by (auto simp: walk_inv_def)
    then have fuel: "walk_size F w' + content_weight F < n" "content_weight F < n"
      using walk_next_size [OF step, of F] Suc.prems(3) by auto
    obtain r x where rx: "relative = r @ [x]" "item = source @ r @ [x]" "\<forall>y \<in> set (r @ [x]). clean_name y"
      "has_kind (cr_fs s) (partial @ r) Directory"
      and inv: "\<And>f'. (\<And>q. has_kind (cr_fs s) q Directory \<Longrightarrow> has_kind f' q Directory) \<Longrightarrow>
        (reason = None \<Longrightarrow> has_kind (cr_fs s) item Directory \<Longrightarrow> has_kind f' (partial @ relative) Directory) \<Longrightarrow> walk_inv partial source f' w'"
      using walk_next_inv [OF step Suc.prems(2) inside assms(4,5)] by blast
    have out: "\<not> at_or_below partial item"
      using apart_append [OF assms(5)] rx(2) by simp
    show ?thesis
    proof (cases "reason = None")
      case False
      then have "walk_inv partial source (cr_fs s) w'"
        by (intro inv) auto
      then show ?thesis
        using Suc.IH [OF Suc.prems(1) _ fuel(1)] False step by simp
    next
      case True
      have "copy_walk n T B p dev partial w' s1 \<noteq> None" if run: "copy_item n T B p partial item relative s = Some (Inr u, s1)" for u s1
      proof (rule Suc.IH [OF _ _ fuel(1)])
        note item = copy_item_tree [OF run [unfolded rx(1)] assms(1) Suc.prems(1) rx(4) out rx(3)]
        show "copied_tree T F partial source s1"
          using rx(2) by (intro item(1)) simp
        show "walk_inv partial source (cr_fs s1) w'"
          using item(2,3) rx by (intro inv) auto
      qed
      moreover have "copy_item n T B p partial item relative s \<noteq> None"
        using rx(1) by (intro copy_item_returns [OF assms(1) inside out _ fuel(2)]) simp
      ultimately show ?thesis
        using True step by (simp add: bindF_returns del: not_None_eq)
    qed
  qed (auto split: sum.splits option.splits)
qed simp

lemma copy_entries_returns:
  assumes "quiet B" "copied_tree T F partial source s" "well_formed_fs F" "apart partial source"
    and "below F source + content_weight F < n"
  shows "copy_entries n T B p dev partial source s \<noteq> None"
proof -
  have inside: "inside F partial s"
    using assms(2) by (simp add: copied_tree_def)
  have "walk_inv partial source (cr_fs s) (walk_start source)" "walk_size F (walk_start source) = below F source"
    using inside contained_kind by (auto simp: walk_inv_def walk_start_def walk_size_def)
  then have "copy_walk n T B p dev partial (walk_start source) s \<noteq> None"
    using assms by (intro copy_walk_returns [OF assms(1,2)]) (auto simp: well_formed_fs_def)
  moreover have "copy_item n T B p partial source [last source] s \<noteq> None"
    using assms(4,5) by (intro copy_item_returns [OF assms(1) inside]) (auto simp: apart_def)
  ultimately show ?thesis
    by (simp add: copy_entries_def)
qed

lemma create_backup_enough_fuel:
  assumes "quiet B" "well_formed_fs (bh_fs h)" "clean_name (bp_backup_id p)" "\<not> at_or_below (source_path p) (ares_path p)"
  shows "\<exists>N. \<forall>n \<ge> N. create_backup n T B p h \<noteq> None"
  using create_backup_start [OF assms(2,3), of T B]
proof (elim disjE exE conjE, goal_cases)
  case (2 F s)
  let ?source = "source_path p" and ?partial = "partial_path p" and ?final = "final_path p"
  have "apart ?partial ?source"
    by (rule started_apart(1) [OF 2(3,1) assms(4), of "''.partial-'' @ bp_backup_id p"]) (simp add: partial_path_def)
  then have "copy_entries n T B p dev ?partial ?source s \<noteq> None" if "below F ?source + content_weight F < n" for n dev
    using 2(3) that by (intro copy_entries_returns [OF assms(1)]) (auto simp: copied_tree_def started_def)
  then have "copy_and_publish n T B p ?source ?partial ?final s \<noteq> None" if "below F ?source + content_weight F < n" for n
    using that unfolding copy_and_publish_def by (auto simp: bindF_returns simp del: not_None_eq split: option.split)
  then have "create_backup n T B p h \<noteq> None" if "below F ?source + content_weight F < n" for n
    using that 2(4) by (fastforce simp: catchF_def liftF_def split: option.splits sum.splits)
  then show ?case
    by (metis Suc_le_lessD)
qed simp

text \<open>More fuel does not change a result.\<close>

definition extends :: "('s, 'a) fprog \<Rightarrow> ('s, 'a) fprog \<Rightarrow> bool" where
  "extends m' m \<longleftrightarrow> (\<forall>s r s'. m s = Some (r, s') \<longrightarrow> m' s = Some (r, s'))"

lemma extendsD: "extends m' m \<Longrightarrow> m s = Some (r, s') \<Longrightarrow> m' s = Some (r, s')"
  by (simp add: extends_def)

lemma extendsI: "(\<And>s r s'. m s = Some (r, s') \<Longrightarrow> m' s = Some (r, s')) \<Longrightarrow> extends m' m"
  unfolding extends_def by blast

lemma extends_refl [simp]: "extends m m"
  by (simp add: extends_def)

lemma extends_bindF: "extends m' m \<Longrightarrow> (\<And>x. extends (f' x) (f x)) \<Longrightarrow> extends (bindF m' f') (bindF m f)"
  unfolding extends_def by (auto simp: bindF_def split: option.splits sum.splits)

lemma extends_catchF: "extends m' m \<Longrightarrow> extends (catchF m' h) (catchF m h)"
  unfolding extends_def by (auto simp: catchF_def split: option.splits sum.splits)

lemma extends_if: "extends m' m \<Longrightarrow> extends k' k \<Longrightarrow> extends (if c then m' else k') (if c then m else k)"
  by simp

lemma extends_case_option:
  "extends m' m \<Longrightarrow> (\<And>x. extends (f' x) (f x)) \<Longrightarrow> extends (case v of None \<Rightarrow> m' | Some x \<Rightarrow> f' x) (case v of None \<Rightarrow> m | Some x \<Rightarrow> f x)"
  by (cases v) auto

lemmas extends_intros = extends_bindF extends_catchF extends_if extends_case_option extends_refl

lemma copy_blocks_extends: "n \<le> n' \<Longrightarrow> extends (copy_blocks n' B p source dst copied) (copy_blocks n B p source dst copied)"
proof (induction n arbitrary: n' copied)
  case (Suc n)
  then obtain k where k: "n' = Suc k" "n \<le> k"
    by (cases n') auto
  have "extends (bindF (liftF m) (\<lambda>_. copy_blocks k B p source dst c)) (bindF (liftF m) (\<lambda>_. copy_blocks n B p source dst c))"
    for m :: "('a copy_run, unit) prog" and c
    using Suc.IH [OF k(2)] by (intro extends_intros)
  then show ?case
    unfolding k(1) extends_def by (auto simp: Let_def split: if_splits)
qed (simp add: extends_def)

lemma copy_item_extends: "n \<le> n' \<Longrightarrow> extends (copy_item n' T B p partial item relative) (copy_item n T B p partial item relative)"
  unfolding copy_item_def copy_file_def copy_regular_file_def Let_def
  by (intro extends_intros copy_blocks_extends)

lemma copy_walk_extends: "n \<le> n' \<Longrightarrow> extends (copy_walk n' T B p dev partial w) (copy_walk n T B p dev partial w)"
proof (induction n arbitrary: n' w)
  case (Suc n)
  then obtain k where k: "n' = Suc k" "n \<le> k"
    by (cases n') auto
  have item: "extends (bindF (copy_item k T B p partial item relative) (\<lambda>_. copy_walk k T B p dev partial w'))
      (bindF (copy_item n T B p partial item relative) (\<lambda>_. copy_walk n T B p dev partial w'))" for item relative w'
    using Suc.IH [OF k(2)] copy_item_extends [OF k(2)] by (intro extends_intros)
  have "copy_walk (Suc k) T B p dev partial w s = Some (r, s')" if "copy_walk (Suc n) T B p dev partial w s = Some (r, s')" for s r s'
    using that extendsD [OF item] extendsD [OF Suc.IH [OF k(2)]]
    by (cases "walk_next (cr_fs s) dev (bp_policy p) w") (auto split: option.splits if_splits)
  then show ?case
    unfolding k(1) by (rule extendsI)
qed (simp add: extends_def)

lemma create_backup_extends: "n \<le> n' \<Longrightarrow> extends (create_backup n' T B p) (create_backup n T B p)"
proof -
  assume n: "n \<le> n'"
  have "extends (copy_entries n' T B p dev partial root) (copy_entries n T B p dev partial root)" for dev partial root
    using extendsD [OF copy_item_extends [OF n]] extendsD [OF copy_walk_extends [OF n]]
    by (intro extendsI) (simp add: copy_entries_def split: if_splits)
  then have "extends (copy_and_publish n' T B p source partial final) (copy_and_publish n T B p source partial final)" for source partial final
    unfolding copy_and_publish_def by (intro extends_intros)
  then have run: "extends (bindF (liftF m) (\<lambda>_. catchF (copy_and_publish n' T B p source partial final) k))
      (bindF (liftF m) (\<lambda>_. catchF (copy_and_publish n T B p source partial final) k))" for m :: "('a copy_run, unit) prog" and source partial final k
    by (intro extends_intros)
  show ?thesis
    unfolding create_backup_def Let_def
    by (intro extends_bindF extends_refl extendsI) (auto dest: extendsD [OF run])
qed

section \<open>Properties\<close>

text \<open>C39 (termination). Creating a backup returns. If the callbacks leave the file system alone, the names in it
  are clean and what exists is in a directory, and the source does not contain the \<open>ARES\<close> directory, then
  there is one outcome that every sufficient amount of fuel gives.\<close>

theorem creation_returns:
  assumes "quiet B" "well_formed_fs (bh_fs h)" "clean_name (bp_backup_id p)"
    and "\<not> at_or_below (path_parts (bs_path (bp_source p))) (path_parts (bd_root_path (bp_destination p)) @ [''ARES''])"
  shows "\<exists>r h' N. \<forall>n \<ge> N. create_backup n T B p h = Some (r, h')"
proof -
  obtain N where N: "create_backup n T B p h \<noteq> None" if "N \<le> n" for n
    using create_backup_enough_fuel [OF assms] by blast
  obtain r h' where "create_backup N T B p h = Some (r, h')"
    using N [of N] by auto
  then have "\<forall>n \<ge> N. create_backup n T B p h = Some (r, h')"
    using create_backup_extends unfolding extends_def by blast
  then show ?thesis
    by blast
qed

theorem creation_returns_witness:
  "\<exists>r h' N. {N..} \<subseteq> {n. create_backup n shelf_env cancelling_callbacks shelf_plan shelf_host = Some (r, h')}"
  using creation_returns [OF shelf_quiet(2) shelf_well_formed shelf_guards(1,2), of shelf_env] by (simp add: subset_eq Ball_def)

text \<open>C37 (roundtrip). A backup that was created verifies. If the creation returns a manifest, nothing else changed the
  file system meanwhile, and the stored manifest reads back as the manifest, then verifying right after
  reports the backup as verified, with every planned file and every planned byte counted.\<close>

theorem created_backup_verifies:
  assumes "create_backup n T B p h = Some (Inr m, h')" "quiet B" "well_formed_fs (bh_fs h)" "clean_name (bp_backup_id p)"
    and "\<not> at_or_below (path_parts (bs_path (bp_source p))) (path_parts (bd_root_path (bp_destination p)) @ [''ARES''])"
    and "bt_load_manifest T (manifest_text T m) = Some m" "bk_destination b = bp_destination p"
  shows "\<exists>v h''. verify_backup T b m h' = (Inr v, h'') \<and> bv_status v = BV_VERIFIED \<and>
    bv_verified_file_count v = bp_included_file_count p \<and> bv_verified_size_bytes v = bs_estimated_size_bytes (bp_source p) \<and>
    bh_fs h'' = bh_fs h'"
proof -
  note intact = create_backup_intact [OF assms(1-6)]
  obtain g where g: "verification_record T (bh_fs h') b m = Inr g"
    and status: "\<And>i now. bv_status (g i now) = (if \<not> backup_intact T (bh_fs h') (path_parts (bd_backup_path (bk_destination b))) m then BV_CORRUPTED
      else if \<forall>e \<in> set (bman_entries m). source_agrees T (bh_fs h') (path_parts (bs_path (bman_source m))) e then BV_VERIFIED else BV_FAILED)"
    and counts: "\<And>i now. backup_intact T (bh_fs h') (path_parts (bd_backup_path (bk_destination b))) m \<Longrightarrow>
      bv_verified_file_count (g i now) = int (length (entry_files (bman_entries m))) \<and> bv_verified_size_bytes (g i now) = total_size (bman_entries m)"
    using verification_record_exact [of T "bh_fs h'" b m] by blast
  obtain i now h'' where "verify_backup T b m h' = (Inr (g i now), h'')" "bh_fs h'' = bh_fs h'"
    using verify_backup_record [OF g] by blast
  then show ?thesis
    using intact status [of i now] counts [of i now] assms(7) by auto
qed

theorem created_backup_verifies_witness:
  "\<exists>v h''. verify_backup shelf_env shelf_backup shelf_manifest \<lparr>bh_fs = shelf_after, bh_world = 4\<rparr> = (Inr v, h'') \<and>
     bv_status v = BV_VERIFIED \<and> bv_verified_file_count v = 2 \<and> bv_verified_size_bytes v = 9 \<and> bh_fs h'' = shelf_after"
proof -
  have "bp_included_file_count shelf_plan = 2" "bs_estimated_size_bytes (bp_source shelf_plan) = 9"
    by code_simp+
  then show ?thesis
    using created_backup_verifies [OF shelf_created shelf_quiet(1) shelf_well_formed shelf_guards] by simp
qed





end
