(* ===== verification/Spec2Isabelle.thy ===== *)
theory Spec2Isabelle
  imports Planning_Theorems Engine_Theorems Audit_Theorems Tools_Theorems Broker_Theorems Consent_Theorems
    Workflow_Theorems Capability_Theorems Backup_Theorems
begin

text \<open>
  ARES: a verification development.

  ARES (sources under \<^verbatim>\<open>src/backend/src/ares\<close>) is a recovery system. An agent proposes work in terms of
  capabilities; the capability manager turns a request into a workflow of private actions; the actions use
  services and engines that plan, protect, authorize, execute and verify changes of storage. Only a broker
  process can touch a disk; it writes with one-use grants that rest on the decision of an operator at the
  console, and it records what it does in an append-only ledger.

  \<^bold>\<open>Parts and theories.\<close> Each component is one theory of definitions, in the order of its source; where its
  proofs are long they are in a theory \<open>..._Guards\<close>, and the stated properties in \<open>..._Theorems\<close>.

  \<^item> \<open>Prelude\<close>, \<open>Python_Text\<close>, \<open>File_System\<close>: exceptions as values, the state-and-exception monad, JSON,
    Python's strings, integers, binary64 quotient and sorting; paths and a file system of names and nodes.
  \<^item> \<open>Storage_Models\<close>, \<open>Integrity\<close>, \<open>Storage_Policy\<close>, \<open>Storage_Planning\<close>: \<^verbatim>\<open>storage_operations/models.py\<close>,
    \<^verbatim>\<open>integrity.py\<close>, \<^verbatim>\<open>policy.py\<close> and the planning functions of \<^verbatim>\<open>engine.py\<close>. \<open>Partition_Geometry\<close> and
    \<open>Planning_Theorems\<close> show that proposed tables are well formed, what each plan changes and keeps, and
    what the write gate and the impact assessments let through.
  \<^item> \<open>Operation_Store\<close>, \<open>Storage_Executor\<close>, \<open>Storage_Engine\<close>: the durable stores, the executor port with
    the local executor, and the engine's operations over any executor. \<open>Engine_Invariant\<close> is a step relation
    of engine calls and restarts with an invariant of every stored plan and transaction;
    \<open>Engine_Theorems\<close> draws the consequences.
  \<^item> \<open>Partition_Table\<close>, \<open>Partition_Tools\<close>: \<^verbatim>\<open>tools/partition.py\<close>, its pure functions and its processes over a
    parameter operating system. \<open>Tools_Guards\<close> and \<open>Tools_Theorems\<close>: which calls write, behind which
    guards, and what a successful write guarantees.
  \<^item> \<open>Audit_Ledger\<close>: \<^verbatim>\<open>audit/ledger.py\<close>. \<open>Audit_Theorems\<close>: reload of what was appended, detection of changes,
    redaction, durability of what a client was told.
  \<^item> \<open>Storage_Broker\<close>: \<^verbatim>\<open>runtime/storage_broker.py\<close>. \<open>Broker_Guards\<close> and \<open>Broker_Theorems\<close>: writes need a grant,
    grants need consent and are used once, every write is announced and concluded in the ledger.
  \<^item> \<open>Consent\<close>: \<^verbatim>\<open>runtime/consent.py\<close>, with the plans of \<open>Backup_Models\<close> and \<open>Filesystem_Models\<close>
    (\<^verbatim>\<open>backup/models.py\<close>, \<^verbatim>\<open>filesystems/models.py\<close>). \<open>Consent_Guards\<close> and \<open>Consent_Theorems\<close>: under every
    interleaving an approval comes from the operator; broker and authority together.
  \<^item> \<open>Event_Bus\<close>, \<open>Workflow_Engine\<close>: \<^verbatim>\<open>events/\<close> and \<^verbatim>\<open>workflows/\<close>. \<open>Workflow_Guards\<close> and \<open>Workflow_Theorems\<close>:
    what the record of an execution says, and that an execution ends.
  \<^item> \<open>Capability_Manager\<close>: \<^verbatim>\<open>capabilities/\<close>. \<open>Capability_Guards\<close> and \<open>Capability_Theorems\<close>: dependency
    resolution, the sealed registry, the gates before a workflow.
  \<^item> \<open>Backup_Tools\<close>: \<^verbatim>\<open>tools/backup.py\<close>: planning, copying, publishing and verifying backups on the file
    system. \<open>Backup_Guards\<close>, \<open>Backup_Copy\<close> and \<open>Backup_Theorems\<close>: a creation returns and touches nothing
    but its own directories, what it publishes verifies, and verification is exact.
  \<^item> \<open>Sample_Disk\<close>, \<open>Sample_Engine\<close>, \<open>Sample_Tools\<close>, \<open>Sample_Backup\<close> hold the concrete inputs of the witnesses.

  \<^bold>\<open>State and operations.\<close> A class is a record of its attributes, an enumeration a datatype, a \<open>dict\<close> an
  association list, an \<open>int\<close> an integer. A method is a function of the same name (with the class in front
  where it clashes) of type \<open>'s \<Rightarrow> (exc + 'a) \<times> 's\<close>: a raise keeps the changes made before it. Objects that
  the code gets from outside (executor, runner, ledger, clock, hash, JSON text, callbacks, actions, plugins)
  are arguments, and what a theorem needs of them is a hypothesis or a locale: \<open>keyed_store\<close>, \<open>audit_log\<close>,
  \<open>recording_ledger\<close>, \<open>one_use_grants\<close>, \<open>definition_runner\<close> and others, each interpreted on the model's own
  definitions.

  \<^bold>\<open>Concurrency, fuel and bounds.\<close> The consent authority and the workflow engine are asynchronous: a handler
  or step is a sequence of segments between its suspension points, and a schedule says which one runs next
  and what the rest of the program did in between. A schedule that ends early gives \<open>None\<close>; the termination
  theorem of the workflow engine says how long is long enough. The copy loops of
  the backup tools have fuel, because other processes may feed them for ever; a theorem says that without
  such interference enough fuel gives one outcome. The other operations run to completion one
  after another. Numbers that overflow in Python (binary64 quotients) are modelled with their rounding.

  \<^bold>\<open>Not modelled.\<close> Pydantic's length and pattern constraints; characters beyond code point 255; the \<open>fsync\<close>
  protocol and failing storage under the stores; socket set-up, peer credentials and time-outs of the Unix
  sockets; durations. The agent with its language models, the HTTP routes, the terminal, the live image and
  the read-only diagnostic collectors are left out: they carry no state of their own that the storage
  operations depend on, or consist of calls of external programs whose output they report.
\<close>

end
